(* ===== verification/Rust_Prelude.thy ===== *)
theory Rust_Prelude
  imports
    Main
    "HOL-Library.Word"
    "HOL-Library.List_Lexorder"
    "HOL-Library.Sublist"
    "HOL-Library.FSet"
    "HOL-Library.Finite_Map"
begin

section \<open>The parts of Rust and its standard library the components use\<close>

text \<open>
  This theory fixes how the values of the Rust sources are represented and holds the lemmas
  every component theory shares.

  \<^item> A \<open>String\<close> is the list of its Unicode scalar values (\<open>rstr\<close>). \<open>chars()\<close> is the list
    itself, \<open>bytes()\<close> is its UTF-8 encoding and \<open>len()\<close> counts the bytes of that encoding. The
    order of \<open>String\<close> in a \<open>BTreeSet\<close> is the lexicographic order of the scalar values, which
    UTF-8 makes the order of the bytes.
  \<^item> \<open>u8\<close>, \<open>u32\<close> and \<open>u64\<close> are words of that width; \<open>usize\<close> counts and lengths are \<open>nat\<close>.
  \<^item> \<open>BTreeSet\<close> is \<open>fset\<close> and \<open>BTreeMap\<close> is \<open>fmap\<close>: finite by construction, iterated in key order.
  \<^item> \<open>Result<A, E>\<close> is \<open>'e + 'a\<close> with \<open>Inl\<close> for \<open>Err\<close>, and the question mark operator is \<open>rbind\<close>.
\<close>

named_theorems rust_simps \<open>unfolding rules for the library functions of this theory\<close>
named_theorems result_simps \<open>inversion of the operations on results\<close>

type_synonym u8 = "8 word"
type_synonym u32 = "32 word"
type_synonym u64 = "64 word"
type_synonym uchar = nat
type_synonym rstr = "uchar list"
type_synonym bytes = "u8 list"

subsection \<open>Results\<close>

fun rbind :: "'e + 'a \<Rightarrow> ('a \<Rightarrow> 'e + 'b) \<Rightarrow> 'e + 'b" where
  "rbind (Inl e) f = Inl e"
| "rbind (Inr a) f = f a"

fun map_err :: "('e \<Rightarrow> 'f) \<Rightarrow> 'e + 'a \<Rightarrow> 'f + 'a" where
  "map_err g (Inl e) = Inl (g e)"
| "map_err g (Inr a) = Inr a"

fun map_ok :: "('a \<Rightarrow> 'b) \<Rightarrow> 'e + 'a \<Rightarrow> 'e + 'b" where
  "map_ok g (Inl e) = Inl e"
| "map_ok g (Inr a) = Inr (g a)"

fun ok_or :: "'e \<Rightarrow> 'a option \<Rightarrow> 'e + 'a" where
  "ok_or e None = Inl e"
| "ok_or e (Some a) = Inr a"

definition ensure :: "bool \<Rightarrow> 'e \<Rightarrow> 'e + unit" where
  "ensure b e = (if b then Inr () else Inl e)"

text \<open>\<open>Option::transpose\<close> after a fallible conversion of the content.\<close>

fun opt_try :: "('a \<Rightarrow> 'e + 'b) \<Rightarrow> 'a option \<Rightarrow> 'e + 'b option" where
  "opt_try f None = Inr None"
| "opt_try f (Some a) = map_ok Some (f a)"

text \<open>\<open>collect\<close> into a \<open>Result\<close>: the elements in order, or the first error.\<close>

fun try_map :: "('a \<Rightarrow> 'e + 'b) \<Rightarrow> 'a list \<Rightarrow> 'e + 'b list" where
  "try_map f [] = Inr []"
| "try_map f (x # xs) = rbind (f x) (\<lambda>y. rbind (try_map f xs) (\<lambda>ys. Inr (y # ys)))"

lemma rbind_Inr_iff [result_simps]: "rbind m f = Inr b \<longleftrightarrow> (\<exists>a. m = Inr a \<and> f a = Inr b)"
  by (cases m) auto

lemma rbind_Inl_iff [result_simps]:
  "rbind m f = Inl e \<longleftrightarrow> m = Inl e \<or> (\<exists>a. m = Inr a \<and> f a = Inl e)"
  by (cases m) auto

lemma map_err_Inr_iff [result_simps]: "map_err g m = Inr b \<longleftrightarrow> m = Inr b"
  by (cases m) auto

lemma map_err_Inl_iff [result_simps]: "map_err g m = Inl e \<longleftrightarrow> (\<exists>d. m = Inl d \<and> e = g d)"
  by (cases m) auto

lemma map_ok_Inr_iff [result_simps]: "map_ok g m = Inr b \<longleftrightarrow> (\<exists>a. m = Inr a \<and> b = g a)"
  by (cases m) auto

lemma map_ok_Inl_iff [result_simps]: "map_ok g m = Inl e \<longleftrightarrow> m = Inl e"
  by (cases m) auto

lemma ok_or_Inr_iff [result_simps]: "ok_or e m = Inr a \<longleftrightarrow> m = Some a"
  by (cases m) auto

lemma ok_or_Inl_iff [result_simps]: "ok_or e m = Inl d \<longleftrightarrow> m = None \<and> d = e"
  by (cases m) auto

lemma ensure_Inr_iff [result_simps]: "ensure b e = Inr u \<longleftrightarrow> b"
  by (simp add: ensure_def)

lemma ensure_Inl_iff [result_simps]: "ensure b e = Inl d \<longleftrightarrow> \<not> b \<and> d = e"
  by (auto simp: ensure_def)

lemma ensure_simps [simp]: "ensure True e = Inr ()" "ensure False e = Inl e"
  by (simp_all add: ensure_def)

lemma try_map_Inr_iff:
  "try_map f xs = Inr ys \<longleftrightarrow> list_all2 (\<lambda>x y. f x = Inr y) xs ys"
  by (induction xs arbitrary: ys) (auto simp: result_simps list_all2_Cons1)

lemma try_map_length: "try_map f xs = Inr ys \<Longrightarrow> length ys = length xs"
  by (auto simp: try_map_Inr_iff dest: list_all2_lengthD)

lemma try_map_nth: "try_map f xs = Inr ys \<Longrightarrow> i < length xs \<Longrightarrow> f (xs ! i) = Inr (ys ! i)"
  by (auto simp: try_map_Inr_iff list_all2_conv_all_nth)

lemma try_map_id:
  assumes "\<And>x. x \<in> set xs \<Longrightarrow> f x = Inr x"
  shows "try_map f xs = Inr xs"
  using assms by (induction xs) auto

lemma try_map_check_Inr_iff [result_simps]:
  "try_map (\<lambda>x. rbind (check x) (\<lambda>_. Inr x)) xs = Inr ys \<longleftrightarrow>
     (\<forall>x \<in> set xs. \<exists>u. check x = Inr u) \<and> ys = xs"
proof (induction xs arbitrary: ys)
  case (Cons x xs)
  show ?case by (cases "check x") (auto simp: rbind_Inr_iff Cons.IH)
qed auto

lemma try_map_Inl_witness:
  "try_map f xs = Inl e \<Longrightarrow> \<exists>x \<in> set xs. f x = Inl e"
  by (induction xs) (auto simp: result_simps)

lemma try_map_Inl_iff:
  "try_map f xs = Inl e \<longleftrightarrow>
     (\<exists>pre x post. xs = pre @ x # post \<and> (\<forall>y \<in> set pre. \<exists>b. f y = Inr b) \<and> f x = Inl e)"
    (is "?fails xs \<longleftrightarrow> ?first xs")
proof
  show "?fails xs \<Longrightarrow> ?first xs"
  proof (induction xs)
    case (Cons x xs)
    show ?case
    proof (cases "f x")
      case (Inl e')
      with Cons.prems have "x # xs = [] @ x # xs" "f x = Inl e" by simp_all
      then show ?thesis by (metis empty_iff list.set(1))
    next
      case (Inr b)
      with Cons.prems have "?fails xs" by (simp add: result_simps)
      then obtain pre y post where "xs = pre @ y # post" "\<forall>z \<in> set pre. \<exists>b. f z = Inr b" "f y = Inl e"
        using Cons.IH by blast
      with Inr have "x # xs = (x # pre) @ y # post \<and> (\<forall>z \<in> set (x # pre). \<exists>b. f z = Inr b) \<and> f y = Inl e"
        by simp
      then show ?thesis by blast
    qed
  qed simp
next
  assume "?first xs"
  then obtain pre x post where "xs = pre @ x # post" "\<forall>y \<in> set pre. \<exists>b. f y = Inr b" "f x = Inl e"
    by blast
  then show "?fails xs" by (induction pre arbitrary: xs) auto
qed

subsection \<open>Characters and strings\<close>

definition lit :: "string \<Rightarrow> rstr" where
  "lit s = map of_char s"

lemma lit_Nil [simp]: "lit [] = []"
  by (simp add: lit_def)

lemma lit_Cons [simp]: "lit (c # cs) = of_char c # lit cs"
  by (simp add: lit_def)

lemma lit_eq_iff [simp]: "lit s = lit t \<longleftrightarrow> s = t"
  unfolding lit_def by (simp add: inj_map_eq_map inj_on_def)

text \<open>The Unicode categories behind \<open>char::is_control\<close> (Cc) and \<open>char::is_whitespace\<close>.\<close>

definition is_control :: "uchar \<Rightarrow> bool" where
  "is_control c \<longleftrightarrow> c < 32 \<or> (127 \<le> c \<and> c < 160)"

definition is_whitespace :: "uchar \<Rightarrow> bool" where
  "is_whitespace c \<longleftrightarrow>
     (9 \<le> c \<and> c \<le> 13) \<or> c = 32 \<or> c = 133 \<or> c = 160 \<or> c = 5760
     \<or> (8192 \<le> c \<and> c \<le> 8202) \<or> c = 8232 \<or> c = 8233 \<or> c = 8239 \<or> c = 8287 \<or> c = 12288"

definition utf8_char :: "uchar \<Rightarrow> bytes" where
  "utf8_char c =
     (if c < 128 then [of_nat c]
      else if c < 2048 then [of_nat (192 + c div 64), of_nat (128 + c mod 64)]
      else if c < 65536 then
        [of_nat (224 + c div 4096), of_nat (128 + c div 64 mod 64), of_nat (128 + c mod 64)]
      else
        [of_nat (240 + c div 262144), of_nat (128 + c div 4096 mod 64),
         of_nat (128 + c div 64 mod 64), of_nat (128 + c mod 64)])"

definition str_bytes :: "rstr \<Rightarrow> bytes" where
  "str_bytes s = concat (map utf8_char s)"

definition str_len :: "rstr \<Rightarrow> nat" where
  "str_len s = length (str_bytes s)"

lemma str_bytes_Nil [simp]: "str_bytes [] = []"
  by (simp add: str_bytes_def)

lemma str_bytes_Cons [simp]: "str_bytes (c # s) = utf8_char c @ str_bytes s"
  by (simp add: str_bytes_def)

lemma str_bytes_append [simp]: "str_bytes (s @ t) = str_bytes s @ str_bytes t"
  by (simp add: str_bytes_def)

lemma str_len_Nil [simp]: "str_len [] = 0"
  by (simp add: str_len_def)

lemma str_len_Cons [simp]: "str_len (c # s) = length (utf8_char c) + str_len s"
  by (simp add: str_len_def)

lemma str_len_append [simp]: "str_len (s @ t) = str_len s + str_len t"
  by (simp add: str_len_def)

lemma utf8_char_ascii [simp]: "c < 128 \<Longrightarrow> utf8_char c = [of_nat c]"
  by (simp add: utf8_char_def)

lemma utf8_char_nonempty: "utf8_char c \<noteq> []"
  by (simp add: utf8_char_def)

lemma length_utf8_char_pos: "0 < length (utf8_char c)"
  using utf8_char_nonempty by simp

lemma length_le_str_len: "length s \<le> str_len s"
proof (induction s)
  case (Cons c s)
  then show ?case using length_utf8_char_pos [of c] by (simp only: str_len_Cons list.size)
qed simp

definition trim_start :: "rstr \<Rightarrow> rstr" where
  "trim_start s = dropWhile is_whitespace s"

definition trim :: "rstr \<Rightarrow> rstr" where
  "trim s = rev (trim_start (rev (trim_start s)))"

fun split_once :: "uchar \<Rightarrow> rstr \<Rightarrow> (rstr \<times> rstr) option" where
  "split_once d [] = None"
| "split_once d (c # s) =
     (if c = d then Some ([], s)
      else map_option (\<lambda>(a, b). (c # a, b)) (split_once d s))"

fun split_char :: "uchar \<Rightarrow> rstr \<Rightarrow> rstr list" where
  "split_char d [] = [[]]"
| "split_char d (c # s) =
     (if c = d then [] # split_char d s
      else (case split_char d s of [] \<Rightarrow> [[c]] | p # ps \<Rightarrow> (c # p) # ps))"

fun strip_prefix :: "rstr \<Rightarrow> rstr \<Rightarrow> rstr option" where
  "strip_prefix [] s = Some s"
| "strip_prefix (p # ps) [] = None"
| "strip_prefix (p # ps) (c # s) = (if p = c then strip_prefix ps s else None)"

definition ascii_upper :: "uchar \<Rightarrow> uchar" where
  "ascii_upper c = (if 97 \<le> c \<and> c \<le> 122 then c - 32 else c)"

definition ascii_lower :: "uchar \<Rightarrow> uchar" where
  "ascii_lower c = (if 65 \<le> c \<and> c \<le> 90 then c + 32 else c)"

abbreviation to_ascii_uppercase :: "rstr \<Rightarrow> rstr" where
  "to_ascii_uppercase \<equiv> map ascii_upper"

abbreviation to_ascii_lowercase :: "rstr \<Rightarrow> rstr" where
  "to_ascii_lowercase \<equiv> map ascii_lower"

text \<open>\<open>u8\<close> classification: \<open>is_ascii_alphanumeric\<close> and \<open>is_ascii_digit\<close>.\<close>

definition is_ascii_digit :: "u8 \<Rightarrow> bool" where
  "is_ascii_digit b \<longleftrightarrow> 48 \<le> b \<and> b \<le> 57"

definition is_ascii_alphanumeric :: "u8 \<Rightarrow> bool" where
  "is_ascii_alphanumeric b \<longleftrightarrow>
     is_ascii_digit b \<or> (65 \<le> b \<and> b \<le> 90) \<or> (97 \<le> b \<and> b \<le> 122)"

lemma split_once_Some_iff:
  "split_once d s = Some (a, b) \<longleftrightarrow> s = a @ d # b \<and> d \<notin> set a"
proof (induction s arbitrary: a)
  case (Cons c s)
  show ?case by (cases a) (auto simp: Cons.IH)
qed simp

lemma split_once_None_iff: "split_once d s = None \<longleftrightarrow> d \<notin> set s"
  by (induction s) auto

lemma split_once_append [simp]: "d \<notin> set a \<Longrightarrow> split_once d (a @ d # b) = Some (a, b)"
  by (simp add: split_once_Some_iff)

lemma strip_prefix_Some_iff: "strip_prefix p s = Some t \<longleftrightarrow> s = p @ t"
  by (induction p s rule: strip_prefix.induct) auto

lemma split_char_nonempty [simp]: "split_char d s \<noteq> []"
  by (cases s) (auto split: list.splits)

lemma trim_Nil [simp]: "trim [] = []"
  by (simp add: trim_def trim_start_def)

lemma trim_empty_iff: "trim s = [] \<longleftrightarrow> list_all is_whitespace s"
proof -
  have "trim s = [] \<longleftrightarrow> (\<forall>c \<in> set (dropWhile is_whitespace s). is_whitespace c)"
    by (simp add: trim_def trim_start_def dropWhile_eq_Nil_conv)
  also have "\<dots> \<longleftrightarrow> (\<forall>c \<in> set s. is_whitespace c)"
    by (metis dropWhile_eq_Nil_conv hd_dropWhile hd_in_set set_dropWhileD)
  finally show ?thesis by (simp add: list_all_iff)
qed

subsection \<open>Machine arithmetic\<close>

definition saturating_add :: "u64 \<Rightarrow> u64 \<Rightarrow> u64" where
  "saturating_add a b = (if unat a + unat b < 2 ^ 64 then a + b else - 1)"

definition saturating_sub :: "u64 \<Rightarrow> u64 \<Rightarrow> u64" where
  "saturating_sub a b = (if a < b then 0 else a - b)"

definition checked_add :: "u64 \<Rightarrow> u64 \<Rightarrow> u64 option" where
  "checked_add a b = (if unat a + unat b < 2 ^ 64 then Some (a + b) else None)"

definition checked_sub :: "u64 \<Rightarrow> u64 \<Rightarrow> u64 option" where
  "checked_sub a b = (if a < b then None else Some (a - b))"

lemma unat_u64_less: "unat (c :: u64) < 2 ^ 64"
proof -
  have "unat c < 2 ^ LENGTH(64)" by (rule unsigned_less)
  then show ?thesis by simp
qed

lemma unat_saturating_add: "unat (saturating_add a b) = min (unat a + unat b) (2 ^ 64 - 1)"
  by (simp add: saturating_add_def unat_word_ariths unsigned_minus_1_eq_mask mask_eq_exp_minus_1)

lemma unat_saturating_sub: "unat (saturating_sub a b) = unat a - unat b"
  by (auto simp: saturating_sub_def unat_sub_if' word_less_nat_alt)

lemma checked_add_Some_iff:
  "checked_add a b = Some c \<longleftrightarrow> unat c = unat a + unat b"
proof
  assume "checked_add a b = Some c"
  then show "unat c = unat a + unat b"
    by (auto simp: checked_add_def unat_word_ariths split: if_splits)
next
  assume *: "unat c = unat a + unat b"
  then have "unat a + unat b < 2 ^ 64" using unat_u64_less [of c] by simp
  moreover from this * have "c = a + b"
    by (simp add: word_unat_eq_iff unat_word_ariths)
  ultimately show "checked_add a b = Some c" by (simp add: checked_add_def)
qed

lemma checked_sub_Some_iff:
  "checked_sub a b = Some c \<longleftrightarrow> unat a = unat b + unat c"
proof
  assume "checked_sub a b = Some c"
  then show "unat a = unat b + unat c"
    by (auto simp: checked_sub_def unat_sub_if' word_less_nat_alt split: if_splits)
next
  assume *: "unat a = unat b + unat c"
  then have "\<not> a < b" by (simp add: word_less_nat_alt)
  moreover from * have "c = a - b"
    by (simp add: word_unat_eq_iff unat_sub_if')
  ultimately show "checked_sub a b = Some c" by (simp add: checked_sub_def)
qed

lemma unat_of_nat_byte: "n < 256 \<Longrightarrow> unat (of_nat n :: u8) = n"
  by (simp add: unat_of_nat)

lemma str_len_ascii: "list_all (\<lambda>c. c < 128) s \<Longrightarrow> str_len s = length s"
  by (induction s) auto

subsection \<open>Ordered sets\<close>

declare fcard_fempty [simp]

lemma sorted_list_of_fset_of_list [rust_simps]:
  "sorted_list_of_fset (fset_of_list xs) = sort (remdups xs)"
  by (simp add: sorted_list_of_fset.rep_eq fset_of_list.rep_eq sorted_list_of_set_sort_remdups)

lemma sorted_sorted_list_of_fset [simp]: "sorted (sorted_list_of_fset S)"
  by (simp add: sorted_list_of_fset.rep_eq)

lemma distinct_sorted_list_of_fset [simp]: "distinct (sorted_list_of_fset S)"
  by (simp add: sorted_list_of_fset.rep_eq)

lemma fset_of_list_eq_iff_set: "fset_of_list xs = fset_of_list ys \<longleftrightarrow> set xs = set ys"
  by (metis fset_of_list.rep_eq fset_inject)

subsection \<open>Invariants of step relations\<close>

locale step_invariant =
  fixes step :: "'s \<Rightarrow> 's \<Rightarrow> bool" and inv :: "'s \<Rightarrow> bool"
  assumes preserved: "step s t \<Longrightarrow> inv s \<Longrightarrow> inv t"
begin

lemma steps_preserve: "step\<^sup>*\<^sup>* s t \<Longrightarrow> inv s \<Longrightarrow> inv t"
  by (induction rule: rtranclp_induct) (auto intro: preserved)

end

subsection \<open>UTF-8 is injective\<close>

definition is_scalar :: "uchar \<Rightarrow> bool" where
  "is_scalar c \<longleftrightarrow> c < 1114112"

definition utf8_nats :: "uchar \<Rightarrow> nat list" where
  "utf8_nats c =
     (if c < 128 then [c]
      else if c < 2048 then [192 + c div 64, 128 + c mod 64]
      else if c < 65536 then [224 + c div 4096, 128 + c div 64 mod 64, 128 + c mod 64]
      else [240 + c div 262144, 128 + c div 4096 mod 64, 128 + c div 64 mod 64, 128 + c mod 64])"

lemma map_unat_utf8_char:
  assumes "is_scalar c"
  shows "map unat (utf8_char c) = utf8_nats c"
proof -
  have "192 + c div 64 < 256" if "c < 2048" using that by (simp add: less_mult_imp_div_less)
  moreover have "224 + c div 4096 < 256" if "c < 65536" using that by (simp add: less_mult_imp_div_less)
  moreover have "240 + c div 262144 < 256" using assms by (simp add: is_scalar_def less_mult_imp_div_less)
  moreover have "128 + n mod 64 < 256" for n :: nat
    using mod_less_divisor [of 64 n] by linarith
  ultimately show ?thesis
    unfolding utf8_char_def utf8_nats_def by (simp del: of_nat_add add: unat_of_nat_byte)
qed

lemma utf8_nats_prefix_inj:
  assumes "is_scalar c" "is_scalar d" "utf8_nats c @ xs = utf8_nats d @ ys"
  shows "c = d \<and> xs = ys"
proof -
  have eq2: "c = d" if "c div 64 = d div 64" "c mod 64 = d mod 64"
    using that by (metis div_mult_mod_eq)
  have div64: "n div 64 div 64 = n div 4096" "n div 4096 div 64 = n div 262144" for n :: nat
    by (simp_all flip: div_mult2_eq)
  have eq3: "c div 64 = d div 64" if "c div 4096 = d div 4096" "c div 64 mod 64 = d div 64 mod 64"
    using that by (metis div64(1) div_mult_mod_eq)
  have eq4: "c div 4096 = d div 4096"
    if "c div 262144 = d div 262144" "c div 4096 mod 64 = d div 4096 mod 64"
    using that by (metis div64(2) div_mult_mod_eq)
  have small: "c < 2048 \<Longrightarrow> c div 64 < 32" "d < 2048 \<Longrightarrow> d div 64 < 32"
    "c < 65536 \<Longrightarrow> c div 4096 < 16" "d < 65536 \<Longrightarrow> d div 4096 < 16"
    by (simp_all add: less_mult_imp_div_less)
  consider "c < 128" | "128 \<le> c" "c < 2048" | "2048 \<le> c" "c < 65536" | "65536 \<le> c" by linarith
  then show ?thesis
  proof cases
    case 1
    with assms(3) show ?thesis by (simp add: utf8_nats_def split: if_splits)
  next
    case 2
    with assms(3) small eq2 show ?thesis by (simp add: utf8_nats_def split: if_splits)
  next
    case 3
    with assms(3) small eq2 eq3 show ?thesis by (simp add: utf8_nats_def split: if_splits)
  next
    case 4
    with assms(3) small eq2 eq3 eq4 show ?thesis by (simp add: utf8_nats_def split: if_splits)
  qed
qed

lemma str_bytes_inj:
  assumes "list_all is_scalar s" "list_all is_scalar t" "str_bytes s = str_bytes t"
  shows "s = t"
  using assms
proof (induction s arbitrary: t)
  case Nil
  then show ?case by (cases t) (simp_all add: utf8_char_nonempty)
next
  case (Cons c s)
  then obtain d t' where t: "t = d # t'" by (cases t) (auto simp: utf8_char_nonempty)
  have "map unat (utf8_char c) @ map unat (str_bytes s) = map unat (utf8_char d) @ map unat (str_bytes t')"
    using Cons.prems(3) t by (metis map_append str_bytes_Cons)
  then have "c = d \<and> map unat (str_bytes s) = map unat (str_bytes t')"
    using Cons.prems(1,2) t by (intro utf8_nats_prefix_inj) (simp_all add: map_unat_utf8_char)
  moreover have "inj (unat :: u8 \<Rightarrow> nat)" by (simp add: inj_def word_unat_eq_iff)
  ultimately have "c = d" "str_bytes s = str_bytes t'" by (auto dest: map_injective)
  with Cons t show ?case by simp
qed

lemma zero_in_str_bytes:
  assumes "list_all is_scalar s" "0 \<in> set (str_bytes s)"
  shows "0 \<in> set s"
proof -
  from assms(2) obtain c where c: "c \<in> set s" "0 \<in> set (utf8_char c)" by (auto simp: str_bytes_def)
  then have "0 \<in> set (map unat (utf8_char c))" by force
  moreover have "is_scalar c" using assms(1) c(1) by (simp add: list_all_iff)
  ultimately have "c = 0"
    by (auto simp: map_unat_utf8_char utf8_nats_def split: if_splits)
  with c(1) show ?thesis by simp
qed

lemma append_separator_inj:
  "xs @ x # ys = xs' @ x # ys' \<Longrightarrow> x \<notin> set xs \<Longrightarrow> x \<notin> set xs' \<Longrightarrow> xs = xs' \<and> ys = ys'"
proof (induction xs arbitrary: xs')
  case Nil
  then show ?case by (cases xs') auto
next
  case (Cons a xs)
  then show ?case by (cases xs') auto
qed

end
