(* ===== verification/Auth_Context.thy ===== *)
theory Auth_Context
  imports Rust_Prelude
begin

section \<open>Validated identity and request context\<close>

text \<open>
  Models \<open>src/crates/wasi-auth/src/context.rs\<close>: the bounded identifiers, the principal, the
  verified authentication context, the authorization snapshot and the request context that
  trusted ingress installs. Every constructor returns the error the code returns, in the order the
  code checks; \<open>wf_request_context\<close> is the invariant the private fields and constructors give.
  The ten newtypes made by \<open>bounded_identifier!\<close> share one representation and one constructor.
\<close>

datatype context_error =
  EmptyIdentifier | IdentifierTooLong | InvalidIdentifier | InvalidIssuer | InvalidLifetime

definition MAX_IDENTIFIER_BYTES :: nat where "MAX_IDENTIFIER_BYTES = 256"
definition MAX_ISSUER_BYTES :: nat where "MAX_ISSUER_BYTES = 512"

type_synonym user_id = rstr
type_synonym organization_id = rstr
type_synonym session_id = rstr
type_synonym request_id = rstr
type_synonym decision_id = rstr
type_synonym policy_revision = rstr
type_synonym credential_id = rstr
type_synonym invitation_id = rstr
type_synonym role_id = rstr
type_synonym idempotency_key = rstr

definition validate_identifier :: "rstr \<Rightarrow> context_error + unit" where
  "validate_identifier value =
     (if value = [] then Inl EmptyIdentifier
      else if str_len value > MAX_IDENTIFIER_BYTES then Inl IdentifierTooLong
      else if list_ex (\<lambda>c. is_control c \<or> is_whitespace c \<or> c = 0) value
        then Inl InvalidIdentifier
      else Inr ())"

definition bounded_identifier_new :: "rstr \<Rightarrow> context_error + rstr" where
  "bounded_identifier_new value = rbind (validate_identifier value) (\<lambda>_. Inr value)"

subsection \<open>Assurance\<close>

datatype authentication_assurance = Aal1 | Aal2

fun assurance_repr :: "authentication_assurance \<Rightarrow> u8" where
  "assurance_repr Aal1 = 0"
| "assurance_repr Aal2 = 1"

definition satisfies :: "authentication_assurance \<Rightarrow> authentication_assurance \<Rightarrow> bool" where
  "satisfies self required \<longleftrightarrow> assurance_repr self \<ge> assurance_repr required"

instantiation authentication_assurance :: linorder
begin

definition less_eq_authentication_assurance ::
  "authentication_assurance \<Rightarrow> authentication_assurance \<Rightarrow> bool" where
  "less_eq_authentication_assurance a b \<longleftrightarrow> assurance_repr a \<le> assurance_repr b"

definition less_authentication_assurance ::
  "authentication_assurance \<Rightarrow> authentication_assurance \<Rightarrow> bool" where
  "less_authentication_assurance a b \<longleftrightarrow> assurance_repr a < assurance_repr b"

instance
proof
  fix a b c :: authentication_assurance
  show "a < b \<longleftrightarrow> a \<le> b \<and> \<not> b \<le> a"
    by (auto simp: less_eq_authentication_assurance_def less_authentication_assurance_def)
  show "a \<le> a" by (simp add: less_eq_authentication_assurance_def)
  show "a \<le> b \<Longrightarrow> b \<le> c \<Longrightarrow> a \<le> c" by (simp add: less_eq_authentication_assurance_def)
  show "a \<le> b \<Longrightarrow> b \<le> a \<Longrightarrow> a = b"
    by (cases a; cases b) (simp_all add: less_eq_authentication_assurance_def)
  show "a \<le> b \<or> b \<le> a" by (auto simp: less_eq_authentication_assurance_def)
qed

end

subsection \<open>Principal, context and snapshot\<close>

record principal =
  pr_user_id :: user_id
  pr_issuer :: rstr
  pr_system_administrator :: bool

definition principal_new :: "user_id \<Rightarrow> rstr \<Rightarrow> bool \<Rightarrow> context_error + principal" where
  "principal_new user_id issuer system_administrator =
     (if issuer = [] \<or> str_len issuer > MAX_ISSUER_BYTES \<or> list_ex is_control issuer
      then Inl InvalidIssuer
      else Inr \<lparr>pr_user_id = user_id, pr_issuer = issuer,
                pr_system_administrator = system_administrator\<rparr>)"

record verified_auth_context =
  vac_principal :: principal
  vac_organization_id :: "organization_id option"
  vac_session_id :: session_id
  vac_request_id :: request_id
  vac_assurance :: authentication_assurance
  vac_issued_at :: u64
  vac_expires_at :: u64
  vac_decision_id :: "decision_id option"
  vac_policy_revision :: "policy_revision option"

record validated_context_parts =
  vcp_principal :: principal
  vcp_organization_id :: "organization_id option"
  vcp_session_id :: session_id
  vcp_request_id :: request_id
  vcp_assurance :: authentication_assurance
  vcp_issued_at :: u64
  vcp_expires_at :: u64
  vcp_decision_id :: "decision_id option"
  vcp_policy_revision :: "policy_revision option"

definition from_validated :: "validated_context_parts \<Rightarrow> context_error + verified_auth_context" where
  "from_validated parts =
     (if vcp_expires_at parts \<le> vcp_issued_at parts then Inl InvalidLifetime
      else Inr
        \<lparr>vac_principal = vcp_principal parts,
         vac_organization_id = vcp_organization_id parts,
         vac_session_id = vcp_session_id parts,
         vac_request_id = vcp_request_id parts,
         vac_assurance = vcp_assurance parts,
         vac_issued_at = vcp_issued_at parts,
         vac_expires_at = vcp_expires_at parts,
         vac_decision_id = vcp_decision_id parts,
         vac_policy_revision = vcp_policy_revision parts\<rparr>)"

definition is_expired_at :: "verified_auth_context \<Rightarrow> u64 \<Rightarrow> bool" where
  "is_expired_at self now \<longleftrightarrow> now \<ge> vac_expires_at self"

record authorization_snapshot =
  as_permissions :: "rstr fset"
  as_role_ids :: "role_id fset"
  as_policy_revision :: "policy_revision option"
  as_consistency_token :: "rstr option"

definition snapshot_new ::
  "rstr list \<Rightarrow> role_id list \<Rightarrow> policy_revision option \<Rightarrow> rstr option \<Rightarrow>
   context_error + authorization_snapshot" where
  "snapshot_new permissions role_ids policy_revision consistency_token =
     rbind (try_map (\<lambda>permission. rbind (validate_identifier permission) (\<lambda>_. Inr permission))
              permissions)
       (\<lambda>ps.
         if (case consistency_token of None \<Rightarrow> False
             | Some token \<Rightarrow> token = [] \<or> str_len token > 4096 \<or> list_ex is_control token)
         then Inl InvalidIdentifier
         else Inr \<lparr>as_permissions = fset_of_list ps,
                   as_role_ids = fset_of_list role_ids,
                   as_policy_revision = policy_revision,
                   as_consistency_token = consistency_token\<rparr>)"

definition has_permission :: "authorization_snapshot \<Rightarrow> rstr \<Rightarrow> bool" where
  "has_permission self permission \<longleftrightarrow> permission |\<in>| as_permissions self"

definition permissions :: "authorization_snapshot \<Rightarrow> rstr list" where
  "permissions self = sorted_list_of_fset (as_permissions self)"

definition role_ids :: "authorization_snapshot \<Rightarrow> role_id list" where
  "role_ids self = sorted_list_of_fset (as_role_ids self)"

record verified_request_context =
  vrc_auth :: verified_auth_context
  vrc_authorization :: authorization_snapshot

definition from_verified ::
  "verified_auth_context \<Rightarrow> authorization_snapshot \<Rightarrow> verified_request_context" where
  "from_verified auth authorization = \<lparr>vrc_auth = auth, vrc_authorization = authorization\<rparr>"

definition into_parts :: "verified_request_context \<Rightarrow> verified_auth_context \<times> authorization_snapshot" where
  "into_parts self = (vrc_auth self, vrc_authorization self)"

subsection \<open>Well-formedness\<close>

text \<open>
  \<open>valid_identifier\<close> says what a bounded identifier is without mentioning the order of the checks;
  the predicates below it collect what the constructors establish for each structure.
\<close>

definition valid_identifier :: "rstr \<Rightarrow> bool" where
  "valid_identifier s \<longleftrightarrow>
     s \<noteq> [] \<and> str_len s \<le> 256 \<and> (\<forall>c \<in> set s. \<not> is_control c \<and> \<not> is_whitespace c)"

definition valid_text :: "nat \<Rightarrow> rstr \<Rightarrow> bool" where
  "valid_text limit s \<longleftrightarrow> s \<noteq> [] \<and> str_len s \<le> limit \<and> (\<forall>c \<in> set s. \<not> is_control c)"

definition wf_principal :: "principal \<Rightarrow> bool" where
  "wf_principal p \<longleftrightarrow> valid_identifier (pr_user_id p) \<and> valid_text 512 (pr_issuer p)"

definition wf_auth_context :: "verified_auth_context \<Rightarrow> bool" where
  "wf_auth_context c \<longleftrightarrow>
     wf_principal (vac_principal c)
     \<and> pred_option valid_identifier (vac_organization_id c)
     \<and> valid_identifier (vac_session_id c)
     \<and> valid_identifier (vac_request_id c)
     \<and> vac_issued_at c < vac_expires_at c
     \<and> pred_option valid_identifier (vac_decision_id c)
     \<and> pred_option valid_identifier (vac_policy_revision c)"

definition wf_snapshot :: "authorization_snapshot \<Rightarrow> bool" where
  "wf_snapshot s \<longleftrightarrow>
     (\<forall>p. p |\<in>| as_permissions s \<longrightarrow> valid_identifier p)
     \<and> (\<forall>r. r |\<in>| as_role_ids s \<longrightarrow> valid_identifier r)
     \<and> pred_option valid_identifier (as_policy_revision s)
     \<and> pred_option (valid_text 4096) (as_consistency_token s)"

definition wf_request_context :: "verified_request_context \<Rightarrow> bool" where
  "wf_request_context c \<longleftrightarrow> wf_auth_context (vrc_auth c) \<and> wf_snapshot (vrc_authorization c)"

lemmas wf_context_defs =
  wf_request_context_def wf_auth_context_def wf_snapshot_def wf_principal_def

lemma is_control_NUL [simp]: "is_control 0"
  by (simp add: is_control_def)

lemma validate_identifier_Inr_iff [result_simps]:
  "validate_identifier s = Inr u \<longleftrightarrow> valid_identifier s"
proof -
  have "list_ex (\<lambda>c. is_control c \<or> is_whitespace c \<or> c = 0) s \<longleftrightarrow>
      (\<exists>c \<in> set s. is_control c \<or> is_whitespace c)"
    using is_control_NUL by (auto simp: list_ex_iff simp del: is_control_NUL)
  then show ?thesis
    by (auto simp: validate_identifier_def valid_identifier_def MAX_IDENTIFIER_BYTES_def)
qed

lemma bounded_identifier_new_Inr_iff [result_simps]:
  "bounded_identifier_new s = Inr t \<longleftrightarrow> valid_identifier s \<and> t = s"
  by (auto simp: bounded_identifier_new_def result_simps)

lemma bounded_identifier_new_valid [simp]:
  "valid_identifier s \<Longrightarrow> bounded_identifier_new s = Inr s"
  by (simp add: result_simps)

lemma opt_try_identifier_Inr_iff [result_simps]:
  "opt_try bounded_identifier_new v = Inr w \<longleftrightarrow> pred_option valid_identifier v \<and> w = v"
  by (cases v) (auto simp: result_simps)

lemma principal_new_Inr_iff [result_simps]:
  "principal_new u i a = Inr p \<longleftrightarrow>
     valid_text 512 i \<and> p = \<lparr>pr_user_id = u, pr_issuer = i, pr_system_administrator = a\<rparr>"
  by (auto simp: principal_new_def valid_text_def MAX_ISSUER_BYTES_def list_ex_iff not_less)

lemma snapshot_new_Inr_iff [result_simps]:
  "snapshot_new ps rs revision tok = Inr s \<longleftrightarrow>
     list_all valid_identifier ps \<and> pred_option (valid_text 4096) tok
     \<and> s = \<lparr>as_permissions = fset_of_list ps, as_role_ids = fset_of_list rs,
            as_policy_revision = revision, as_consistency_token = tok\<rparr>"
  by (cases tok)
    (auto simp: snapshot_new_def result_simps valid_text_def list_ex_iff not_less list_all_iff)

lemma from_validated_Inr_iff [result_simps]:
  "from_validated parts = Inr c \<longleftrightarrow>
     vcp_issued_at parts < vcp_expires_at parts
     \<and> c = \<lparr>vac_principal = vcp_principal parts, vac_organization_id = vcp_organization_id parts,
         vac_session_id = vcp_session_id parts, vac_request_id = vcp_request_id parts,
         vac_assurance = vcp_assurance parts, vac_issued_at = vcp_issued_at parts,
         vac_expires_at = vcp_expires_at parts, vac_decision_id = vcp_decision_id parts,
         vac_policy_revision = vcp_policy_revision parts\<rparr>"
  by (auto simp: from_validated_def not_le)

lemma satisfies_iff: "satisfies a b \<longleftrightarrow> a = Aal2 \<or> b = Aal1"
  by (cases a; cases b) (simp_all add: satisfies_def)

lemma satisfies_eq_ge: "satisfies a b \<longleftrightarrow> b \<le> a"
  by (simp add: satisfies_def less_eq_authentication_assurance_def)

subsection \<open>Properties\<close>

text \<open>
  The constructors of the verified context only let valid data through. A request context put
  together from identifiers, a principal, a lifetime and a snapshot that their constructors accepted
  is well formed: every identifier is non-empty, within 256 bytes and free of whitespace and control
  characters, the issuer is bounded, and the lifetime is not empty.
\<close>

theorem verified_context_well_formed:
  assumes "bounded_identifier_new user = Inr u" "principal_new u issuer admin = Inr p"
    and "bounded_identifier_new session = Inr sess" "bounded_identifier_new request = Inr req"
    and "try_map bounded_identifier_new roles = Inr rs" "bounded_identifier_new org = Inr o'"
    and "bounded_identifier_new revision = Inr rv" "snapshot_new perms rs (Some rv) tok = Inr snap"
    and "from_validated
       \<lparr>vcp_principal = p, vcp_organization_id = Some o', vcp_session_id = sess, vcp_request_id = req,
        vcp_assurance = a, vcp_issued_at = iat, vcp_expires_at = exp, vcp_decision_id = None,
        vcp_policy_revision = Some rv\<rparr> = Inr c"
  shows "wf_request_context (from_verified c snap) \<and> \<not> is_expired_at c iat \<and> is_expired_at c exp"
proof -
  have "list_all valid_identifier rs"
    using assms(5) by (auto simp: try_map_Inr_iff result_simps list_all_iff list_all2_conv_all_nth in_set_conv_nth)
  then show ?thesis
    using assms
    by (auto simp: result_simps wf_context_defs from_verified_def is_expired_at_def fset_of_list_elem
        list_all_iff)
qed

theorem verified_context_well_formed_witness:
  "\<exists>c snap. wf_request_context (from_verified c snap)"
proof -
  have ok: "bounded_identifier_new (lit ''x'') = Inr (lit ''x'')"
    by (simp add: result_simps valid_identifier_def is_control_def is_whitespace_def rust_simps)
  have p: "principal_new (lit ''x'') (lit ''x'') False
      = Inr \<lparr>pr_user_id = lit ''x'', pr_issuer = lit ''x'', pr_system_administrator = False\<rparr>"
    by (simp add: result_simps valid_text_def is_control_def rust_simps)
  have snap: "snapshot_new [] [lit ''x''] (Some (lit ''x'')) None
      = Inr \<lparr>as_permissions = {||}, as_role_ids = {|lit ''x''|},
             as_policy_revision = Some (lit ''x''), as_consistency_token = None\<rparr>"
    by (simp add: result_simps)
  have roles: "try_map bounded_identifier_new [lit ''x''] = Inr [lit ''x'']" using ok by simp
  obtain c where "from_validated
      \<lparr>vcp_principal = \<lparr>pr_user_id = lit ''x'', pr_issuer = lit ''x'', pr_system_administrator = False\<rparr>,
       vcp_organization_id = Some (lit ''x''), vcp_session_id = lit ''x'', vcp_request_id = lit ''x'',
       vcp_assurance = Aal1, vcp_issued_at = 1, vcp_expires_at = 2, vcp_decision_id = None,
       vcp_policy_revision = Some (lit ''x'')\<rparr> = Inr c"
    by (simp add: from_validated_Inr_iff)
  from verified_context_well_formed [OF ok p ok ok roles ok ok snap this] show ?thesis by blast
qed

end
