(* ===== verification/Authorization.thy ===== *)
theory Authorization
  imports Auth_Context
begin

section \<open>Authorization requests, decisions and static-dispatch enforcement\<close>

text \<open>
  Models \<open>src/crates/wasi-auth/src/authorization.rs\<close>. A decision provider is a parameter: the
  trait is implemented by the Cedar and SpiceDB adapters. Its contract, that a native batch agrees
  with the checks it batches, is the locale \<open>decision_provider\<close>; the default \<open>batch_check\<close> of the
  trait is the instance every provider without a native batch runs.
\<close>

datatype authorization_request_error =
  InvalidName | InvalidResourceId | TenantMismatch | TooManyAttributes | InvalidAttribute

definition MAX_BATCH_CHECKS :: nat where "MAX_BATCH_CHECKS = 100"
definition MAX_NAME_BYTES :: nat where "MAX_NAME_BYTES = 128"
definition MAX_RESOURCE_ID_BYTES :: nat where "MAX_RESOURCE_ID_BYTES = 512"
definition MAX_ATTRIBUTES :: nat where "MAX_ATTRIBUTES = 64"
definition MAX_ATTRIBUTE_VALUE_BYTES :: nat where "MAX_ATTRIBUTE_VALUE_BYTES = 2048"

type_synonym action_name = rstr
type_synonym resource_type = rstr

text \<open>The byte class \<open>[A-Za-z0-9._:-]\<close> shared by action, resource and permission names.\<close>

definition name_byte :: "u8 \<Rightarrow> bool" where
  "name_byte b \<longleftrightarrow> is_ascii_alphanumeric b \<or> b = 46 \<or> b = 95 \<or> b = 45 \<or> b = 58"

definition validate_name :: "rstr \<Rightarrow> authorization_request_error + unit" where
  "validate_name value =
     (if value = [] \<or> str_len value > MAX_NAME_BYTES \<or> \<not> list_all name_byte (str_bytes value)
      then Inl InvalidName else Inr ())"

definition action_name_new :: "rstr \<Rightarrow> authorization_request_error + action_name" where
  "action_name_new value = rbind (validate_name value) (\<lambda>_. Inr value)"

definition resource_type_new :: "rstr \<Rightarrow> authorization_request_error + resource_type" where
  "resource_type_new value = rbind (validate_name value) (\<lambda>_. Inr value)"

record resource =
  res_resource_type :: resource_type
  res_id :: rstr
  res_organization_id :: "organization_id option"

definition resource_new ::
  "resource_type \<Rightarrow> rstr \<Rightarrow> organization_id option \<Rightarrow> authorization_request_error + resource" where
  "resource_new resource_type resource_id organization_id =
     (if resource_id = [] \<or> str_len resource_id > MAX_RESOURCE_ID_BYTES
         \<or> list_ex is_control resource_id
      then Inl InvalidResourceId
      else Inr \<lparr>res_resource_type = resource_type, res_id = resource_id,
                res_organization_id = organization_id\<rparr>)"

datatype consistency_requirement =
  MinimizeLatency | FullyConsistent | AtLeastAsFresh rstr

record access_request =
  ar_context :: verified_auth_context
  ar_action :: action_name
  ar_resource :: resource
  ar_consistency :: consistency_requirement
  ar_attributes :: "(rstr, rstr) fmap"
  ar_authorization :: "authorization_snapshot option"

definition access_request_new ::
  "verified_auth_context \<Rightarrow> action_name \<Rightarrow> resource \<Rightarrow>
   authorization_request_error + access_request" where
  "access_request_new context action resource =
     (if \<not> pr_system_administrator (vac_principal context)
         \<and> res_organization_id resource \<noteq> vac_organization_id context
      then Inl TenantMismatch
      else Inr \<lparr>ar_context = context, ar_action = action, ar_resource = resource,
                ar_consistency = MinimizeLatency, ar_attributes = fmempty,
                ar_authorization = None\<rparr>)"

definition with_authorization_snapshot ::
  "access_request \<Rightarrow> authorization_snapshot \<Rightarrow> access_request" where
  "with_authorization_snapshot self snapshot = self\<lparr>ar_authorization := Some snapshot\<rparr>"

definition with_consistency :: "access_request \<Rightarrow> consistency_requirement \<Rightarrow> access_request" where
  "with_consistency self consistency = self\<lparr>ar_consistency := consistency\<rparr>"

definition with_attribute ::
  "access_request \<Rightarrow> rstr \<Rightarrow> rstr \<Rightarrow> authorization_request_error + access_request" where
  "with_attribute self name value =
     (if fcard (fmdom (ar_attributes self)) \<ge> MAX_ATTRIBUTES then Inl TooManyAttributes
      else rbind (map_err (\<lambda>_. InvalidAttribute) (validate_name name)) (\<lambda>_.
        if str_len value > MAX_ATTRIBUTE_VALUE_BYTES \<or> list_ex is_control value
        then Inl InvalidAttribute
        else Inr (self\<lparr>ar_attributes := fmupd name value (ar_attributes self)\<rparr>)))"

record provider_capabilities =
  pc_batch_check :: bool
  pc_list_resources :: bool
  pc_consistency_tokens :: bool

record decision =
  d_allowed :: bool
  d_reason :: rstr
  d_policy_revision :: policy_revision
  d_consistency_token :: "rstr option"

definition decision_allow :: "policy_revision \<Rightarrow> rstr \<Rightarrow> decision" where
  "decision_allow policy_revision reason =
     \<lparr>d_allowed = True, d_reason = reason, d_policy_revision = policy_revision,
      d_consistency_token = None\<rparr>"

definition decision_deny :: "policy_revision \<Rightarrow> rstr \<Rightarrow> decision" where
  "decision_deny policy_revision reason =
     \<lparr>d_allowed = False, d_reason = reason, d_policy_revision = policy_revision,
      d_consistency_token = None\<rparr>"

definition with_consistency_token :: "decision \<Rightarrow> rstr \<Rightarrow> decision" where
  "with_consistency_token self token = self\<lparr>d_consistency_token := Some token\<rparr>"

subsection \<open>Providers and the authorizer\<close>

type_synonym 'e check_fn = "access_request \<Rightarrow> 'e + decision"
type_synonym 'e batch_fn = "access_request list \<Rightarrow> 'e + decision list"

text \<open>The trait's default batch: the checks in order, stopping at the first provider error.\<close>

fun default_batch_check :: "'e check_fn \<Rightarrow> 'e batch_fn" where
  "default_batch_check check [] = Inr []"
| "default_batch_check check (request # requests) =
     rbind (check request) (\<lambda>d.
       rbind (default_batch_check check requests) (\<lambda>ds. Inr (d # ds)))"

datatype 'e batch_authorization_error = TooManyRequests | Provider 'e

definition authorizer_batch_check ::
  "'e batch_fn \<Rightarrow> access_request list \<Rightarrow> 'e batch_authorization_error + decision list" where
  "authorizer_batch_check batch requests =
     (if length requests > MAX_BATCH_CHECKS then Inl TooManyRequests
      else map_err Provider (batch requests))"

definition authorizer_check :: "'e check_fn \<Rightarrow> access_request \<Rightarrow> 'e + decision" where
  "authorizer_check check request = check request"

locale decision_provider =
  fixes check :: "'e check_fn" and batch :: "'e batch_fn"
  assumes batch_length: "batch requests = Inr ds \<Longrightarrow> length ds = length requests"
    and batch_nth: "batch requests = Inr ds \<Longrightarrow> i < length requests \<Longrightarrow>
      check (requests ! i) = Inr (ds ! i)"
begin

lemma batch_pointwise:
  assumes "authorizer_batch_check batch requests = Inr ds"
  shows "length requests \<le> 100 \<and> list_all2 (\<lambda>r d. authorizer_check check r = Inr d) requests ds"
proof -
  from assms have b: "batch requests = Inr ds" and n: "length requests \<le> 100"
    by (auto simp: authorizer_batch_check_def result_simps MAX_BATCH_CHECKS_def split: if_splits)
  from b have "list_all2 (\<lambda>r d. check r = Inr d) requests ds"
    by (auto simp: list_all2_conv_all_nth batch_length batch_nth)
  with n show ?thesis by (simp add: authorizer_check_def)
qed

lemma batch_allowed_only_if_checked:
  assumes "authorizer_batch_check batch requests = Inr ds" and "i < length ds" and "d_allowed (ds ! i)"
  shows "\<exists>d. authorizer_check check (requests ! i) = Inr d \<and> d_allowed d"
  using batch_pointwise [OF assms(1)] assms(2,3)
  by (auto simp: list_all2_conv_all_nth)

end

lemma default_batch_check_try_map: "default_batch_check check requests = try_map check requests"
  by (induction requests) auto

interpretation default_provider: decision_provider check "default_batch_check check" for check
  by unfold_locales (simp_all add: default_batch_check_try_map try_map_length try_map_nth)

subsection \<open>Lemmas\<close>

definition valid_name :: "rstr \<Rightarrow> bool" where
  "valid_name s \<longleftrightarrow> s \<noteq> [] \<and> str_len s \<le> 128 \<and> (\<forall>b \<in> set (str_bytes s). name_byte b)"

lemma validate_name_Inr_iff [result_simps]: "validate_name s = Inr u \<longleftrightarrow> valid_name s"
  by (auto simp: validate_name_def valid_name_def MAX_NAME_BYTES_def list_all_iff)

definition name_char :: "uchar \<Rightarrow> bool" where
  "name_char c \<longleftrightarrow> (97 \<le> c \<and> c \<le> 122) \<or> c = 46 \<or> c = 45 \<or> c = 95 \<or> c = 58
     \<or> (65 \<le> c \<and> c \<le> 90) \<or> (48 \<le> c \<and> c \<le> 57)"

lemma name_byte_of_nat: "n < 256 \<Longrightarrow> name_byte (of_nat n) \<longleftrightarrow> name_char n"
  by (auto simp: name_byte_def name_char_def is_ascii_alphanumeric_def is_ascii_digit_def
      word_le_nat_alt word_unat_eq_iff unat_of_nat_byte)

lemma valid_name_asciiI:
  assumes "s \<noteq> []" and "length s \<le> 128" and "list_all name_char s"
  shows "valid_name s"
proof -
  have lt: "name_char c \<Longrightarrow> c < 128" for c by (auto simp: name_char_def)
  then have "str_len s = length s" using assms(3) by (intro str_len_ascii) (auto simp: list_all_iff)
  moreover have "list_all name_char s \<Longrightarrow> \<forall>b \<in> set (str_bytes s). name_byte b"
  proof (induction s)
    case (Cons c s)
    then have "c < 128" using lt by simp
    with Cons show ?case by (auto simp: name_byte_of_nat)
  qed simp
  ultimately show ?thesis using assms by (simp add: valid_name_def)
qed
text \<open>Every request the constructor and the builder methods can produce.\<close>

inductive built_request :: "access_request \<Rightarrow> bool" where
  new: "access_request_new ctx act res = Inr r \<Longrightarrow> built_request r"
| snapshot: "built_request r \<Longrightarrow> built_request (with_authorization_snapshot r s)"
| consistency: "built_request r \<Longrightarrow> built_request (with_consistency r c)"
| attribute: "built_request r \<Longrightarrow> with_attribute r n v = Inr r' \<Longrightarrow> built_request r'"

definition wf_access_request :: "access_request \<Rightarrow> bool" where
  "wf_access_request r \<longleftrightarrow>
     (pr_system_administrator (vac_principal (ar_context r))
       \<or> res_organization_id (ar_resource r) = vac_organization_id (ar_context r))
     \<and> fcard (fmdom (ar_attributes r)) \<le> 64
     \<and> (\<forall>n v. fmlookup (ar_attributes r) n = Some v \<longrightarrow>
          valid_name n \<and> str_len v \<le> 2048 \<and> (\<forall>c \<in> set v. \<not> is_control c))"

lemma with_attribute_Inr_iff [result_simps]:
  "with_attribute r n v = Inr r' \<longleftrightarrow>
     fcard (fmdom (ar_attributes r)) < 64 \<and> valid_name n \<and> str_len v \<le> 2048
     \<and> (\<forall>c \<in> set v. \<not> is_control c)
     \<and> r' = r\<lparr>ar_attributes := fmupd n v (ar_attributes r)\<rparr>"
  by (auto simp: with_attribute_def result_simps MAX_ATTRIBUTES_def MAX_ATTRIBUTE_VALUE_BYTES_def
      list_ex_iff not_le not_less split: if_splits)

lemma fcard_finsert_le_Suc: "fcard (finsert x S) \<le> Suc (fcard S)"
  by (simp add: fcard_finsert_if)

lemma built_request_wf: "built_request r \<Longrightarrow> wf_access_request r"
proof (induction rule: built_request.induct)
  case (new ctx act res r)
  then show ?case
    by (auto simp: access_request_new_def wf_access_request_def split: if_splits)
next
  case (attribute r n v r')
  from attribute.hyps(2) have r': "r' = r\<lparr>ar_attributes := fmupd n v (ar_attributes r)\<rparr>"
    and lt: "fcard (fmdom (ar_attributes r)) < 64"
    and ok: "valid_name n" "str_len v \<le> 2048" "\<forall>c \<in> set v. \<not> is_control c"
    by (auto simp: result_simps)
  have "fcard (fmdom (ar_attributes r')) \<le> 64"
    using fcard_finsert_le_Suc [of n "fmdom (ar_attributes r)"] lt by (simp add: r')
  with attribute.IH ok show ?case
    by (auto simp: wf_access_request_def r' split: if_splits)
qed (simp_all add: wf_access_request_def with_authorization_snapshot_def with_consistency_def)

subsection \<open>Properties\<close>

text \<open>
  C30: no request crosses the tenant boundary. However an \<open>AccessRequest\<close> is built (constructor, then
  any sequence of the builder methods), its resource belongs to the organization of the verified
  context unless the principal is a system administrator, it has at most 64 attributes, and every
  attribute has a valid name and a bounded value without control characters.
\<close>

theorem request_respects_tenant:
  assumes "built_request r"
  shows "(\<not> pr_system_administrator (vac_principal (ar_context r)) \<longrightarrow>
      res_organization_id (ar_resource r) = vac_organization_id (ar_context r))
    \<and> fcard (fmdom (ar_attributes r)) \<le> 64
    \<and> (\<forall>n v. fmlookup (ar_attributes r) n = Some v \<longrightarrow>
        valid_name n \<and> str_len v \<le> 2048 \<and> (\<forall>c \<in> set v. \<not> is_control c))"
  using built_request_wf [OF assms] by (auto simp: wf_access_request_def)

definition sample_auth_context :: verified_auth_context where
  "sample_auth_context =
     \<lparr>vac_principal = \<lparr>pr_user_id = lit ''u'', pr_issuer = lit ''i'', pr_system_administrator = False\<rparr>,
      vac_organization_id = Some (lit ''o''), vac_session_id = lit ''s'', vac_request_id = lit ''r'',
      vac_assurance = Aal1, vac_issued_at = 1, vac_expires_at = 2, vac_decision_id = None,
      vac_policy_revision = None\<rparr>"

definition sample_request :: access_request where
  "sample_request =
     \<lparr>ar_context = sample_auth_context, ar_action = lit ''read'',
      ar_resource = \<lparr>res_resource_type = lit ''doc'', res_id = lit ''1'', res_organization_id = Some (lit ''o'')\<rparr>,
      ar_consistency = MinimizeLatency, ar_attributes = fmempty, ar_authorization = None\<rparr>"

theorem request_respects_tenant_witness:
  "res_organization_id (ar_resource (with_consistency sample_request FullyConsistent)) = Some (lit ''o'')"
proof -
  have "access_request_new sample_auth_context (lit ''read'') (ar_resource sample_request) = Inr sample_request"
    by (simp add: access_request_new_def sample_request_def sample_auth_context_def)
  then have "built_request (with_consistency sample_request FullyConsistent)"
    by (intro built_request.new built_request.consistency)
  from request_respects_tenant [OF this] show ?thesis
    by (simp add: sample_request_def sample_auth_context_def with_consistency_def)
qed

text \<open>
  A batch grants only what single checks grant. Whatever the provider, a batch that goes through
  the provider's default \<open>batch_check\<close> and succeeds has at most 100 requests, returns one decision per
  request in order, and each is the decision \<open>check\<close> gives for that request.
\<close>

theorem batch_decides_pointwise:
  assumes "authorizer_batch_check (default_batch_check check) requests = Inr ds"
  shows "length requests \<le> 100 \<and> list_all2 (\<lambda>r d. authorizer_check check r = Inr d) requests ds"
  using assms by (rule default_provider.batch_pointwise)

theorem batch_decides_pointwise_witness:
  "list_all2 (\<lambda>r d. authorizer_check (\<lambda>r. Inr (decision_deny (lit ''p'') (ar_action r)) :: unit + decision) r = Inr d)
     [sample_request] [decision_deny (lit ''p'') (lit ''read'')]"
  using batch_decides_pointwise
    [of "\<lambda>r. Inr (decision_deny (lit ''p'') (ar_action r)) :: unit + decision" "[sample_request]"]
  by (simp add: authorizer_batch_check_def MAX_BATCH_CHECKS_def sample_request_def)

end
