(* ===== verification/Accounts.thy ===== *)
theory Accounts
  imports Authorization
begin

section \<open>Accounts, roles, organizations, invitations, sessions and mutations\<close>

text \<open>
  Models \<open>src/crates/wasi-auth/src/authentication.rs\<close>: the domain aggregates of the authentication
  product and the bounded mutation that a unit of work commits. A method with \<open>&mut self\<close> returns
  the new state, paired with its result when it can fail. The stores, mailers, clocks and random
  sources behind \<open>AuthApplication\<close> are parameters of the definitions that call them.
\<close>

subsection \<open>Permission names\<close>

definition ORGANIZATION_VIEW :: rstr where "ORGANIZATION_VIEW = lit ''organization.view''"
definition ORGANIZATION_UPDATE :: rstr where "ORGANIZATION_UPDATE = lit ''organization.update''"
definition MEMBER_VIEW :: rstr where "MEMBER_VIEW = lit ''member.view''"
definition MEMBER_INVITE :: rstr where "MEMBER_INVITE = lit ''member.invite''"
definition MEMBER_MANAGE :: rstr where "MEMBER_MANAGE = lit ''member.manage''"
definition ROLE_VIEW :: rstr where "ROLE_VIEW = lit ''role.view''"
definition ROLE_MANAGE :: rstr where "ROLE_MANAGE = lit ''role.manage''"
definition AUDIT_VIEW :: rstr where "AUDIT_VIEW = lit ''audit.view''"
definition COUNTER_VIEW :: rstr where "COUNTER_VIEW = lit ''counter.view''"
definition COUNTER_CHANGE :: rstr where "COUNTER_CHANGE = lit ''counter.change''"
definition COUNTER_RESET :: rstr where "COUNTER_RESET = lit ''counter.reset''"
definition DASHBOARD_VIEW :: rstr where "DASHBOARD_VIEW = lit ''dashboard.view''"
definition DASHBOARD_MANAGE :: rstr where "DASHBOARD_MANAGE = lit ''dashboard.manage''"
definition RESOURCE_VIEW :: rstr where "RESOURCE_VIEW = lit ''resource.view''"
definition RESOURCE_MANAGE :: rstr where "RESOURCE_MANAGE = lit ''resource.manage''"
definition QUERY_VIEW :: rstr where "QUERY_VIEW = lit ''query.view''"
definition QUERY_MANAGE :: rstr where "QUERY_MANAGE = lit ''query.manage''"
definition QUERY_EXECUTE :: rstr where "QUERY_EXECUTE = lit ''query.execute''"
definition QUERY_EXECUTE_MUTATION :: rstr where "QUERY_EXECUTE_MUTATION = lit ''query.execute_mutation''"
definition VAULT_VIEW :: rstr where "VAULT_VIEW = lit ''vault.view''"
definition VAULT_MANAGE :: rstr where "VAULT_MANAGE = lit ''vault.manage''"
definition VAULT_REVEAL :: rstr where "VAULT_REVEAL = lit ''vault.reveal''"
definition OWNERSHIP_TRANSFER :: rstr where "OWNERSHIP_TRANSFER = lit ''ownership.transfer''"
definition SYSTEM_USER_MANAGE :: rstr where "SYSTEM_USER_MANAGE = lit ''system.user.manage''"
definition SYSTEM_SIGNING_KEY_MANAGE :: rstr where "SYSTEM_SIGNING_KEY_MANAGE = lit ''system.signing-key.manage''"
definition SYSTEM_POLICY_MANAGE :: rstr where "SYSTEM_POLICY_MANAGE = lit ''system.policy.manage''"

lemmas permission_name_defs =
  ORGANIZATION_VIEW_def ORGANIZATION_UPDATE_def MEMBER_VIEW_def MEMBER_INVITE_def
  MEMBER_MANAGE_def ROLE_VIEW_def ROLE_MANAGE_def AUDIT_VIEW_def COUNTER_VIEW_def
  COUNTER_CHANGE_def COUNTER_RESET_def DASHBOARD_VIEW_def DASHBOARD_MANAGE_def
  RESOURCE_VIEW_def RESOURCE_MANAGE_def QUERY_VIEW_def QUERY_MANAGE_def QUERY_EXECUTE_def
  QUERY_EXECUTE_MUTATION_def VAULT_VIEW_def VAULT_MANAGE_def VAULT_REVEAL_def
  OWNERSHIP_TRANSFER_def SYSTEM_USER_MANAGE_def SYSTEM_SIGNING_KEY_MANAGE_def
  SYSTEM_POLICY_MANAGE_def

datatype authentication_error =
  InvalidValue | UserDisabled | LastOwner | RestrictedPermission | AlreadyCompleted | Expired
  | SessionRevoked

type_synonym permission = rstr

definition permission_new :: "rstr \<Rightarrow> authentication_error + permission" where
  "permission_new value =
     (if value = [] \<or> str_len value > 128 \<or> \<not> list_all name_byte (str_bytes value)
      then Inl InvalidValue else Inr value)"

definition is_restricted_for_custom_role :: "permission \<Rightarrow> bool" where
  "is_restricted_for_custom_role self \<longleftrightarrow>
     self = OWNERSHIP_TRANSFER \<or> self = SYSTEM_USER_MANAGE
     \<or> self = SYSTEM_SIGNING_KEY_MANAGE \<or> self = SYSTEM_POLICY_MANAGE"

subsection \<open>Roles\<close>

datatype built_in_role = Owner | Admin | Member | Viewer

record role =
  role_id :: role_id
  role_name :: rstr
  role_built_in_class :: "built_in_role option"
  role_permissions :: "permission fset"

fun built_in_names :: "built_in_role \<Rightarrow> rstr list" where
  "built_in_names Owner =
    [ORGANIZATION_VIEW, ORGANIZATION_UPDATE, MEMBER_VIEW, MEMBER_INVITE, MEMBER_MANAGE,
     ROLE_VIEW, ROLE_MANAGE, AUDIT_VIEW, COUNTER_VIEW, COUNTER_CHANGE, COUNTER_RESET,
     DASHBOARD_VIEW, DASHBOARD_MANAGE, RESOURCE_VIEW, RESOURCE_MANAGE, QUERY_VIEW,
     QUERY_MANAGE, QUERY_EXECUTE, QUERY_EXECUTE_MUTATION, VAULT_VIEW, VAULT_MANAGE,
     VAULT_REVEAL, OWNERSHIP_TRANSFER]"
| "built_in_names Admin =
    [ORGANIZATION_VIEW, ORGANIZATION_UPDATE, MEMBER_VIEW, MEMBER_INVITE, MEMBER_MANAGE,
     ROLE_VIEW, ROLE_MANAGE, AUDIT_VIEW, COUNTER_VIEW, COUNTER_CHANGE, COUNTER_RESET,
     DASHBOARD_VIEW, DASHBOARD_MANAGE, RESOURCE_VIEW, RESOURCE_MANAGE, QUERY_VIEW,
     QUERY_MANAGE, QUERY_EXECUTE, QUERY_EXECUTE_MUTATION, VAULT_VIEW, VAULT_MANAGE,
     VAULT_REVEAL]"
| "built_in_names Member =
    [ORGANIZATION_VIEW, MEMBER_VIEW, ROLE_VIEW, COUNTER_VIEW, COUNTER_CHANGE, DASHBOARD_VIEW,
     QUERY_VIEW, QUERY_EXECUTE]"
| "built_in_names Viewer =
    [ORGANIZATION_VIEW, MEMBER_VIEW, ROLE_VIEW, COUNTER_VIEW, DASHBOARD_VIEW]"

fun built_in_role_debug :: "built_in_role \<Rightarrow> rstr" where
  "built_in_role_debug Owner = lit ''Owner''"
| "built_in_role_debug Admin = lit ''Admin''"
| "built_in_role_debug Member = lit ''Member''"
| "built_in_role_debug Viewer = lit ''Viewer''"

definition role_built_in :: "role_id \<Rightarrow> built_in_role \<Rightarrow> authentication_error + role" where
  "role_built_in rid r =
     rbind (try_map permission_new (built_in_names r)) (\<lambda>ps.
       Inr \<lparr>role_id = rid, role_name = to_ascii_lowercase (built_in_role_debug r),
            role_built_in_class = Some r, role_permissions = fset_of_list ps\<rparr>)"

definition role_custom ::
  "role_id \<Rightarrow> rstr \<Rightarrow> permission list \<Rightarrow> authentication_error + role" where
  "role_custom rid name ps =
     (if trim name \<noteq> name \<or> name = [] \<or> str_len name > 100 then Inl InvalidValue
      else let permissions = fset_of_list ps in
        if fBex permissions is_restricted_for_custom_role then Inl RestrictedPermission
        else Inr \<lparr>role_id = rid, role_name = name, role_built_in_class = None,
                  role_permissions = permissions\<rparr>)"

subsection \<open>Users\<close>

datatype user_status = PendingVerification | UserActive | Disabled | Anonymized

record user =
  user_id :: user_id
  user_primary_email :: rstr
  user_status :: user_status

definition validate_email :: "rstr \<Rightarrow> authentication_error + unit" where
  "validate_email value =
     (if trim value \<noteq> value \<or> str_len value > 320 \<or> list_ex is_control value
         \<or> (case split_once 64 value of None \<Rightarrow> True
            | Some (local, domain) \<Rightarrow> local = [] \<or> domain = [] \<or> 46 \<notin> set domain)
      then Inl InvalidValue else Inr ())"

definition user_register :: "user_id \<Rightarrow> rstr \<Rightarrow> authentication_error + user" where
  "user_register uid primary_email =
     rbind (validate_email primary_email) (\<lambda>_.
       Inr \<lparr>user_id = uid, user_primary_email = primary_email,
            user_status = PendingVerification\<rparr>)"

definition verify_email :: "user \<Rightarrow> user" where
  "verify_email self =
     (if user_status self = PendingVerification then self\<lparr>user_status := UserActive\<rparr> else self)"

definition user_disable :: "user \<Rightarrow> user" where
  "user_disable self = self\<lparr>user_status := Disabled\<rparr>"

subsection \<open>Organizations and memberships\<close>

datatype organization_status = OrgActive | OrgArchived

record organization =
  org_id :: organization_id
  org_name :: rstr
  org_status :: organization_status
  org_owners :: "user_id fset"

definition organization_create ::
  "organization_id \<Rightarrow> rstr \<Rightarrow> user_id \<Rightarrow> authentication_error + organization" where
  "organization_create oid name owner =
     (if trim name \<noteq> name \<or> name = [] \<or> str_len name > 120 then Inl InvalidValue
      else Inr \<lparr>org_id = oid, org_name = name, org_status = OrgActive, org_owners = {|owner|}\<rparr>)"

definition add_owner :: "organization \<Rightarrow> user_id \<Rightarrow> organization" where
  "add_owner self uid = self\<lparr>org_owners := finsert uid (org_owners self)\<rparr>"

definition remove_owner ::
  "organization \<Rightarrow> user_id \<Rightarrow> (authentication_error + unit) \<times> organization" where
  "remove_owner self uid =
     (if uid |\<in>| org_owners self \<and> fcard (org_owners self) = 1 then (Inl LastOwner, self)
      else (Inr (), self\<lparr>org_owners := org_owners self |-| {|uid|}\<rparr>))"

datatype membership_status = MembershipActive | MembershipSuspended | MembershipRemoved

record membership =
  mem_organization_id :: organization_id
  mem_user_id :: user_id
  mem_role_ids :: "role_id fset"
  mem_status :: membership_status

definition membership_new ::
  "organization_id \<Rightarrow> user_id \<Rightarrow> role_id list \<Rightarrow> authentication_error + membership" where
  "membership_new oid uid rids =
     (let role_ids = fset_of_list rids in
      if role_ids = {||} then Inl InvalidValue
      else Inr \<lparr>mem_organization_id = oid, mem_user_id = uid, mem_role_ids = role_ids,
                mem_status = MembershipActive\<rparr>)"

subsection \<open>Invitations\<close>

record invitation =
  inv_id :: invitation_id
  inv_organization_id :: organization_id
  inv_email :: rstr
  inv_role_ids :: "role_id fset"
  inv_expires_at :: u64
  inv_accepted_by :: "user_id option"
  inv_revoked :: bool

definition invitation_new ::
  "invitation_id \<Rightarrow> organization_id \<Rightarrow> rstr \<Rightarrow> role_id list \<Rightarrow> u64 \<Rightarrow> u64 \<Rightarrow>
   authentication_error + invitation" where
  "invitation_new iid oid email rids expires_at now =
     rbind (validate_email email) (\<lambda>_.
       let role_ids = fset_of_list rids in
       if role_ids = {||} then Inl InvalidValue
       else if expires_at \<le> now then Inl Expired
       else Inr \<lparr>inv_id = iid, inv_organization_id = oid, inv_email = email,
                 inv_role_ids = role_ids, inv_expires_at = expires_at, inv_accepted_by = None,
                 inv_revoked = False\<rparr>)"

definition invitation_accept ::
  "invitation \<Rightarrow> user_id \<Rightarrow> u64 \<Rightarrow> (authentication_error + unit) \<times> invitation" where
  "invitation_accept self uid now =
     (if inv_revoked self \<or> inv_accepted_by self \<noteq> None then (Inl AlreadyCompleted, self)
      else if now \<ge> inv_expires_at self then (Inl Expired, self)
      else (Inr (), self\<lparr>inv_accepted_by := Some uid\<rparr>))"

subsection \<open>Sessions\<close>

record session =
  ses_id :: session_id
  ses_user_id :: user_id
  ses_organization_id :: "organization_id option"
  ses_assurance :: authentication_assurance
  ses_expires_at :: u64
  ses_revoked_at :: "u64 option"

definition session_new ::
  "session_id \<Rightarrow> user_id \<Rightarrow> organization_id option \<Rightarrow> authentication_assurance \<Rightarrow> u64 \<Rightarrow> u64 \<Rightarrow>
   authentication_error + session" where
  "session_new sid uid oid assurance expires_at now =
     (if expires_at \<le> now then Inl Expired
      else Inr \<lparr>ses_id = sid, ses_user_id = uid, ses_organization_id = oid,
                ses_assurance = assurance, ses_expires_at = expires_at, ses_revoked_at = None\<rparr>)"

definition session_revoke :: "session \<Rightarrow> u64 \<Rightarrow> session" where
  "session_revoke self now =
     (case ses_revoked_at self of
        None \<Rightarrow> self\<lparr>ses_revoked_at := Some now\<rparr>
      | Some _ \<Rightarrow> self)"

definition is_active_at :: "session \<Rightarrow> u64 \<Rightarrow> bool" where
  "is_active_at self now \<longleftrightarrow> ses_revoked_at self = None \<and> now < ses_expires_at self"

subsection \<open>Credentials, events, projections and outbox intents\<close>

datatype credential_kind = Password | OAuth | Passkey | Totp | RecoveryCodeKind

fun credential_kind_as_str :: "credential_kind \<Rightarrow> rstr" where
  "credential_kind_as_str Password = lit ''password''"
| "credential_kind_as_str OAuth = lit ''oauth''"
| "credential_kind_as_str Passkey = lit ''passkey''"
| "credential_kind_as_str Totp = lit ''totp''"
| "credential_kind_as_str RecoveryCodeKind = lit ''recovery_code''"

record credential_descriptor =
  cd_id :: credential_id
  cd_user_id :: user_id
  cd_kind :: credential_kind
  cd_secret_version :: u64

datatype secret_material = SecretMaterial bytes

definition secret_material_new :: "bytes \<Rightarrow> authentication_error + secret_material" where
  "secret_material_new bs = (if bs = [] then Inl InvalidValue else Inr (SecretMaterial bs))"

fun secret_material_expose :: "secret_material \<Rightarrow> bytes" where
  "secret_material_expose (SecretMaterial bs) = bs"

record sanitized_event =
  ev_aggregate_type :: rstr
  ev_aggregate_id :: rstr
  ev_expected_revision :: u64
  ev_event_type :: rstr
  ev_payload_json :: rstr

datatype projection_kind =
  PkUser | PkOrganization | PkMembership | PkInvitation | PkRole | PkSession
  | PkProviderConfiguration | PkRedirectAllowlist | PkSigningKey | PkPolicyBundle

fun projection_kind_as_str :: "projection_kind \<Rightarrow> rstr" where
  "projection_kind_as_str PkUser = lit ''user''"
| "projection_kind_as_str PkOrganization = lit ''organization''"
| "projection_kind_as_str PkMembership = lit ''membership''"
| "projection_kind_as_str PkInvitation = lit ''invitation''"
| "projection_kind_as_str PkRole = lit ''role''"
| "projection_kind_as_str PkSession = lit ''session''"
| "projection_kind_as_str PkProviderConfiguration = lit ''provider_configuration''"
| "projection_kind_as_str PkRedirectAllowlist = lit ''redirect_allowlist''"
| "projection_kind_as_str PkSigningKey = lit ''signing_key''"
| "projection_kind_as_str PkPolicyBundle = lit ''policy_bundle''"

datatype projection_mutation =
  Upsert projection_kind rstr rstr
| Delete projection_kind rstr

datatype secret_mutation =
  SecretPut credential_descriptor secret_material
| SecretDelete credential_id

datatype relationship_operation = Grant | Revoke

record relationship_outbox_intent =
  ri_operation :: relationship_operation
  ri_resource :: rstr
  ri_relation :: rstr
  ri_subject :: rstr
  ri_resource_revision :: u64
  ri_consistency_token :: "rstr option"

definition deny_while_pending :: "relationship_outbox_intent \<Rightarrow> bool" where
  "deny_while_pending self \<longleftrightarrow> ri_operation self = Revoke"

datatype 'mail outbox_intent = Mail 'mail | Relationship relationship_outbox_intent

subsection \<open>The atomic mutation\<close>

definition MAX_TRANSACTION_ITEMS :: nat where "MAX_TRANSACTION_ITEMS = 1024"

record 'mail auth_mutation =
  am_idempotency_key :: idempotency_key
  am_operation :: rstr
  am_request_hash :: bytes
  am_events :: "sanitized_event list"
  am_projections :: "projection_mutation list"
  am_secrets :: "secret_mutation list"
  am_outbox_intents :: "'mail outbox_intent list"

definition auth_mutation_new ::
  "idempotency_key \<Rightarrow> rstr \<Rightarrow> bytes \<Rightarrow> sanitized_event list \<Rightarrow> projection_mutation list \<Rightarrow>
   secret_mutation list \<Rightarrow> 'mail outbox_intent list \<Rightarrow> authentication_error + 'mail auth_mutation" where
  "auth_mutation_new key operation request_hash events projections secrets outbox_intents =
     (if operation = [] \<or> str_len operation > 128 \<or> \<not> list_all name_byte (str_bytes operation)
         \<or> events = []
         \<or> list_ex (\<lambda>n. n > MAX_TRANSACTION_ITEMS)
             [length events, length projections, length secrets, length outbox_intents]
      then Inl InvalidValue
      else Inr \<lparr>am_idempotency_key = key, am_operation = operation,
                am_request_hash = request_hash, am_events = events,
                am_projections = projections, am_secrets = secrets,
                am_outbox_intents = outbox_intents\<rparr>)"

record commit_receipt =
  cr_revision :: u64
  cr_replayed :: bool

subsection \<open>The application and its builder\<close>

text \<open>
  The type parameters \<open>Missing\<close> and \<open>Installed<T>\<close> of the builder are a slot; \<open>build\<close> exists only on
  the type whose six parameters are all \<open>Installed\<close>, so it is \<open>None\<close> on every other builder.
\<close>

datatype 't slot = Missing | Installed 't

record ('s, 'a, 'm, 'v, 'c, 'r) auth_application =
  app_store :: 's
  app_authorizer :: 'a
  app_mailer :: 'm
  app_secret_store :: 'v
  app_clock :: 'c
  app_randomness :: 'r

record ('s, 'a, 'm, 'v, 'c, 'r) auth_application_builder =
  bld_store :: "'s slot"
  bld_authorizer :: "'a slot"
  bld_mailer :: "'m slot"
  bld_secret_store :: "'v slot"
  bld_clock :: "'c slot"
  bld_randomness :: "'r slot"

definition builder_new :: "('s, 'a, 'm, 'v, 'c, 'r) auth_application_builder" where
  "builder_new =
     \<lparr>bld_store = Missing, bld_authorizer = Missing, bld_mailer = Missing,
      bld_secret_store = Missing, bld_clock = Missing, bld_randomness = Missing\<rparr>"

datatype ('s, 'a, 'm, 'v, 'c, 'r) dependency =
  Store 's | Authorizer 'a | Mailer 'm | SecretStore 'v | Clock 'c | Randomness 'r

fun install ::
  "('s, 'a, 'm, 'v, 'c, 'r) auth_application_builder \<Rightarrow> ('s, 'a, 'm, 'v, 'c, 'r) dependency \<Rightarrow>
   ('s, 'a, 'm, 'v, 'c, 'r) auth_application_builder" where
  "install self (Store x) = self\<lparr>bld_store := Installed x\<rparr>"
| "install self (Authorizer x) = self\<lparr>bld_authorizer := Installed x\<rparr>"
| "install self (Mailer x) = self\<lparr>bld_mailer := Installed x\<rparr>"
| "install self (SecretStore x) = self\<lparr>bld_secret_store := Installed x\<rparr>"
| "install self (Clock x) = self\<lparr>bld_clock := Installed x\<rparr>"
| "install self (Randomness x) = self\<lparr>bld_randomness := Installed x\<rparr>"

definition builder_build ::
  "('s, 'a, 'm, 'v, 'c, 'r) auth_application_builder \<Rightarrow>
   ('s, 'a, 'm, 'v, 'c, 'r) auth_application option" where
  "builder_build self =
     (case (bld_store self, bld_authorizer self, bld_mailer self, bld_secret_store self,
            bld_clock self, bld_randomness self) of
        (Installed s, Installed a, Installed m, Installed v, Installed c, Installed r) \<Rightarrow>
          Some \<lparr>app_store = s, app_authorizer = a, app_mailer = m, app_secret_store = v,
                app_clock = c, app_randomness = r\<rparr>
      | _ \<Rightarrow> None)"

definition application_commit ::
  "('mail auth_mutation \<Rightarrow> 'e + commit_receipt, 'a, 'm, 'v, 'c, 'r) auth_application \<Rightarrow>
   'mail auth_mutation \<Rightarrow> 'e + commit_receipt" where
  "application_commit self mutation = app_store self mutation"

definition application_authorize ::
  "('s, 'e check_fn \<times> 'e batch_fn, 'm, 'v, 'c, 'r) auth_application \<Rightarrow> access_request \<Rightarrow>
   'e + decision" where
  "application_authorize self request = authorizer_check (fst (app_authorizer self)) request"

definition application_batch_authorize ::
  "('s, 'e check_fn \<times> 'e batch_fn, 'm, 'v, 'c, 'r) auth_application \<Rightarrow> access_request list \<Rightarrow>
   'e batch_authorization_error + decision list" where
  "application_batch_authorize self requests =
     authorizer_batch_check (snd (app_authorizer self)) requests"

subsection \<open>Lemmas\<close>

lemma permission_new_Inr_iff [result_simps]:
  "permission_new s = Inr p \<longleftrightarrow> valid_name s \<and> p = s"
  by (auto simp: permission_new_def valid_name_def list_all_iff)

lemma permission_names_valid:
  "list_all valid_name (built_in_names r)"
  by (cases r) (simp_all add: permission_name_defs valid_name_asciiI name_char_def)

lemma role_built_in_eq:
  "role_built_in rid r =
     Inr \<lparr>role_id = rid, role_name = to_ascii_lowercase (built_in_role_debug r),
          role_built_in_class = Some r, role_permissions = fset_of_list (built_in_names r)\<rparr>"
proof -
  have "try_map permission_new (built_in_names r) = Inr (built_in_names r)"
    using permission_names_valid [of r]
    by (intro try_map_id) (simp add: list_all_iff result_simps)
  then show ?thesis by (simp add: role_built_in_def)
qed

lemma validate_email_Inr_iff [result_simps]:
  "validate_email s = Inr u \<longleftrightarrow>
     trim s = s \<and> str_len s \<le> 320 \<and> (\<forall>c \<in> set s. \<not> is_control c)
     \<and> (\<exists>l d. s = l @ 64 # d \<and> 64 \<notin> set l \<and> l \<noteq> [] \<and> 46 \<in> set d)"
proof (cases "split_once 64 s")
  case None
  then have "64 \<notin> set s" by (simp add: split_once_None_iff)
  with None show ?thesis by (auto simp: validate_email_def)
next
  case (Some ld)
  obtain l d where ld: "ld = (l, d)" by (cases ld)
  with Some have s: "s = l @ 64 # d" "64 \<notin> set l" by (simp_all add: split_once_Some_iff)
  have "(\<exists>l' d'. s = l' @ 64 # d' \<and> 64 \<notin> set l' \<and> l' \<noteq> [] \<and> 46 \<in> set d')
      \<longleftrightarrow> l \<noteq> [] \<and> 46 \<in> set d"
    using Some ld s by (metis Pair_inject option.inject split_once_Some_iff)
  with Some ld show ?thesis
    by (auto simp: validate_email_def list_ex_iff not_less)
qed

inductive org_reachable :: "organization \<Rightarrow> bool" where
  create: "organization_create oid name owner = Inr org \<Longrightarrow> org_reachable org"
| add: "org_reachable org \<Longrightarrow> org_reachable (add_owner org u)"
| remove: "org_reachable org \<Longrightarrow> org_reachable (snd (remove_owner org u))"

lemma sole_member_iff: "u |\<in>| S \<and> fcard S = 1 \<longleftrightarrow> S = {|u|}"
proof
  assume "u |\<in>| S \<and> fcard S = 1"
  then have "card (fset S) = 1" and "u \<in> fset S" by (simp_all add: fcard.rep_eq)
  then have "fset S = {u}" by (metis card_1_singletonE singletonD)
  then show "S = {|u|}" by (simp flip: fset_inject)
qed (simp add: fcard_finsert_if)

lemma remove_owner_eq:
  "remove_owner org u =
     (if org_owners org = {|u|} then (Inl LastOwner, org)
      else (Inr (), org\<lparr>org_owners := org_owners org |-| {|u|}\<rparr>))"
  by (simp only: remove_owner_def sole_member_iff)

lemma remove_owner_nonempty:
  assumes "org_owners org \<noteq> {||}"
  shows "org_owners (snd (remove_owner org u)) \<noteq> {||}"
proof (cases "org_owners org = {|u|}")
  case True
  then have "remove_owner org u = (Inl LastOwner, org)"
    unfolding remove_owner_eq by (rule if_P)
  with assms show ?thesis by (simp only: snd_conv not_False_eq_True)
next
  case False
  with assms have "org_owners org |-| {|u|} \<noteq> {||}" by auto
  with False show ?thesis by (simp only: remove_owner_eq if_False snd_conv) simp
qed

lemma org_reachable_nonempty: "org_reachable org \<Longrightarrow> org_owners org \<noteq> {||}"
proof (induction rule: org_reachable.induct)
  case (create oid name owner org)
  then show ?case by (auto simp: organization_create_def split: if_splits)
next
  case (add org u)
  then show ?case by (simp add: add_owner_def)
next
  case (remove org u)
  then show ?case by (simp add: remove_owner_nonempty)
qed

text \<open>A sequence of acceptance attempts on one invitation, with the result of each.\<close>

fun accept_all ::
  "invitation \<Rightarrow> (user_id \<times> u64) list \<Rightarrow> (authentication_error + unit) list \<times> invitation" where
  "accept_all iv [] = ([], iv)"
| "accept_all iv ((u, now) # attempts) =
     (let (r, iv') = invitation_accept iv u now; (rs, iv'') = accept_all iv' attempts
      in (r # rs, iv''))"

lemma accept_all_completed:
  assumes "inv_revoked iv \<or> inv_accepted_by iv \<noteq> None"
  shows "accept_all iv attempts = (map (\<lambda>_. Inl AlreadyCompleted) attempts, iv)"
  using assms by (induction attempts) (auto simp: invitation_accept_def)

subsection \<open>Properties\<close>

text \<open>
  The four built-in roles can always be constructed, and their permissions form the documented
  hierarchy: viewer below member below admin, and the owner adds exactly the transfer of ownership.
  None of them holds a system permission.
\<close>

theorem built_in_role_hierarchy:
  "\<exists>owner admin member viewer.
     role_built_in i Owner = Inr owner \<and> role_built_in j Admin = Inr admin
     \<and> role_built_in k Member = Inr member \<and> role_built_in l Viewer = Inr viewer
     \<and> role_permissions viewer |\<subset>| role_permissions member
     \<and> role_permissions member |\<subset>| role_permissions admin
     \<and> role_permissions owner = finsert OWNERSHIP_TRANSFER (role_permissions admin)
     \<and> OWNERSHIP_TRANSFER |\<notin>| role_permissions admin
     \<and> {|SYSTEM_USER_MANAGE, SYSTEM_SIGNING_KEY_MANAGE, SYSTEM_POLICY_MANAGE|}
         |\<inter>| role_permissions owner = {||}"
proof -
  let ?P = "\<lambda>r. fset_of_list (built_in_names r)"
  have "set (built_in_names Viewer) \<subseteq> set (built_in_names Member)"
    and "set (built_in_names Member) \<subseteq> set (built_in_names Admin)"
    by simp_all
  then have "?P Viewer |\<subseteq>| ?P Member" and "?P Member |\<subseteq>| ?P Admin"
    by (simp_all only: less_eq_fset.rep_eq fset_of_list.rep_eq)
  moreover have "COUNTER_CHANGE |\<in>| ?P Member" and "COUNTER_CHANGE |\<notin>| ?P Viewer"
    and "AUDIT_VIEW |\<in>| ?P Admin" and "AUDIT_VIEW |\<notin>| ?P Member"
    by (simp_all add: permission_name_defs)
  ultimately have "?P Viewer |\<subset>| ?P Member" and "?P Member |\<subset>| ?P Admin"
    by (metis pfsubset_eq)+
  moreover have "set (built_in_names Owner) = insert OWNERSHIP_TRANSFER (set (built_in_names Admin))"
    by (simp add: insert_commute)
  then have "?P Owner = finsert OWNERSHIP_TRANSFER (?P Admin)"
    by (simp only: fset_of_list.rep_eq finsert.rep_eq flip: fset_inject)
  moreover have "OWNERSHIP_TRANSFER |\<notin>| ?P Admin"
    by (simp add: permission_name_defs)
  moreover have "{|SYSTEM_USER_MANAGE, SYSTEM_SIGNING_KEY_MANAGE, SYSTEM_POLICY_MANAGE|}
      |\<inter>| ?P Owner = {||}"
    by (simp add: permission_name_defs)
  ultimately show ?thesis
    by - (intro exI conjI, (rule role_built_in_eq)+,
      simp_all only: role.select_convs not_False_eq_True)
qed

text \<open>
  C36: a custom tenant role that the constructor accepts has a trimmed, non-empty name of at most
  100 bytes, holds exactly the requested permissions, and none of them transfers ownership or
  manages system users, signing keys or policies.
\<close>

theorem custom_role_never_restricted:
  assumes "role_custom rid name ps = Inr r"
  shows "role_built_in_class r = None \<and> role_permissions r = fset_of_list ps
    \<and> trim (role_name r) = role_name r \<and> 0 < str_len (role_name r) \<and> str_len (role_name r) \<le> 100
    \<and> {|OWNERSHIP_TRANSFER, SYSTEM_USER_MANAGE, SYSTEM_SIGNING_KEY_MANAGE, SYSTEM_POLICY_MANAGE|}
        |\<inter>| role_permissions r = {||}"
proof -
  from assms have n: "trim name = name" "name \<noteq> []" "str_len name \<le> 100"
    and no: "\<not> fBex (fset_of_list ps) is_restricted_for_custom_role"
    and r: "r = \<lparr>role_id = rid, role_name = name, role_built_in_class = None,
              role_permissions = fset_of_list ps\<rparr>"
    by (auto simp: role_custom_def Let_def split: if_splits)
  have "0 < str_len name" using n(2) length_le_str_len [of name] by (cases name) auto
  moreover have "{|OWNERSHIP_TRANSFER, SYSTEM_USER_MANAGE, SYSTEM_SIGNING_KEY_MANAGE,
      SYSTEM_POLICY_MANAGE|} |\<inter>| fset_of_list ps = {||}"
    using no by (auto simp: is_restricted_for_custom_role_def)
  ultimately show ?thesis using n r by simp
qed

theorem custom_role_never_restricted_witness:
  "\<exists>r. role_custom (lit ''role-1'') (lit ''Billing'') [COUNTER_VIEW] = Inr r
     \<and> OWNERSHIP_TRANSFER |\<notin>| role_permissions r"
proof -
  obtain r where ok: "role_custom (lit ''role-1'') (lit ''Billing'') [COUNTER_VIEW] = Inr r"
    by (simp add: role_custom_def permission_name_defs is_restricted_for_custom_role_def
        trim_def trim_start_def is_whitespace_def)
  from custom_role_never_restricted [OF ok] have "OWNERSHIP_TRANSFER |\<notin>| role_permissions r"
    by blast
  with ok show ?thesis by blast
qed

text \<open>
  C15: from its creation on, and whatever owners are added or removed in whatever order, an
  organization has an owner; the removal that would leave none is refused with \<open>LastOwner\<close> and
  changes nothing, and any other removal takes exactly that user out of the owner set.
\<close>

theorem organization_keeps_an_owner:
  assumes "org_reachable org"
  shows "org_owners org \<noteq> {||}
    \<and> remove_owner org u =
        (if org_owners org = {|u|} then (Inl LastOwner, org)
         else (Inr (), org\<lparr>org_owners := org_owners org |-| {|u|}\<rparr>))"
  using org_reachable_nonempty [OF assms] remove_owner_eq by (rule conjI)

theorem organization_keeps_an_owner_witness:
  "\<exists>org. organization_create (lit ''org-1'') (lit ''Acme'') (lit ''alice'') = Inr org
     \<and> fst (remove_owner org (lit ''alice'')) = Inl LastOwner"
proof -
  have ok: "organization_create (lit ''org-1'') (lit ''Acme'') (lit ''alice'') =
      Inr \<lparr>org_id = lit ''org-1'', org_name = lit ''Acme'', org_status = OrgActive,
           org_owners = {|lit ''alice''|}\<rparr>"
    by (simp add: organization_create_def trim_def trim_start_def is_whitespace_def)
  show ?thesis
    using ok organization_keeps_an_owner [OF org_reachable.create [OF ok], of "lit ''alice''"] by simp
qed

text \<open>
  C27: an invitation is accepted at most once. Over any sequence of attempts, every attempt before
  the first success is refused as expired, the first success records its user, and every later
  attempt is refused as already completed and leaves the record alone.
\<close>

theorem invitation_single_use:
  assumes "invitation_new iid oid email rids expires_at created = Inr iv"
    and "accept_all iv attempts = (results, final)"
  shows "(results = map (\<lambda>_. Inl Expired) attempts \<and> final = iv)
    \<or> (\<exists>early u now late. attempts = early @ (u, now) # late \<and> now < expires_at
        \<and> results = map (\<lambda>_. Inl Expired) early @ Inr () # map (\<lambda>_. Inl AlreadyCompleted) late
        \<and> final = iv\<lparr>inv_accepted_by := Some u\<rparr>)"
proof -
  from assms(1) have fresh: "\<not> inv_revoked iv" "inv_accepted_by iv = None"
    and exp: "inv_expires_at iv = expires_at"
    by (auto simp: invitation_new_def result_simps Let_def split: if_splits)
  show ?thesis using assms(2)
  proof (induction attempts arbitrary: results)
    case (Cons a attempts)
    obtain u now where a: "a = (u, now)" by (cases a)
    show ?case
    proof (cases "now < expires_at")
      case True
      with fresh exp have "invitation_accept iv u now = (Inr (), iv\<lparr>inv_accepted_by := Some u\<rparr>)"
        by (simp add: invitation_accept_def not_le)
      with Cons.prems have "results = Inr () # map (\<lambda>_. Inl AlreadyCompleted) attempts"
        and "final = iv\<lparr>inv_accepted_by := Some u\<rparr>"
        by (auto simp: a accept_all_completed)
      with True a show ?thesis by (intro disjI2 exI [of _ "[]"] exI [of _ u]) auto
    next
      case False
      then have "invitation_accept iv u now = (Inl Expired, iv)"
        by (simp add: invitation_accept_def fresh exp not_less)
      with Cons.prems obtain rs where rs: "accept_all iv attempts = (rs, final)"
        and res: "results = Inl Expired # rs"
        by (auto simp: a split: prod.splits)
      from Cons.IH [OF rs] show ?thesis
      proof (elim disjE exE conjE)
        fix early u' now' late
        assume *: "attempts = early @ (u', now') # late" "now' < expires_at"
          "rs = map (\<lambda>_. Inl Expired) early @ Inr () # map (\<lambda>_. Inl AlreadyCompleted) late"
          "final = iv\<lparr>inv_accepted_by := Some u'\<rparr>"
        then show ?thesis
          by (intro disjI2 exI [of _ "a # early"] exI [of _ u'] exI [of _ now'] exI [of _ late])
            (simp add: res)
      qed (simp add: res)
    qed
  qed simp
qed

theorem invitation_single_use_witness:
  "\<exists>iv final. invitation_new (lit ''i'') (lit ''o'') (lit ''a@b.c'') [lit ''r''] 200 100 = Inr iv
     \<and> accept_all iv [(lit ''u'', 150), (lit ''v'', 160)] = ([Inr (), Inl AlreadyCompleted], final)
     \<and> inv_accepted_by final = Some (lit ''u'')"
proof -
  let ?iv = "\<lparr>inv_id = lit ''i'', inv_organization_id = lit ''o'', inv_email = lit ''a@b.c'',
    inv_role_ids = {|lit ''r''|}, inv_expires_at = 200, inv_accepted_by = None, inv_revoked = False\<rparr>"
  let ?fin = "?iv\<lparr>inv_accepted_by := Some (lit ''u'')\<rparr>"
  have i: "invitation_new (lit ''i'') (lit ''o'') (lit ''a@b.c'') [lit ''r''] 200 100 = Inr ?iv"
    by (simp add: invitation_new_def validate_email_def trim_def trim_start_def is_whitespace_def
        is_control_def)
  have r: "accept_all ?iv [(lit ''u'', 150), (lit ''v'', 160)]
      = ([Inr (), Inl AlreadyCompleted], ?fin)"
    by (simp add: invitation_accept_def)
  show ?thesis using i r invitation_single_use [OF i r] by (intro exI [of _ ?iv] exI [of _ ?fin]) simp
qed

text \<open>
  C35: revoking a session is final and idempotent. After the first revocation the session is never
  active again, and later revocations keep the first timestamp; without one, it is active exactly
  until its expiry.
\<close>

theorem session_revocation_is_final:
  assumes "session_new sid uid oid assurance expires_at created = Inr s"
  shows "(is_active_at s now \<longleftrightarrow> now < expires_at)
    \<and> (let s' = foldl session_revoke s (t # ts) in
         ses_revoked_at s' = Some t \<and> \<not> is_active_at s' now \<and> s'\<lparr>ses_revoked_at := None\<rparr> = s)"
proof -
  from assms have s: "s = \<lparr>ses_id = sid, ses_user_id = uid, ses_organization_id = oid,
      ses_assurance = assurance, ses_expires_at = expires_at, ses_revoked_at = None\<rparr>"
    by (auto simp: session_new_def split: if_splits)
  have keep: "ses_revoked_at x = Some t \<Longrightarrow> foldl session_revoke x ts = x" for x
    by (induction ts) (auto simp: session_revoke_def)
  have "session_revoke s t = s\<lparr>ses_revoked_at := Some t\<rparr>"
    by (simp add: s session_revoke_def)
  then have "foldl session_revoke s (t # ts) = s\<lparr>ses_revoked_at := Some t\<rparr>"
    using keep [of "s\<lparr>ses_revoked_at := Some t\<rparr>"] by simp
  then show ?thesis by (simp add: s is_active_at_def)
qed

theorem session_revocation_is_final_witness:
  "\<exists>s. session_new (lit ''s'') (lit ''u'') None Aal1 200 100 = Inr s \<and> is_active_at s 150
     \<and> \<not> is_active_at (foldl session_revoke s [160, 170]) 165"
proof -
  have ok: "session_new (lit ''s'') (lit ''u'') None Aal1 200 100 =
      Inr \<lparr>ses_id = lit ''s'', ses_user_id = lit ''u'', ses_organization_id = None,
           ses_assurance = Aal1, ses_expires_at = 200, ses_revoked_at = None\<rparr>"
    by (simp add: session_new_def)
  show ?thesis
    using ok session_revocation_is_final [OF ok, of 150 160 "[170]"]
      session_revocation_is_final [OF ok, of 165 160 "[170]"]
    by (simp add: Let_def)
qed

lemma installed_slots:
  "(\<forall>x. bld_store (foldl install b ds) = Installed x \<longrightarrow> Store x \<in> set ds \<or> bld_store b = Installed x)
   \<and> (\<forall>x. bld_authorizer (foldl install b ds) = Installed x \<longrightarrow>
        Authorizer x \<in> set ds \<or> bld_authorizer b = Installed x)
   \<and> (\<forall>x. bld_mailer (foldl install b ds) = Installed x \<longrightarrow>
        Mailer x \<in> set ds \<or> bld_mailer b = Installed x)
   \<and> (\<forall>x. bld_secret_store (foldl install b ds) = Installed x \<longrightarrow>
        SecretStore x \<in> set ds \<or> bld_secret_store b = Installed x)
   \<and> (\<forall>x. bld_clock (foldl install b ds) = Installed x \<longrightarrow>
        Clock x \<in> set ds \<or> bld_clock b = Installed x)
   \<and> (\<forall>x. bld_randomness (foldl install b ds) = Installed x \<longrightarrow>
        Randomness x \<in> set ds \<or> bld_randomness b = Installed x)"
proof (induction ds arbitrary: b)
  case (Cons d ds)
  from Cons.IH [of "install b d"] show ?case by (cases d) (simp_all, metis+)
qed simp

text \<open>
  An application can only be built from dependencies that were really installed: if \<open>build\<close> is
  available after a sequence of installations, each of the six components of the application is
  one of the values installed for that component.
\<close>

theorem application_only_from_installed:
  assumes "builder_build (foldl install builder_new ds) = Some app"
  shows "{Store (app_store app), Authorizer (app_authorizer app), Mailer (app_mailer app),
      SecretStore (app_secret_store app), Clock (app_clock app), Randomness (app_randomness app)}
    \<subseteq> set ds"
  using assms installed_slots [of builder_new ds]
  by (auto simp: builder_build_def builder_new_def split: slot.splits)

theorem application_only_from_installed_witness:
  "\<exists>app. builder_build (foldl install builder_new
       [Clock (5::nat), Store (1::nat), Mailer (3::nat), Authorizer (2::nat), Randomness (6::nat),
        SecretStore (4::nat)]) = Some app
     \<and> Store (app_store app) \<in> {Clock 5, Store 1, Mailer 3, Authorizer 2, Randomness 6, SecretStore 4}"
proof -
  let ?ds = "[Clock (5::nat), Store (1::nat), Mailer (3::nat), Authorizer (2::nat),
    Randomness (6::nat), SecretStore (4::nat)]"
  have ok: "builder_build (foldl install builder_new ?ds) =
      Some \<lparr>app_store = 1, app_authorizer = 2, app_mailer = 3, app_secret_store = 4, app_clock = 5,
            app_randomness = 6\<rparr>"
    by (simp add: builder_build_def builder_new_def)
  show ?thesis using ok application_only_from_installed [OF ok] by simp
qed

end
