(* ===== verification/Mfa.thy ===== *)
theory Mfa
  imports Accounts
begin

unbundle bit_operations_syntax

section \<open>TOTP and recovery codes\<close>

text \<open>
  Models \<open>src/crates/wasi-auth/src/authentication/mfa.rs\<close>. The keyed digests HMAC-SHA-1 and
  HMAC-SHA-256 and the random source are parameters. An index out of range, which panics in the
  code, is \<open>None\<close> in the model of the step verification. The Base32 encoder keeps its accumulator
  at 32 bits, so the bits that the shifts drop are dropped here too.
\<close>

datatype mfa_error = InvalidConfiguration | InvalidCode | InvalidSecret

datatype 'e mfa_generation_error = Random 'e | Invalid authentication_error

definition TOTP_SECRET_BYTES :: nat where "TOTP_SECRET_BYTES = 20"
definition RECOVERY_CODE_BYTES :: nat where "RECOVERY_CODE_BYTES = 10"

definition BASE32_ALPHABET :: rstr where
  "BASE32_ALPHABET = lit ''ABCDEFGHIJKLMNOPQRSTUVWXYZ234567''"

record totp_config =
  tc_period_seconds :: u64
  tc_digits :: u32
  tc_allowed_skew_steps :: u8

definition totp_config_new :: "u64 \<Rightarrow> u32 \<Rightarrow> u8 \<Rightarrow> mfa_error + totp_config" where
  "totp_config_new period_seconds digits allowed_skew_steps =
     (if period_seconds < 15 \<or> period_seconds > 120 \<or> digits < 6 \<or> digits > 8
         \<or> allowed_skew_steps > 2
      then Inl InvalidConfiguration
      else Inr \<lparr>tc_period_seconds = period_seconds, tc_digits = digits,
                tc_allowed_skew_steps = allowed_skew_steps\<rparr>)"

definition totp_config_default :: totp_config where
  "totp_config_default =
     \<lparr>tc_period_seconds = 30, tc_digits = 6, tc_allowed_skew_steps = 1\<rparr>"

subsection \<open>Base32\<close>

definition b32_symbol :: "u32 \<Rightarrow> uchar" where
  "b32_symbol index = BASE32_ALPHABET ! unat index"

text \<open>The inner \<open>while bit_count >= 5\<close> loop.\<close>

fun b32_drain :: "u32 \<Rightarrow> nat \<Rightarrow> rstr \<times> nat" where
  "b32_drain accumulator bit_count =
     (if bit_count \<ge> 5 then
        (let bit_count' = bit_count - 5;
             index = drop_bit bit_count' accumulator AND 31;
             (rest, final_count) = b32_drain accumulator bit_count'
         in (b32_symbol index # rest, final_count))
      else ([], bit_count))"

fun b32_loop :: "u32 \<Rightarrow> nat \<Rightarrow> bytes \<Rightarrow> rstr" where
  "b32_loop accumulator bit_count [] =
     (if bit_count > 0
      then [b32_symbol (push_bit (5 - bit_count) accumulator AND 31)]
      else [])"
| "b32_loop accumulator bit_count (byte # rest) =
     (let accumulator' = push_bit 8 accumulator OR ucast byte;
          (out, bit_count') = b32_drain accumulator' (bit_count + 8)
      in out @ b32_loop accumulator' bit_count' rest)"

definition encode_base32 :: "bytes \<Rightarrow> rstr" where
  "encode_base32 bs = b32_loop 0 0 bs"

subsection \<open>Secrets and recovery codes\<close>

type_synonym 'e random_source = "bytes \<Rightarrow> 'e + bytes"

datatype totp_secret = TotpSecret secret_material

definition totp_secret_generate ::
  "'e random_source \<Rightarrow> 'e mfa_generation_error + totp_secret" where
  "totp_secret_generate fill_bytes =
     rbind (map_err Random (fill_bytes (replicate TOTP_SECRET_BYTES 0))) (\<lambda>bs.
       rbind (map_err Invalid (secret_material_new bs)) (\<lambda>m. Inr (TotpSecret m)))"

definition totp_secret_from_bytes :: "bytes \<Rightarrow> mfa_error + totp_secret" where
  "totp_secret_from_bytes bs =
     (if length bs < 16 then Inl InvalidSecret
      else rbind (map_err (\<lambda>_. InvalidSecret) (secret_material_new bs)) (\<lambda>m. Inr (TotpSecret m)))"

fun totp_secret_expose :: "totp_secret \<Rightarrow> bytes" where
  "totp_secret_expose (TotpSecret m) = secret_material_expose m"

definition provisioning_base32 :: "totp_secret \<Rightarrow> rstr" where
  "provisioning_base32 self = encode_base32 (totp_secret_expose self)"

text \<open>\<open>chunks(4)\<close> and \<open>join("-")\<close> of the standard library.\<close>

fun chunks4 :: "'a list \<Rightarrow> 'a list list" where
  "chunks4 [] = []"
| "chunks4 (x # xs) = take 4 (x # xs) # chunks4 (drop 4 (x # xs))"

fun join_with :: "rstr \<Rightarrow> rstr list \<Rightarrow> rstr" where
  "join_with sep [] = []"
| "join_with sep [s] = s"
| "join_with sep (s # t # rest) = s @ sep @ join_with sep (t # rest)"

definition group_code :: "rstr \<Rightarrow> rstr" where
  "group_code compact = join_with (lit ''-'') (chunks4 compact)"

definition recovery_code_generate ::
  "'e random_source \<Rightarrow> 'e mfa_generation_error + rstr" where
  "recovery_code_generate fill_bytes =
     rbind (map_err Random (fill_bytes (replicate RECOVERY_CODE_BYTES 0))) (\<lambda>bs.
       Inr (group_code (encode_base32 bs)))"

definition is_ascii_whitespace :: "u8 \<Rightarrow> bool" where
  "is_ascii_whitespace b \<longleftrightarrow> b = 32 \<or> b = 9 \<or> b = 10 \<or> b = 12 \<or> b = 13"

definition byte_upper :: "u8 \<Rightarrow> u8" where
  "byte_upper b = (if 97 \<le> b \<and> b \<le> 122 then b - 32 else b)"

text \<open>
  After the alphabet check every byte is ASCII, so \<open>String::from_utf8\<close> succeeds and yields the
  same bytes as scalar values.
\<close>

definition normalize_recovery_code :: "rstr \<Rightarrow> mfa_error + rstr" where
  "normalize_recovery_code code =
     (let normalized = map byte_upper
            (filter (\<lambda>b. b \<noteq> 45 \<and> \<not> is_ascii_whitespace b) (str_bytes code))
      in if length normalized \<noteq> 16 \<or> \<not> list_all (\<lambda>b. unat b \<in> set BASE32_ALPHABET) normalized
         then Inl InvalidCode
         else Inr (map unat normalized))"

type_synonym hmac = "bytes \<Rightarrow> bytes \<Rightarrow> bytes"

definition hash_recovery_code :: "hmac \<Rightarrow> bytes \<Rightarrow> rstr \<Rightarrow> mfa_error + bytes" where
  "hash_recovery_code hmac_sha256 pepper code =
     (if length pepper < 16 then Inl InvalidSecret
      else rbind (normalize_recovery_code code) (\<lambda>normalized.
        Inr (hmac_sha256 pepper (str_bytes normalized))))"

definition verify_recovery_code :: "hmac \<Rightarrow> bytes \<Rightarrow> rstr \<Rightarrow> bytes \<Rightarrow> mfa_error + bool" where
  "verify_recovery_code hmac_sha256 pepper candidate expected =
     rbind (hash_recovery_code hmac_sha256 pepper candidate) (\<lambda>digest. Inr (digest = expected))"

subsection \<open>TOTP verification\<close>

fun decimal :: "nat \<Rightarrow> rstr" where
  "decimal n = (if n < 10 then [48 + n] else decimal (n div 10) @ [48 + n mod 10])"

declare decimal.simps [simp del]

definition zero_pad :: "nat \<Rightarrow> rstr \<Rightarrow> rstr" where
  "zero_pad width s = replicate (width - length s) 48 @ s"

definition be_bytes :: "u64 \<Rightarrow> bytes" where
  "be_bytes w = map (\<lambda>i. ucast (drop_bit (8 * (7 - i)) w)) [0..<8]"

definition index_byte :: "bytes \<Rightarrow> nat \<Rightarrow> u8 option" where
  "index_byte bs i = (if i < length bs then Some (bs ! i) else None)"

definition totp_value :: "bytes \<Rightarrow> u32 \<Rightarrow> u32 option" where
  "totp_value digest digits =
     Option.bind (if digest = [] then None else index_byte digest (length digest - 1)) (\<lambda>l.
     let offset = unat (l AND 15) in
     Option.bind (index_byte digest offset) (\<lambda>b0.
     Option.bind (index_byte digest (offset + 1)) (\<lambda>b1.
     Option.bind (index_byte digest (offset + 2)) (\<lambda>b2.
     Option.bind (index_byte digest (offset + 3)) (\<lambda>b3.
       let binary = push_bit 24 (ucast (b0 AND 127)) OR push_bit 16 (ucast b1)
                    OR push_bit 8 (ucast b2) OR ucast b3
       in Some (binary mod 10 ^ unat digits))))))"

definition verify_totp_step :: "hmac \<Rightarrow> bytes \<Rightarrow> bytes \<Rightarrow> u64 \<Rightarrow> u32 \<Rightarrow> bool option" where
  "verify_totp_step hmac_sha1 secret code step digits =
     Option.bind (totp_value (hmac_sha1 secret (be_bytes step)) digits) (\<lambda>value.
       Some (str_bytes (zero_pad (unat digits) (decimal (unat value))) = code))"

definition keep_max :: "u64 option \<Rightarrow> u64 \<Rightarrow> u64 option" where
  "keep_max matched candidate =
     Some (case matched of None \<Rightarrow> candidate | Some current \<Rightarrow> max current candidate)"

text \<open>One candidate of the loop body: \<open>None\<close> is a panic, a missing candidate changes nothing.\<close>

definition try_step ::
  "hmac \<Rightarrow> bytes \<Rightarrow> bytes \<Rightarrow> u32 \<Rightarrow> u64 option \<Rightarrow> u64 option \<Rightarrow> u64 option option" where
  "try_step hmac_sha1 secret code digits candidate matched =
     (case candidate of
        None \<Rightarrow> Some matched
      | Some candidate_step \<Rightarrow>
          map_option (\<lambda>ok. if ok then keep_max matched candidate_step else matched)
            (verify_totp_step hmac_sha1 secret code candidate_step digits))"

fun totp_scan ::
  "hmac \<Rightarrow> bytes \<Rightarrow> bytes \<Rightarrow> u32 \<Rightarrow> u64 \<Rightarrow> u64 list \<Rightarrow> u64 option \<Rightarrow> u64 option option" where
  "totp_scan hmac_sha1 secret code digits step [] matched = Some matched"
| "totp_scan hmac_sha1 secret code digits step (offset # offsets) matched =
     Option.bind (try_step hmac_sha1 secret code digits (checked_sub step offset) matched) (\<lambda>m.
     Option.bind
       (if offset \<noteq> 0
        then try_step hmac_sha1 secret code digits (checked_add step offset) m
        else Some m)
       (totp_scan hmac_sha1 secret code digits step offsets))"

definition verify_totp ::
  "hmac \<Rightarrow> bytes \<Rightarrow> rstr \<Rightarrow> u64 \<Rightarrow> totp_config \<Rightarrow> (mfa_error + u64 option) option" where
  "verify_totp hmac_sha1 secret code unix_seconds config =
     (if length secret < 16 then Some (Inl InvalidSecret)
      else if str_len code \<noteq> unat (tc_digits config)
              \<or> \<not> list_all is_ascii_digit (str_bytes code)
      then Some (Inl InvalidCode)
      else if tc_period_seconds config = 0 then None
      else
        let step = unix_seconds div tc_period_seconds config;
            skew = unat (tc_allowed_skew_steps config)
        in map_option Inr
             (totp_scan hmac_sha1 secret (str_bytes code) (tc_digits config) step
                (map of_nat [0..<Suc skew]) None))"

subsection \<open>The enrollment URI\<close>

definition hex_digit :: "nat \<Rightarrow> uchar" where
  "hex_digit n = (if n < 10 then 48 + n else 55 + n)"

definition unreserved_byte :: "u8 \<Rightarrow> bool" where
  "unreserved_byte b \<longleftrightarrow> is_ascii_alphanumeric b \<or> b = 45 \<or> b = 46 \<or> b = 95 \<or> b = 126"

definition percent_encode_byte :: "u8 \<Rightarrow> rstr" where
  "percent_encode_byte b =
     (if unreserved_byte b then [unat b]
      else [37, hex_digit (unat b div 16), hex_digit (unat b mod 16)])"

definition percent_encode :: "rstr \<Rightarrow> rstr" where
  "percent_encode value = concat (map percent_encode_byte (str_bytes value))"

definition provisioning_uri ::
  "rstr \<Rightarrow> rstr \<Rightarrow> totp_secret \<Rightarrow> totp_config \<Rightarrow> mfa_error + rstr" where
  "provisioning_uri issuer account secret config =
     (if trim issuer = [] \<or> trim account = [] then Inl InvalidCode
      else
        let issuer = percent_encode (trim issuer); account = percent_encode (trim account) in
        Inr (lit ''otpauth://totp/'' @ issuer @ lit '':'' @ account @ lit ''?secret=''
             @ provisioning_base32 secret @ lit ''&issuer='' @ issuer
             @ lit ''&algorithm=SHA1&digits='' @ decimal (unat (tc_digits config))
             @ lit ''&period='' @ decimal (unat (tc_period_seconds config))))"

subsection \<open>Base32 against its bit-level reference\<close>

text \<open>
  The reference is bit level: a byte string is the list of its bits, most significant first, and
  its Base32 text has one symbol for each group of five bits, the last group filled with zeros.
\<close>

definition low_bits :: "nat \<Rightarrow> 'a::len word \<Rightarrow> bool list" where
  "low_bits n w = rev (map (bit w) [0..<n])"

definition bits_val :: "bool list \<Rightarrow> nat" where
  "bits_val bs = horner_sum of_bool 2 (rev bs)"

definition byte_bits :: "bytes \<Rightarrow> bool list" where
  "byte_bits bs = concat (map (low_bits 8) bs)"

fun b32_groups :: "bool list \<Rightarrow> rstr" where
  "b32_groups bits =
     (if bits = [] then []
      else if length bits < 5
        then [BASE32_ALPHABET ! bits_val (bits @ replicate (5 - length bits) False)]
      else BASE32_ALPHABET ! bits_val (take 5 bits) # b32_groups (drop 5 bits))"

declare b32_groups.simps [simp del]
declare b32_drain.simps [simp del]

lemma length_low_bits [simp]: "length (low_bits n w) = n"
  by (simp add: low_bits_def)

lemma low_bits_0 [simp]: "low_bits 0 w = []"
  by (simp add: low_bits_def)

lemma low_bits_eq_Nil [simp]: "low_bits n w = [] \<longleftrightarrow> n = 0"
  by (simp add: low_bits_def)

lemma low_bits_add: "low_bits (k + n) w = low_bits k (drop_bit n w) @ low_bits n w"
proof -
  have "[0..<k + n] = [0..<n] @ [n..<k + n]"
    using upt_add_eq_append [of 0 n k] by (simp only: add.commute le0)
  moreover have "map (bit w) [n..<k + n] = map (bit (drop_bit n w)) [0..<k]"
    unfolding map_add_upt [symmetric] map_map
    by (simp add: bit_simps add.commute comp_def)
  ultimately show ?thesis
    by (simp only: low_bits_def map_append rev_append)
qed

lemma low_bits_cong:
  "(\<And>i. i < n \<Longrightarrow> bit v i = bit w i) \<Longrightarrow> low_bits n v = low_bits n w"
  by (simp add: low_bits_def)

lemma low_bits_shift_in:
  fixes acc :: u32
  assumes "n + 8 \<le> 32"
  shows "low_bits (n + 8) (push_bit 8 acc OR ucast (b :: u8)) = low_bits n acc @ low_bits 8 b"
proof -
  have hi: "low_bits n (drop_bit 8 (push_bit 8 acc OR ucast b)) = low_bits n acc"
  proof (rule low_bits_cong)
    fix i assume "i < n"
    have "\<not> bit b (8 + i)" using bit_imp_le_length [of b "8 + i"] by auto
    then show "bit (drop_bit 8 (push_bit 8 acc OR ucast b)) i = bit acc i"
      using \<open>i < n\<close> assms by (simp add: bit_simps)
  qed
  have lo: "low_bits 8 (push_bit 8 acc OR ucast b) = low_bits 8 b"
    by (simp add: low_bits_def bit_simps)
  show ?thesis by (simp only: low_bits_add hi lo)
qed

lemma bits_val_low_bits: "bits_val (low_bits n w) = take_bit n (unat w)"
proof -
  have "bit w = bit (unat w)"
    using bit_imp_le_length [of w] by (auto simp: bit_unsigned_iff fun_eq_iff)
  then show ?thesis
    by (simp add: bits_val_def low_bits_def horner_sum_bit_eq_take_bit)
qed

lemma b32_symbol_mask: "b32_symbol (w AND 31) = BASE32_ALPHABET ! bits_val (low_bits 5 w)"
proof -
  have "w AND 31 = take_bit 5 w"
    by (simp add: take_bit_eq_mask mask_eq_exp_minus_1)
  then show ?thesis
    by (simp add: b32_symbol_def bits_val_low_bits unsigned_take_bit_eq)
qed
lemma low_bits_push_bit:
  fixes w :: u32
  assumes "n \<le> 5"
  shows "low_bits 5 (push_bit (5 - n) w) = low_bits n w @ replicate (5 - n) False"
proof -
  have "low_bits (n + (5 - n)) (push_bit (5 - n) w)
      = low_bits n (drop_bit (5 - n) (push_bit (5 - n) w)) @ low_bits (5 - n) (push_bit (5 - n) w)"
    by (rule low_bits_add)
  moreover have "low_bits n (drop_bit (5 - n) (push_bit (5 - n) w)) = low_bits n w"
    using assms by (intro low_bits_cong) (auto simp: bit_simps)
  moreover have "low_bits (5 - n) (push_bit (5 - n) w) = replicate (5 - n) False"
    by (rule nth_equalityI) (auto simp: low_bits_def rev_nth bit_simps)
  ultimately show ?thesis using assms by simp
qed

lemma b32_drain_groups:
  "snd (b32_drain acc n) = n mod 5
   \<and> b32_groups (low_bits n acc @ bits) =
       fst (b32_drain acc n) @ b32_groups (low_bits (n mod 5) acc @ bits)"
proof (induction acc n rule: b32_drain.induct)
  case (1 acc n)
  show ?case
  proof (cases "n \<ge> 5")
    case True
    let ?m = "n - 5"
    have n: "n = 5 + ?m" "n mod 5 = ?m mod 5" using True by (simp_all add: le_mod_geq)
    have "low_bits n acc = low_bits 5 (drop_bit ?m acc) @ low_bits ?m acc"
      by (subst n(1)) (rule low_bits_add)
    then have "b32_groups (low_bits n acc @ bits)
        = b32_symbol (drop_bit ?m acc AND 31) # b32_groups (low_bits ?m acc @ bits)"
      by (subst b32_groups.simps) (simp add: b32_symbol_mask)
    moreover have "b32_drain acc n =
        (b32_symbol (drop_bit ?m acc AND 31) # fst (b32_drain acc ?m), snd (b32_drain acc ?m))"
      using True by (subst b32_drain.simps) (simp add: Let_def split: prod.splits)
    ultimately show ?thesis using "1.IH" [OF True refl refl] n(2) by simp
  next
    case False
    then show ?thesis by (subst (1 2) b32_drain.simps) simp
  qed
qed

lemma b32_loop_groups:
  "n < 5 \<Longrightarrow> b32_loop acc n bs = b32_groups (low_bits n acc @ byte_bits bs)"
proof (induction acc n bs rule: b32_loop.induct)
  case (1 acc n)
  show ?case
  proof (cases "n = 0")
    case True
    then have "low_bits n acc = []" by simp
    with True show ?thesis by (simp add: byte_bits_def b32_groups.simps)
  next
    case False
    with "1.prems" show ?thesis
      by (subst b32_groups.simps)
        (auto simp: byte_bits_def b32_symbol_mask low_bits_push_bit simp flip: length_0_conv)
  qed
next
  case (2 acc n b bs)
  let ?acc = "push_bit 8 acc OR ucast b"
  obtain out m where d: "b32_drain ?acc (n + 8) = (out, m)" by fastforce
  from b32_drain_groups [of ?acc "n + 8" "byte_bits bs"] d have m: "m = (n + 8) mod 5"
    and g: "b32_groups (low_bits (n + 8) ?acc @ byte_bits bs)
      = out @ b32_groups (low_bits m ?acc @ byte_bits bs)"
    by simp_all
  have "b32_loop acc n (b # bs) = out @ b32_groups (low_bits m ?acc @ byte_bits bs)"
    using "2.IH" [OF refl d [symmetric] refl] m d by simp
  also have "\<dots> = b32_groups (low_bits (n + 8) ?acc @ byte_bits bs)"
    by (simp only: g)
  also have "\<dots> = b32_groups (low_bits n acc @ byte_bits (b # bs))"
    using "2.prems" by (simp add: low_bits_shift_in byte_bits_def)
  finally show ?case .
qed

lemma encode_base32_groups: "encode_base32 bs = b32_groups (byte_bits bs)"
  by (simp add: encode_base32_def b32_loop_groups)

subsection \<open>Decoding\<close>

definition sym_index :: "uchar \<Rightarrow> nat" where
  "sym_index c = length (takeWhile (\<lambda>x. x \<noteq> c) BASE32_ALPHABET)"

definition sym_bits :: "uchar \<Rightarrow> bool list" where
  "sym_bits c = rev (map (bit (sym_index c)) [0..<5])"

fun bytes_of_bits :: "bool list \<Rightarrow> bytes" where
  "bytes_of_bits bits =
     (if length bits < 8 then [] else of_nat (bits_val (take 8 bits)) # bytes_of_bits (drop 8 bits))"

declare bytes_of_bits.simps [simp del]

definition decode_base32 :: "rstr \<Rightarrow> bytes" where
  "decode_base32 s = bytes_of_bits (concat (map sym_bits s))"

lemma length_BASE32_ALPHABET [simp]: "length BASE32_ALPHABET = 32"
  by (simp add: BASE32_ALPHABET_def)

lemma sym_index_nth: "i < 32 \<Longrightarrow> sym_index (BASE32_ALPHABET ! i) = i"
proof -
  have "list_all (\<lambda>i. sym_index (BASE32_ALPHABET ! i) = i) [0..<32]" by code_simp
  then show "i < 32 \<Longrightarrow> sym_index (BASE32_ALPHABET ! i) = i" by (simp add: list_all_iff)
qed

lemma bits_val_less: "bits_val bits < 2 ^ length bits"
  using horner_sum_of_bool_2_less [of "rev bits"] by (simp add: bits_val_def)

lemma bits_of_bits_val: "rev (map (bit (bits_val bits)) [0..<length bits]) = bits"
  by (rule nth_equalityI) (auto simp: bits_val_def rev_nth bit_horner_sum_bit_iff)

lemma sym_bits_group: "length bits = 5 \<Longrightarrow> sym_bits (BASE32_ALPHABET ! bits_val bits) = bits"
  using bits_val_less [of bits] bits_of_bits_val [of bits]
  by (simp add: sym_bits_def sym_index_nth)

lemma concat_sym_bits_groups:
  "\<exists>k < 5. concat (map sym_bits (b32_groups bits)) = bits @ replicate k False"
proof (induction bits rule: b32_groups.induct)
  case (1 bits)
  consider "bits = []" | "bits \<noteq> []" "length bits < 5" | "length bits \<ge> 5" by fastforce
  then show ?case
  proof cases
    case 1
    then show ?thesis by (intro exI [of _ 0]) (simp add: b32_groups.simps)
  next
    case 2
    then show ?thesis
      by (intro exI [of _ "5 - length bits"])
        (auto simp: b32_groups.simps [of bits] sym_bits_group simp flip: length_greater_0_conv)
  next
    case 3
    then have "bits \<noteq> []" by auto
    with "1.IH" 3 obtain k where "k < 5"
      "concat (map sym_bits (b32_groups (drop 5 bits))) = drop 5 bits @ replicate k False"
      by auto
    with 3 \<open>bits \<noteq> []\<close> show ?thesis
      by (intro exI [of _ k]) (simp add: b32_groups.simps [of bits] sym_bits_group)
  qed
qed

lemma bytes_of_byte_bits: "length tail < 8 \<Longrightarrow> bytes_of_bits (byte_bits bs @ tail) = bs"
proof (induction bs)
  case Nil
  then show ?case by (simp add: byte_bits_def bytes_of_bits.simps)
next
  case (Cons b bs)
  have "of_nat (bits_val (low_bits 8 b)) = b"
  proof -
    have "unat b < 2 ^ LENGTH(8)" by (rule unsigned_less)
    then show ?thesis by (simp add: bits_val_low_bits take_bit_nat_eq_self)
  qed
  with Cons show ?case
    by (subst bytes_of_bits.simps) (simp add: byte_bits_def)
qed

lemma decode_encode_base32: "decode_base32 (encode_base32 bs) = bs"
proof -
  obtain k where "k < 5" "concat (map sym_bits (encode_base32 bs)) = byte_bits bs @ replicate k False"
    using concat_sym_bits_groups [of "byte_bits bs"] by (auto simp: encode_base32_groups)
  then show ?thesis by (simp add: decode_base32_def bytes_of_byte_bits)
qed

subsection \<open>Recovery codes\<close>

text \<open>The symbols of a code that count: separators and white space removed, upper case.\<close>

definition code_symbols :: "rstr \<Rightarrow> bytes" where
  "code_symbols code =
     map byte_upper (filter (\<lambda>b. b \<noteq> 45 \<and> \<not> is_ascii_whitespace b) (str_bytes code))"

lemma normalize_recovery_code_Inr_iff [result_simps]:
  "normalize_recovery_code code = Inr s \<longleftrightarrow>
     length (code_symbols code) = 16 \<and> (\<forall>b \<in> set (code_symbols code). unat b \<in> set BASE32_ALPHABET)
     \<and> s = map unat (code_symbols code)"
  by (auto simp: normalize_recovery_code_def code_symbols_def Let_def list_all_iff)

lemma normalize_cong:
  "code_symbols a = code_symbols b \<Longrightarrow> normalize_recovery_code a = normalize_recovery_code b"
  by (simp add: normalize_recovery_code_def code_symbols_def)

lemma code_symbols_append: "code_symbols (a @ b) = code_symbols a @ code_symbols b"
  by (simp add: code_symbols_def)

lemma code_symbols_hyphen [simp]: "code_symbols (45 # s) = code_symbols s"
  by (simp add: code_symbols_def)

lemma code_symbols_Nil [simp]: "code_symbols [] = []"
  by (simp add: code_symbols_def)

lemma code_symbols_join: "code_symbols (join_with [45] ps) = concat (map code_symbols ps)"
proof (induction "[45 :: uchar]" ps rule: join_with.induct)
  case (3 s t rest)
  then show ?case by (simp add: code_symbols_append)
qed simp_all

lemma concat_chunks4: "concat (chunks4 xs) = xs"
proof (induction xs rule: chunks4.induct)
  case (2 x xs)
  show ?case by (simp only: chunks4.simps concat.simps "2.IH" append_take_drop_id)
qed simp

lemma code_symbols_concat: "code_symbols (concat ps) = concat (map code_symbols ps)"
  by (induction ps) (auto simp: code_symbols_append)

lemma code_symbols_group: "code_symbols (group_code s) = code_symbols s"
  by (simp add: group_code_def code_symbols_join concat_chunks4 flip: code_symbols_concat)

lemma base32_symbol_byte:
  assumes "c \<in> set BASE32_ALPHABET"
  shows "c < 128" and "byte_upper (of_nat c) = of_nat c"
    and "(of_nat c :: u8) \<noteq> 45" and "\<not> is_ascii_whitespace (of_nat c)"
proof -
  have "list_all (\<lambda>c. c < 128 \<and> byte_upper (of_nat c) = of_nat c \<and> (of_nat c :: u8) \<noteq> 45
      \<and> \<not> is_ascii_whitespace (of_nat c)) BASE32_ALPHABET"
    by code_simp
  with assms show "c < 128" and "byte_upper (of_nat c) = of_nat c"
    and "(of_nat c :: u8) \<noteq> 45" and "\<not> is_ascii_whitespace (of_nat c)"
    by (simp_all add: list_all_iff)
qed

lemma code_symbols_base32:
  "set s \<subseteq> set BASE32_ALPHABET \<Longrightarrow> code_symbols s = map of_nat s"
  by (induction s) (auto simp: code_symbols_def base32_symbol_byte)

lemma set_b32_groups: "set (b32_groups bits) \<subseteq> set BASE32_ALPHABET"
proof (induction bits rule: b32_groups.induct)
  case (1 bits)
  have *: "length bs = 5 \<Longrightarrow> BASE32_ALPHABET ! bits_val bs \<in> set BASE32_ALPHABET" for bs
    using bits_val_less [of bs] by simp
  show ?case using "1.IH" by (subst b32_groups.simps) (auto simp: *)
qed

lemma length_b32_groups: "length (b32_groups bits) = (length bits + 4) div 5"
proof (induction bits rule: b32_groups.induct)
  case (1 bits)
  show ?case
  proof (cases "length bits < 5")
    case True
    then show ?thesis by (subst b32_groups.simps) (cases bits; simp)
  next
    case False
    then have ne: "bits \<noteq> []" by auto
    have "length (b32_groups bits) = Suc (length (b32_groups (drop 5 bits)))"
      using ne False by (simp add: b32_groups.simps [of bits])
    also have "\<dots> = Suc ((length bits - 5 + 4) div 5)"
      using "1.IH" [OF ne False] by simp
    also have "\<dots> = (length bits + 4) div 5" using False by presburger
    finally show ?thesis .
  qed
qed

lemma length_byte_bits [simp]: "length (byte_bits bs) = 8 * length bs"
  by (induction bs) (simp_all add: byte_bits_def)

lemma length_encode_base32: "length (encode_base32 bs) = (8 * length bs + 4) div 5"
  by (simp add: encode_base32_groups length_b32_groups)

lemma map_unat_of_nat_base32:
  "set s \<subseteq> set BASE32_ALPHABET \<Longrightarrow> map (unat \<circ> (of_nat :: nat \<Rightarrow> u8)) s = s"
  by (induction s) (auto simp: unat_of_nat_byte dest!: base32_symbol_byte(1))

lemma normalize_generated:
  assumes "length bs = 10"
  shows "normalize_recovery_code (group_code (encode_base32 bs)) = Inr (encode_base32 bs)"
proof -
  have sub: "set (encode_base32 bs) \<subseteq> set BASE32_ALPHABET"
    by (simp add: encode_base32_groups set_b32_groups)
  then have "code_symbols (group_code (encode_base32 bs)) = map of_nat (encode_base32 bs)"
    by (simp add: code_symbols_group code_symbols_base32)
  moreover have "length (encode_base32 bs) = 16"
    using assms by (simp add: length_encode_base32)
  moreover have "map unat (map (of_nat :: nat \<Rightarrow> u8) (encode_base32 bs)) = encode_base32 bs"
    using sub by (simp add: map_unat_of_nat_base32)
  moreover have "unat (of_nat c :: u8) \<in> set BASE32_ALPHABET" if "c \<in> set (encode_base32 bs)" for c
    using that sub base32_symbol_byte(1) [of c] by (auto simp: unat_of_nat_byte)
  ultimately show ?thesis by (simp add: result_simps)
qed

text \<open>
  C29: every recovery code the generator produces is accepted by the verifier against its own hash,
  however it is retyped: any spelling with the same letters and digits, whatever the hyphens, the
  white space and the letter case, hashes to the same digest.
\<close>

theorem recovery_code_round_trip:
  assumes "\<And>dest out. fill_bytes dest = Inr out \<Longrightarrow> length out = length dest"
    and "recovery_code_generate fill_bytes = Inr code"
    and "16 \<le> length pepper" and "code_symbols typed = code_symbols code"
  shows "\<exists>digest. hash_recovery_code hmac_sha256 pepper code = Inr digest
    \<and> verify_recovery_code hmac_sha256 pepper typed digest = Inr True"
proof -
  from assms(2) obtain bs where "fill_bytes (replicate 10 0) = Inr bs"
    and code: "code = group_code (encode_base32 bs)"
    by (auto simp: recovery_code_generate_def result_simps RECOVERY_CODE_BYTES_def)
  with assms(1) have "length bs = 10" by fastforce
  then have n: "normalize_recovery_code code = Inr (encode_base32 bs)"
    unfolding code by (rule normalize_generated)
  moreover have "normalize_recovery_code typed = Inr (encode_base32 bs)"
    using normalize_cong [OF assms(4)] n by simp
  ultimately show ?thesis
    using assms(3) by (simp add: hash_recovery_code_def verify_recovery_code_def)
qed

theorem recovery_code_round_trip_witness:
  "\<exists>digest. hash_recovery_code (\<lambda>k m. k @ m) (replicate 16 7) (lit ''AAAA-AAAA-AAAA-AAAA'') = Inr digest
     \<and> verify_recovery_code (\<lambda>k m. k @ m) (replicate 16 7) (lit ''aaaa aaaa aaaaaaaa'') digest = Inr True"
proof -
  let ?fill = "\<lambda>dest :: bytes. Inr dest :: unit + bytes"
  have "length out = length dest" if "?fill dest = Inr out" for dest out using that by simp
  moreover have "recovery_code_generate ?fill = Inr (lit ''AAAA-AAAA-AAAA-AAAA'')" by code_simp
  moreover have "16 \<le> length (replicate 16 (7 :: u8))" by simp
  moreover have "code_symbols (lit ''aaaa aaaa aaaaaaaa'') = code_symbols (lit ''AAAA-AAAA-AAAA-AAAA'')"
    by code_simp
  ultimately show ?thesis by (rule recovery_code_round_trip)
qed

subsection \<open>TOTP\<close>

lemma totp_offset_bound: "unat (l AND 15 :: u8) \<le> 15"
proof -
  have "l AND 15 \<le> (15 :: u8)" by (rule word_and_le1)
  then show ?thesis by (simp add: word_le_nat_alt)
qed

lemma totp_value_total:
  assumes "length digest = 20"
  shows "\<exists>binary. totp_value digest digits = Some (binary mod 10 ^ unat digits)"
proof -
  let ?o = "unat (digest ! 19 AND 15)"
  have "?o + 3 < 20" using totp_offset_bound [of "digest ! 19"] by linarith
  with assms show ?thesis
    by (auto simp: totp_value_def index_byte_def Let_def)
qed

lemma unat_pow10:
  assumes "n \<le> 8"
  shows "unat ((10 :: u32) ^ n) = 10 ^ n"
proof -
  have "(10 :: nat) ^ n \<le> 10 ^ 8" using assms by (intro power_increasing) auto
  then have "(10 :: nat) ^ n < 2 ^ 32" by simp
  then have "unat (of_nat (10 ^ n) :: u32) = 10 ^ n" by (simp only: unat_of_nat) simp
  then show ?thesis by simp
qed

lemma decimal_digits: "c \<in> set (decimal n) \<Longrightarrow> 48 \<le> c \<and> c \<le> 57"
proof (induction n rule: decimal.induct)
  case (1 n)
  show ?case
  proof (cases "n < 10")
    case True
    with 1 show ?thesis by (auto simp: decimal.simps [of n])
  next
    case False
    with 1 show ?thesis by (auto simp: decimal.simps [of n])
  qed
qed

lemma length_decimal: "n < 10 ^ k \<Longrightarrow> 0 < k \<Longrightarrow> length (decimal n) \<le> k"
proof (induction n arbitrary: k rule: decimal.induct)
  case (1 n)
  show ?case
  proof (cases "n < 10")
    case True
    with 1 show ?thesis by (simp add: decimal.simps [of n])
  next
    case False
    obtain j where k: "k = Suc j" using 1 by (cases k) auto
    have "0 < j" using False "1.prems" k by (cases j) auto
    moreover have "n div 10 < 10 ^ j" using "1.prems" k by (simp add: less_mult_imp_div_less mult.commute)
    ultimately have "length (decimal (n div 10)) \<le> j" using "1.IH" [OF False] by simp
    with False k show ?thesis by (simp add: decimal.simps [of n])
  qed
qed

definition code_at :: "hmac \<Rightarrow> bytes \<Rightarrow> u64 \<Rightarrow> u32 \<Rightarrow> rstr" where
  "code_at hmac_sha1 secret step digits =
     zero_pad (unat digits)
       (decimal (unat (the (totp_value (hmac_sha1 secret (be_bytes step)) digits))))"

lemma verify_totp_step_eq:
  assumes "length (hmac_sha1 secret (be_bytes step)) = 20"
  shows "verify_totp_step hmac_sha1 secret code step digits =
    Some (str_bytes (code_at hmac_sha1 secret step digits) = code)"
  using totp_value_total [OF assms, of digits]
  by (auto simp: verify_totp_step_def code_at_def)

lemma wf_totp_config:
  assumes "totp_config_new p d k = Inr config"
  shows "config = \<lparr>tc_period_seconds = p, tc_digits = d, tc_allowed_skew_steps = k\<rparr>"
    and "15 \<le> p" and "6 \<le> unat d" and "unat d \<le> 8" and "unat k \<le> 2"
  using assms by (auto simp: totp_config_new_def not_less word_le_nat_alt split: if_splits)

text \<open>
  Verifying one TOTP step cannot index outside the digest or overflow the power of ten: with a
  20-byte HMAC-SHA-1 digest and an accepted configuration, the code of a step is defined, has
  exactly the configured number of characters, all decimal digits, and its value is below ten to
  that number.
\<close>

theorem totp_code_well_defined:
  assumes "\<And>k m. length (hmac_sha1 k m) = 20" and "totp_config_new p d k = Inr config"
  shows "\<exists>value. totp_value (hmac_sha1 secret (be_bytes step)) (tc_digits config) = Some value
    \<and> unat value < 10 ^ unat (tc_digits config)
    \<and> length (code_at hmac_sha1 secret step (tc_digits config)) = unat (tc_digits config)
    \<and> list_all (\<lambda>c. 48 \<le> c \<and> c \<le> 57) (code_at hmac_sha1 secret step (tc_digits config))"
proof -
  note c = wf_totp_config [OF assms(2)]
  obtain b where v: "totp_value (hmac_sha1 secret (be_bytes step)) d = Some (b mod 10 ^ unat d)"
    using totp_value_total assms(1) by blast
  have lt: "unat (b mod 10 ^ unat d) < 10 ^ unat d"
    by (simp add: unat_mod_distrib unat_pow10 c(4))
  then have "length (decimal (unat (b mod 10 ^ unat d))) \<le> unat d"
    using c(3) by (intro length_decimal) auto
  then show ?thesis
    using v lt c(1) by (auto simp: code_at_def zero_pad_def list_all_iff dest: decimal_digits)
qed

theorem totp_code_well_defined_witness:
  "totp_config_new 30 6 1 = Inr totp_config_default
   \<and> length (code_at (\<lambda>_ _. replicate 20 0) [] 7 6) = 6"
proof -
  let ?h = "\<lambda>(_ :: bytes) (_ :: bytes). replicate 20 (0 :: u8)"
  have c: "totp_config_new 30 6 1 = Inr totp_config_default"
    by (simp add: totp_config_new_def totp_config_default_def)
  have l: "length (?h k m) = 20" for k m by simp
  show ?thesis
    using c totp_code_well_defined [of ?h, OF l c, of "[]" 7] by (auto simp: totp_config_default_def)
qed

definition is_max :: "u64 option \<Rightarrow> u64 set \<Rightarrow> bool" where
  "is_max m A \<longleftrightarrow> m = (if A = {} then None else Some (Max A))"

lemma is_max_keep: "is_max m A \<Longrightarrow> is_max (keep_max m s) (insert s A)"
  by (auto simp: is_max_def keep_max_def max.commute split: if_splits)

lemma try_step_is_max:
  assumes "\<And>k m. length (hmac_sha1 k m) = 20" and "is_max m A"
  shows "\<exists>m'. try_step hmac_sha1 secret code digits cand m = Some m'
    \<and> is_max m' (A \<union> {s. cand = Some s \<and> str_bytes (code_at hmac_sha1 secret s digits) = code})"
proof (cases cand)
  case None
  with assms(2) show ?thesis by (simp add: try_step_def)
next
  case (Some s)
  have "{s'. cand = Some s' \<and> str_bytes (code_at hmac_sha1 secret s' digits) = code}
      = (if str_bytes (code_at hmac_sha1 secret s digits) = code then {s} else {})"
    using Some by auto
  with Some assms is_max_keep [OF assms(2), of s] show ?thesis
    by (simp add: try_step_def verify_totp_step_eq)
qed

lemma totp_scan_is_max:
  assumes "\<And>k m. length (hmac_sha1 k m) = 20" and "is_max m A"
  shows "\<exists>m'. totp_scan hmac_sha1 secret code digits step offsets m = Some m'
    \<and> is_max m' (A \<union> {s. (\<exists>o' \<in> set offsets. checked_sub step o' = Some s
          \<or> (o' \<noteq> 0 \<and> checked_add step o' = Some s))
        \<and> str_bytes (code_at hmac_sha1 secret s digits) = code})"
  using assms(2)
proof (induction offsets arbitrary: m A)
  case (Cons off offsets)
  let ?hit = "\<lambda>c s. c = Some s \<and> str_bytes (code_at hmac_sha1 secret s digits) = code"
  obtain m1 where m1: "try_step hmac_sha1 secret code digits (checked_sub step off) m = Some m1"
    "is_max m1 (A \<union> {s. ?hit (checked_sub step off) s})"
    using try_step_is_max [of hmac_sha1, OF assms(1) Cons.prems] by blast
  obtain m2 where m2: "(if off \<noteq> 0 then try_step hmac_sha1 secret code digits (checked_add step off) m1
        else Some m1) = Some m2"
    "is_max m2 (A \<union> {s. ?hit (checked_sub step off) s}
      \<union> {s. off \<noteq> 0 \<and> ?hit (checked_add step off) s})"
    using try_step_is_max [of hmac_sha1, OF assms(1) m1(2), of secret code digits "checked_add step off"]
      m1(2)
    by (cases "off = 0") auto
  have "A \<union> {s. ?hit (checked_sub step off) s} \<union> {s. off \<noteq> 0 \<and> ?hit (checked_add step off) s}
      \<union> {s. (\<exists>o' \<in> set offsets. checked_sub step o' = Some s
            \<or> (o' \<noteq> 0 \<and> checked_add step o' = Some s))
          \<and> str_bytes (code_at hmac_sha1 secret s digits) = code}
    = A \<union> {s. (\<exists>o' \<in> set (off # offsets). checked_sub step o' = Some s
            \<or> (o' \<noteq> 0 \<and> checked_add step o' = Some s))
          \<and> str_bytes (code_at hmac_sha1 secret s digits) = code}"
    by auto
  with Cons.IH [OF m2(2)] m1(1) m2(1) show ?case by simp
qed simp

text \<open>The time steps within the skew of the current one, and those whose code is the given one.\<close>

definition totp_window :: "u64 \<Rightarrow> nat \<Rightarrow> u64 set" where
  "totp_window step skew = {s. unat step \<le> unat s + skew \<and> unat s \<le> unat step + skew}"

lemma unat_of_nat_u64: "n < 2 ^ 64 \<Longrightarrow> unat (of_nat n :: u64) = n"
  by (simp add: unat_of_nat)

lemma totp_window_offsets:
  assumes "skew < 256"
  shows "{s. \<exists>o' \<in> set (map of_nat [0..<Suc skew]). checked_sub step o' = Some s
      \<or> (o' \<noteq> 0 \<and> checked_add step o' = Some s)} = totp_window step skew" (is "?L = ?R")
proof (intro set_eqI iffI)
  fix s assume "s \<in> ?L"
  then obtain n where "n \<le> skew" and s: "checked_sub step (of_nat n) = Some s
      \<or> checked_add step (of_nat n) = Some s"
    by (auto simp: less_Suc_eq_le simp del: upt_Suc)
  moreover have "unat (of_nat n :: u64) = n" using \<open>n \<le> skew\<close> assms by (intro unat_of_nat_u64) simp
  ultimately show "s \<in> ?R"
    by (auto simp: totp_window_def checked_sub_Some_iff checked_add_Some_iff)
next
  fix s assume s: "s \<in> ?R"
  define n where "n = (if unat s \<le> unat step then unat step - unat s else unat s - unat step)"
  have n: "n < Suc skew" using s by (auto simp: n_def totp_window_def)
  then have u: "unat (of_nat n :: u64) = n" using assms by (intro unat_of_nat_u64) simp
  have "checked_sub step (of_nat n) = Some s \<or> (of_nat n \<noteq> (0 :: u64) \<and> checked_add step (of_nat n) = Some s)"
  proof (cases "unat s \<le> unat step")
    case True
    then have "checked_sub step (of_nat n) = Some s"
      unfolding checked_sub_Some_iff u by (simp add: n_def)
    then show ?thesis ..
  next
    case False
    then have "n \<noteq> 0" by (simp add: n_def)
    then have "of_nat n \<noteq> (0 :: u64)" using u by (metis unsigned_0)
    moreover have "checked_add step (of_nat n) = Some s"
      using False unfolding checked_add_Some_iff u by (simp add: n_def)
    ultimately show ?thesis by simp
  qed
  with n show "s \<in> ?L" by (auto simp del: upt_Suc)
qed

text \<open>
  C24: TOTP verification accepts exactly inside the skew window and reports the latest match. For a
  well-formed code and secret, the result is the greatest time step that is at most the allowed skew
  away from the current one and whose code is the given one, and no step when there is none; steps
  below zero or beyond the 64-bit range are not considered. A short secret or a malformed code is
  refused before any digest is computed.
\<close>

theorem totp_accepts_exactly_the_window:
  assumes "\<And>k m. length (hmac_sha1 k m) = 20" and "totp_config_new p d k = Inr config"
  shows "verify_totp hmac_sha1 secret code now config =
    (if length secret < 16 then Some (Inl InvalidSecret)
     else if str_len code \<noteq> unat d \<or> \<not> list_all is_ascii_digit (str_bytes code)
     then Some (Inl InvalidCode)
     else let hits = {s \<in> totp_window (now div p) (unat k).
                str_bytes (code_at hmac_sha1 secret s d) = str_bytes code}
          in Some (Inr (if hits = {} then None else Some (Max hits))))"
proof -
  note c = wf_totp_config [OF assms(2)]
  have "p \<noteq> 0" using c(2) by (auto simp: word_le_nat_alt)
  let ?hits = "{s \<in> totp_window (now div p) (unat k).
    str_bytes (code_at hmac_sha1 secret s d) = str_bytes code}"
  have "is_max None {}" by (simp add: is_max_def)
  from totp_scan_is_max [of hmac_sha1, OF assms(1) this, of secret "str_bytes code" d "now div p"
      "map of_nat [0..<Suc (unat k)]"]
  have "totp_scan hmac_sha1 secret (str_bytes code) d (now div p) (map of_nat [0..<Suc (unat k)]) None
      = Some (if ?hits = {} then None else Some (Max ?hits))"
    using totp_window_offsets [of "unat k" "now div p"] c(5)
    by (simp only: is_max_def) (auto simp: Collect_conj_eq)
  with c(1) \<open>p \<noteq> 0\<close> show ?thesis
    by (simp add: verify_totp_def Let_def del: upt_Suc)
qed

theorem totp_accepts_exactly_the_window_witness:
  "verify_totp (\<lambda>_ _. replicate 20 0) (replicate 16 1) (lit ''000000'') 59 totp_config_default =
     (let hits = {s \<in> totp_window 1 1.
        str_bytes (code_at (\<lambda>_ _. replicate 20 0) (replicate 16 1) s 6) = str_bytes (lit ''000000'')}
      in Some (Inr (if hits = {} then None else Some (Max hits))))"
proof -
  let ?h = "\<lambda>(_ :: bytes) (_ :: bytes). replicate 20 (0 :: u8)"
  have c: "totp_config_new 30 6 1 = Inr totp_config_default"
    by (simp add: totp_config_new_def totp_config_default_def)
  have l: "length (?h k m) = 20" for k m by simp
  have "list_all is_ascii_digit (str_bytes (lit ''000000''))" and "str_len (lit ''000000'') = 6"
    by (simp_all add: is_ascii_digit_def)
  then show ?thesis
    using totp_accepts_exactly_the_window [of ?h, OF l c, of "replicate 16 1" "lit ''000000''" 59]
    by simp
qed

subsection \<open>Percent encoding\<close>

definition unhex :: "uchar \<Rightarrow> nat" where
  "unhex c = (if c < 58 then c - 48 else c - 55)"

fun percent_decode :: "rstr \<Rightarrow> bytes" where
  "percent_decode [] = []"
| "percent_decode (c # s) =
     (if c = 37 then (case s of h # l # rest \<Rightarrow> of_nat (16 * unhex h + unhex l) # percent_decode rest
                      | _ \<Rightarrow> [])
      else of_nat c # percent_decode s)"

lemma unhex_hex_digit: "n < 16 \<Longrightarrow> unhex (hex_digit n) = n"
  by (auto simp: unhex_def hex_digit_def)

lemma unreserved_not_percent: "unreserved_byte b \<Longrightarrow> unat b \<noteq> 37"
proof
  assume "unreserved_byte b" and "unat b = 37"
  then have "b = 37" by (simp add: word_unat_eq_iff)
  with \<open>unreserved_byte b\<close> show False
    by (simp add: unreserved_byte_def is_ascii_alphanumeric_def is_ascii_digit_def)
qed

lemma percent_decode_encode_byte:
  "percent_decode (percent_encode_byte b @ rest) = b # percent_decode rest"
proof -
  have "unat b < 2 ^ LENGTH(8)" by (rule unsigned_less)
  then have "unat b div 16 < 16" and "unat b mod 16 < 16" by (simp_all add: less_mult_imp_div_less)
  then have "of_nat (16 * unhex (hex_digit (unat b div 16)) + unhex (hex_digit (unat b mod 16))) = b"
    by (simp add: unhex_hex_digit)
  then show ?thesis
    by (cases "unreserved_byte b") (simp_all add: percent_encode_byte_def unreserved_not_percent)
qed

definition uri_char :: "uchar \<Rightarrow> bool" where
  "uri_char c \<longleftrightarrow> (48 \<le> c \<and> c \<le> 57) \<or> (65 \<le> c \<and> c \<le> 90) \<or> (97 \<le> c \<and> c \<le> 122)
     \<or> c = 37 \<or> c = 45 \<or> c = 46 \<or> c = 95 \<or> c = 126"

lemma hex_digit_uri_char: "n < 16 \<Longrightarrow> uri_char (hex_digit n)"
  by (auto simp: uri_char_def hex_digit_def)

lemma unreserved_uri_char: "unreserved_byte b \<Longrightarrow> uri_char (unat b)"
  by (auto simp: uri_char_def unreserved_byte_def is_ascii_alphanumeric_def is_ascii_digit_def
      word_le_nat_alt)

lemma percent_encode_byte_uri_char: "list_all uri_char (percent_encode_byte b)"
proof (cases "unreserved_byte b")
  case True
  then show ?thesis by (simp add: percent_encode_byte_def unreserved_uri_char)
next
  case False
  have "unat b < 2 ^ LENGTH(8)" by (rule unsigned_less)
  then have "unat b div 16 < 16" and "unat b mod 16 < 16" by (simp_all add: less_mult_imp_div_less)
  with False show ?thesis
    by (simp add: percent_encode_byte_def hex_digit_uri_char) (simp add: uri_char_def)
qed

lemma percent_encode_uri_char: "c \<in> set (percent_encode value) \<Longrightarrow> uri_char c"
  using percent_encode_byte_uri_char by (auto simp: percent_encode_def list_all_iff)

text \<open>
  Percent encoding is reversible and safe to embed in the enrollment URI. Decoding the encoded
  text gives back the UTF-8 bytes of the value, and the encoded text never contains one of the
  characters that delimit the parts of the URI.
\<close>

theorem percent_encode_round_trip:
  "percent_decode (percent_encode value) = str_bytes value
   \<and> set (percent_encode value) \<inter> set (lit ''/:?&= #'') = {}"
proof
  have "percent_decode (concat (map percent_encode_byte bs)) = bs" for bs
    by (induction bs) (simp_all add: percent_decode_encode_byte)
  then show "percent_decode (percent_encode value) = str_bytes value"
    by (simp add: percent_encode_def)
  have "list_all (\<lambda>c. \<not> uri_char c) (lit ''/:?&= #'')"
    by (simp add: uri_char_def)
  then show "set (percent_encode value) \<inter> set (lit ''/:?&= #'') = {}"
    using percent_encode_uri_char unfolding list_all_iff by blast
qed

text \<open>
  C25: the Base32 text of a secret is the RFC 4648 encoding without padding: it equals the bit-level
  reference, one symbol of the alphabet for every started group of five bits, and decoding it gives
  the secret back. The bits shifted out of the 32-bit accumulator never matter.
\<close>

theorem base32_matches_reference:
  "encode_base32 bs = b32_groups (byte_bits bs)
   \<and> length (encode_base32 bs) = (8 * length bs + 4) div 5
   \<and> set (encode_base32 bs) \<subseteq> set BASE32_ALPHABET
   \<and> decode_base32 (encode_base32 bs) = bs"
  using encode_base32_groups [of bs] length_encode_base32 [of bs] set_b32_groups [of "byte_bits bs"]
    decode_encode_base32 [of bs]
  by simp

end
