(* ===== verification/Rebac_Model.thy ===== *)
theory Rebac_Model
  imports Rust_Prelude
begin

section \<open>Authorization models and relationship tuples\<close>

text \<open>
  Models the data side of the linear evaluator under \<open>src/crates/wasi-auth/src/testkit/evaluator/\<close>:
  \<open>error.rs\<close>, \<open>types.rs\<close>, \<open>tuple.rs\<close>, \<open>model.rs\<close> and \<open>storage.rs\<close>. The JSON reader and writer are
  parameters. The newtypes \<open>SubjectRef\<close>, \<open>ObjectRef\<close>, \<open>TenantRef\<close> and \<open>Relation\<close> are their text.
\<close>

subsection \<open>Errors\<close>

datatype authz_error =
  Validation rstr
| UnknownModel
| UnknownObjectType rstr
| UnknownRelation rstr
| MaxDepthExceeded
| MaxNodesExceeded
| CycleDetected

fun public_code :: "authz_error \<Rightarrow> rstr" where
  "public_code (Validation _) = lit ''validation''"
| "public_code UnknownModel = lit ''unknown_model''"
| "public_code (UnknownObjectType _) = lit ''unknown_object_type''"
| "public_code (UnknownRelation _) = lit ''unknown_relation''"
| "public_code MaxDepthExceeded = lit ''max_depth_exceeded''"
| "public_code MaxNodesExceeded = lit ''max_nodes_exceeded''"
| "public_code CycleDetected = lit ''cycle_detected''"

definition quoted :: "rstr \<Rightarrow> rstr" where
  "quoted s = [96] @ s @ [96]"

fun authz_error_display :: "authz_error \<Rightarrow> rstr" where
  "authz_error_display (Validation message) = message"
| "authz_error_display UnknownModel = lit ''authorization model is unknown''"
| "authz_error_display (UnknownObjectType t) = lit ''object type '' @ quoted t @ lit '' is unknown''"
| "authz_error_display (UnknownRelation r) = lit ''relation '' @ quoted r @ lit '' is unknown''"
| "authz_error_display MaxDepthExceeded = lit ''authorization check exceeded max depth''"
| "authz_error_display MaxNodesExceeded = lit ''authorization check exceeded max node count''"
| "authz_error_display CycleDetected = lit ''authorization model contains a relation cycle''"

subsection \<open>References\<close>

type_synonym subject_ref = rstr
type_synonym object_ref = rstr
type_synonym tenant_ref = rstr
type_synonym relation = rstr

definition validate_ref :: "rstr \<Rightarrow> rstr \<Rightarrow> authz_error + unit" where
  "validate_ref label value =
     (case split_once 58 value of
        None \<Rightarrow> Inl (Validation (label @ lit '' must use type:id syntax''))
      | Some (ty, rid) \<Rightarrow>
          if trim ty = [] \<or> trim rid = []
          then Inl (Validation (label @ lit '' must use non-empty type and id''))
          else Inr ())"

definition ref_new :: "rstr \<Rightarrow> rstr \<Rightarrow> authz_error + rstr" where
  "ref_new label value = rbind (validate_ref label value) (\<lambda>_. Inr value)"

definition object_ref_new :: "rstr \<Rightarrow> authz_error + object_ref" where
  "object_ref_new value = ref_new (lit ''ObjectRef'') value"

definition type_name :: "rstr \<Rightarrow> rstr" where
  "type_name self = (case split_once 58 self of Some (ty, _) \<Rightarrow> ty | None \<Rightarrow> [])"

definition relation_new :: "rstr \<Rightarrow> authz_error + relation" where
  "relation_new value =
     (if trim value = [] then Inl (Validation (lit ''relation must not be empty'')) else Inr value)"

subsection \<open>Tuples\<close>

record relationship_tuple =
  rt_subject :: subject_ref
  rt_relation :: relation
  rt_object :: object_ref
  rt_condition :: "rstr option"
  rt_tenant_id :: "tenant_ref option"

definition relationship_tuple_new ::
  "subject_ref \<Rightarrow> relation \<Rightarrow> object_ref \<Rightarrow> relationship_tuple" where
  "relationship_tuple_new subject rel object =
     \<lparr>rt_subject = subject, rt_relation = rel, rt_object = object, rt_condition = None,
      rt_tenant_id = None\<rparr>"

definition with_condition :: "relationship_tuple \<Rightarrow> rstr \<Rightarrow> relationship_tuple" where
  "with_condition self condition = self\<lparr>rt_condition := Some condition\<rparr>"

definition with_tenant :: "relationship_tuple \<Rightarrow> tenant_ref \<Rightarrow> relationship_tuple" where
  "with_tenant self tenant_id = self\<lparr>rt_tenant_id := Some tenant_id\<rparr>"

subsection \<open>Rewrites and models\<close>

datatype rewrite =
  Direct
| ComputedUserset relation
| TupleToUserset relation relation
| Union "rewrite list"
| Intersection "rewrite list"
| Exclusion rewrite rewrite
| Condition rstr

record relation_definition =
  rd_rewrite :: rewrite

record object_type =
  ot_name :: rstr
  ot_relations :: "(rstr, relation_definition) fmap"

record authorization_model =
  am_model_id :: rstr
  am_schema_version :: rstr
  am_types :: "(rstr, object_type) fmap"

definition authorization_model_new :: "rstr \<Rightarrow> authorization_model" where
  "authorization_model_new model_id =
     \<lparr>am_model_id = model_id, am_schema_version = lit ''1.0'', am_types = fmempty\<rparr>"

definition with_type :: "authorization_model \<Rightarrow> object_type \<Rightarrow> authorization_model" where
  "with_type self object_type =
     self\<lparr>am_types := fmupd (ot_name object_type) object_type (am_types self)\<rparr>"

definition object_type_new :: "rstr \<Rightarrow> object_type" where
  "object_type_new name = \<lparr>ot_name = name, ot_relations = fmempty\<rparr>"

definition with_relation :: "object_type \<Rightarrow> relation \<Rightarrow> relation_definition \<Rightarrow> object_type" where
  "with_relation self rel definition =
     self\<lparr>ot_relations := fmupd rel definition (ot_relations self)\<rparr>"

definition validate_relation_ref ::
  "rstr \<Rightarrow> rstr \<Rightarrow> rstr \<Rightarrow> relation \<Rightarrow> authz_error + unit" where
  "validate_relation_ref tyname rname label rel =
     (if trim rel = []
      then Inl (Validation (tyname @ lit ''.'' @ rname @ lit '' '' @ label
                  @ lit '' must not be empty''))
      else Inr ())"

fun rewrite_validate :: "rstr \<Rightarrow> rstr \<Rightarrow> rewrite \<Rightarrow> authz_error + unit"
  and rewrites_validate :: "rstr \<Rightarrow> rstr \<Rightarrow> rewrite list \<Rightarrow> authz_error + unit" where
  "rewrite_validate tn rn Direct = Inr ()"
| "rewrite_validate tn rn (ComputedUserset rel) =
     validate_relation_ref tn rn (lit ''computed userset relation'') rel"
| "rewrite_validate tn rn (TupleToUserset tupleset_relation computed_relation) =
     rbind (validate_relation_ref tn rn (lit ''tuple-to-userset tupleset relation'') tupleset_relation)
       (\<lambda>_. validate_relation_ref tn rn (lit ''tuple-to-userset computed relation'') computed_relation)"
| "rewrite_validate tn rn (Union children) =
     (if children = []
      then Inl (Validation (tn @ lit ''.'' @ rn @ lit '' rewrite must have at least one child''))
      else rewrites_validate tn rn children)"
| "rewrite_validate tn rn (Intersection children) =
     (if children = []
      then Inl (Validation (tn @ lit ''.'' @ rn @ lit '' rewrite must have at least one child''))
      else rewrites_validate tn rn children)"
| "rewrite_validate tn rn (Exclusion base subtract) =
     rbind (rewrite_validate tn rn base) (\<lambda>_. rewrite_validate tn rn subtract)"
| "rewrite_validate tn rn (Condition name) =
     (if trim name = []
      then Inl (Validation (tn @ lit ''.'' @ rn @ lit '' condition name must not be empty''))
      else Inr ())"
| "rewrites_validate tn rn [] = Inr ()"
| "rewrites_validate tn rn (child # children) =
     rbind (rewrite_validate tn rn child) (\<lambda>_. rewrites_validate tn rn children)"

text \<open>A \<open>for\<close> loop whose body only validates: it stops at the first error.\<close>

fun for_each :: "('a \<Rightarrow> 'e + unit) \<Rightarrow> 'a list \<Rightarrow> 'e + unit" where
  "for_each body [] = Inr ()"
| "for_each body (x # xs) = rbind (body x) (\<lambda>_. for_each body xs)"

definition validate_relation_entry ::
  "rstr \<Rightarrow> rstr \<times> relation_definition \<Rightarrow> authz_error + unit" where
  "validate_relation_entry tyname entry =
     (case entry of (rname, definition) \<Rightarrow>
        if trim rname = []
        then Inl (Validation (lit ''object type '' @ quoted tyname
                    @ lit '' has an empty relation name''))
        else rewrite_validate tyname rname (rd_rewrite definition))"

definition validate_type_entry :: "rstr \<times> object_type \<Rightarrow> authz_error + unit" where
  "validate_type_entry entry =
     (case entry of (tyname, object_type) \<Rightarrow>
        if trim tyname = [] \<or> trim (ot_name object_type) = []
        then Inl (Validation (lit ''object type name must not be empty''))
        else if tyname \<noteq> ot_name object_type
        then Inl (Validation (lit ''object type key '' @ quoted tyname
                    @ lit '' does not match object type name '' @ quoted (ot_name object_type)))
        else if ot_relations object_type = fmempty
        then Inl (Validation (lit ''object type '' @ quoted tyname
                    @ lit '' must define at least one relation''))
        else for_each (validate_relation_entry tyname)
               (sorted_list_of_fmap (ot_relations object_type)))"

definition model_validate :: "authorization_model \<Rightarrow> authz_error + unit" where
  "model_validate self =
     (if trim (am_model_id self) = []
      then Inl (Validation (lit ''model_id must not be empty''))
      else if trim (am_schema_version self) = []
      then Inl (Validation (lit ''schema_version must not be empty''))
      else if am_types self = fmempty
      then Inl (Validation (lit ''authorization model must define at least one object type''))
      else for_each validate_type_entry (sorted_list_of_fmap (am_types self)))"

definition model_from_json ::
  "(rstr \<Rightarrow> rstr + authorization_model) \<Rightarrow> rstr \<Rightarrow> authz_error + authorization_model" where
  "model_from_json parse value =
     rbind (map_err (\<lambda>error. Validation (lit ''authorization model JSON is invalid: '' @ error))
              (parse value))
       (\<lambda>model. rbind (model_validate model) (\<lambda>_. Inr model))"

definition model_to_json ::
  "(authorization_model \<Rightarrow> rstr + rstr) \<Rightarrow> authorization_model \<Rightarrow> authz_error + rstr" where
  "model_to_json serialize self =
     rbind (model_validate self) (\<lambda>_.
       map_err (\<lambda>error. Validation (lit ''authorization model JSON serialization failed: '' @ error))
         (serialize self))"

subsection \<open>Storage contracts\<close>

record authz_event_stream_contract =
  sc_stream_name :: rstr
  sc_aggregate_type :: rstr
  sc_id_prefix :: rstr

record authz_read_model_contract =
  rm_name :: rstr
  rm_primary_key :: rstr
  rm_purpose :: rstr

definition AUTHZ_STREAMS :: "authz_event_stream_contract list" where
  "AUTHZ_STREAMS =
     [\<lparr>sc_stream_name = lit ''authz.models'', sc_aggregate_type = lit ''authz_model'',
       sc_id_prefix = lit ''authz_model''\<rparr>,
      \<lparr>sc_stream_name = lit ''authz.tuple_sets'', sc_aggregate_type = lit ''authz_tuple_set'',
       sc_id_prefix = lit ''authz_tuple_set''\<rparr>,
      \<lparr>sc_stream_name = lit ''authz.assertions'', sc_aggregate_type = lit ''authz_assertion_set'',
       sc_id_prefix = lit ''authz_assertion''\<rparr>]"

definition AUTHZ_READ_MODELS :: "authz_read_model_contract list" where
  "AUTHZ_READ_MODELS =
     [\<lparr>rm_name = lit ''authz_active_model'', rm_primary_key = lit ''tenant_id'',
       rm_purpose = lit ''active authorization model selected for tenant checks''\<rparr>,
      \<lparr>rm_name = lit ''authz_relationship_tuples'',
       rm_primary_key = lit ''tenant_id, object_ref, relation, subject_ref'',
       rm_purpose = lit ''canonical ReBAC relationship tuple projection''\<rparr>,
      \<lparr>rm_name = lit ''authz_tuple_index_by_subject'',
       rm_primary_key = lit ''tenant_id, subject_ref, relation, object_ref'',
       rm_purpose = lit ''list objects and reverse lookup by subject''\<rparr>,
      \<lparr>rm_name = lit ''authz_tuple_index_by_object'',
       rm_primary_key = lit ''tenant_id, object_ref, relation, subject_ref'',
       rm_purpose = lit ''list users and relationship lookup by object''\<rparr>,
      \<lparr>rm_name = lit ''authz_check_audit'', rm_primary_key = lit ''tenant_id, check_id'',
       rm_purpose = lit ''optional decision audit log for sampled authorization checks''\<rparr>]"

definition authz_stream_contract :: "rstr \<Rightarrow> authz_event_stream_contract option" where
  "authz_stream_contract aggregate_type =
     find (\<lambda>contract. sc_aggregate_type contract = aggregate_type) AUTHZ_STREAMS"

definition authz_read_model_contract :: "rstr \<Rightarrow> authz_read_model_contract option" where
  "authz_read_model_contract name = find (\<lambda>contract. rm_name contract = name) AUTHZ_READ_MODELS"

subsection \<open>Well-formed models\<close>

fun wf_rewrite :: "rewrite \<Rightarrow> bool" where
  "wf_rewrite Direct \<longleftrightarrow> True"
| "wf_rewrite (ComputedUserset rel) \<longleftrightarrow> trim rel \<noteq> []"
| "wf_rewrite (TupleToUserset tr cr) \<longleftrightarrow> trim tr \<noteq> [] \<and> trim cr \<noteq> []"
| "wf_rewrite (Union cs) \<longleftrightarrow> cs \<noteq> [] \<and> (\<forall>c \<in> set cs. wf_rewrite c)"
| "wf_rewrite (Intersection cs) \<longleftrightarrow> cs \<noteq> [] \<and> (\<forall>c \<in> set cs. wf_rewrite c)"
| "wf_rewrite (Exclusion b s) \<longleftrightarrow> wf_rewrite b \<and> wf_rewrite s"
| "wf_rewrite (Condition name) \<longleftrightarrow> trim name \<noteq> []"

definition wf_model :: "authorization_model \<Rightarrow> bool" where
  "wf_model m \<longleftrightarrow>
     trim (am_model_id m) \<noteq> [] \<and> trim (am_schema_version m) \<noteq> [] \<and> am_types m \<noteq> fmempty
     \<and> (\<forall>tn ot. fmlookup (am_types m) tn = Some ot \<longrightarrow>
          trim tn \<noteq> [] \<and> ot_name ot = tn \<and> ot_relations ot \<noteq> fmempty
          \<and> (\<forall>rn def. fmlookup (ot_relations ot) rn = Some def \<longrightarrow>
               trim rn \<noteq> [] \<and> wf_rewrite (rd_rewrite def)))"

lemma for_each_Inr_iff:
  "for_each body xs = Inr u \<longleftrightarrow> (\<forall>x \<in> set xs. body x = Inr ())"
  by (induction xs) (auto simp: result_simps)

lemma validate_relation_ref_Inr_iff [result_simps]:
  "validate_relation_ref tn rn label rel = Inr u \<longleftrightarrow> trim rel \<noteq> []"
  by (simp add: validate_relation_ref_def)

lemma rewrite_validate_Inr_iff [result_simps]:
  "rewrite_validate tn rn rw = Inr u \<longleftrightarrow> wf_rewrite rw"
  "rewrites_validate tn rn rws = Inr u \<longleftrightarrow> (\<forall>c \<in> set rws. wf_rewrite c)"
  by (induction tn rn rw and tn rn rws rule: rewrite_validate_rewrites_validate.induct)
    (auto simp: result_simps)

lemma set_sorted_list_of_fmap:
  "(k, v) \<in> set (sorted_list_of_fmap m) \<longleftrightarrow> fmlookup m k = Some v"
proof -
  have "distinct (map fst (sorted_list_of_fmap m))"
    by (simp add: sorted_list_of_fmap_def comp_def)
  then have "(k, v) \<in> set (sorted_list_of_fmap m) \<longleftrightarrow> map_of (sorted_list_of_fmap m) k = Some v"
    by (metis map_of_eq_Some_iff)
  then show ?thesis by simp
qed

lemma for_each_fmap_Inr_iff [result_simps]:
  "for_each body (sorted_list_of_fmap m) = Inr u \<longleftrightarrow>
     (\<forall>k v. fmlookup m k = Some v \<longrightarrow> body (k, v) = Inr ())"
  unfolding for_each_Inr_iff by (metis set_sorted_list_of_fmap surj_pair)

lemma validate_relation_entry_Inr_iff [result_simps]:
  "validate_relation_entry tn (rn, def) = Inr u \<longleftrightarrow> trim rn \<noteq> [] \<and> wf_rewrite (rd_rewrite def)"
  by (simp add: validate_relation_entry_def result_simps)

lemma validate_type_entry_Inr_iff [result_simps]:
  "validate_type_entry (tn, ot) = Inr u \<longleftrightarrow>
     trim tn \<noteq> [] \<and> ot_name ot = tn \<and> ot_relations ot \<noteq> fmempty
     \<and> (\<forall>rn def. fmlookup (ot_relations ot) rn = Some def \<longrightarrow>
          trim rn \<noteq> [] \<and> wf_rewrite (rd_rewrite def))"
  by (auto simp: validate_type_entry_def result_simps)

text \<open>
  Model validation accepts exactly the well-formed models: named and versioned, at least one
  object type, every type stored under its own non-blank name with at least one relation, no blank
  relation or condition name anywhere, and no empty union or intersection at any depth.
\<close>

theorem model_validate_exact: "model_validate m = Inr () \<longleftrightarrow> wf_model m"
  by (auto simp: model_validate_def wf_model_def result_simps)

end
