(* ===== verification/Rebac_Engine.thy ===== *)
theory Rebac_Engine
  imports Rebac_Model
begin

section \<open>The relationship evaluator\<close>

text \<open>
  Models \<open>src/crates/wasi-auth/src/testkit/evaluator/engine.rs\<close>. \<open>EvaluationState\<close> is threaded
  through every call, on the error paths too, because the code mutates it in place and removes the
  key from the stack before it propagates an error. The \<open>for\<close> loops of \<open>eval_rewrite\<close> and
  \<open>expand_rewrite\<close> are the functions \<open>eval_tuples\<close>, \<open>eval_any\<close>, \<open>eval_all\<close>, \<open>expand_tuples\<close> and
  \<open>expand_children\<close>. Depths and counters are \<open>usize\<close> values far below their range: the depth grows
  by one per nested call and the visit counter stops at \<open>max_nodes\<close>.
\<close>

record authz_context =
  cx_tenant_id :: "tenant_ref option"
  cx_attributes :: "(rstr, rstr) fmap"
  cx_token_claims :: "(rstr, rstr) fmap"
  cx_contextual_tuples :: "relationship_tuple list"

definition authz_context_default :: authz_context where
  "authz_context_default =
     \<lparr>cx_tenant_id = None, cx_attributes = fmempty, cx_token_claims = fmempty,
      cx_contextual_tuples = []\<rparr>"

record authz_decision =
  ad_allowed :: bool
  ad_model_id :: rstr
  ad_reason :: "rstr option"
  ad_visited :: nat

definition authz_decision_allow :: "rstr \<Rightarrow> nat \<Rightarrow> authz_decision" where
  "authz_decision_allow model_id visited =
     \<lparr>ad_allowed = True, ad_model_id = model_id, ad_reason = None, ad_visited = visited\<rparr>"

definition authz_decision_deny :: "rstr \<Rightarrow> rstr \<Rightarrow> nat \<Rightarrow> authz_decision" where
  "authz_decision_deny model_id reason visited =
     \<lparr>ad_allowed = False, ad_model_id = model_id, ad_reason = Some reason, ad_visited = visited\<rparr>"

record evaluator =
  ev_model :: authorization_model
  ev_tuples :: "relationship_tuple list"
  ev_max_depth :: nat
  ev_max_nodes :: nat

definition evaluator_new :: "authorization_model \<Rightarrow> relationship_tuple list \<Rightarrow> evaluator" where
  "evaluator_new model tuples =
     \<lparr>ev_model = model, ev_tuples = tuples, ev_max_depth = 32, ev_max_nodes = 1024\<rparr>"

definition with_max_depth :: "evaluator \<Rightarrow> nat \<Rightarrow> evaluator" where
  "with_max_depth self max_depth = self\<lparr>ev_max_depth := max_depth\<rparr>"

definition with_max_nodes :: "evaluator \<Rightarrow> nat \<Rightarrow> evaluator" where
  "with_max_nodes self max_nodes = self\<lparr>ev_max_nodes := max_nodes\<rparr>"

type_synonym eval_key = "subject_ref \<times> relation \<times> object_ref"

record evaluation_state =
  es_visited :: nat
  es_stack :: "eval_key fset"
  es_memo :: "(eval_key, bool) fmap"

definition evaluation_state_default :: evaluation_state where
  "evaluation_state_default = \<lparr>es_visited = 0, es_stack = {||}, es_memo = fmempty\<rparr>"

subsection \<open>Tuples and conditions\<close>

definition condition_matches :: "rstr \<Rightarrow> authz_context \<Rightarrow> bool" where
  "condition_matches name context =
     (case split_once 61 name of
        Some (key, expected) \<Rightarrow>
          (case (case fmlookup (cx_attributes context) key of
                   Some v \<Rightarrow> Some v | None \<Rightarrow> fmlookup (cx_token_claims context) key) of
             Some actual \<Rightarrow> actual = expected
           | None \<Rightarrow> False)
      | None \<Rightarrow>
          (case (case fmlookup (cx_attributes context) name of
                   Some v \<Rightarrow> Some v | None \<Rightarrow> fmlookup (cx_token_claims context) name) of
             Some actual \<Rightarrow> actual \<in> {lit ''true'', lit ''1'', lit ''yes''}
           | None \<Rightarrow> False))"

definition all_tuples :: "evaluator \<Rightarrow> authz_context \<Rightarrow> relationship_tuple list" where
  "all_tuples self context = ev_tuples self @ cx_contextual_tuples context"

definition tuple_tenant_matches :: "relationship_tuple \<Rightarrow> authz_context \<Rightarrow> bool" where
  "tuple_tenant_matches tuple context =
     (case (cx_tenant_id context, rt_tenant_id tuple) of
        (Some expected, Some actual) \<Rightarrow> expected = actual
      | (Some _, None) \<Rightarrow> True
      | (None, _) \<Rightarrow> True)"

definition tuple_condition_matches :: "relationship_tuple \<Rightarrow> authz_context \<Rightarrow> bool" where
  "tuple_condition_matches tuple context =
     (case rt_condition tuple of Some condition \<Rightarrow> condition_matches condition context | None \<Rightarrow> True)"

definition direct_match ::
  "evaluator \<Rightarrow> authz_context \<Rightarrow> subject_ref \<Rightarrow> relation \<Rightarrow> object_ref \<Rightarrow> bool" where
  "direct_match self context subject rel object \<longleftrightarrow>
     list_ex (\<lambda>tuple. rt_subject tuple = subject \<and> rt_relation tuple = rel
         \<and> rt_object tuple = object \<and> tuple_tenant_matches tuple context
         \<and> tuple_condition_matches tuple context)
       (all_tuples self context)"

text \<open>The filter of the \<open>TupleToUserset\<close> and expansion loops.\<close>

definition matching_tuples ::
  "evaluator \<Rightarrow> authz_context \<Rightarrow> relation \<Rightarrow> object_ref \<Rightarrow> relationship_tuple list" where
  "matching_tuples self context rel object =
     filter (\<lambda>tuple. rt_object tuple = object \<and> rt_relation tuple = rel
         \<and> tuple_tenant_matches tuple context \<and> tuple_condition_matches tuple context)
       (all_tuples self context)"

definition relation_definition_of ::
  "evaluator \<Rightarrow> object_ref \<Rightarrow> relation \<Rightarrow> authz_error + relation_definition" where
  "relation_definition_of self object rel =
     (let object_type = type_name object in
      rbind (ok_or (UnknownObjectType object_type) (fmlookup (am_types (ev_model self)) object_type))
        (\<lambda>definition_type. ok_or (UnknownRelation rel) (fmlookup (ot_relations definition_type) rel)))"

definition ensure_relation :: "evaluator \<Rightarrow> object_ref \<Rightarrow> relation \<Rightarrow> authz_error + unit" where
  "ensure_relation self object rel = map_ok (\<lambda>_. ()) (relation_definition_of self object rel)"

definition enter ::
  "evaluator \<Rightarrow> eval_key \<Rightarrow> evaluation_state \<Rightarrow> nat \<Rightarrow> (authz_error + unit) \<times> evaluation_state" where
  "enter self key state depth =
     (if depth > ev_max_depth self then (Inl MaxDepthExceeded, state)
      else if es_visited state \<ge> ev_max_nodes self then (Inl MaxNodesExceeded, state)
      else if key |\<in>| es_stack state then (Inl CycleDetected, state)
      else (Inr (), state\<lparr>es_visited := es_visited state + 1,
                          es_stack := finsert key (es_stack state)\<rparr>))"

definition leave :: "eval_key \<Rightarrow> evaluation_state \<Rightarrow> evaluation_state" where
  "leave key state = state\<lparr>es_stack := es_stack state |-| {|key|}\<rparr>"

definition remember :: "eval_key \<Rightarrow> bool \<Rightarrow> evaluation_state \<Rightarrow> evaluation_state" where
  "remember key allowed state = state\<lparr>es_memo := fmupd key allowed (es_memo state)\<rparr>"

subsection \<open>Checks\<close>

text \<open>
  The recursion ends because the depth is checked on entry and grows on every nested call, and
  because the operators of a rewrite are nested finitely. The first measure is the remaining depth;
  the second orders the functions at equal depth; the third is the size of what is left to do.
\<close>

definition depth_left :: "evaluator \<Rightarrow> nat \<Rightarrow> nat" where
  "depth_left ev depth = Suc (ev_max_depth ev) - depth"

function (sequential)
  check_inner ::
    "evaluator \<Rightarrow> authz_context \<Rightarrow> subject_ref \<Rightarrow> relation \<Rightarrow> object_ref \<Rightarrow> evaluation_state \<Rightarrow> nat \<Rightarrow>
     (authz_error + bool) \<times> evaluation_state" and
  eval_rewrite ::
    "evaluator \<Rightarrow> authz_context \<Rightarrow> subject_ref \<Rightarrow> relation \<Rightarrow> object_ref \<Rightarrow> rewrite \<Rightarrow>
     evaluation_state \<Rightarrow> nat \<Rightarrow> (authz_error + bool) \<times> evaluation_state" and
  eval_tuples ::
    "evaluator \<Rightarrow> authz_context \<Rightarrow> subject_ref \<Rightarrow> relation \<Rightarrow> relationship_tuple list \<Rightarrow>
     evaluation_state \<Rightarrow> nat \<Rightarrow> (authz_error + bool) \<times> evaluation_state" and
  eval_any ::
    "evaluator \<Rightarrow> authz_context \<Rightarrow> subject_ref \<Rightarrow> relation \<Rightarrow> object_ref \<Rightarrow> rewrite list \<Rightarrow>
     evaluation_state \<Rightarrow> nat \<Rightarrow> (authz_error + bool) \<times> evaluation_state" and
  eval_all ::
    "evaluator \<Rightarrow> authz_context \<Rightarrow> subject_ref \<Rightarrow> relation \<Rightarrow> object_ref \<Rightarrow> rewrite list \<Rightarrow>
     evaluation_state \<Rightarrow> nat \<Rightarrow> (authz_error + bool) \<times> evaluation_state" where
  "check_inner ev cx s r ob st d =
     (case fmlookup (es_memo st) (s, r, ob) of
        Some allowed \<Rightarrow> (Inr allowed, st)
      | None \<Rightarrow>
          (case enter ev (s, r, ob) st d of
             (Inl e, st1) \<Rightarrow> (Inl e, st1)
           | (Inr _, st1) \<Rightarrow>
               (case (case relation_definition_of ev ob r of
                        Inl e \<Rightarrow> (Inl e, st1)
                      | Inr definition \<Rightarrow>
                          eval_rewrite ev cx s r ob (rd_rewrite definition) st1 d) of
                  (Inl e, st2) \<Rightarrow> (Inl e, leave (s, r, ob) st2)
                | (Inr allowed, st2) \<Rightarrow>
                    (Inr allowed, remember (s, r, ob) allowed (leave (s, r, ob) st2)))))"
| "eval_rewrite ev cx s r ob Direct st d = (Inr (direct_match ev cx s r ob), st)"
| "eval_rewrite ev cx s r ob (ComputedUserset computed_relation) st d =
     check_inner ev cx s computed_relation ob st (d + 1)"
| "eval_rewrite ev cx s r ob (TupleToUserset tupleset_relation computed_relation) st d =
     eval_tuples ev cx s computed_relation (matching_tuples ev cx tupleset_relation ob) st (d + 1)"
| "eval_rewrite ev cx s r ob (Union children) st d = eval_any ev cx s r ob children st (d + 1)"
| "eval_rewrite ev cx s r ob (Intersection children) st d = eval_all ev cx s r ob children st (d + 1)"
| "eval_rewrite ev cx s r ob (Exclusion base subtract) st d =
     (case eval_rewrite ev cx s r ob base st (d + 1) of
        (Inl e, st1) \<Rightarrow> (Inl e, st1)
      | (Inr base_allowed, st1) \<Rightarrow>
          if \<not> base_allowed then (Inr False, st1)
          else
            (case eval_rewrite ev cx s r ob subtract st1 (d + 1) of
               (Inl e, st2) \<Rightarrow> (Inl e, st2)
             | (Inr subtract_allowed, st2) \<Rightarrow> (Inr (\<not> subtract_allowed), st2)))"
| "eval_rewrite ev cx s r ob (Condition name) st d = (Inr (condition_matches name cx), st)"
| "eval_tuples ev cx s computed_relation [] st d = (Inr False, st)"
| "eval_tuples ev cx s computed_relation (tuple # tuples) st d =
     (case object_ref_new (rt_subject tuple) of
        Inl e \<Rightarrow> (Inl e, st)
      | Inr related_object \<Rightarrow>
          (case check_inner ev cx s computed_relation related_object st d of
             (Inl e, st1) \<Rightarrow> (Inl e, st1)
           | (Inr allowed, st1) \<Rightarrow>
               if allowed then (Inr True, st1)
               else eval_tuples ev cx s computed_relation tuples st1 d))"
| "eval_any ev cx s r ob [] st d = (Inr False, st)"
| "eval_any ev cx s r ob (child # children) st d =
     (case eval_rewrite ev cx s r ob child st d of
        (Inl e, st1) \<Rightarrow> (Inl e, st1)
      | (Inr allowed, st1) \<Rightarrow>
          if allowed then (Inr True, st1) else eval_any ev cx s r ob children st1 d)"
| "eval_all ev cx s r ob [] st d = (Inr True, st)"
| "eval_all ev cx s r ob (child # children) st d =
     (case eval_rewrite ev cx s r ob child st d of
        (Inl e, st1) \<Rightarrow> (Inl e, st1)
      | (Inr allowed, st1) \<Rightarrow>
          if \<not> allowed then (Inr False, st1) else eval_all ev cx s r ob children st1 d)"
  by pat_completeness auto
termination
proof (relation "measures
    [case_sum
       (case_sum (\<lambda>(ev, cx, s, r, ob, st, d). depth_left ev d)
                 (\<lambda>(ev, cx, s, r, ob, rw, st, d). depth_left ev d))
       (case_sum (\<lambda>(ev, cx, s, r, ts, st, d). depth_left ev d)
          (case_sum (\<lambda>(ev, cx, s, r, ob, rws, st, d). depth_left ev d)
                    (\<lambda>(ev, cx, s, r, ob, rws, st, d). depth_left ev d))),
     case_sum
       (case_sum (\<lambda>(ev, cx, s, r, ob, st, d). if depth_left ev d = 0 then 0 else 1)
                 (\<lambda>(ev, cx, s, r, ob, rw, st, d). if depth_left ev d = 0 then 2 else 0))
       (case_sum (\<lambda>(ev, cx, s, r, ts, st, d). if depth_left ev d = 0 then 1 else 2)
          (case_sum (\<lambda>(ev, cx, s, r, ob, rws, st, d). if depth_left ev d = 0 then 2 else 0)
                    (\<lambda>(ev, cx, s, r, ob, rws, st, d). if depth_left ev d = 0 then 2 else 0))),
     case_sum
       (case_sum (\<lambda>(ev, cx, s, r, ob, st, d). 0)
                 (\<lambda>(ev, cx, s, r, ob, rw, st, d). size rw))
       (case_sum (\<lambda>(ev, cx, s, r, ts, st, d). length ts)
          (case_sum (\<lambda>(ev, cx, s, r, ob, rws, st, d). size_list size rws)
                    (\<lambda>(ev, cx, s, r, ob, rws, st, d). size_list size rws)))]")
qed (auto simp: depth_left_def enter_def split: if_splits)

definition evaluator_check ::
  "evaluator \<Rightarrow> subject_ref \<Rightarrow> relation \<Rightarrow> object_ref \<Rightarrow> authz_context \<Rightarrow> authz_error + authz_decision" where
  "evaluator_check self subject rel object context =
     rbind (ensure_relation self object rel) (\<lambda>_.
       (case check_inner self context subject rel object evaluation_state_default 0 of
          (Inl e, _) \<Rightarrow> Inl e
        | (Inr allowed, state) \<Rightarrow>
            if allowed then Inr (authz_decision_allow (am_model_id (ev_model self)) (es_visited state))
            else Inr (authz_decision_deny (am_model_id (ev_model self))
                        (lit ''no matching relationship path'') (es_visited state))))"

definition evaluator_batch_check ::
  "evaluator \<Rightarrow> (subject_ref \<times> relation \<times> object_ref) list \<Rightarrow> authz_context \<Rightarrow>
   authz_error + authz_decision list" where
  "evaluator_batch_check self checks context =
     try_map (\<lambda>(subject, rel, object). evaluator_check self subject rel object context) checks"

text \<open>The loop of \<open>list_objects\<close> over its candidates; the first failing check ends it.\<close>

fun collect_allowed ::
  "evaluator \<Rightarrow> subject_ref \<Rightarrow> relation \<Rightarrow> authz_context \<Rightarrow> object_ref list \<Rightarrow> authz_error + object_ref list" where
  "collect_allowed self subject rel context [] = Inr []"
| "collect_allowed self subject rel context (object # candidates) =
     rbind (evaluator_check self subject rel object context) (\<lambda>decision.
       map_ok (\<lambda>objects. if ad_allowed decision then object # objects else objects)
         (collect_allowed self subject rel context candidates))"

definition list_objects ::
  "evaluator \<Rightarrow> subject_ref \<Rightarrow> relation \<Rightarrow> rstr \<Rightarrow> authz_context \<Rightarrow> authz_error + object_ref list" where
  "list_objects self subject rel object_type context =
     rbind (ok_or (UnknownObjectType object_type) (fmlookup (am_types (ev_model self)) object_type))
       (\<lambda>object_definition.
          if rel |\<notin>| fmdom (ot_relations object_definition) then Inl (UnknownRelation rel)
          else
            collect_allowed self subject rel context
              (sorted_list_of_fset
                (fset_of_list
                  (filter (\<lambda>object. type_name object = object_type)
                    (map rt_object (all_tuples self context))))))"

subsection \<open>Expansion\<close>

datatype expansion_node =
  ExpansionNode (en_object: object_ref) (en_relation: relation) (en_rewrite: rstr)
    (en_subjects: "subject_ref list") (en_children: "expansion_node list") (en_visited: nat)

fun rewrite_name :: "rewrite \<Rightarrow> rstr" where
  "rewrite_name Direct = lit ''direct''"
| "rewrite_name (ComputedUserset _) = lit ''computed_userset''"
| "rewrite_name (TupleToUserset _ _) = lit ''tuple_to_userset''"
| "rewrite_name (Union _) = lit ''union''"
| "rewrite_name (Intersection _) = lit ''intersection''"
| "rewrite_name (Exclusion _ _) = lit ''exclusion''"
| "rewrite_name (Condition _) = lit ''condition''"

definition expand_subject :: subject_ref where
  "expand_subject = lit ''__expand__:subject''"

text \<open>The node is built from the children and stamped with the counter at the end.\<close>

definition finish_node ::
  "object_ref \<Rightarrow> relation \<Rightarrow> rewrite \<Rightarrow> subject_ref list \<Rightarrow>
   (authz_error + expansion_node list) \<times> evaluation_state \<Rightarrow>
   (authz_error + expansion_node) \<times> evaluation_state" where
  "finish_node ob r rw subjects outcome =
     (case outcome of
        (Inl e, st) \<Rightarrow> (Inl e, st)
      | (Inr children, st) \<Rightarrow>
          (Inr (ExpansionNode ob r (rewrite_name rw) subjects children (es_visited st)), st))"

function (sequential)
  expand_inner ::
    "evaluator \<Rightarrow> authz_context \<Rightarrow> relation \<Rightarrow> object_ref \<Rightarrow> evaluation_state \<Rightarrow> nat \<Rightarrow>
     (authz_error + expansion_node) \<times> evaluation_state" and
  expand_rewrite ::
    "evaluator \<Rightarrow> authz_context \<Rightarrow> relation \<Rightarrow> object_ref \<Rightarrow> rewrite \<Rightarrow> evaluation_state \<Rightarrow> nat \<Rightarrow>
     (authz_error + expansion_node) \<times> evaluation_state" and
  expand_tuples ::
    "evaluator \<Rightarrow> authz_context \<Rightarrow> relation \<Rightarrow> relationship_tuple list \<Rightarrow> evaluation_state \<Rightarrow> nat \<Rightarrow>
     (authz_error + expansion_node list) \<times> evaluation_state" and
  expand_children ::
    "evaluator \<Rightarrow> authz_context \<Rightarrow> relation \<Rightarrow> object_ref \<Rightarrow> rewrite list \<Rightarrow> evaluation_state \<Rightarrow> nat \<Rightarrow>
     (authz_error + expansion_node list) \<times> evaluation_state" where
  "expand_inner ev cx r ob st d =
     (case enter ev (expand_subject, r, ob) st d of
        (Inl e, st1) \<Rightarrow> (Inl e, st1)
      | (Inr _, st1) \<Rightarrow>
          (case (case relation_definition_of ev ob r of
                   Inl e \<Rightarrow> (Inl e, st1)
                 | Inr definition \<Rightarrow> expand_rewrite ev cx r ob (rd_rewrite definition) st1 d) of
             (outcome, st2) \<Rightarrow> (outcome, leave (expand_subject, r, ob) st2)))"
| "expand_rewrite ev cx r ob Direct st d =
     finish_node ob r Direct
       (sorted_list_of_fset (fset_of_list (map rt_subject (matching_tuples ev cx r ob)))) (Inr [], st)"
| "expand_rewrite ev cx r ob (ComputedUserset computed_relation) st d =
     finish_node ob r (ComputedUserset computed_relation) []
       (case expand_inner ev cx computed_relation ob st (d + 1) of
          (Inl e, st1) \<Rightarrow> (Inl e, st1)
        | (Inr node, st1) \<Rightarrow> (Inr [node], st1))"
| "expand_rewrite ev cx r ob (TupleToUserset tupleset_relation computed_relation) st d =
     finish_node ob r (TupleToUserset tupleset_relation computed_relation) []
       (expand_tuples ev cx computed_relation (matching_tuples ev cx tupleset_relation ob) st (d + 1))"
| "expand_rewrite ev cx r ob (Union children) st d =
     finish_node ob r (Union children) [] (expand_children ev cx r ob children st (d + 1))"
| "expand_rewrite ev cx r ob (Intersection children) st d =
     finish_node ob r (Intersection children) [] (expand_children ev cx r ob children st (d + 1))"
| "expand_rewrite ev cx r ob (Exclusion base subtract) st d =
     finish_node ob r (Exclusion base subtract) []
       (case expand_rewrite ev cx r ob base st (d + 1) of
          (Inl e, st1) \<Rightarrow> (Inl e, st1)
        | (Inr base_node, st1) \<Rightarrow>
            (case expand_rewrite ev cx r ob subtract st1 (d + 1) of
               (Inl e, st2) \<Rightarrow> (Inl e, st2)
             | (Inr subtract_node, st2) \<Rightarrow> (Inr [base_node, subtract_node], st2)))"
| "expand_rewrite ev cx r ob (Condition name) st d =
     finish_node ob r (Condition name) [] (Inr [], st)"
| "expand_tuples ev cx computed_relation [] st d = (Inr [], st)"
| "expand_tuples ev cx computed_relation (tuple # tuples) st d =
     (case object_ref_new (rt_subject tuple) of
        Inl e \<Rightarrow> (Inl e, st)
      | Inr related_object \<Rightarrow>
          (case expand_inner ev cx computed_relation related_object st d of
             (Inl e, st1) \<Rightarrow> (Inl e, st1)
           | (Inr node, st1) \<Rightarrow>
               (case expand_tuples ev cx computed_relation tuples st1 d of
                  (Inl e, st2) \<Rightarrow> (Inl e, st2)
                | (Inr nodes, st2) \<Rightarrow> (Inr (node # nodes), st2))))"
| "expand_children ev cx r ob [] st d = (Inr [], st)"
| "expand_children ev cx r ob (child # children) st d =
     (case expand_rewrite ev cx r ob child st d of
        (Inl e, st1) \<Rightarrow> (Inl e, st1)
      | (Inr node, st1) \<Rightarrow>
          (case expand_children ev cx r ob children st1 d of
             (Inl e, st2) \<Rightarrow> (Inl e, st2)
           | (Inr nodes, st2) \<Rightarrow> (Inr (node # nodes), st2)))"
  by pat_completeness auto
termination
proof (relation "measures
    [case_sum
       (case_sum (\<lambda>(ev, cx, r, ob, st, d). depth_left ev d)
                 (\<lambda>(ev, cx, r, ob, rw, st, d). depth_left ev d))
       (case_sum (\<lambda>(ev, cx, r, ts, st, d). depth_left ev d)
                 (\<lambda>(ev, cx, r, ob, rws, st, d). depth_left ev d)),
     case_sum
       (case_sum (\<lambda>(ev, cx, r, ob, st, d). if depth_left ev d = 0 then 0 else 1)
                 (\<lambda>(ev, cx, r, ob, rw, st, d). if depth_left ev d = 0 then 2 else 0))
       (case_sum (\<lambda>(ev, cx, r, ts, st, d). if depth_left ev d = 0 then 1 else 2)
                 (\<lambda>(ev, cx, r, ob, rws, st, d). if depth_left ev d = 0 then 2 else 0)),
     case_sum
       (case_sum (\<lambda>(ev, cx, r, ob, st, d). 0)
                 (\<lambda>(ev, cx, r, ob, rw, st, d). size rw))
       (case_sum (\<lambda>(ev, cx, r, ts, st, d). length ts)
                 (\<lambda>(ev, cx, r, ob, rws, st, d). size_list size rws))]")
qed (auto simp: depth_left_def enter_def split: if_splits)

definition expand ::
  "evaluator \<Rightarrow> relation \<Rightarrow> object_ref \<Rightarrow> authz_context \<Rightarrow> authz_error + expansion_node" where
  "expand self rel object context =
     rbind (ensure_relation self object rel)
       (\<lambda>_. fst (expand_inner self context rel object evaluation_state_default 0))"

declare check_inner.simps [simp del] expand_inner.simps [simp del]

subsection \<open>The evaluation state\<close>

text \<open>
  \<open>progress ev st st'\<close>: \<open>st'\<close> may follow \<open>st\<close> after a call of the evaluator. The stack is back to what
  it was, the counter only grows and never passes the limit, and no answer is forgotten.
\<close>

definition progress :: "evaluator \<Rightarrow> evaluation_state \<Rightarrow> evaluation_state \<Rightarrow> bool" where
  "progress ev st st' \<longleftrightarrow>
     es_stack st' = es_stack st \<and> es_visited st \<le> es_visited st'
     \<and> (es_visited st \<le> ev_max_nodes ev \<longrightarrow> es_visited st' \<le> ev_max_nodes ev)
     \<and> fmdom (es_memo st) |\<subseteq>| fmdom (es_memo st')"

lemma progress_refl [simp, intro]: "progress ev st st"
  by (simp add: progress_def)

lemma progress_trans: "progress ev st st1 \<Longrightarrow> progress ev st1 st2 \<Longrightarrow> progress ev st st2"
  by (auto simp: progress_def)

lemma enter_Inr_iff [result_simps]:
  "enter ev key st d = (Inr u, st1) \<longleftrightarrow>
     d \<le> ev_max_depth ev \<and> es_visited st < ev_max_nodes ev \<and> key |\<notin>| es_stack st
     \<and> st1 = st\<lparr>es_visited := es_visited st + 1, es_stack := finsert key (es_stack st)\<rparr>"
  by (auto simp: enter_def)

lemma enter_Inl_state: "enter ev key st d = (Inl e, st1) \<Longrightarrow> st1 = st"
  by (auto simp: enter_def split: if_splits)

lemma progress_leave:
  assumes "enter ev key st d = (Inr u, st1)" "progress ev st1 st2"
  shows "progress ev st (leave key st2)"
  using assms by (auto simp: enter_Inr_iff progress_def leave_def)

lemma progress_remember: "progress ev st st1 \<Longrightarrow> progress ev st (remember key b st1)"
  by (auto simp: progress_def remember_def)

text \<open>The ways a call of \<open>check_inner\<close> and of \<open>expand_inner\<close> can go.\<close>

lemma check_inner_cases:
  assumes "check_inner ev cx s r ob st d = (res, st')"
  obtains
    (memo) b where "fmlookup (es_memo st) (s, r, ob) = Some b" "res = Inr b" "st' = st"
  | (refused) e where "fmlookup (es_memo st) (s, r, ob) = None"
      "enter ev (s, r, ob) st d = (Inl e, st)" "res = Inl e" "st' = st"
  | (undefined) e st1 where "fmlookup (es_memo st) (s, r, ob) = None"
      "enter ev (s, r, ob) st d = (Inr (), st1)" "relation_definition_of ev ob r = Inl e"
      "res = Inl e" "st' = leave (s, r, ob) st1"
  | (failed) e st1 rd st2 where "fmlookup (es_memo st) (s, r, ob) = None"
      "enter ev (s, r, ob) st d = (Inr (), st1)" "relation_definition_of ev ob r = Inr rd"
      "eval_rewrite ev cx s r ob (rd_rewrite rd) st1 d = (Inl e, st2)"
      "res = Inl e" "st' = leave (s, r, ob) st2"
  | (answered) b st1 rd st2 where "fmlookup (es_memo st) (s, r, ob) = None"
      "enter ev (s, r, ob) st d = (Inr (), st1)" "relation_definition_of ev ob r = Inr rd"
      "eval_rewrite ev cx s r ob (rd_rewrite rd) st1 d = (Inr b, st2)"
      "res = Inr b" "st' = remember (s, r, ob) b (leave (s, r, ob) st2)"
  using assms enter_Inl_state [of ev "(s, r, ob)" st d]
  by (fastforce simp: check_inner.simps split: option.splits prod.splits sum.splits)

lemma expand_inner_cases:
  assumes "expand_inner ev cx r ob st d = (res, st')"
  obtains
    (refused) e where "enter ev (expand_subject, r, ob) st d = (Inl e, st)" "res = Inl e" "st' = st"
  | (undefined) e st1 where "enter ev (expand_subject, r, ob) st d = (Inr (), st1)"
      "relation_definition_of ev ob r = Inl e" "res = Inl e" "st' = leave (expand_subject, r, ob) st1"
  | (expanded) st1 rd st2 where "enter ev (expand_subject, r, ob) st d = (Inr (), st1)"
      "relation_definition_of ev ob r = Inr rd"
      "expand_rewrite ev cx r ob (rd_rewrite rd) st1 d = (res, st2)"
      "st' = leave (expand_subject, r, ob) st2"
  using assms enter_Inl_state [of ev "(expand_subject, r, ob)" st d]
  by (fastforce simp: expand_inner.simps split: option.splits prod.splits sum.splits)

text \<open>The \<open>?\<close> operator on a call that also changes the state.\<close>

lemma call_then_eq [result_simps]:
  "(case call of (Inl e, st1) \<Rightarrow> (Inl e, st1) | (Inr v, st1) \<Rightarrow> rest v st1) = (res, st') \<longleftrightarrow>
     (\<exists>e. call = (Inl e, st') \<and> res = Inl e)
     \<or> (\<exists>v st1. call = (Inr v, st1) \<and> rest v st1 = (res, st'))"
  by (auto split: prod.splits sum.splits)

lemma eval_progress:
  "progress ev st (snd (check_inner ev cx s r ob st d))"
  "progress ev st (snd (eval_rewrite ev cx s r ob rw st d))"
  "progress ev st (snd (eval_tuples ev cx s r ts st d))"
  "progress ev st (snd (eval_any ev cx s r ob rws st d))"
  "progress ev st (snd (eval_all ev cx s r ob rws st d))"
proof (induction ev cx s r ob st d and ev cx s r ob rw st d and ev cx s r ts st d
    and ev cx s r ob rws st d and ev cx s r ob rws st d
    rule: check_inner_eval_rewrite_eval_tuples_eval_any_eval_all.induct)
  case (1 ev cx s r ob st d)
  obtain res st' where eq: "check_inner ev cx s r ob st d = (res, st')" by fastforce
  then show ?case
  proof (cases rule: check_inner_cases)
    case (failed e st1 rd st2)
    then have "progress ev st1 st2" using "1.IH" by fastforce
    with failed eq show ?thesis by (auto intro: progress_leave)
  next
    case (answered b st1 rd st2)
    then have "progress ev st1 st2" using "1.IH" by fastforce
    with answered eq show ?thesis by (auto intro: progress_leave progress_remember)
  qed (use eq in \<open>auto intro: progress_leave\<close>)
qed (auto split: prod.splits sum.splits intro: progress_trans)

lemma expand_progress:
  "progress ev st (snd (expand_inner ev cx r ob st d))"
  "progress ev st (snd (expand_rewrite ev cx r ob rw st d))"
  "progress ev st (snd (expand_tuples ev cx r ts st d))"
  "progress ev st (snd (expand_children ev cx r ob rws st d))"
proof (induction ev cx r ob st d and ev cx r ob rw st d and ev cx r ts st d
    and ev cx r ob rws st d
    rule: expand_inner_expand_rewrite_expand_tuples_expand_children.induct)
  case (1 ev cx r ob st d)
  obtain res st' where eq: "expand_inner ev cx r ob st d = (res, st')" by fastforce
  then show ?case
  proof (cases rule: expand_inner_cases)
    case (expanded st1 rd st2)
    then have "progress ev st1 st2" using "1.IH" by fastforce
    with expanded eq show ?thesis by (auto intro: progress_leave)
  qed (use eq in \<open>auto intro: progress_leave\<close>)
next
  case (10 ev cx rel tuple tuples st d)
  then show ?case
    by (fastforce split: prod.splits sum.splits intro: progress_trans)
qed (auto simp: finish_node_def split: prod.splits sum.splits intro: progress_trans)

end
