(* ===== verification/Rebac_Semantics.thy ===== *)
theory Rebac_Semantics
  imports Rebac_Engine
begin

section \<open>What the evaluator computes\<close>

text \<open>
  An order-independent meaning of authorization models, as an inductive relation without state,
  memo, depth or node limits, and the evaluator of \<open>engine.rs\<close> against it: every answer it gives is
  the answer of this semantics, and every error it raises has a cause in the model or the tuples.
\<close>

subsection \<open>The semantics\<close>

text \<open>
  \<open>rel_eval ev cx s r ob b\<close>: the question whether \<open>s\<close> has relation \<open>r\<close> to \<open>ob\<close> has the answer \<open>b\<close>. A
  union is granted by any child, whatever the others do, and refused only when every child is
  refused; a question that depends on itself has no answer unless a union or intersection decides
  it elsewhere.
\<close>

inductive
  rel_eval :: "evaluator \<Rightarrow> authz_context \<Rightarrow> subject_ref \<Rightarrow> relation \<Rightarrow> object_ref \<Rightarrow> bool \<Rightarrow> bool" and
  rw_eval :: "evaluator \<Rightarrow> authz_context \<Rightarrow> subject_ref \<Rightarrow> relation \<Rightarrow> object_ref \<Rightarrow> rewrite \<Rightarrow> bool \<Rightarrow> bool"
  for ev :: evaluator and cx :: authz_context and s :: subject_ref where
  rel_defined:
    "relation_definition_of ev ob r = Inr rd \<Longrightarrow> rw_eval ev cx s r ob (rd_rewrite rd) b \<Longrightarrow>
     rel_eval ev cx s r ob b"
| rw_direct: "b = direct_match ev cx s r ob \<Longrightarrow> rw_eval ev cx s r ob Direct b"
| rw_condition: "b = condition_matches name cx \<Longrightarrow> rw_eval ev cx s r ob (Condition name) b"
| rw_computed: "rel_eval ev cx s c ob b \<Longrightarrow> rw_eval ev cx s r ob (ComputedUserset c) b"
| rw_tuple_grant:
    "tu \<in> set (matching_tuples ev cx t ob) \<Longrightarrow> object_ref_new (rt_subject tu) = Inr ob' \<Longrightarrow>
     rel_eval ev cx s c ob' True \<Longrightarrow> rw_eval ev cx s r ob (TupleToUserset t c) True"
| rw_tuple_refuse:
    "(\<And>tu. tu \<in> set (matching_tuples ev cx t ob) \<Longrightarrow>
        \<exists>ob'. object_ref_new (rt_subject tu) = Inr ob' \<and> rel_eval ev cx s c ob' False) \<Longrightarrow>
     rw_eval ev cx s r ob (TupleToUserset t c) False"
| rw_union_grant:
    "child \<in> set children \<Longrightarrow> rw_eval ev cx s r ob child True \<Longrightarrow>
     rw_eval ev cx s r ob (Union children) True"
| rw_union_refuse:
    "(\<And>child. child \<in> set children \<Longrightarrow> rw_eval ev cx s r ob child False) \<Longrightarrow>
     rw_eval ev cx s r ob (Union children) False"
| rw_intersection_refuse:
    "child \<in> set children \<Longrightarrow> rw_eval ev cx s r ob child False \<Longrightarrow>
     rw_eval ev cx s r ob (Intersection children) False"
| rw_intersection_grant:
    "(\<And>child. child \<in> set children \<Longrightarrow> rw_eval ev cx s r ob child True) \<Longrightarrow>
     rw_eval ev cx s r ob (Intersection children) True"
| rw_exclusion_base:
    "rw_eval ev cx s r ob base False \<Longrightarrow> rw_eval ev cx s r ob (Exclusion base subtract) False"
| rw_exclusion_subtract:
    "rw_eval ev cx s r ob base True \<Longrightarrow> rw_eval ev cx s r ob subtract b \<Longrightarrow>
     rw_eval ev cx s r ob (Exclusion base subtract) (\<not> b)"

inductive_cases rel_evalE: "rel_eval ev cx s r ob b"
inductive_cases rw_eval_directE: "rw_eval ev cx s r ob Direct b"
inductive_cases rw_eval_conditionE: "rw_eval ev cx s r ob (Condition name) b"
inductive_cases rw_eval_computedE: "rw_eval ev cx s r ob (ComputedUserset c) b"
inductive_cases rw_eval_tupleE: "rw_eval ev cx s r ob (TupleToUserset t c) b"
inductive_cases rw_eval_unionE: "rw_eval ev cx s r ob (Union children) b"
inductive_cases rw_eval_intersectionE: "rw_eval ev cx s r ob (Intersection children) b"
inductive_cases rw_eval_exclusionE: "rw_eval ev cx s r ob (Exclusion base subtract) b"

lemmas rw_evalEs = rw_eval_directE rw_eval_conditionE rw_eval_computedE rw_eval_tupleE
  rw_eval_unionE rw_eval_intersectionE rw_eval_exclusionE

text \<open>The semantics is deterministic: no question has both answers.\<close>

lemma rel_eval_not_both:
  "rel_eval ev cx s r ob b \<Longrightarrow> \<not> rel_eval ev cx s r ob (\<not> b)"
  "rw_eval ev cx s r ob rw b \<Longrightarrow> \<not> rw_eval ev cx s r ob rw (\<not> b)"
proof (induction rule: rel_eval_rw_eval.inducts)
  case (rel_defined ob r rd b)
  then show ?case by (auto elim: rel_evalE)
next
  case (rw_tuple_grant tu t ob ob' c r)
  then show ?case by (force elim: rw_eval_tupleE)
next
  case (rw_tuple_refuse t ob c r)
  then show ?case by (force elim: rw_eval_tupleE)
next
  case (rw_exclusion_subtract r ob base subtract b)
  then show ?case by (cases b) (auto elim: rw_eval_exclusionE)
qed (auto elim: rw_evalEs)

lemma rel_eval_deterministic:
  "rel_eval ev cx s r ob b \<Longrightarrow> rel_eval ev cx s r ob b' \<Longrightarrow> b = b'"
  using rel_eval_not_both(1) [of ev cx s r ob b] by (cases b; cases b') simp_all

subsection \<open>Every answer is the answer of the semantics\<close>

definition memo_sound :: "evaluator \<Rightarrow> authz_context \<Rightarrow> evaluation_state \<Rightarrow> bool" where
  "memo_sound ev cx st \<longleftrightarrow>
     (\<forall>s r ob b. fmlookup (es_memo st) (s, r, ob) = Some b \<longrightarrow> rel_eval ev cx s r ob b)"

lemma memo_sound_default [simp]: "memo_sound ev cx evaluation_state_default"
  by (simp add: memo_sound_def evaluation_state_default_def)

lemma memo_sound_enter:
  "enter ev key st d = (Inr u, st1) \<Longrightarrow> memo_sound ev cx st \<Longrightarrow> memo_sound ev cx st1"
  by (auto simp: enter_Inr_iff memo_sound_def)

lemma memo_sound_leave [simp]: "memo_sound ev cx (leave key st) = memo_sound ev cx st"
  by (simp add: memo_sound_def leave_def)

lemma memo_sound_remember:
  "memo_sound ev cx st \<Longrightarrow> rel_eval ev cx s r ob b \<Longrightarrow> memo_sound ev cx (remember (s, r, ob) b st)"
  by (auto simp: memo_sound_def remember_def)

text \<open>What the loops over tuples and children establish.\<close>

definition tuples_eval ::
  "evaluator \<Rightarrow> authz_context \<Rightarrow> subject_ref \<Rightarrow> relation \<Rightarrow> relationship_tuple list \<Rightarrow> bool \<Rightarrow> bool" where
  "tuples_eval ev cx s c ts b \<longleftrightarrow>
     (if b then \<exists>tu \<in> set ts. \<exists>ob'. object_ref_new (rt_subject tu) = Inr ob' \<and> rel_eval ev cx s c ob' True
      else \<forall>tu \<in> set ts. \<exists>ob'. object_ref_new (rt_subject tu) = Inr ob' \<and> rel_eval ev cx s c ob' False)"

lemma rw_tuple: "tuples_eval ev cx s c (matching_tuples ev cx t ob) b \<Longrightarrow>
    rw_eval ev cx s r ob (TupleToUserset t c) b"
  by (auto simp: tuples_eval_def split: if_splits intro: rw_tuple_grant rw_tuple_refuse)

lemma tuples_eval_next:
  "object_ref_new (rt_subject tu) = Inr ob' \<Longrightarrow> rel_eval ev cx s c ob' False \<Longrightarrow>
   tuples_eval ev cx s c ts b \<Longrightarrow> tuples_eval ev cx s c (tu # ts) b"
  by (cases b) (auto simp: tuples_eval_def)

lemma rw_union_next:
  "rw_eval ev cx s r ob child False \<Longrightarrow> rw_eval ev cx s r ob (Union children) b \<Longrightarrow>
   rw_eval ev cx s r ob (Union (child # children)) b"
  by (cases b) (auto elim!: rw_eval_unionE intro: rw_union_grant intro!: rw_union_refuse)

lemma rw_intersection_next:
  "rw_eval ev cx s r ob child True \<Longrightarrow> rw_eval ev cx s r ob (Intersection children) b \<Longrightarrow>
   rw_eval ev cx s r ob (Intersection (child # children)) b"
  by (cases b) (auto elim!: rw_eval_intersectionE intro: rw_intersection_refuse intro!: rw_intersection_grant)

text \<open>
  \<open>answers ev cx P outcome\<close>: the call left a sound memo and, if it answered, its answer satisfies \<open>P\<close>.
  \<open>answers_then\<close> is the sequencing rule for a call whose error is propagated.
\<close>

definition answers ::
  "evaluator \<Rightarrow> authz_context \<Rightarrow> (bool \<Rightarrow> bool) \<Rightarrow> (authz_error + bool) \<times> evaluation_state \<Rightarrow> bool" where
  "answers ev cx P outcome \<longleftrightarrow>
     memo_sound ev cx (snd outcome) \<and> (\<forall>b. fst outcome = Inr b \<longrightarrow> P b)"

lemma answers_Inl [simp]: "answers ev cx P (Inl e, st) = memo_sound ev cx st"
  by (simp add: answers_def)

lemma answers_Inr [simp]: "answers ev cx P (Inr b, st) \<longleftrightarrow> memo_sound ev cx st \<and> P b"
  by (auto simp: answers_def)

lemma answers_then:
  assumes "answers ev cx P call"
    and "\<And>b st1. call = (Inr b, st1) \<Longrightarrow> P b \<Longrightarrow> memo_sound ev cx st1 \<Longrightarrow> answers ev cx Q (rest b st1)"
  shows "answers ev cx Q (case call of (Inl e, st1) \<Rightarrow> (Inl e, st1) | (Inr b, st1) \<Rightarrow> rest b st1)"
  using assms by (auto split: prod.split sum.split)

lemma answers_weaken: "answers ev cx P outcome \<Longrightarrow> (\<And>b. P b \<Longrightarrow> Q b) \<Longrightarrow> answers ev cx Q outcome"
  by (auto simp: answers_def)

lemma check_inner_answers:
  assumes "memo_sound ev cx st"
    and "\<And>st1 rd. enter ev (s, r, ob) st d = (Inr (), st1) \<Longrightarrow> relation_definition_of ev ob r = Inr rd \<Longrightarrow>
      memo_sound ev cx st1 \<Longrightarrow>
      answers ev cx (rw_eval ev cx s r ob (rd_rewrite rd)) (eval_rewrite ev cx s r ob (rd_rewrite rd) st1 d)"
  shows "answers ev cx (rel_eval ev cx s r ob) (check_inner ev cx s r ob st d)"
proof -
  obtain res st' where eq: "check_inner ev cx s r ob st d = (res, st')" by fastforce
  then show ?thesis
  proof (cases rule: check_inner_cases)
    case (memo b)
    with assms(1) eq show ?thesis by (auto simp: memo_sound_def)
  next
    case (undefined e st1)
    with assms(1) eq show ?thesis by (auto dest: memo_sound_enter)
  next
    case (failed e st1 rd st2)
    with assms(2) [of st1 rd] memo_sound_enter [OF _ assms(1)] eq show ?thesis by fastforce
  next
    case (answered b st1 rd st2)
    then have "memo_sound ev cx st2 \<and> rw_eval ev cx s r ob (rd_rewrite rd) b"
      using assms(2) [of st1 rd] memo_sound_enter [OF _ assms(1)] by fastforce
    with answered eq show ?thesis by (auto intro: rel_defined memo_sound_remember)
  qed (use assms(1) eq in auto)
qed

lemma eval_sound:
  "memo_sound ev cx st \<Longrightarrow> answers ev cx (rel_eval ev cx s r ob) (check_inner ev cx s r ob st d)"
  "memo_sound ev cx st \<Longrightarrow> answers ev cx (rw_eval ev cx s r ob rw) (eval_rewrite ev cx s r ob rw st d)"
  "memo_sound ev cx st \<Longrightarrow> answers ev cx (tuples_eval ev cx s r ts) (eval_tuples ev cx s r ts st d)"
  "memo_sound ev cx st \<Longrightarrow>
     answers ev cx (rw_eval ev cx s r ob (Union rws)) (eval_any ev cx s r ob rws st d)"
  "memo_sound ev cx st \<Longrightarrow>
     answers ev cx (rw_eval ev cx s r ob (Intersection rws)) (eval_all ev cx s r ob rws st d)"
proof (induction ev cx s r ob st d and ev cx s r ob rw st d and ev cx s r ts st d
    and ev cx s r ob rws st d and ev cx s r ob rws st d
    rule: check_inner_eval_rewrite_eval_tuples_eval_any_eval_all.induct)
  case (1 ev cx s r ob st d)
  show ?case
  proof (cases "fmlookup (es_memo st) (s, r, ob)")
    case None
    show ?thesis using check_inner_answers [OF "1.prems"] "1.IH" [OF None] by fastforce
  next
    case (Some b)
    with "1.prems" show ?thesis by (auto simp: check_inner.simps memo_sound_def)
  qed
next
  case (4 ev cx s r ob t c st d)
  then show ?case by (auto intro: answers_weaken rw_tuple)
next
  case (7 ev cx s r ob base subtract st d)
  show ?case
    unfolding eval_rewrite.simps
  proof (rule answers_then [OF "7.IH"(1) [OF "7.prems"]])
    fix b st1
    assume base: "eval_rewrite ev cx s r ob base st (d + 1) = (Inr b, st1)" "rw_eval ev cx s r ob base b"
      "memo_sound ev cx st1"
    show "answers ev cx (rw_eval ev cx s r ob (Exclusion base subtract))
        (if \<not> b then (Inr False, st1)
         else case eval_rewrite ev cx s r ob subtract st1 (d + 1) of
                (Inl e, st2) \<Rightarrow> (Inl e, st2) | (Inr sub, st2) \<Rightarrow> (Inr (\<not> sub), st2))"
    proof (cases b)
      case True
      have "answers ev cx (rw_eval ev cx s r ob subtract) (eval_rewrite ev cx s r ob subtract st1 (d + 1))"
        using "7.IH"(2) [OF base(1) [symmetric] refl] True base(3) by blast
      then have "answers ev cx (rw_eval ev cx s r ob (Exclusion base subtract))
        (case eval_rewrite ev cx s r ob subtract st1 (d + 1) of
           (Inl e, st2) \<Rightarrow> (Inl e, st2) | (Inr sub, st2) \<Rightarrow> (Inr (\<not> sub), st2))"
        by (rule answers_then) (use True base in \<open>simp add: rw_exclusion_subtract\<close>)
      with True show ?thesis by simp
    qed (use base in \<open>simp add: rw_exclusion_base\<close>)
  qed
next
  case (10 ev cx s c tuple tuples st d)
  show ?case
  proof (cases "object_ref_new (rt_subject tuple)")
    case (Inr ob')
    show ?thesis
      unfolding eval_tuples.simps Inr sum.case
    proof (rule answers_then [OF "10.IH"(1) [OF Inr "10.prems"]])
      fix b st1
      assume call: "check_inner ev cx s c ob' st d = (Inr b, st1)" "rel_eval ev cx s c ob' b"
        "memo_sound ev cx st1"
      show "answers ev cx (tuples_eval ev cx s c (tuple # tuples))
          (if b then (Inr True, st1) else eval_tuples ev cx s c tuples st1 d)"
        using Inr call "10.IH"(2) [OF Inr call(1) [symmetric] refl]
        by (cases b) (auto simp: tuples_eval_def [of _ _ _ _ "_ # _" True]
            intro: answers_weaken tuples_eval_next)
    qed
  qed (use "10.prems" in simp)
next
  case (12 ev cx s r ob child children st d)
  show ?case
    unfolding eval_any.simps
  proof (rule answers_then [OF "12.IH"(1) [OF "12.prems"]])
    fix b st1
    assume call: "eval_rewrite ev cx s r ob child st d = (Inr b, st1)" "rw_eval ev cx s r ob child b"
      "memo_sound ev cx st1"
    show "answers ev cx (rw_eval ev cx s r ob (Union (child # children)))
        (if b then (Inr True, st1) else eval_any ev cx s r ob children st1 d)"
      using call "12.IH"(2) [OF call(1) [symmetric] refl]
      by (cases b) (auto intro: rw_union_grant answers_weaken rw_union_next)
  qed
next
  case (14 ev cx s r ob child children st d)
  show ?case
    unfolding eval_all.simps
  proof (rule answers_then [OF "14.IH"(1) [OF "14.prems"]])
    fix b st1
    assume call: "eval_rewrite ev cx s r ob child st d = (Inr b, st1)" "rw_eval ev cx s r ob child b"
      "memo_sound ev cx st1"
    show "answers ev cx (rw_eval ev cx s r ob (Intersection (child # children)))
        (if \<not> b then (Inr False, st1) else eval_all ev cx s r ob children st1 d)"
      using call "14.IH"(2) [OF call(1) [symmetric] refl]
      by (cases b) (auto intro: rw_intersection_refuse answers_weaken rw_intersection_next)
  qed
qed (auto simp: tuples_eval_def intro: answers_weaken rw_direct rw_condition rw_computed
    rw_union_refuse rw_intersection_grant)

lemma check_inner_sound:
  assumes "check_inner ev cx s r ob evaluation_state_default d = (Inr b, st')"
  shows "rel_eval ev cx s r ob b"
  using eval_sound(1) [of ev cx evaluation_state_default s r ob d] assms by simp

lemma evaluator_check_Inr_iff [result_simps]:
  "evaluator_check ev s r ob cx = Inr dec \<longleftrightarrow>
     (\<exists>b st'. ensure_relation ev ob r = Inr ()
        \<and> check_inner ev cx s r ob evaluation_state_default 0 = (Inr b, st')
        \<and> dec = (if b then authz_decision_allow (am_model_id (ev_model ev)) (es_visited st')
                 else authz_decision_deny (am_model_id (ev_model ev))
                        (lit ''no matching relationship path'') (es_visited st')))"
  by (auto simp: evaluator_check_def rbind_Inr_iff split: prod.splits sum.splits if_splits)

subsection \<open>Every error has a cause\<close>

text \<open>
  \<open>mentions ev cx ob rw\<close> lists the questions a rewrite can ask about \<open>ob\<close>, each with the number of
  levels it lies below the rewrite. \<open>reaches\<close> follows them from question to question and adds the
  levels up, which is how the evaluator counts depth.
\<close>

type_synonym question = "relation \<times> object_ref"

fun mentions :: "evaluator \<Rightarrow> authz_context \<Rightarrow> object_ref \<Rightarrow> rewrite \<Rightarrow> (nat \<times> question) list" where
  "mentions ev cx ob Direct = []"
| "mentions ev cx ob (Condition name) = []"
| "mentions ev cx ob (ComputedUserset c) = [(1, (c, ob))]"
| "mentions ev cx ob (TupleToUserset t c) =
     map (\<lambda>tu. (1, (c, rt_subject tu))) (matching_tuples ev cx t ob)"
| "mentions ev cx ob (Union children) =
     map (apfst Suc) (concat (map (mentions ev cx ob) children))"
| "mentions ev cx ob (Intersection children) =
     map (apfst Suc) (concat (map (mentions ev cx ob) children))"
| "mentions ev cx ob (Exclusion base subtract) =
     map (apfst Suc) (mentions ev cx ob base @ mentions ev cx ob subtract)"

definition asks :: "evaluator \<Rightarrow> authz_context \<Rightarrow> question \<Rightarrow> (nat \<times> question) list" where
  "asks ev cx q =
     (case relation_definition_of ev (snd q) (fst q) of
        Inl e \<Rightarrow> []
      | Inr rd \<Rightarrow> mentions ev cx (snd q) (rd_rewrite rd))"

definition depends :: "evaluator \<Rightarrow> authz_context \<Rightarrow> question rel" where
  "depends ev cx = {(q, q'). \<exists>n. (n, q') \<in> set (asks ev cx q)}"

inductive reaches :: "evaluator \<Rightarrow> authz_context \<Rightarrow> question \<Rightarrow> nat \<Rightarrow> question \<Rightarrow> bool"
  for ev :: evaluator and cx :: authz_context and start :: question where
  reaches_start: "reaches ev cx start 0 start"
| reaches_step: "reaches ev cx start d q \<Longrightarrow> (n, q') \<in> set (asks ev cx q) \<Longrightarrow>
    reaches ev cx start (d + n) q'"

definition reachable :: "evaluator \<Rightarrow> authz_context \<Rightarrow> question \<Rightarrow> question set" where
  "reachable ev cx start = {q. \<exists>d. reaches ev cx start d q}"

text \<open>What in the model or in the tuples makes the evaluator fail with a given error.\<close>

definition cyclic :: "evaluator \<Rightarrow> authz_context \<Rightarrow> question \<Rightarrow> bool" where
  "cyclic ev cx start \<longleftrightarrow> (\<exists>q \<in> reachable ev cx start. (q, q) \<in> (depends ev cx)\<^sup>+)"

fun cause :: "evaluator \<Rightarrow> authz_context \<Rightarrow> question \<Rightarrow> authz_error \<Rightarrow> bool" where
  "cause ev cx start CycleDetected \<longleftrightarrow> cyclic ev cx start"
| "cause ev cx start MaxDepthExceeded \<longleftrightarrow> (\<exists>d q. reaches ev cx start d q \<and> ev_max_depth ev < d)"
| "cause ev cx start MaxNodesExceeded \<longleftrightarrow>
     cyclic ev cx start
     \<or> (\<exists>Q. finite Q \<and> Q \<subseteq> reachable ev cx start \<and> ev_max_nodes ev < card Q)"
| "cause ev cx start (Validation message) \<longleftrightarrow>
     (\<exists>q \<in> reachable ev cx start. object_ref_new (snd q) = Inl (Validation message))"
| "cause ev cx start UnknownModel \<longleftrightarrow> False"
| "cause ev cx start e \<longleftrightarrow>
     (\<exists>q \<in> reachable ev cx start. relation_definition_of ev (snd q) (fst q) = Inl e)"

text \<open>
  While questions below \<open>start\<close> are answered for subject \<open>s\<close>, the stack and the memo hold disjoint
  sets of reachable questions and the counter is their number.
\<close>

definition asked :: "subject_ref \<Rightarrow> question set \<Rightarrow> eval_key set" where
  "asked s Q = (\<lambda>(r, ob). (s, r, ob)) ` Q"

definition tracking ::
  "evaluator \<Rightarrow> authz_context \<Rightarrow> question \<Rightarrow> subject_ref \<Rightarrow> evaluation_state \<Rightarrow> bool" where
  "tracking ev cx start s st \<longleftrightarrow>
     fset (es_stack st) \<union> fset (fmdom (es_memo st)) \<subseteq> asked s (reachable ev cx start)
     \<and> es_stack st |\<inter>| fmdom (es_memo st) = {||}
     \<and> es_visited st = fcard (es_stack st) + fcard (fmdom (es_memo st))"

text \<open>Every question on the stack leads to \<open>q\<close>.\<close>

definition leads_to ::
  "evaluator \<Rightarrow> authz_context \<Rightarrow> subject_ref \<Rightarrow> evaluation_state \<Rightarrow> question \<Rightarrow> bool" where
  "leads_to ev cx s st q \<longleftrightarrow>
     (\<forall>r ob. (s, r, ob) |\<in>| es_stack st \<longrightarrow> ((r, ob), q) \<in> (depends ev cx)\<^sup>+)"

definition outcome_explained ::
  "evaluator \<Rightarrow> authz_context \<Rightarrow> question \<Rightarrow> subject_ref \<Rightarrow> (authz_error + bool) \<times> evaluation_state \<Rightarrow> bool" where
  "outcome_explained ev cx start s outcome \<longleftrightarrow>
     (case fst outcome of
        Inl e \<Rightarrow> cause ev cx start e
      | Inr _ \<Rightarrow> tracking ev cx start s (snd outcome))"

lemma outcome_explained_simps [simp]:
  "outcome_explained ev cx start s (Inl e, st) = cause ev cx start e"
  "outcome_explained ev cx start s (Inr b, st) = tracking ev cx start s st"
  by (simp_all add: outcome_explained_def)

lemma outcome_explained_then:
  assumes "outcome_explained ev cx start s call"
    and "\<And>b st1. call = (Inr b, st1) \<Longrightarrow> tracking ev cx start s st1 \<Longrightarrow>
      outcome_explained ev cx start s (rest b st1)"
  shows "outcome_explained ev cx start s
    (case call of (Inl e, st1) \<Rightarrow> (Inl e, st1) | (Inr b, st1) \<Rightarrow> rest b st1)"
  using assms by (auto split: prod.split sum.split)

lemma leads_to_progress: "progress ev st st' \<Longrightarrow> leads_to ev cx s st' q = leads_to ev cx s st q"
  by (simp add: progress_def leads_to_def)

lemma tracking_default [simp]: "tracking ev cx start s evaluation_state_default"
  by (simp add: tracking_def evaluation_state_default_def)

lemma leads_to_default [simp]: "leads_to ev cx s evaluation_state_default q"
  by (simp add: leads_to_def evaluation_state_default_def)

lemma object_ref_new_Inr: "object_ref_new v = Inr ob \<Longrightarrow> ob = v"
  by (auto simp: object_ref_new_def ref_new_def rbind_Inr_iff)

lemma object_ref_new_Inl: "object_ref_new v = Inl e \<Longrightarrow> \<exists>message. e = Validation message"
  by (auto simp: object_ref_new_def ref_new_def validate_ref_def split: option.splits if_splits)

lemma relation_definition_of_Inl:
  "relation_definition_of ev ob r = Inl e \<Longrightarrow>
     e = UnknownObjectType (type_name ob) \<or> e = UnknownRelation r"
  by (auto simp: relation_definition_of_def Let_def result_simps split: option.splits)

lemma reaches_reachable: "reaches ev cx start d q \<Longrightarrow> q \<in> reachable ev cx start"
  by (auto simp: reachable_def)

lemma cause_undefined:
  "relation_definition_of ev ob r = Inl e \<Longrightarrow> (r, ob) \<in> reachable ev cx start \<Longrightarrow> cause ev cx start e"
  using relation_definition_of_Inl [of ev ob r e] by force

lemma cause_invalid:
  "object_ref_new ob = Inl e \<Longrightarrow> (r, ob) \<in> reachable ev cx start \<Longrightarrow> cause ev cx start e"
  using object_ref_new_Inl [of ob e] by force

lemma asked_iff [simp]: "(s', r, ob) \<in> asked s Q \<longleftrightarrow> s' = s \<and> (r, ob) \<in> Q"
  by (auto simp: asked_def)

lemma finite_asked_card:
  assumes "finite K" "K \<subseteq> asked s Q"
  obtains Q' where "finite Q'" "Q' \<subseteq> Q" "card Q' = card K"
proof
  let ?Q' = "snd ` K"
  show "finite ?Q'" using assms(1) by simp
  show "?Q' \<subseteq> Q" using assms(2) by (auto simp: asked_def)
  have "inj_on snd K" using assms(2) by (auto simp: inj_on_def asked_def)
  then show "card ?Q' = card K" by (rule card_image)
qed

lemma enter_refused_cause:
  assumes "tracking ev cx start s st" "reaches ev cx start d (r, ob)" "leads_to ev cx s st (r, ob)"
    and "fmlookup (es_memo st) (s, r, ob) = None" "enter ev (s, r, ob) st d = (Inl e, st)"
  shows "cause ev cx start e"
proof -
  let ?key = "(s, r, ob)"
  have here: "(r, ob) \<in> reachable ev cx start" using assms(2) by (rule reaches_reachable)
  have cycle: "?key |\<in>| es_stack st \<Longrightarrow> cyclic ev cx start"
    using assms(3) here by (auto simp: cyclic_def leads_to_def)
  have nodes: "cause ev cx start MaxNodesExceeded"
    if "ev_max_nodes ev \<le> es_visited st" "?key |\<notin>| es_stack st"
  proof -
    let ?F = "finsert ?key (es_stack st |\<union>| fmdom (es_memo st))"
    let ?K = "fset ?F"
    have "?key |\<notin>| fmdom (es_memo st)" using assms(4) by (simp add: fmdom_notI)
    then have "fcard ?F = Suc (es_visited st)"
      using that(2) assms(1) fcard_funion_finter [of "es_stack st" "fmdom (es_memo st)"]
      by (simp add: tracking_def fcard_finsert_disjoint)
    then have "card ?K = Suc (es_visited st)" by (simp only: fcard.rep_eq)
    moreover have "?K \<subseteq> asked s (reachable ev cx start)"
      using assms(1) here by (auto simp: tracking_def)
    ultimately show ?thesis
      using that(1) finite_asked_card [of ?K s "reachable ev cx start"]
      by (metis cause.simps(3) finite_fset le_imp_less_Suc)
  qed
  show ?thesis
    using assms(2,5) cycle nodes by (auto simp: enter_def split: if_splits)
qed

lemma tracking_enter:
  assumes "tracking ev cx start s st" "(r, ob) \<in> reachable ev cx start"
    and "fmlookup (es_memo st) (s, r, ob) = None" "enter ev (s, r, ob) st d = (Inr u, st1)"
  shows "tracking ev cx start s st1"
  using assms by (auto simp: tracking_def enter_Inr_iff fcard_finsert_disjoint fmdom_notI)

lemma tracking_answer:
  assumes "tracking ev cx start s st" "key |\<in>| es_stack st"
  shows "tracking ev cx start s (remember key b (leave key st))"
proof -
  have "key |\<notin>| fmdom (es_memo st)" using assms by (auto simp: tracking_def)
  moreover have "fcard (es_stack st) = Suc (fcard (es_stack st |-| {|key|}))"
    using assms(2) by (metis fcard_Suc_fminus1)
  ultimately show ?thesis
    using assms by (auto simp: tracking_def remember_def leave_def fcard_finsert_disjoint)
qed

lemma leads_to_enter:
  assumes "leads_to ev cx s st q" "enter ev (s, fst q, snd q) st d = (Inr u, st1)"
    and "(n, q') \<in> set (asks ev cx q)"
  shows "leads_to ev cx s st1 q'"
proof -
  have "(q, q') \<in> depends ev cx" using assms(3) by (auto simp: depends_def)
  with assms(1,2) show ?thesis
    by (auto simp: leads_to_def enter_Inr_iff intro: trancl.intros)
qed

text \<open>The questions of a list are reachable at their depth and every question on the stack leads to them.\<close>

definition may_ask ::
  "evaluator \<Rightarrow> authz_context \<Rightarrow> question \<Rightarrow> subject_ref \<Rightarrow> evaluation_state \<Rightarrow> nat \<Rightarrow> (nat \<times> question) list \<Rightarrow> bool" where
  "may_ask ev cx start s st d qs \<longleftrightarrow>
     (\<forall>(n, q) \<in> set qs. reaches ev cx start (d + n) q \<and> leads_to ev cx s st q)"

lemma may_ask_progress: "progress ev st st' \<Longrightarrow> may_ask ev cx start s st' d qs = may_ask ev cx start s st d qs"
  by (simp add: may_ask_def leads_to_progress)

lemma may_ask_append [simp]:
  "may_ask ev cx start s st d (qs @ qs') \<longleftrightarrow>
     may_ask ev cx start s st d qs \<and> may_ask ev cx start s st d qs'"
  by (auto simp: may_ask_def)

lemma may_ask_Suc [simp]:
  "may_ask ev cx start s st d (map (apfst Suc) qs) = may_ask ev cx start s st (Suc d) qs"
  by (force simp: may_ask_def)

lemma may_ask_single [simp]:
  "may_ask ev cx start s st d ((n, q) # qs) \<longleftrightarrow>
     reaches ev cx start (d + n) q \<and> leads_to ev cx s st q \<and> may_ask ev cx start s st d qs"
  by (auto simp: may_ask_def)

lemma may_ask_Nil [simp]: "may_ask ev cx start s st d []"
  by (simp add: may_ask_def)

lemma may_ask_enter:
  assumes "reaches ev cx start d (r, ob)" "leads_to ev cx s st (r, ob)"
    and "enter ev (s, r, ob) st d = (Inr u, st1)" "relation_definition_of ev ob r = Inr rd"
  shows "may_ask ev cx start s st1 d (mentions ev cx ob (rd_rewrite rd))"
proof -
  have "asks ev cx (r, ob) = mentions ev cx ob (rd_rewrite rd)" using assms(4) by (simp add: asks_def)
  then show ?thesis
    using reaches_step [OF assms(1)] leads_to_enter [of ev cx s st "(r, ob)" d u st1] assms(2,3)
    by (auto simp: may_ask_def)
qed

lemma check_inner_explained:
  assumes "tracking ev cx start s st" "reaches ev cx start d (r, ob)" "leads_to ev cx s st (r, ob)"
    and "\<And>st1 rd. fmlookup (es_memo st) (s, r, ob) = None \<Longrightarrow> enter ev (s, r, ob) st d = (Inr (), st1) \<Longrightarrow>
      relation_definition_of ev ob r = Inr rd \<Longrightarrow> tracking ev cx start s st1 \<Longrightarrow>
      may_ask ev cx start s st1 d (mentions ev cx ob (rd_rewrite rd)) \<Longrightarrow>
      outcome_explained ev cx start s (eval_rewrite ev cx s r ob (rd_rewrite rd) st1 d)"
  shows "outcome_explained ev cx start s (check_inner ev cx s r ob st d)"
proof -
  have here: "(r, ob) \<in> reachable ev cx start" using assms(2) by (rule reaches_reachable)
  obtain res st' where eq: "check_inner ev cx s r ob st d = (res, st')" by fastforce
  then show ?thesis
  proof (cases rule: check_inner_cases)
    case (memo b)
    with assms(1) eq show ?thesis by simp
  next
    case (refused e)
    with enter_refused_cause [OF assms(1-3)] eq show ?thesis by simp
  next
    case (undefined e st1)
    with cause_undefined here eq show ?thesis by simp
  next
    case (failed e st1 rd st2)
    with assms(4) [OF failed(1-3) tracking_enter [OF assms(1) here failed(1,2)]
        may_ask_enter [OF assms(2,3) failed(2,3)]] eq
    show ?thesis by simp
  next
    case (answered b st1 rd st2)
    have "tracking ev cx start s st2"
      using assms(4) [OF answered(1-3) tracking_enter [OF assms(1) here answered(1,2)]
        may_ask_enter [OF assms(2,3) answered(2,3)]] answered(4) by simp
    moreover have "(s, r, ob) |\<in>| es_stack st2"
      using eval_progress(2) [of ev st1 cx s r ob "rd_rewrite rd" d] answered(2,4)
      by (auto simp: progress_def enter_Inr_iff)
    ultimately show ?thesis using answered eq by (simp add: tracking_answer)
  qed
qed

lemma progress_snd:
  "eval_rewrite ev cx s r ob rw st d = (res, st') \<Longrightarrow> progress ev st st'"
  "check_inner ev cx s r ob st d = (res, st') \<Longrightarrow> progress ev st st'"
  using eval_progress(2) [of ev st cx s r ob rw d] eval_progress(1) [of ev st cx s r ob d] by auto

definition tuple_questions :: "relation \<Rightarrow> relationship_tuple list \<Rightarrow> (nat \<times> question) list" where
  "tuple_questions c ts = map (\<lambda>tu. (0, (c, rt_subject tu))) ts"

lemma may_ask_tuples:
  "may_ask ev cx start s st d (mentions ev cx ob (TupleToUserset t c)) =
   may_ask ev cx start s st (d + 1) (tuple_questions c (matching_tuples ev cx t ob))"
  by (auto simp: may_ask_def tuple_questions_def)

lemma tuple_questions_Cons [simp]:
  "tuple_questions c (tu # ts) = (0, (c, rt_subject tu)) # tuple_questions c ts"
  by (simp add: tuple_questions_def)

lemma eval_explained:
  "tracking ev cx start s st \<Longrightarrow> reaches ev cx start d (r, ob) \<Longrightarrow> leads_to ev cx s st (r, ob) \<Longrightarrow>
     outcome_explained ev cx start s (check_inner ev cx s r ob st d)"
  "tracking ev cx start s st \<Longrightarrow> may_ask ev cx start s st d (mentions ev cx ob rw) \<Longrightarrow>
     outcome_explained ev cx start s (eval_rewrite ev cx s r ob rw st d)"
  "tracking ev cx start s st \<Longrightarrow> may_ask ev cx start s st d (tuple_questions r ts) \<Longrightarrow>
     outcome_explained ev cx start s (eval_tuples ev cx s r ts st d)"
  "tracking ev cx start s st \<Longrightarrow> may_ask ev cx start s st d (concat (map (mentions ev cx ob) rws)) \<Longrightarrow>
     outcome_explained ev cx start s (eval_any ev cx s r ob rws st d)"
  "tracking ev cx start s st \<Longrightarrow> may_ask ev cx start s st d (concat (map (mentions ev cx ob) rws)) \<Longrightarrow>
     outcome_explained ev cx start s (eval_all ev cx s r ob rws st d)"
proof (induction ev cx s r ob st d and ev cx s r ob rw st d and ev cx s r ts st d
    and ev cx s r ob rws st d and ev cx s r ob rws st d
    rule: check_inner_eval_rewrite_eval_tuples_eval_any_eval_all.induct)
  case (1 ev cx s r ob st d)
  from "1.prems" show ?case
    by (rule check_inner_explained) (use "1.IH" in fastforce)
next
  case (4 ev cx s r ob t c st d)
  then show ?case by (simp only: may_ask_tuples eval_rewrite.simps)
next
  case (7 ev cx s r ob base subtract st d)
  have base: "may_ask ev cx start s st (d + 1) (mentions ev cx ob base)"
    and subtract: "may_ask ev cx start s st (d + 1) (mentions ev cx ob subtract)"
    using "7.prems"(2) by simp_all
  show ?case
    unfolding eval_rewrite.simps
  proof (rule outcome_explained_then [OF "7.IH"(1) [OF "7.prems"(1) base]])
    fix b st1
    assume call: "eval_rewrite ev cx s r ob base st (d + 1) = (Inr b, st1)" "tracking ev cx start s st1"
    show "outcome_explained ev cx start s
        (if \<not> b then (Inr False, st1)
         else case eval_rewrite ev cx s r ob subtract st1 (d + 1) of
                (Inl e, st2) \<Rightarrow> (Inl e, st2) | (Inr sub, st2) \<Rightarrow> (Inr (\<not> sub), st2))"
      using outcome_explained_then [OF "7.IH"(2) [OF call(1) [symmetric] refl _ call(2)],
          of "\<lambda>sub st2. (Inr (\<not> sub), st2)"] call(2) subtract may_ask_progress [OF progress_snd(1) [OF call(1)]]
      by auto
  qed
next
  case (10 ev cx s c tuple tuples st d)
  then have here: "reaches ev cx start d (c, rt_subject tuple)" "leads_to ev cx s st (c, rt_subject tuple)"
    and rest: "may_ask ev cx start s st d (tuple_questions c tuples)" by simp_all
  show ?case
  proof (cases "object_ref_new (rt_subject tuple)")
    case (Inl e)
    then show ?thesis using cause_invalid reaches_reachable [OF here(1)] by simp
  next
    case (Inr ob')
    then have [simp]: "ob' = rt_subject tuple" by (rule object_ref_new_Inr)
    show ?thesis
      unfolding eval_tuples.simps Inr sum.case
    proof (rule outcome_explained_then)
      show "outcome_explained ev cx start s (check_inner ev cx s c ob' st d)"
        using "10.IH"(1) [OF Inr "10.prems"(1)] here by simp
    next
      fix b st1
      assume call: "check_inner ev cx s c ob' st d = (Inr b, st1)" "tracking ev cx start s st1"
      show "outcome_explained ev cx start s
          (if b then (Inr True, st1) else eval_tuples ev cx s c tuples st1 d)"
        using "10.IH"(2) [OF Inr call(1) [symmetric] refl _ call(2)] call(2) rest
          may_ask_progress [OF progress_snd(2) [OF call(1)]] by simp
    qed
  qed
next
  case (12 ev cx s r ob child children st d)
  show ?case
    unfolding eval_any.simps
  proof (rule outcome_explained_then [OF "12.IH"(1) [OF "12.prems"(1)]])
    show "may_ask ev cx start s st d (mentions ev cx ob child)" using "12.prems"(2) by simp
  next
    fix b st1
    assume call: "eval_rewrite ev cx s r ob child st d = (Inr b, st1)" "tracking ev cx start s st1"
    show "outcome_explained ev cx start s
        (if b then (Inr True, st1) else eval_any ev cx s r ob children st1 d)"
      using "12.IH"(2) [OF call(1) [symmetric] refl _ call(2)] call(2) "12.prems"(2)
        may_ask_progress [OF progress_snd(1) [OF call(1)]] by simp
  qed
next
  case (14 ev cx s r ob child children st d)
  show ?case
    unfolding eval_all.simps
  proof (rule outcome_explained_then [OF "14.IH"(1) [OF "14.prems"(1)]])
    show "may_ask ev cx start s st d (mentions ev cx ob child)" using "14.prems"(2) by simp
  next
    fix b st1
    assume call: "eval_rewrite ev cx s r ob child st d = (Inr b, st1)" "tracking ev cx start s st1"
    show "outcome_explained ev cx start s
        (if \<not> b then (Inr False, st1) else eval_all ev cx s r ob children st1 d)"
      using "14.IH"(2) [OF call(1) [symmetric] refl _ call(2)] call(2) "14.prems"(2)
        may_ask_progress [OF progress_snd(1) [OF call(1)]] by simp
  qed
qed simp_all

lemma evaluator_check_cause:
  assumes "evaluator_check ev s r ob cx = Inl e"
  shows "cause ev cx (r, ob) e"
proof -
  have start: "(r, ob) \<in> reachable ev cx (r, ob)"
    by (rule reaches_reachable [OF reaches_start])
  have "outcome_explained ev cx (r, ob) s (check_inner ev cx s r ob evaluation_state_default 0)"
    by (rule eval_explained(1)) (simp_all add: reaches_start)
  with assms start show ?thesis
    by (auto simp: evaluator_check_def ensure_relation_def result_simps cause_undefined
        split: prod.splits sum.splits if_splits)
qed

subsection \<open>Only visible tuples count\<close>

text \<open>
  The tuples a request can see: those of its tenant (or of no tenant) whose condition holds. Stored
  and contextual tuples are one list.
\<close>

definition visible_tuples :: "evaluator \<Rightarrow> authz_context \<Rightarrow> relationship_tuple list" where
  "visible_tuples ev cx =
     filter (\<lambda>tu. tuple_tenant_matches tu cx \<and> tuple_condition_matches tu cx) (all_tuples ev cx)"

text \<open>Two evaluators and contexts that agree on the model, the limits, the conditions and the visible
  tuples; what they store beyond that may differ.\<close>

definition same_view :: "evaluator \<Rightarrow> authz_context \<Rightarrow> evaluator \<Rightarrow> authz_context \<Rightarrow> bool" where
  "same_view ev cx ev' cx' \<longleftrightarrow>
     ev_model ev' = ev_model ev \<and> ev_max_depth ev' = ev_max_depth ev \<and> ev_max_nodes ev' = ev_max_nodes ev
     \<and> cx_attributes cx' = cx_attributes cx \<and> cx_token_claims cx' = cx_token_claims cx
     \<and> visible_tuples ev' cx' = visible_tuples ev cx"

lemma direct_match_visible:
  "direct_match ev cx s r ob \<longleftrightarrow>
     (\<exists>tu \<in> set (visible_tuples ev cx). rt_subject tu = s \<and> rt_relation tu = r \<and> rt_object tu = ob)"
  by (auto simp: direct_match_def visible_tuples_def list_ex_iff)

lemma matching_tuples_visible:
  "matching_tuples ev cx r ob =
     filter (\<lambda>tu. rt_object tu = ob \<and> rt_relation tu = r) (visible_tuples ev cx)"
  by (auto simp: matching_tuples_def visible_tuples_def intro: filter_cong)

lemma same_view_eqs:
  assumes "same_view ev cx ev' cx'"
  shows "direct_match ev' cx' s r ob = direct_match ev cx s r ob"
    and "matching_tuples ev' cx' r ob = matching_tuples ev cx r ob"
    and "condition_matches name cx' = condition_matches name cx"
    and "relation_definition_of ev' ob r = relation_definition_of ev ob r"
    and "enter ev' key st d = enter ev key st d"
  using assms
  by (simp_all add: same_view_def direct_match_visible matching_tuples_visible condition_matches_def
      relation_definition_of_def enter_def split: option.split)

lemma eval_same_view:
  "same_view ev cx ev' cx' \<Longrightarrow> check_inner ev' cx' s r ob st d = check_inner ev cx s r ob st d"
  "same_view ev cx ev' cx' \<Longrightarrow> eval_rewrite ev' cx' s r ob rw st d = eval_rewrite ev cx s r ob rw st d"
  "same_view ev cx ev' cx' \<Longrightarrow> eval_tuples ev' cx' s r ts st d = eval_tuples ev cx s r ts st d"
  "same_view ev cx ev' cx' \<Longrightarrow> eval_any ev' cx' s r ob rws st d = eval_any ev cx s r ob rws st d"
  "same_view ev cx ev' cx' \<Longrightarrow> eval_all ev' cx' s r ob rws st d = eval_all ev cx s r ob rws st d"
proof (induction ev cx s r ob st d and ev cx s r ob rw st d and ev cx s r ts st d
    and ev cx s r ob rws st d and ev cx s r ob rws st d
    rule: check_inner_eval_rewrite_eval_tuples_eval_any_eval_all.induct)
  case (1 ev cx s r ob st d)
  then show ?case
    by (cases "fmlookup (es_memo st) (s, r, ob)") (auto simp: check_inner.simps [of ev'] check_inner.simps [of ev] same_view_eqs
        split: option.split prod.split sum.split)
next
  case (7 ev cx s r ob base subtract st d)
  obtain a st1 where call: "eval_rewrite ev cx s r ob base st (d + 1) = (a, st1)" by fastforce
  show ?case
  proof (cases a)
    case (Inl e)
    with call "7.IH"(1) [OF "7.prems"] show ?thesis by simp
  next
    case (Inr b)
    with call "7.IH"(1) [OF "7.prems"] "7.IH"(2) [OF call [symmetric] Inr _ "7.prems"]
    show ?thesis by (cases b) simp_all
  qed
qed (simp_all add: same_view_eqs split: prod.split sum.split)

lemma expand_same_view:
  "same_view ev cx ev' cx' \<Longrightarrow> expand_inner ev' cx' r ob st d = expand_inner ev cx r ob st d"
  "same_view ev cx ev' cx' \<Longrightarrow> expand_rewrite ev' cx' r ob rw st d = expand_rewrite ev cx r ob rw st d"
  "same_view ev cx ev' cx' \<Longrightarrow> expand_tuples ev' cx' r ts st d = expand_tuples ev cx r ts st d"
  "same_view ev cx ev' cx' \<Longrightarrow> expand_children ev' cx' r ob rws st d = expand_children ev cx r ob rws st d"
proof (induction ev cx r ob st d and ev cx r ob rw st d and ev cx r ts st d
    and ev cx r ob rws st d
    rule: expand_inner_expand_rewrite_expand_tuples_expand_children.induct)
  case (1 ev cx r ob st d)
  then show ?case
    by (auto simp: expand_inner.simps [of ev'] expand_inner.simps [of ev] same_view_eqs
        split: option.split prod.split sum.split)
qed (simp_all add: same_view_eqs split: prod.split sum.split)

end
