(* ===== verification/Rebac_Expansion.thy ===== *)
theory Rebac_Expansion
  imports Rebac_Semantics
begin

section \<open>What an expansion tree says\<close>

text \<open>
  The tree that \<open>Evaluator::expand\<close> returns, read as an explanation: \<open>tree_holds s node\<close> evaluates the
  tree for one subject. For models without conditions (a condition node does not carry its name) the
  tree and the semantics agree for every subject.
\<close>

fun tree_holds :: "subject_ref \<Rightarrow> expansion_node \<Rightarrow> bool" where
  "tree_holds s (ExpansionNode ob r name subjects children v) =
     (if name = lit ''direct'' then s \<in> set subjects
      else if name = lit ''intersection'' then list_all id (map (tree_holds s) children)
      else if name = lit ''exclusion'' then map (tree_holds s) children = [True, False]
      else list_ex id (map (tree_holds s) children))"

fun condition_free :: "rewrite \<Rightarrow> bool" where
  "condition_free (Condition name) = False"
| "condition_free (Union children) = list_all condition_free children"
| "condition_free (Intersection children) = list_all condition_free children"
| "condition_free (Exclusion base subtract) = (condition_free base \<and> condition_free subtract)"
| "condition_free rw = True"

definition model_condition_free :: "authorization_model \<Rightarrow> bool" where
  "model_condition_free m \<longleftrightarrow>
     (\<forall>t ot r rd. fmlookup (am_types m) t = Some ot \<longrightarrow> fmlookup (ot_relations ot) r = Some rd \<longrightarrow>
        condition_free (rd_rewrite rd))"

lemma relation_definition_of_Inr:
  "relation_definition_of ev ob r = Inr rd \<longleftrightarrow>
     (\<exists>ot. fmlookup (am_types (ev_model ev)) (type_name ob) = Some ot
        \<and> fmlookup (ot_relations ot) r = Some rd)"
  by (auto simp: relation_definition_of_def Let_def result_simps)

lemma model_condition_freeD:
  "model_condition_free (ev_model ev) \<Longrightarrow> relation_definition_of ev ob r = Inr rd \<Longrightarrow>
     condition_free (rd_rewrite rd)"
  by (auto simp: model_condition_free_def relation_definition_of_Inr)

lemma finish_node_Inr_iff [result_simps]:
  "finish_node ob r rw subjects outcome = (Inr node, st') \<longleftrightarrow>
     (\<exists>children. outcome = (Inr children, st')
        \<and> node = ExpansionNode ob r (rewrite_name rw) subjects children (es_visited st'))"
  by (auto simp: finish_node_def split: prod.splits sum.splits)

lemma direct_match_matching:
  "direct_match ev cx s r ob \<longleftrightarrow> s \<in> rt_subject ` set (matching_tuples ev cx r ob)"
  by (auto simp: direct_match_visible matching_tuples_visible)

text \<open>From the children to the node.\<close>

lemma tuples_hold:
  assumes "list_all2 (\<lambda>tu node. \<exists>ob'. object_ref_new (rt_subject tu) = Inr ob' \<and> rel_eval ev cx s c ob' (holds node))
      ts nodes"
  shows "tuples_eval ev cx s c ts (list_ex holds nodes)"
  using assms
proof (induction rule: list_all2_induct)
  case (Cons tu ts node nodes)
  then show ?case
    by (cases "holds node") (auto simp: tuples_eval_def intro: tuples_eval_next)
qed (simp add: tuples_eval_def)

lemma union_holds:
  assumes "list_all2 (\<lambda>rw node. rw_eval ev cx s r ob rw (holds node)) rws nodes"
  shows "rw_eval ev cx s r ob (Union rws) (list_ex holds nodes)"
  using assms
proof (induction rule: list_all2_induct)
  case (Cons rw rws node nodes)
  then show ?case
    by (cases "holds node") (auto intro: rw_union_grant rw_union_next)
qed (auto intro: rw_union_refuse)

lemma intersection_holds:
  assumes "list_all2 (\<lambda>rw node. rw_eval ev cx s r ob rw (holds node)) rws nodes"
  shows "rw_eval ev cx s r ob (Intersection rws) (list_all holds nodes)"
  using assms
proof (induction rule: list_all2_induct)
  case (Cons rw rws node nodes)
  then show ?case
    by (cases "holds node") (auto intro: rw_intersection_refuse rw_intersection_next)
qed (auto intro: rw_intersection_grant)

lemma exclusion_holds:
  assumes "rw_eval ev cx s r ob base b" "rw_eval ev cx s r ob subtract b'"
  shows "rw_eval ev cx s r ob (Exclusion base subtract) (b \<and> \<not> b')"
  using assms rw_exclusion_subtract [of ev cx s r ob base subtract b']
  by (cases b) (auto intro: rw_exclusion_base)

lemma expand_sound:
  "model_condition_free (ev_model ev) \<Longrightarrow> expand_inner ev cx r ob st d = (Inr node, st') \<Longrightarrow>
     rel_eval ev cx s r ob (tree_holds s node)"
  "model_condition_free (ev_model ev) \<Longrightarrow> condition_free rw \<Longrightarrow>
     expand_rewrite ev cx r ob rw st d = (Inr node, st') \<Longrightarrow> rw_eval ev cx s r ob rw (tree_holds s node)"
  "model_condition_free (ev_model ev) \<Longrightarrow> expand_tuples ev cx r ts st d = (Inr nodes, st') \<Longrightarrow>
     list_all2 (\<lambda>tu node. \<exists>ob'. object_ref_new (rt_subject tu) = Inr ob' \<and>
       rel_eval ev cx s r ob' (tree_holds s node)) ts nodes"
  "model_condition_free (ev_model ev) \<Longrightarrow> list_all condition_free rws \<Longrightarrow>
     expand_children ev cx r ob rws st d = (Inr nodes, st') \<Longrightarrow>
     list_all2 (\<lambda>rw node. rw_eval ev cx s r ob rw (tree_holds s node)) rws nodes"
proof (induction ev cx r ob st d and ev cx r ob rw st d and ev cx r ts st d
    and ev cx r ob rws st d arbitrary: node st' and node st' and nodes st' and nodes st'
    rule: expand_inner_expand_rewrite_expand_tuples_expand_children.induct)
  case (1 ev cx r ob st d)
  from "1.prems"(2) show ?case
  proof (cases rule: expand_inner_cases)
    case (expanded st1 rd st2)
    have "rw_eval ev cx s r ob (rd_rewrite rd) (tree_holds s node)"
      using "1.IH" [OF expanded(1) [symmetric] _ expanded(2) "1.prems"(1) _ expanded(3)]
        model_condition_freeD [OF "1.prems"(1) expanded(2)] by simp
    with expanded(2) show ?thesis by (rule rel_defined)
  qed simp_all
next
  case (2 ev cx r ob st d)
  then show ?case
    by (auto simp: result_simps direct_match_matching fset_of_list_elem intro!: rw_direct)
next
  case (4 ev cx r ob t c st d)
  then obtain nodes where nodes: "expand_tuples ev cx c (matching_tuples ev cx t ob) st (d + 1) = (Inr nodes, st')"
    and node: "tree_holds s node = list_ex (tree_holds s) nodes"
    by (auto simp: result_simps list_ex_iff)
  show ?case
    unfolding node by (rule rw_tuple [OF tuples_hold [OF "4.IH" [OF "4.prems"(1) nodes]]])
next
  case (5 ev cx r ob children st d)
  then obtain nodes where nodes: "expand_children ev cx r ob children st (d + 1) = (Inr nodes, st')"
    and node: "tree_holds s node = list_ex (tree_holds s) nodes"
    by (auto simp: result_simps list_ex_iff)
  show ?case
    unfolding node by (rule union_holds) (use "5.IH" nodes "5.prems" in auto)
next
  case (6 ev cx r ob children st d)
  then obtain nodes where nodes: "expand_children ev cx r ob children st (d + 1) = (Inr nodes, st')"
    and node: "tree_holds s node = list_all (tree_holds s) nodes"
    by (auto simp: result_simps list_all_iff)
  show ?case
    unfolding node by (rule intersection_holds) (use "6.IH" nodes "6.prems" in auto)
next
  case (7 ev cx r ob base subtract st d)
  then obtain base_node st1 subtract_node where
    calls: "expand_rewrite ev cx r ob base st (d + 1) = (Inr base_node, st1)"
      "expand_rewrite ev cx r ob subtract st1 (d + 1) = (Inr subtract_node, st')"
    and node: "tree_holds s node = (tree_holds s base_node \<and> \<not> tree_holds s subtract_node)"
    by (auto simp: result_simps)
  have "rw_eval ev cx s r ob base (tree_holds s base_node)"
    using "7.IH"(1) [OF "7.prems"(1) _ calls(1)] "7.prems"(2) by simp
  moreover have "rw_eval ev cx s r ob subtract (tree_holds s subtract_node)"
    using "7.IH"(2) [OF calls(1) [symmetric] refl "7.prems"(1) _ calls(2)] "7.prems"(2) by simp
  ultimately show ?case unfolding node by (rule exclusion_holds)
next
  case (10 ev cx c tuple tuples st d)
  then show ?case
    by (fastforce simp: result_simps split: sum.splits)
next
  case (12 ev cx r ob child children st d)
  then show ?case
    by (fastforce simp: result_simps)
qed (auto simp: result_simps intro: rw_computed)

end
