(* ===== verification/Rebac_Properties.thy ===== *)
theory Rebac_Properties
  imports Rebac_Expansion
begin

section \<open>Correctness of the relationship evaluator\<close>

text \<open>
  The properties of \<open>Evaluator::check\<close>, \<open>batch_check\<close>, \<open>list_objects\<close> and \<open>expand\<close>, each over the whole
  call. The sample below is a model in the style of the tests of \<open>engine.rs\<close>: a document is viewed by
  its direct viewers, by its editors and by the viewers of its parent folder.
\<close>

definition sample_model :: authorization_model where
  "sample_model =
     with_type
       (with_type (authorization_model_new (lit ''m''))
         (with_relation
           (with_relation
             (with_relation (object_type_new (lit ''doc'')) (lit ''editor'') \<lparr>rd_rewrite = Direct\<rparr>)
             (lit ''parent'') \<lparr>rd_rewrite = Direct\<rparr>)
           (lit ''viewer'')
           \<lparr>rd_rewrite = Union [Direct, ComputedUserset (lit ''editor''),
              TupleToUserset (lit ''parent'') (lit ''viewer'')]\<rparr>))
       (with_relation (object_type_new (lit ''folder'')) (lit ''viewer'') \<lparr>rd_rewrite = Direct\<rparr>)"

definition sample_tuples :: "relationship_tuple list" where
  "sample_tuples =
     [with_tenant (relationship_tuple_new (lit ''user:a'') (lit ''viewer'') (lit ''folder:1'')) (lit ''t:1''),
      with_tenant (relationship_tuple_new (lit ''folder:1'') (lit ''parent'') (lit ''doc:1'')) (lit ''t:1'')]"

definition sample_evaluator :: evaluator where
  "sample_evaluator = evaluator_new sample_model sample_tuples"

definition sample_context :: authz_context where
  "sample_context = authz_context_default\<lparr>cx_tenant_id := Some (lit ''t:1'')\<rparr>"

lemmas sample_defs = sample_evaluator_def evaluator_new_def sample_tuples_def sample_context_def
  authz_context_default_def with_tenant_def relationship_tuple_new_def sample_model_def with_type_def
  with_relation_def authorization_model_new_def object_type_new_def

lemmas evaluation_defs = evaluator_check_def ensure_relation_def relation_definition_of_def
  type_name_def evaluation_state_default_def check_inner.simps enter_def leave_def remember_def
  direct_match_def matching_tuples_def all_tuples_def tuple_tenant_matches_def
  tuple_condition_matches_def

lemma sample_refs:
  "object_ref_new (lit ''folder:1'') = Inr (lit ''folder:1'')"
  "object_ref_new (lit ''doc:1'') = Inr (lit ''doc:1'')"
  by (simp_all add: object_ref_new_def ref_new_def validate_ref_def trim_empty_iff is_whitespace_def
      rust_simps)

lemmas sample_refs_eval = sample_refs [simplified]

lemma sample_check:
  "evaluator_check sample_evaluator (lit ''user:a'') (lit ''viewer'') (lit ''doc:1'') sample_context
     = Inr (authz_decision_allow (lit ''m'') (Suc (Suc (Suc 0))))"
  by (simp add: sample_defs evaluation_defs sample_refs_eval rust_simps)

subsection \<open>Checks\<close>

lemma evaluator_check_sound:
  assumes "evaluator_check ev s r ob cx = Inr dec"
  shows "rel_eval ev cx s r ob b \<longleftrightarrow> b = ad_allowed dec"
proof -
  from assms obtain b' st' where call: "check_inner ev cx s r ob evaluation_state_default 0 = (Inr b', st')"
    and "ad_allowed dec = b'"
    by (auto simp: evaluator_check_Inr_iff authz_decision_allow_def authz_decision_deny_def)
  moreover have "rel_eval ev cx s r ob b'" using call by (rule check_inner_sound)
  ultimately show ?thesis using rel_eval_deterministic by blast
qed

text \<open>
  C1: an answered check is the answer. When \<open>check\<close> returns a decision, the order-independent
  semantics has exactly that answer for the question and no other, the decision carries the model's
  id, a denial carries a reason and an allowance none, and at most \<open>max_nodes\<close> questions were visited.
  So the memo table, the order of the children and the stack never change what is granted.
\<close>

theorem check_refines_semantics:
  assumes "evaluator_check ev s r ob cx = Inr dec"
  shows "(\<forall>b. rel_eval ev cx s r ob b \<longleftrightarrow> b = ad_allowed dec)
    \<and> ad_model_id dec = am_model_id (ev_model ev)
    \<and> (ad_reason dec = None \<longleftrightarrow> ad_allowed dec)
    \<and> ad_visited dec \<le> ev_max_nodes ev"
proof -
  from assms obtain b st' where call: "check_inner ev cx s r ob evaluation_state_default 0 = (Inr b, st')"
    and dec: "dec = (if b then authz_decision_allow (am_model_id (ev_model ev)) (es_visited st')
                 else authz_decision_deny (am_model_id (ev_model ev))
                        (lit ''no matching relationship path'') (es_visited st'))"
    by (auto simp: evaluator_check_Inr_iff)
  have "es_visited st' \<le> ev_max_nodes ev"
    using progress_snd(2) [OF call] by (simp add: progress_def evaluation_state_default_def)
  then show ?thesis
    using evaluator_check_sound [OF assms]
    by (simp add: dec authz_decision_allow_def authz_decision_deny_def)
qed

theorem check_refines_semantics_witness:
  "rel_eval sample_evaluator sample_context (lit ''user:a'') (lit ''viewer'') (lit ''doc:1'') True"
  using check_refines_semantics [OF sample_check] by (simp add: authz_decision_allow_def)

text \<open>
  C5: an error has a cause. When \<open>check\<close> fails, the error names something that is really there among
  the questions reachable from the one asked: a question that depends on itself, a chain of questions
  deeper than \<open>max_depth\<close>, more than \<open>max_nodes\<close> different questions (or a cycle), an unknown type or
  relation, or a tuple subject that is no object reference. \<open>UnknownModel\<close> is never raised.
\<close>

theorem check_error_has_cause:
  assumes "evaluator_check ev s r ob cx = Inl e"
  shows "cause ev cx (r, ob) e"
  using assms by (rule evaluator_check_cause)

theorem check_error_has_cause_witness:
  "cause (with_max_depth sample_evaluator 1) sample_context (lit ''viewer'', lit ''doc:1'') MaxDepthExceeded"
  by (rule check_error_has_cause [where s = "lit ''user:a''"])
    (simp add: with_max_depth_def sample_defs evaluation_defs sample_refs_eval rust_simps)

text \<open>
  C13: checks on well-behaved questions are answered. If every question reachable from the one asked
  is about a well-formed object with a known type and relation, none depends on itself, none lies
  deeper than \<open>max_depth\<close> and there are at most \<open>max_nodes\<close> of them, then \<open>check\<close> returns a decision.
\<close>

theorem check_answers:
  assumes "\<forall>q \<in> reachable ev cx (r, ob).
      (\<exists>rd. relation_definition_of ev (snd q) (fst q) = Inr rd) \<and> (\<exists>o'. object_ref_new (snd q) = Inr o')"
    and "\<not> cyclic ev cx (r, ob)"
    and "\<forall>d q. reaches ev cx (r, ob) d q \<longrightarrow> d \<le> ev_max_depth ev"
    and "finite (reachable ev cx (r, ob))" "card (reachable ev cx (r, ob)) \<le> ev_max_nodes ev"
  shows "\<exists>dec. evaluator_check ev s r ob cx = Inr dec"
proof (cases "evaluator_check ev s r ob cx")
  case (Inl e)
  then have "cause ev cx (r, ob) e" by (rule evaluator_check_cause)
  moreover have "\<not> (Q \<subseteq> reachable ev cx (r, ob) \<and> ev_max_nodes ev < card Q)" for Q
    using assms(4,5) card_mono [of "reachable ev cx (r, ob)" Q] by linarith
  ultimately show ?thesis using assms(1-3) by (cases e) (fastforce simp: not_le)+
qed blast

text \<open>The three questions of the sample.\<close>

definition doc_viewer :: question where "doc_viewer = (lit ''viewer'', lit ''doc:1'')"
definition doc_editor :: question where "doc_editor = (lit ''editor'', lit ''doc:1'')"
definition folder_viewer :: question where "folder_viewer = (lit ''viewer'', lit ''folder:1'')"

lemma sample_asks:
  "asks sample_evaluator sample_context doc_viewer = [(2, doc_editor), (2, folder_viewer)]"
  "asks sample_evaluator sample_context doc_editor = []"
  "asks sample_evaluator sample_context folder_viewer = []"
  by (simp_all add: asks_def doc_viewer_def doc_editor_def folder_viewer_def sample_defs evaluation_defs
      rust_simps)

lemma sample_distinct: "doc_viewer \<noteq> doc_editor" "doc_viewer \<noteq> folder_viewer"
  by (simp_all add: doc_viewer_def doc_editor_def folder_viewer_def)

lemma sample_reaches:
  "reaches sample_evaluator sample_context doc_viewer d q \<Longrightarrow>
     (d, q) \<in> {(0, doc_viewer), (2, doc_editor), (2, folder_viewer)}"
  by (induction rule: reaches.induct) (auto simp: sample_asks sample_distinct)

lemma sample_reachable:
  "reachable sample_evaluator sample_context doc_viewer \<subseteq> {doc_viewer, doc_editor, folder_viewer}"
  using sample_reaches by (fastforce simp: reachable_def)

lemma sample_acyclic: "\<not> cyclic sample_evaluator sample_context doc_viewer"
proof -
  let ?D = "depends sample_evaluator sample_context"
  have leaf: "(doc_editor, q) \<notin> ?D\<^sup>+" "(folder_viewer, q) \<notin> ?D\<^sup>+" for q
    using sample_asks by (auto simp: depends_def dest: tranclD)
  have "(doc_viewer, doc_viewer) \<notin> ?D\<^sup>+"
  proof
    assume "(doc_viewer, doc_viewer) \<in> ?D\<^sup>+"
    then obtain q where q: "(doc_viewer, q) \<in> ?D" "(q, doc_viewer) \<in> ?D\<^sup>*" by (blast dest: tranclD)
    then have "q \<in> {doc_editor, folder_viewer}" by (auto simp: depends_def sample_asks)
    then show False using q(2) leaf sample_distinct by (metis empty_iff insert_iff rtranclD)
  qed
  with leaf sample_reachable show ?thesis unfolding cyclic_def by blast
qed

lemma sample_questions:
  "\<exists>rd. relation_definition_of sample_evaluator (snd q) (fst q) = Inr rd"
  "\<exists>o'. object_ref_new (snd q) = Inr o'"
  if "q \<in> {doc_viewer, doc_editor, folder_viewer}"
  using that
  by (auto simp: doc_viewer_def doc_editor_def folder_viewer_def sample_defs evaluation_defs
      sample_refs_eval rust_simps)

theorem check_answers_witness:
  "\<exists>dec. evaluator_check sample_evaluator (lit ''user:b'') (lit ''viewer'') (lit ''doc:1'') sample_context
     = Inr dec"
proof (rule check_answers, fold doc_viewer_def)
  show "\<forall>q \<in> reachable sample_evaluator sample_context doc_viewer.
      (\<exists>rd. relation_definition_of sample_evaluator (snd q) (fst q) = Inr rd)
      \<and> (\<exists>o'. object_ref_new (snd q) = Inr o')"
    using sample_reachable sample_questions by blast
  show "\<not> cyclic sample_evaluator sample_context doc_viewer" by (rule sample_acyclic)
  show "\<forall>d q. reaches sample_evaluator sample_context doc_viewer d q \<longrightarrow> d \<le> ev_max_depth sample_evaluator"
    using sample_reaches by (fastforce simp: sample_evaluator_def evaluator_new_def)
  show finite: "finite (reachable sample_evaluator sample_context doc_viewer)"
    by (rule finite_subset [OF sample_reachable]) simp
  have "card (reachable sample_evaluator sample_context doc_viewer)
      \<le> card {doc_viewer, doc_editor, folder_viewer}"
    by (rule card_mono [OF _ sample_reachable]) simp
  also have "\<dots> \<le> 3" by (simp add: card_insert_le_m1)
  finally show "card (reachable sample_evaluator sample_context doc_viewer) \<le> ev_max_nodes sample_evaluator"
    by (simp add: sample_evaluator_def evaluator_new_def)
qed

subsection \<open>Visibility\<close>

lemma check_same_view:
  assumes "same_view ev cx ev' cx'"
  shows "evaluator_check ev' s r ob cx' = evaluator_check ev s r ob cx"
    and "expand ev' r ob cx' = expand ev r ob cx"
proof -
  have model: "ev_model ev' = ev_model ev" using assms by (simp add: same_view_def)
  show "evaluator_check ev' s r ob cx' = evaluator_check ev s r ob cx"
    "expand ev' r ob cx' = expand ev r ob cx"
    unfolding evaluator_check_def expand_def ensure_relation_def model eval_same_view [OF assms]
      expand_same_view [OF assms] same_view_eqs [OF assms]
    by (rule refl)+
qed

definition own_tuples :: "tenant_ref \<Rightarrow> relationship_tuple list \<Rightarrow> relationship_tuple list" where
  "own_tuples t = filter (\<lambda>tu. rt_tenant_id tu = None \<or> rt_tenant_id tu = Some t)"

lemma visible_own_tuples:
  assumes "cx_tenant_id cx = Some t"
  shows "visible_tuples ev cx =
    filter (\<lambda>tu. tuple_condition_matches tu cx)
      (own_tuples t (ev_tuples ev) @ own_tuples t (cx_contextual_tuples cx))"
proof -
  have "tuple_tenant_matches tu cx \<longleftrightarrow> rt_tenant_id tu = None \<or> rt_tenant_id tu = Some t" for tu
    using assms by (auto simp: tuple_tenant_matches_def split: option.splits)
  then show ?thesis
    by (simp add: visible_tuples_def own_tuples_def all_tuples_def conj_commute)
qed

text \<open>
  C6: tenants are isolated. Under a context that names a tenant, the outcome of \<open>check\<close> (decision,
  visited count or error) and of \<open>expand\<close> depends only on the stored tuples of that tenant and on the
  tuples of no tenant: adding, removing or reordering the tuples of other tenants changes nothing.
\<close>

theorem tenant_isolation:
  assumes "cx_tenant_id cx = Some t" "own_tuples t ts' = own_tuples t (ev_tuples ev)"
  shows "evaluator_check (ev\<lparr>ev_tuples := ts'\<rparr>) s r ob cx = evaluator_check ev s r ob cx
    \<and> expand (ev\<lparr>ev_tuples := ts'\<rparr>) r ob cx = expand ev r ob cx"
proof -
  have "same_view ev cx (ev\<lparr>ev_tuples := ts'\<rparr>) cx"
    using assms by (simp add: same_view_def visible_own_tuples)
  then show ?thesis by (simp add: check_same_view)
qed

theorem tenant_isolation_witness:
  "evaluator_check
     (sample_evaluator\<lparr>ev_tuples :=
        with_tenant (relationship_tuple_new (lit ''user:b'') (lit ''viewer'') (lit ''doc:1'')) (lit ''t:2'')
        # sample_tuples\<rparr>)
     (lit ''user:b'') (lit ''viewer'') (lit ''doc:1'') sample_context
   = evaluator_check sample_evaluator (lit ''user:b'') (lit ''viewer'') (lit ''doc:1'') sample_context"
proof -
  let ?foreign = "with_tenant (relationship_tuple_new (lit ''user:b'') (lit ''viewer'') (lit ''doc:1'')) (lit ''t:2'')"
  have "own_tuples (lit ''t:1'') (?foreign # sample_tuples) = own_tuples (lit ''t:1'') (ev_tuples sample_evaluator)"
    by (simp add: own_tuples_def sample_defs)
  moreover have "cx_tenant_id sample_context = Some (lit ''t:1'')" by (simp add: sample_defs)
  ultimately show ?thesis using tenant_isolation by blast
qed

text \<open>
  A contextual tuple counts exactly like a stored one. Moving the contextual tuples of a request
  to the end of the store changes no outcome of \<open>check\<close> and \<open>expand\<close>, on any branch.
\<close>

theorem contextual_tuples_as_stored:
  "evaluator_check (ev\<lparr>ev_tuples := ev_tuples ev @ cx_contextual_tuples cx\<rparr>) s r ob
     (cx\<lparr>cx_contextual_tuples := []\<rparr>) = evaluator_check ev s r ob cx
   \<and> expand (ev\<lparr>ev_tuples := ev_tuples ev @ cx_contextual_tuples cx\<rparr>) r ob
     (cx\<lparr>cx_contextual_tuples := []\<rparr>) = expand ev r ob cx"
proof -
  have "condition_matches name (cx\<lparr>cx_contextual_tuples := []\<rparr>) = condition_matches name cx" for name
    by (simp add: condition_matches_def split: option.split)
  then have "same_view ev cx (ev\<lparr>ev_tuples := ev_tuples ev @ cx_contextual_tuples cx\<rparr>)
      (cx\<lparr>cx_contextual_tuples := []\<rparr>)"
    by (simp add: same_view_def visible_tuples_def all_tuples_def tuple_tenant_matches_def
        tuple_condition_matches_def split: option.split)
  then show ?thesis by (simp add: check_same_view)
qed

subsection \<open>Lists, batches and expansions\<close>

lemma collect_allowed_Inr:
  "collect_allowed ev s r cx candidates = Inr objects \<Longrightarrow>
     objects = filter (\<lambda>ob. rel_eval ev cx s r ob True) candidates"
proof (induction candidates arbitrary: objects)
  case (Cons ob candidates)
  then obtain dec rest where "evaluator_check ev s r ob cx = Inr dec"
    "collect_allowed ev s r cx candidates = Inr rest"
    "objects = (if ad_allowed dec then ob # rest else rest)"
    by (auto simp: result_simps)
  moreover from this have "rel_eval ev cx s r ob True \<longleftrightarrow> ad_allowed dec"
    by (simp add: evaluator_check_sound)
  ultimately show ?case using Cons.IH by simp
qed simp

text \<open>
  C26: \<open>list_objects\<close> returns exactly the objects the subject may reach: those named by some tuple, of
  the requested type, for which the semantics grants the relation, each once and in ascending order.
\<close>

theorem list_objects_exact:
  assumes "list_objects ev s r ty cx = Inr objects"
  shows "sorted_wrt (<) objects
    \<and> set objects = {ob \<in> rt_object ` set (all_tuples ev cx). type_name ob = ty \<and> rel_eval ev cx s r ob True}"
proof -
  let ?candidates = "sorted_list_of_fset (fset_of_list
    (filter (\<lambda>ob. type_name ob = ty) (map rt_object (all_tuples ev cx))))"
  have "objects = filter (\<lambda>ob. rel_eval ev cx s r ob True) ?candidates"
    using assms by (auto simp: list_objects_def result_simps collect_allowed_Inr split: if_splits)
  moreover have "sorted_wrt (<) ?candidates"
    by (simp add: strict_sorted_iff sorted_list_of_fset.rep_eq)
  ultimately show ?thesis by (auto simp: sorted_wrt_filter fset_of_list_elem)
qed

theorem list_objects_exact_witness:
  "rel_eval sample_evaluator sample_context (lit ''user:a'') (lit ''viewer'') (lit ''folder:1'') True"
proof -
  have "list_objects sample_evaluator (lit ''user:a'') (lit ''viewer'') (lit ''folder'') sample_context
      = Inr [lit ''folder:1'']"
    by (simp add: list_objects_def sample_defs evaluation_defs sample_refs_eval rust_simps
        authz_decision_allow_def sorted_list_of_fset.rep_eq)
  from list_objects_exact [OF this] show ?thesis by auto
qed

text \<open>
  A batch is its checks. \<open>batch_check\<close> returns decisions exactly when every single check does, and
  then they are the single decisions in the order of the questions; it fails exactly with the error of
  the first question that fails.
\<close>

theorem batch_check_pointwise:
  "(evaluator_batch_check ev checks cx = Inr decisions \<longleftrightarrow>
      list_all2 (\<lambda>(s, r, ob) dec. evaluator_check ev s r ob cx = Inr dec) checks decisions)
   \<and> (evaluator_batch_check ev checks cx = Inl e \<longleftrightarrow>
      (\<exists>answered s r ob rest. checks = answered @ (s, r, ob) # rest
         \<and> (\<forall>(s', r', ob') \<in> set answered. \<exists>dec. evaluator_check ev s' r' ob' cx = Inr dec)
         \<and> evaluator_check ev s r ob cx = Inl e))"
  by (auto simp: evaluator_batch_check_def try_map_Inr_iff try_map_Inl_iff case_prod_unfold)

theorem batch_check_pointwise_witness:
  "evaluator_batch_check sample_evaluator [(lit ''user:a'', lit ''viewer'', lit ''doc:1'')] sample_context
     = Inr [authz_decision_allow (lit ''m'') (Suc (Suc (Suc 0)))]"
  unfolding batch_check_pointwise [THEN conjunct1] using sample_check by simp

text \<open>
  C18: the expansion tree explains the check. For a model without conditions, whenever \<open>expand\<close> and
  \<open>check\<close> both return, evaluating the tree for a subject (direct nodes list their subjects, a union
  needs one child, an intersection all, an exclusion the first and not the second) gives the decision
  of \<open>check\<close> for that subject.
\<close>

theorem expansion_explains_check:
  assumes "model_condition_free (ev_model ev)" "expand ev r ob cx = Inr node"
    and "evaluator_check ev s r ob cx = Inr dec"
  shows "ad_allowed dec \<longleftrightarrow> tree_holds s node"
proof -
  obtain st' where "expand_inner ev cx r ob evaluation_state_default 0 = (Inr node, st')"
    using assms(2) by (auto simp: expand_def result_simps) (metis prod.collapse)
  then have "rel_eval ev cx s r ob (tree_holds s node)" by (rule expand_sound(1) [OF assms(1)])
  then show ?thesis using evaluator_check_sound [OF assms(3)] by blast
qed

theorem expansion_explains_check_witness:
  "tree_holds (lit ''user:a'')
     (projr (expand sample_evaluator (lit ''viewer'') (lit ''doc:1'') sample_context))"
proof -
  have "model_condition_free (ev_model sample_evaluator)"
    by (auto simp: model_condition_free_def sample_defs split: if_splits)
  moreover have "\<not> isl (expand sample_evaluator (lit ''viewer'') (lit ''doc:1'') sample_context)"
    by (simp add: expand_def expand_inner.simps expand_subject_def finish_node_def sample_defs
        evaluation_defs sample_refs_eval rust_simps)
  ultimately show ?thesis
    using expansion_explains_check [OF _ _ sample_check]
    by (metis authz_decision_allow_def authz_decision.select_convs(1) sum.collapse(2))
qed

end
