(* ===== verification/Relational_Kernel.thy ===== *)
theory Relational_Kernel
  imports Auth_Context
begin

section \<open>The relational kernel and the authoritative session load\<close>

text \<open>
  Models \<open>src/crates/wasi-auth/src/postgres.rs\<close> (rows and their decoding, the verified session, the
  authorization fingerprint, the session loads of \<open>PostgresAuthStore\<close>) and the two queries they run,
  \<open>postgres/load_request_context.sql\<close> and \<open>postgres/load_request_fingerprint.sql\<close>, over the tables of
  the migrations. A table with a primary key is a finite map from the key; a \<open>BIGINT\<close> is an \<open>int\<close>; a
  nullable column is an option. \<open>parse_uuid\<close> stands for the conversion \<open>$n::text::uuid\<close>, which
  either rejects the text or yields the identifier in its canonical spelling.
\<close>

unbundle bit_operations_syntax

subsection \<open>Rows\<close>

datatype json_value =
  JvNull | JvBool bool | JvNumber int | JvString rstr
| JvArray "json_value list" | JvObject "(rstr \<times> json_value) list"

datatype pg_value =
  PgNull | PgBool bool | PgI64 int | PgText rstr | PgBytes bytes | PgJson json_value

type_synonym pg_row = "(rstr, pg_value) fmap"

datatype row_decode_error = RowMissing rstr | RowWrongType rstr

definition row_new :: "(rstr \<times> pg_value) list \<Rightarrow> pg_row" where
  "row_new columns = fold (\<lambda>(column, v) row. fmupd column v row) columns fmempty"

definition row_text :: "pg_row \<Rightarrow> rstr \<Rightarrow> row_decode_error + rstr option" where
  "row_text row column =
     (case fmlookup row column of
        Some (PgText v) \<Rightarrow> Inr (Some v)
      | Some PgNull \<Rightarrow> Inr None
      | None \<Rightarrow> Inr None
      | Some _ \<Rightarrow> Inl (RowWrongType column))"

definition required_text :: "pg_row \<Rightarrow> rstr \<Rightarrow> row_decode_error + rstr" where
  "required_text row column = rbind (row_text row column) (ok_or (RowMissing column))"

definition row_i64 :: "pg_row \<Rightarrow> rstr \<Rightarrow> row_decode_error + int option" where
  "row_i64 row column =
     (case fmlookup row column of
        Some (PgI64 v) \<Rightarrow> Inr (Some v)
      | Some PgNull \<Rightarrow> Inr None
      | None \<Rightarrow> Inr None
      | Some _ \<Rightarrow> Inl (RowWrongType column))"

definition required_i64 :: "pg_row \<Rightarrow> rstr \<Rightarrow> row_decode_error + int" where
  "required_i64 row column = rbind (row_i64 row column) (ok_or (RowMissing column))"

definition row_bytes :: "pg_row \<Rightarrow> rstr \<Rightarrow> row_decode_error + bytes option" where
  "row_bytes row column =
     (case fmlookup row column of
        Some (PgBytes v) \<Rightarrow> Inr (Some v)
      | Some PgNull \<Rightarrow> Inr None
      | None \<Rightarrow> Inr None
      | Some _ \<Rightarrow> Inl (RowWrongType column))"

definition required_bytes :: "pg_row \<Rightarrow> rstr \<Rightarrow> row_decode_error + bytes" where
  "required_bytes row column = rbind (row_bytes row column) (ok_or (RowMissing column))"

definition row_bool :: "pg_row \<Rightarrow> rstr \<Rightarrow> row_decode_error + bool option" where
  "row_bool row column =
     (case fmlookup row column of
        Some (PgBool v) \<Rightarrow> Inr (Some v)
      | Some PgNull \<Rightarrow> Inr None
      | None \<Rightarrow> Inr None
      | Some _ \<Rightarrow> Inl (RowWrongType column))"

definition row_json :: "pg_row \<Rightarrow> rstr \<Rightarrow> row_decode_error + json_value option" where
  "row_json row column =
     (case fmlookup row column of
        Some (PgJson v) \<Rightarrow> Inr (Some v)
      | Some PgNull \<Rightarrow> Inr None
      | None \<Rightarrow> Inr None
      | Some _ \<Rightarrow> Inl (RowWrongType column))"

subsection \<open>Tables\<close>

record user_row =
  u_normalized_email :: rstr
  u_primary_email :: rstr
  u_status :: rstr
  u_security_revision :: int
  u_created_at_ms :: int
  u_updated_at_ms :: int

record session_row =
  s_user_id :: rstr
  s_selected_organization_id :: "rstr option"
  s_assurance :: rstr
  s_session_revision :: int
  s_user_security_revision :: int
  s_expires_at_ms :: int
  s_revoked_at_ms :: "int option"
  s_created_at_ms :: int
  s_updated_at_ms :: int

record organization_row =
  o_name :: rstr
  o_slug :: "rstr option"
  o_status :: rstr
  o_authorization_revision :: int
  o_owner_count :: int
  o_created_by :: rstr
  o_created_at_ms :: int
  o_updated_at_ms :: int

record role_row =
  r_name :: rstr
  r_built_in :: bool
  r_created_at_ms :: int
  r_updated_at_ms :: int

record membership_row =
  m_role_id :: rstr
  m_status :: rstr
  m_joined_at_ms :: int
  m_updated_at_ms :: int

record invitation_row =
  i_organization_id :: rstr
  i_normalized_email :: rstr
  i_role_id :: rstr
  i_token_hash :: bytes
  i_status :: rstr
  i_expires_at_ms :: int
  i_accepted_at_ms :: "int option"
  i_accepted_by :: "rstr option"
  i_created_by :: rstr
  i_created_at_ms :: int
  i_updated_at_ms :: int

record one_time_token_row =
  ot_purpose :: rstr
  ot_user_id :: "rstr option"
  ot_subject_hint :: "rstr option"
  ot_redirect_uri :: "rstr option"
  ot_payload :: json_value
  ot_expires_at_ms :: int
  ot_consumed_at_ms :: "int option"
  ot_created_at_ms :: int

record refresh_token_row =
  rt_session_id :: rstr
  rt_family_id :: rstr
  rt_successor_hash :: "bytes option"
  rt_successor_key_version :: "rstr option"
  rt_successor_ciphertext :: "bytes option"
  rt_replay_until_ms :: "int option"
  rt_expires_at_ms :: int
  rt_rotated_at_ms :: "int option"
  rt_revoked_at_ms :: "int option"
  rt_created_at_ms :: int

text \<open>The typed columns of a relationship intent in \<open>auth_outbox\<close> are null together: \<open>ob_relationship\<close>.\<close>

record relationship_columns =
  rc_operation :: rstr
  rc_resource_type :: rstr
  rc_resource_id :: rstr
  rc_relation :: rstr
  rc_subject_type :: rstr
  rc_subject_id :: rstr
  rc_resource_revision :: int

record outbox_row =
  ob_kind :: rstr
  ob_deduplication_key :: rstr
  ob_key_version :: "rstr option"
  ob_payload_ciphertext :: "bytes option"
  ob_relationship :: "relationship_columns option"
  ob_status :: rstr
  ob_attempt_count :: int
  ob_available_at_ms :: int
  ob_lease_id :: "rstr option"
  ob_leased_until_ms :: "int option"
  ob_delivered_at_ms :: "int option"
  ob_delivery_id :: "rstr option"
  ob_last_error_code :: "rstr option"
  ob_created_at_ms :: int
  ob_updated_at_ms :: int

record idempotency_row =
  ik_actor_key :: rstr
  ik_operation :: rstr
  ik_request_hash :: bytes
  ik_response_public :: json_value
  ik_expires_at_ms :: int
  ik_committed_at_ms :: int

record audit_row =
  al_organization_id :: "rstr option"
  al_actor_user_id :: "rstr option"
  al_session_id :: "rstr option"
  al_action :: rstr
  al_resource_type :: rstr
  al_resource_id :: rstr
  al_outcome :: rstr
  al_request_id :: rstr
  al_occurred_at_ms :: int

record password_row =
  pw_password_hash :: rstr
  pw_created_at_ms :: int
  pw_updated_at_ms :: int
  pw_last_authenticated_at_ms :: "int option"
  pw_revoked_at_ms :: "int option"

record rate_limit_row =
  rl_attempt_count :: int
  rl_window_expires_at_ms :: int
  rl_updated_at_ms :: int

record kernel_db =
  db_users :: "(rstr, user_row) fmap"
  db_passwords :: "(rstr, password_row) fmap"
  db_sessions :: "(rstr, session_row) fmap"
  db_one_time_tokens :: "(bytes, one_time_token_row) fmap"
  db_organizations :: "(rstr, organization_row) fmap"
  db_roles :: "(rstr \<times> rstr, role_row) fmap"
  db_memberships :: "(rstr \<times> rstr, membership_row) fmap"
  db_role_permissions :: "(rstr \<times> rstr \<times> rstr) fset"
  db_invitations :: "(rstr, invitation_row) fmap"
  db_policy_bundles :: "(rstr, rstr) fmap"
  db_system_administrators :: "(rstr, int option) fmap"
  db_signing_keys :: "(rstr, rstr) fmap"
  db_refresh_tokens :: "(bytes, refresh_token_row) fmap"
  db_idempotency :: "(rstr, idempotency_row) fmap"
  db_rate_limit_buckets :: "(rstr, rate_limit_row) fmap"
  db_outbox :: "(rstr, outbox_row) fmap"
  db_audit_log :: "(rstr, audit_row) fmap"

text \<open>Errors of the database: a statement that raises one has no effect.\<close>

datatype pg_error =
  InvalidTextRepresentation | UniqueViolation | NumericValueOutOfRange | ForeignKeyViolation
| CheckViolation rstr | CardinalityViolation

definition u64_to_i64 :: "u64 \<Rightarrow> int" where
  "u64_to_i64 v = (if uint v \<le> 9223372036854775807 then uint v else 9223372036854775807)"

definition MAX_BIGINT :: int where "MAX_BIGINT = 9223372036854775807"

text \<open>An audit record; the column \<open>metadata\<close> and the identity column \<open>sequence\<close> are left out.\<close>

definition audit_entry ::
  "rstr option \<Rightarrow> rstr option \<Rightarrow> rstr option \<Rightarrow> rstr \<Rightarrow> rstr \<Rightarrow> rstr \<Rightarrow> rstr \<Rightarrow> rstr \<Rightarrow> int \<Rightarrow> audit_row" where
  "audit_entry organization actor session action resource_type resource_id outcome request_id now =
     \<lparr>al_organization_id = organization, al_actor_user_id = actor, al_session_id = session, al_action = action,
      al_resource_type = resource_type, al_resource_id = resource_id, al_outcome = outcome,
      al_request_id = request_id, al_occurred_at_ms = now\<rparr>"

definition saturating_mul :: "u64 \<Rightarrow> u64 \<Rightarrow> u64" where
  "saturating_mul a b = (if unat a * unat b < 2 ^ 64 then a * b else - 1)"

text \<open>A session and its user that may act at a time: the condition the statements share.\<close>

definition session_usable :: "kernel_db \<Rightarrow> int \<Rightarrow> rstr \<Rightarrow> (session_row \<times> user_row) option" where
  "session_usable db now sid =
     Option.bind (fmlookup (db_sessions db) sid) (\<lambda>s.
     Option.bind (fmlookup (db_users db) (s_user_id s)) (\<lambda>u.
       if s_revoked_at_ms s = None \<and> s_expires_at_ms s > now
          \<and> s_user_security_revision s = u_security_revision u \<and> u_status u = lit ''active''
       then Some (s, u) else None))"

text \<open>Every service builds its identifiers with the same function.\<close>

definition uuid_v7 :: "u64 \<Rightarrow> bytes \<Rightarrow> bytes" where
  "uuid_v7 now_ms random =
     (let timestamp = min now_ms 281474976710655 in
      map (\<lambda>i. ucast (drop_bit (8 * (5 - i)) timestamp)) [0..<6]
      @ [112 OR (random ! 0 AND 15), random ! 1, 128 OR (random ! 2 AND 63)]
      @ drop 3 random)"

subsection \<open>The two session queries\<close>

text \<open>
  \<open>FROM auth_sessions JOIN auth_users LEFT JOIN auth_organizations LEFT JOIN auth_memberships\<close> for one
  session identifier: at most one row, because every join is on a primary key.
\<close>

definition session_join ::
  "kernel_db \<Rightarrow> rstr \<Rightarrow> (session_row \<times> user_row \<times> organization_row option \<times> membership_row option) option" where
  "session_join db sid =
     (case fmlookup (db_sessions db) sid of
        None \<Rightarrow> None
      | Some s \<Rightarrow>
        (case fmlookup (db_users db) (s_user_id s) of
           None \<Rightarrow> None
         | Some u \<Rightarrow> Some (s, u,
             Option.bind (s_selected_organization_id s) (fmlookup (db_organizations db)),
             Option.bind (s_selected_organization_id s) (\<lambda>organization.
               Option.bind (fmlookup (db_memberships db) (organization, s_user_id s)) (\<lambda>m.
                 if m_status m = lit ''active'' then Some m else None)))))"

definition session_where ::
  "int \<Rightarrow> session_row \<times> user_row \<times> organization_row option \<times> membership_row option \<Rightarrow> bool" where
  "session_where now = (\<lambda>(s, u, organization, m).
     s_revoked_at_ms s = None
     \<and> s_expires_at_ms s > now
     \<and> u_status u = lit ''active''
     \<and> u_security_revision u = s_user_security_revision s
     \<and> (s_selected_organization_id s = None
        \<or> (case organization of None \<Rightarrow> False | Some organization' \<Rightarrow> o_status organization' = lit ''active'')
          \<and> m \<noteq> None))"

definition signing_key_usable :: "kernel_db \<Rightarrow> rstr \<Rightarrow> bool" where
  "signing_key_usable db key_id \<longleftrightarrow>
     fmlookup (db_signing_keys db) key_id \<in> {Some (lit ''active''), Some (lit ''retired'')}"

text \<open>The unique index on active bundles leaves at most one, so \<open>LIMIT 1\<close> does not choose.\<close>

definition active_policy_revision :: "kernel_db \<Rightarrow> rstr option" where
  "active_policy_revision db =
     List.find (\<lambda>revision. fmlookup (db_policy_bundles db) revision = Some (lit ''active''))
       (sorted_list_of_fset (fmdom (db_policy_bundles db)))"

definition is_system_administrator :: "kernel_db \<Rightarrow> rstr \<Rightarrow> bool" where
  "is_system_administrator db user_id \<longleftrightarrow> fmlookup (db_system_administrators db) user_id = Some None"

definition role_permissions :: "kernel_db \<Rightarrow> rstr option \<Rightarrow> membership_row option \<Rightarrow> rstr list" where
  "role_permissions db organization m =
     (case (organization, m) of
        (Some organization', Some m') \<Rightarrow>
          sorted_list_of_fset ((\<lambda>(_, _, permission). permission) |`|
            ffilter (\<lambda>(o'', role, _). o'' = organization' \<and> role = m_role_id m') (db_role_permissions db))
      | _ \<Rightarrow> [])"

definition pg_text_option :: "rstr option \<Rightarrow> pg_value" where
  "pg_text_option v = (case v of None \<Rightarrow> PgNull | Some t \<Rightarrow> PgText t)"

definition pg_i64_option :: "int option \<Rightarrow> pg_value" where
  "pg_i64_option v = (case v of None \<Rightarrow> PgNull | Some n \<Rightarrow> PgI64 n)"

definition request_context_row ::
  "kernel_db \<Rightarrow> rstr \<Rightarrow> session_row \<times> user_row \<times> organization_row option \<times> membership_row option \<Rightarrow> pg_row" where
  "request_context_row db sid = (\<lambda>(s, u, organization, m). row_new
       [(lit ''user_id'', PgText (s_user_id s)),
        (lit ''primary_email'', PgText (u_primary_email u)),
        (lit ''session_id'', PgText sid),
        (lit ''organization_id'', pg_text_option (s_selected_organization_id s)),
        (lit ''assurance'', PgText (s_assurance s)),
        (lit ''created_at_ms'', PgI64 (s_created_at_ms s)),
        (lit ''expires_at_ms'', PgI64 (s_expires_at_ms s)),
        (lit ''session_revision'', PgI64 (s_session_revision s)),
        (lit ''user_security_revision'', PgI64 (s_user_security_revision s)),
        (lit ''organization_authorization_revision'', pg_i64_option (map_option o_authorization_revision organization)),
        (lit ''role_id'', pg_text_option (map_option m_role_id m)),
        (lit ''permissions'', PgJson (JvArray (map JvString (role_permissions db (s_selected_organization_id s) m)))),
        (lit ''policy_revision'', pg_text_option (active_policy_revision db)),
        (lit ''system_administrator'', PgBool (is_system_administrator db (s_user_id s)))])"

definition request_fingerprint_row ::
  "kernel_db \<Rightarrow> rstr \<Rightarrow> session_row \<times> user_row \<times> organization_row option \<times> membership_row option \<Rightarrow> pg_row" where
  "request_fingerprint_row db sid = (\<lambda>(s, u, organization, m). row_new
       [(lit ''user_id'', PgText (s_user_id s)),
        (lit ''session_id'', PgText sid),
        (lit ''organization_id'', pg_text_option (s_selected_organization_id s)),
        (lit ''assurance'', PgText (s_assurance s)),
        (lit ''expires_at_ms'', PgI64 (s_expires_at_ms s)),
        (lit ''session_revision'', PgI64 (s_session_revision s)),
        (lit ''user_security_revision'', PgI64 (s_user_security_revision s)),
        (lit ''organization_authorization_revision'', pg_i64_option (map_option o_authorization_revision organization)),
        (lit ''role_id'', pg_text_option (map_option m_role_id m)),
        (lit ''policy_revision'', pg_text_option (active_policy_revision db)),
        (lit ''system_administrator'', PgBool (is_system_administrator db (s_user_id s)))])"

definition load_request_context_sql ::
  "(rstr \<Rightarrow> rstr option) \<Rightarrow> kernel_db \<Rightarrow> rstr \<Rightarrow> int \<Rightarrow> rstr \<Rightarrow> pg_error + pg_row list" where
  "load_request_context_sql parse_uuid db session_text now key_id =
     (case parse_uuid session_text of
        None \<Rightarrow> Inl InvalidTextRepresentation
      | Some sid \<Rightarrow>
        (case session_join db sid of
           None \<Rightarrow> Inr []
         | Some facts \<Rightarrow>
           Inr (if session_where now facts \<and> (key_id = [] \<or> signing_key_usable db key_id)
                then [request_context_row db sid facts] else [])))"

definition load_request_fingerprint_sql ::
  "(rstr \<Rightarrow> rstr option) \<Rightarrow> kernel_db \<Rightarrow> rstr \<Rightarrow> int \<Rightarrow> rstr \<Rightarrow> pg_error + pg_row list" where
  "load_request_fingerprint_sql parse_uuid db session_text now key_id =
     (case parse_uuid session_text of
        None \<Rightarrow> Inl InvalidTextRepresentation
      | Some sid \<Rightarrow>
        (case session_join db sid of
           None \<Rightarrow> Inr []
         | Some facts \<Rightarrow>
           Inr (if session_where now facts \<and> signing_key_usable db key_id
                then [request_fingerprint_row db sid facts] else [])))"

subsection \<open>Decoding a session\<close>

datatype context_load_error =
  ClRow row_decode_error | ClContext context_error | InvalidAssurance | InvalidTimestamp
| InvalidPermissions | InvalidEmail | InvalidRevision

datatype kernel_validation_error = InvalidValue

datatype 't postgres_store_error =
  StoreTransport 't | StoreValidation kernel_validation_error | StoreRow row_decode_error | StoreContext
| EmailAlreadyExists | IdempotencyConflict | Unauthenticated | UnexpectedOutcome

fun store_error_of_load :: "context_load_error \<Rightarrow> 't postgres_store_error" where
  "store_error_of_load (ClRow e) = StoreRow e"
| "store_error_of_load (ClContext _) = StoreContext"
| "store_error_of_load InvalidAssurance = StoreContext"
| "store_error_of_load InvalidTimestamp = StoreContext"
| "store_error_of_load InvalidPermissions = StoreContext"
| "store_error_of_load InvalidEmail = StoreContext"
| "store_error_of_load InvalidRevision = StoreContext"

record authorization_fingerprint =
  fp_user_id :: rstr
  fp_session_id :: rstr
  fp_organization_id :: "rstr option"
  fp_assurance :: rstr
  fp_expires_at_ms :: int
  fp_session_revision :: int
  fp_user_security_revision :: int
  fp_organization_authorization_revision :: "int option"
  fp_role_id :: "rstr option"
  fp_policy_revision :: "rstr option"
  fp_system_administrator :: bool

record verified_session =
  vs_context :: verified_request_context
  vs_primary_email :: rstr
  vs_fingerprint :: authorization_fingerprint

definition required_id :: "pg_row \<Rightarrow> rstr \<Rightarrow> context_load_error + rstr" where
  "required_id row column =
     rbind (map_err ClRow (required_text row column)) (\<lambda>v. map_err ClContext (bounded_identifier_new v))"

definition optional_id :: "pg_row \<Rightarrow> rstr \<Rightarrow> context_load_error + rstr option" where
  "optional_id row column =
     rbind (map_err ClRow (row_text row column)) (\<lambda>v. map_err ClContext (opt_try bounded_identifier_new v))"

definition fingerprint_assurance :: "rstr \<Rightarrow> context_load_error + rstr" where
  "fingerprint_assurance v =
     (if v = lit ''aal1'' then Inr (lit ''aal1'')
      else if v = lit ''aal2'' \<or> v = lit ''aal3'' then Inr (lit ''aal2'')
      else Inl InvalidAssurance)"

definition authorization_fingerprint_of :: "pg_row \<Rightarrow> context_load_error + authorization_fingerprint" where
  "authorization_fingerprint_of row =
     rbind (required_id row (lit ''user_id'')) (\<lambda>user_id.
     rbind (required_id row (lit ''session_id'')) (\<lambda>session_id.
     rbind (optional_id row (lit ''organization_id'')) (\<lambda>organization_id.
     rbind (map_err ClRow (required_text row (lit ''assurance''))) (\<lambda>assurance_text.
     rbind (fingerprint_assurance assurance_text) (\<lambda>assurance.
     rbind (map_err ClRow (required_i64 row (lit ''expires_at_ms''))) (\<lambda>expires_at_ms.
     rbind (map_err ClRow (required_i64 row (lit ''session_revision''))) (\<lambda>session_revision.
     rbind (map_err ClRow (required_i64 row (lit ''user_security_revision''))) (\<lambda>user_security_revision.
     rbind (map_err ClRow (row_i64 row (lit ''organization_authorization_revision''))) (\<lambda>organization_revision.
     rbind (optional_id row (lit ''role_id'')) (\<lambda>role_id.
     rbind (optional_id row (lit ''policy_revision'')) (\<lambda>policy_revision.
     if expires_at_ms \<le> 0 \<or> session_revision \<le> 0 \<or> user_security_revision \<le> 0
        \<or> (case organization_revision of None \<Rightarrow> False | Some revision \<Rightarrow> revision \<le> 0)
        \<or> (organization_id \<noteq> None) \<noteq> (organization_revision \<noteq> None \<and> role_id \<noteq> None)
     then Inl InvalidRevision
     else
     rbind (map_err ClRow (row_bool row (lit ''system_administrator''))) (\<lambda>administrator.
       Inr \<lparr>fp_user_id = user_id, fp_session_id = session_id, fp_organization_id = organization_id,
            fp_assurance = assurance, fp_expires_at_ms = expires_at_ms,
            fp_session_revision = session_revision,
            fp_user_security_revision = user_security_revision,
            fp_organization_authorization_revision = organization_revision, fp_role_id = role_id,
            fp_policy_revision = policy_revision,
            fp_system_administrator = (case administrator of None \<Rightarrow> False | Some b \<Rightarrow> b)\<rparr>))))))))))))"

definition assurance_of_text :: "rstr \<Rightarrow> context_load_error + authentication_assurance" where
  "assurance_of_text v =
     (if v = lit ''aal1'' then Inr Aal1
      else if v = lit ''aal2'' \<or> v = lit ''aal3'' then Inr Aal2
      else Inl InvalidAssurance)"

text \<open>\<open>and_then(Value::as_array).into_iter().flatten()\<close>: anything but an array is no permissions.\<close>

definition permission_texts :: "json_value option \<Rightarrow> context_load_error + rstr list" where
  "permission_texts v =
     try_map (\<lambda>item. case item of JvString t \<Rightarrow> Inr t | _ \<Rightarrow> Inl InvalidPermissions)
       (case v of Some (JvArray items) \<Rightarrow> items | _ \<Rightarrow> [])"

definition verified_session_of :: "pg_row \<Rightarrow> request_id \<Rightarrow> context_load_error + verified_session" where
  "verified_session_of row request_id =
     rbind (authorization_fingerprint_of row) (\<lambda>fingerprint.
     rbind (required_id row (lit ''user_id'')) (\<lambda>user_id.
     rbind (map_err ClRow (required_text row (lit ''primary_email''))) (\<lambda>primary_email.
     if str_len primary_email > 320 \<or> list_ex is_control primary_email then Inl InvalidEmail else
     rbind (optional_id row (lit ''organization_id'')) (\<lambda>organization_id.
     rbind (required_id row (lit ''session_id'')) (\<lambda>session_id.
     rbind (map_err ClRow (required_text row (lit ''assurance''))) (\<lambda>assurance_text.
     rbind (assurance_of_text assurance_text) (\<lambda>assurance.
     rbind (map_err ClRow (required_i64 row (lit ''expires_at_ms''))) (\<lambda>expires_at_ms.
     rbind (map_err ClRow (required_i64 row (lit ''created_at_ms''))) (\<lambda>created_at_ms.
     if expires_at_ms \<le> 0 \<or> created_at_ms < 0 \<or> created_at_ms \<ge> expires_at_ms
     then Inl InvalidTimestamp else
     rbind (optional_id row (lit ''policy_revision'')) (\<lambda>policy_revision.
     rbind (optional_id row (lit ''role_id'')) (\<lambda>role_id.
     rbind (map_err ClRow (row_json row (lit ''permissions''))) (\<lambda>permissions_json.
     rbind (permission_texts permissions_json) (\<lambda>permissions.
     rbind (map_err ClRow (row_bool row (lit ''system_administrator''))) (\<lambda>administrator.
     rbind (map_err ClContext (principal_new user_id (lit ''wasi-auth'')
              (case administrator of None \<Rightarrow> False | Some b \<Rightarrow> b))) (\<lambda>principal.
     rbind (map_err ClContext (from_validated
       \<lparr>vcp_principal = principal, vcp_organization_id = organization_id, vcp_session_id = session_id,
        vcp_request_id = request_id, vcp_assurance = assurance,
        vcp_issued_at = word_of_int created_at_ms div 1000,
        vcp_expires_at = word_of_int expires_at_ms div 1000,
        vcp_decision_id = None, vcp_policy_revision = policy_revision\<rparr>)) (\<lambda>auth.
     rbind (map_err ClContext (snapshot_new permissions
              (case role_id of None \<Rightarrow> [] | Some role \<Rightarrow> [role]) policy_revision None)) (\<lambda>authorization.
       Inr \<lparr>vs_context = from_verified auth authorization, vs_primary_email = primary_email,
            vs_fingerprint = fingerprint\<rparr>)))))))))))))))))"

subsection \<open>The store\<close>

definition valid_signing_key_id :: "rstr \<Rightarrow> bool" where
  "valid_signing_key_id v \<longleftrightarrow> v \<noteq> [] \<and> str_len v \<le> 128 \<and> \<not> list_ex is_control v"

definition load_verified_session_with_signing_key ::
  "(rstr \<Rightarrow> rstr option) \<Rightarrow> kernel_db \<Rightarrow> session_id \<Rightarrow> request_id \<Rightarrow> u64 \<Rightarrow> rstr \<Rightarrow>
   pg_error postgres_store_error + verified_session" where
  "load_verified_session_with_signing_key parse_uuid db session_id request_id now key_id =
     rbind (map_err StoreTransport
       (load_request_context_sql parse_uuid db session_id (u64_to_i64 (saturating_mul now 1000)) key_id))
     (\<lambda>rows. case rows of
        [] \<Rightarrow> Inl Unauthenticated
      | row # _ \<Rightarrow> map_err store_error_of_load (verified_session_of row request_id))"

definition load_verified_session ::
  "(rstr \<Rightarrow> rstr option) \<Rightarrow> kernel_db \<Rightarrow> session_id \<Rightarrow> request_id \<Rightarrow> u64 \<Rightarrow>
   pg_error postgres_store_error + verified_session" where
  "load_verified_session parse_uuid db session_id request_id now =
     load_verified_session_with_signing_key parse_uuid db session_id request_id now []"

definition load_request_context ::
  "(rstr \<Rightarrow> rstr option) \<Rightarrow> kernel_db \<Rightarrow> session_id \<Rightarrow> request_id \<Rightarrow> u64 \<Rightarrow>
   pg_error postgres_store_error + verified_request_context" where
  "load_request_context parse_uuid db session_id request_id now =
     map_ok vs_context (load_verified_session parse_uuid db session_id request_id now)"

definition load_verified_session_for_token ::
  "(rstr \<Rightarrow> rstr option) \<Rightarrow> kernel_db \<Rightarrow> session_id \<Rightarrow> request_id \<Rightarrow> u64 \<Rightarrow> rstr \<Rightarrow>
   pg_error postgres_store_error + verified_session" where
  "load_verified_session_for_token parse_uuid db session_id request_id now key_id =
     rbind (ensure (valid_signing_key_id key_id) Unauthenticated) (\<lambda>_.
       load_verified_session_with_signing_key parse_uuid db session_id request_id now key_id)"

definition load_authorization_fingerprint_for_token ::
  "(rstr \<Rightarrow> rstr option) \<Rightarrow> kernel_db \<Rightarrow> session_id \<Rightarrow> u64 \<Rightarrow> rstr \<Rightarrow>
   pg_error postgres_store_error + authorization_fingerprint" where
  "load_authorization_fingerprint_for_token parse_uuid db session_id now key_id =
     rbind (ensure (valid_signing_key_id key_id) Unauthenticated) (\<lambda>_.
     rbind (map_err StoreTransport
       (load_request_fingerprint_sql parse_uuid db session_id (u64_to_i64 (saturating_mul now 1000)) key_id))
     (\<lambda>rows. case rows of
        [] \<Rightarrow> Inl Unauthenticated
      | row # _ \<Rightarrow> map_err store_error_of_load (authorization_fingerprint_of row)))"

subsection \<open>What a load returns\<close>

lemma row_new_lookup: "fmlookup (row_new columns) column = map_of (rev columns) column"
proof -
  have "fmlookup (fold (\<lambda>(c, v) r. fmupd c v r) columns row) column
      = (case map_of (rev columns) column of None \<Rightarrow> fmlookup row column | Some v \<Rightarrow> Some v)" for row
    by (induction columns arbitrary: row) (auto split: option.split simp: map_add_def)
  then show ?thesis by (simp add: row_new_def split: option.split)
qed


lemma request_context_row_columns:
  "fmlookup (request_context_row db sid (s, u, organization, m)) (lit ''user_id'') = Some (PgText (s_user_id s))"
  "fmlookup (request_context_row db sid (s, u, organization, m)) (lit ''primary_email'') = Some (PgText (u_primary_email u))"
  "fmlookup (request_context_row db sid (s, u, organization, m)) (lit ''session_id'') = Some (PgText sid)"
  "fmlookup (request_context_row db sid (s, u, organization, m)) (lit ''organization_id'') = Some (pg_text_option (s_selected_organization_id s))"
  "fmlookup (request_context_row db sid (s, u, organization, m)) (lit ''assurance'') = Some (PgText (s_assurance s))"
  "fmlookup (request_context_row db sid (s, u, organization, m)) (lit ''created_at_ms'') = Some (PgI64 (s_created_at_ms s))"
  "fmlookup (request_context_row db sid (s, u, organization, m)) (lit ''expires_at_ms'') = Some (PgI64 (s_expires_at_ms s))"
  "fmlookup (request_context_row db sid (s, u, organization, m)) (lit ''session_revision'') = Some (PgI64 (s_session_revision s))"
  "fmlookup (request_context_row db sid (s, u, organization, m)) (lit ''user_security_revision'') = Some (PgI64 (s_user_security_revision s))"
  "fmlookup (request_context_row db sid (s, u, organization, m)) (lit ''organization_authorization_revision'') = Some (pg_i64_option (map_option o_authorization_revision organization))"
  "fmlookup (request_context_row db sid (s, u, organization, m)) (lit ''role_id'') = Some (pg_text_option (map_option m_role_id m))"
  "fmlookup (request_context_row db sid (s, u, organization, m)) (lit ''permissions'') = Some (PgJson (JvArray (map JvString (role_permissions db (s_selected_organization_id s) m))))"
  "fmlookup (request_context_row db sid (s, u, organization, m)) (lit ''policy_revision'') = Some (pg_text_option (active_policy_revision db))"
  "fmlookup (request_context_row db sid (s, u, organization, m)) (lit ''system_administrator'') = Some (PgBool (is_system_administrator db (s_user_id s)))"
  unfolding request_context_row_def
  by (simp_all add: row_new_lookup del: lit_Cons lit_Nil)

lemma request_fingerprint_row_columns:
  "fmlookup (request_fingerprint_row db sid (s, u, organization, m)) (lit ''user_id'') = Some (PgText (s_user_id s))"
  "fmlookup (request_fingerprint_row db sid (s, u, organization, m)) (lit ''session_id'') = Some (PgText sid)"
  "fmlookup (request_fingerprint_row db sid (s, u, organization, m)) (lit ''organization_id'') = Some (pg_text_option (s_selected_organization_id s))"
  "fmlookup (request_fingerprint_row db sid (s, u, organization, m)) (lit ''assurance'') = Some (PgText (s_assurance s))"
  "fmlookup (request_fingerprint_row db sid (s, u, organization, m)) (lit ''expires_at_ms'') = Some (PgI64 (s_expires_at_ms s))"
  "fmlookup (request_fingerprint_row db sid (s, u, organization, m)) (lit ''session_revision'') = Some (PgI64 (s_session_revision s))"
  "fmlookup (request_fingerprint_row db sid (s, u, organization, m)) (lit ''user_security_revision'') = Some (PgI64 (s_user_security_revision s))"
  "fmlookup (request_fingerprint_row db sid (s, u, organization, m)) (lit ''organization_authorization_revision'') = Some (pg_i64_option (map_option o_authorization_revision organization))"
  "fmlookup (request_fingerprint_row db sid (s, u, organization, m)) (lit ''role_id'') = Some (pg_text_option (map_option m_role_id m))"
  "fmlookup (request_fingerprint_row db sid (s, u, organization, m)) (lit ''policy_revision'') = Some (pg_text_option (active_policy_revision db))"
  "fmlookup (request_fingerprint_row db sid (s, u, organization, m)) (lit ''system_administrator'') = Some (PgBool (is_system_administrator db (s_user_id s)))"
  unfolding request_fingerprint_row_def
  by (simp_all add: row_new_lookup del: lit_Cons lit_Nil)

lemma required_text_lookup: "fmlookup row c = Some (PgText v) \<Longrightarrow> required_text row c = Inr v"
  by (simp add: required_text_def row_text_def)

lemma required_i64_lookup: "fmlookup row c = Some (PgI64 v) \<Longrightarrow> required_i64 row c = Inr v"
  by (simp add: required_i64_def row_i64_def)

lemma row_i64_lookup: "fmlookup row c = Some (pg_i64_option v) \<Longrightarrow> row_i64 row c = Inr v"
  by (cases v) (simp_all add: row_i64_def pg_i64_option_def)

lemma row_bool_lookup: "fmlookup row c = Some (PgBool v) \<Longrightarrow> row_bool row c = Inr (Some v)"
  by (simp add: row_bool_def)

lemma row_json_lookup: "fmlookup row c = Some (PgJson v) \<Longrightarrow> row_json row c = Inr (Some v)"
  by (simp add: row_json_def)

lemma required_id_lookup:
  "fmlookup row c = Some (PgText v) \<Longrightarrow> required_id row c = map_err ClContext (bounded_identifier_new v)"
  by (simp add: required_id_def required_text_lookup)

lemma optional_id_lookup:
  "fmlookup row c = Some (pg_text_option v) \<Longrightarrow>
     optional_id row c = map_err ClContext (opt_try bounded_identifier_new v)"
  by (cases v) (simp_all add: optional_id_def row_text_def pg_text_option_def)

lemmas column_lookups =
  required_text_lookup required_i64_lookup row_i64_lookup row_bool_lookup row_json_lookup
  required_id_lookup optional_id_lookup

text \<open>The fingerprint query and the context query give the same fingerprint for the same facts.\<close>

lemma authorization_fingerprint_of_context_row:
  "authorization_fingerprint_of (request_context_row db sid facts)
     = authorization_fingerprint_of (request_fingerprint_row db sid facts)"
  by (cases facts)
    (simp add: authorization_fingerprint_of_def column_lookups request_context_row_columns
      request_fingerprint_row_columns del: lit_Cons lit_Nil cong: if_cong)

definition stored_assurance :: "rstr \<Rightarrow> authentication_assurance" where
  "stored_assurance v = (if v = lit ''aal1'' then Aal1 else Aal2)"

definition assurance_text :: "authentication_assurance \<Rightarrow> rstr" where
  "assurance_text a = (case a of Aal1 \<Rightarrow> lit ''aal1'' | Aal2 \<Rightarrow> lit ''aal2'')"

lemma fingerprint_assurance_Inr_iff:
  "fingerprint_assurance v = Inr w \<longleftrightarrow>
     v \<in> {lit ''aal1'', lit ''aal2'', lit ''aal3''} \<and> w = assurance_text (stored_assurance v)"
  by (auto simp: fingerprint_assurance_def assurance_text_def stored_assurance_def simp del: lit_Cons)

lemma assurance_of_text_Inr_iff:
  "assurance_of_text v = Inr w \<longleftrightarrow>
     v \<in> {lit ''aal1'', lit ''aal2'', lit ''aal3''} \<and> w = stored_assurance v"
  by (auto simp: assurance_of_text_def stored_assurance_def simp del: lit_Cons)

lemma permission_texts_array [simp]:
  "permission_texts (Some (JvArray (map JvString ts))) = Inr ts"
proof -
  have "try_map (\<lambda>item. case item of JvString t \<Rightarrow> Inr t | _ \<Rightarrow> Inl InvalidPermissions) (map JvString ts) = Inr ts"
    by (induction ts) simp_all
  then show ?thesis by (simp add: permission_texts_def)
qed

lemma authorization_fingerprint_of_Inr:
  assumes "authorization_fingerprint_of (request_context_row db sid (s, u, organization, m)) = Inr fp"
  shows "fp = \<lparr>fp_user_id = s_user_id s, fp_session_id = sid,
       fp_organization_id = s_selected_organization_id s,
       fp_assurance = assurance_text (stored_assurance (s_assurance s)),
       fp_expires_at_ms = s_expires_at_ms s, fp_session_revision = s_session_revision s,
       fp_user_security_revision = s_user_security_revision s,
       fp_organization_authorization_revision = map_option o_authorization_revision organization,
       fp_role_id = map_option m_role_id m, fp_policy_revision = active_policy_revision db,
       fp_system_administrator = is_system_administrator db (s_user_id s)\<rparr>"
  using assms
  by (auto simp: authorization_fingerprint_of_def column_lookups request_context_row_columns result_simps
      opt_try_identifier_Inr_iff fingerprint_assurance_Inr_iff split: if_splits simp del: lit_Cons lit_Nil)

lemma verified_session_of_Inr:
  assumes "verified_session_of (request_context_row db sid (s, u, organization, m)) rid = Inr vs"
  shows "authorization_fingerprint_of (request_context_row db sid (s, u, organization, m)) = Inr (vs_fingerprint vs)"
    and "vs_primary_email vs = u_primary_email u"
    and "vs_context vs = from_verified
       \<lparr>vac_principal = \<lparr>pr_user_id = s_user_id s, pr_issuer = lit ''wasi-auth'',
           pr_system_administrator = is_system_administrator db (s_user_id s)\<rparr>,
        vac_organization_id = s_selected_organization_id s, vac_session_id = sid, vac_request_id = rid,
        vac_assurance = stored_assurance (s_assurance s),
        vac_issued_at = word_of_int (s_created_at_ms s) div 1000,
        vac_expires_at = word_of_int (s_expires_at_ms s) div 1000,
        vac_decision_id = None, vac_policy_revision = active_policy_revision db\<rparr>
       \<lparr>as_permissions = fset_of_list (role_permissions db (s_selected_organization_id s) m),
        as_role_ids = fset_of_list (case m of None \<Rightarrow> [] | Some m' \<Rightarrow> [m_role_id m']),
        as_policy_revision = active_policy_revision db, as_consistency_token = None\<rparr>"
    and "valid_identifier rid \<Longrightarrow> wf_request_context (vs_context vs)"
  using assms
  by (auto simp: verified_session_of_def column_lookups request_context_row_columns result_simps
      opt_try_identifier_Inr_iff assurance_of_text_Inr_iff wf_context_defs from_verified_def list_all_iff
      fset_of_list_elem split: if_splits option.splits simp del: lit_Cons lit_Nil)

lemma opt_try_identifier_valid [simp]:
  "pred_option valid_identifier v \<Longrightarrow> opt_try bounded_identifier_new v = Inr v"
  by (simp add: opt_try_identifier_Inr_iff)

text \<open>Rows that satisfy the constraints of the schema and hold valid identifiers always decode.\<close>

lemma verified_session_of_succeeds:
  assumes "valid_identifier (s_user_id s)" "valid_identifier sid"
    and "pred_option valid_identifier (s_selected_organization_id s)"
    and "s_assurance s \<in> {lit ''aal1'', lit ''aal2'', lit ''aal3''}"
    and "0 < s_session_revision s" "0 < s_user_security_revision s"
    and "0 \<le> s_created_at_ms s" "s_created_at_ms s < s_expires_at_ms s"
    and "word_of_int (s_created_at_ms s) div 1000 < (word_of_int (s_expires_at_ms s) div 1000 :: u64)"
    and "pred_option (\<lambda>row. 0 < o_authorization_revision row) organization"
    and "pred_option valid_identifier (map_option m_role_id m)"
    and "(s_selected_organization_id s \<noteq> None) = (organization \<noteq> None \<and> m \<noteq> None)"
    and "pred_option valid_identifier (active_policy_revision db)"
    and "list_all valid_identifier (role_permissions db (s_selected_organization_id s) m)"
    and "str_len (u_primary_email u) \<le> 320" "\<not> list_ex is_control (u_primary_email u)"
  shows "\<exists>vs. verified_session_of (request_context_row db sid (s, u, organization, m)) rid = Inr vs"
proof -
  have texts: "fingerprint_assurance (s_assurance s) = Inr (assurance_text (stored_assurance (s_assurance s)))"
    "assurance_of_text (s_assurance s) = Inr (stored_assurance (s_assurance s))"
    using assms(4) by (simp_all add: fingerprint_assurance_Inr_iff assurance_of_text_Inr_iff)
  have revision: "\<not> (case map_option o_authorization_revision organization of None \<Rightarrow> False | Some r \<Rightarrow> r \<le> 0)"
    using assms(10) by (cases organization) simp_all
  have issuer: "valid_text 512 (lit ''wasi-auth'')"
    by (simp add: valid_text_def is_control_def)
  have fp: "\<exists>fp. authorization_fingerprint_of (request_context_row db sid (s, u, organization, m)) = Inr fp"
    using assms(1-8,11-13) revision texts
    by (simp add: authorization_fingerprint_of_def column_lookups request_context_row_columns
        del: lit_Cons lit_Nil)
  have principal: "principal_new (s_user_id s) (lit ''wasi-auth'') b
      = Inr \<lparr>pr_user_id = s_user_id s, pr_issuer = lit ''wasi-auth'', pr_system_administrator = b\<rparr>" for b
    using issuer by (simp add: principal_new_Inr_iff)
  have snapshot: "\<exists>snap. snapshot_new (role_permissions db (s_selected_organization_id s) m) rs rv None = Inr snap"
    for rs rv using assms(14) by (simp add: snapshot_new_Inr_iff)
  have lifetime: "\<exists>c. from_validated parts = Inr c" if "vcp_issued_at parts < vcp_expires_at parts" for parts
    using that by (simp add: from_validated_Inr_iff)
  from fp obtain fp where "authorization_fingerprint_of (request_context_row db sid (s, u, organization, m)) = Inr fp" ..
  then show ?thesis
    using assms(1-3,5-9,11,13,15,16) texts principal snapshot lifetime
    by (simp add: verified_session_of_def column_lookups request_context_row_columns result_simps
        del: lit_Cons lit_Nil)
qed

lemma load_verified_session_Inr:
  assumes "load_verified_session_with_signing_key parse_uuid db session_text rid now key = Inr vs"
  obtains sid s u organization m where
    "parse_uuid session_text = Some sid" "session_join db sid = Some (s, u, organization, m)"
    "session_where (u64_to_i64 (saturating_mul now 1000)) (s, u, organization, m)"
    "key = [] \<or> signing_key_usable db key"
    "verified_session_of (request_context_row db sid (s, u, organization, m)) rid = Inr vs"
proof -
  from assms obtain sid where sid: "parse_uuid session_text = Some sid"
    by (auto simp: load_verified_session_with_signing_key_def load_request_context_sql_def split: option.splits)
  with assms obtain facts where join: "session_join db sid = Some facts"
    by (auto simp: load_verified_session_with_signing_key_def load_request_context_sql_def split: option.splits)
  obtain s u organization m where facts: "facts = (s, u, organization, m)" by (cases facts)
  show ?thesis
    using that [OF sid join [unfolded facts]] assms sid join facts
    by (auto simp: load_verified_session_with_signing_key_def load_request_context_sql_def result_simps
        split: if_splits)
qed

lemma load_fingerprint_Inr:
  assumes "load_authorization_fingerprint_for_token parse_uuid db session_text now key = Inr fp"
  obtains sid s u organization m where
    "parse_uuid session_text = Some sid" "session_join db sid = Some (s, u, organization, m)"
    "session_where (u64_to_i64 (saturating_mul now 1000)) (s, u, organization, m)"
    "signing_key_usable db key" "valid_signing_key_id key"
    "authorization_fingerprint_of (request_context_row db sid (s, u, organization, m)) = Inr fp"
proof -
  from assms obtain sid where sid: "parse_uuid session_text = Some sid"
    by (auto simp: load_authorization_fingerprint_for_token_def load_request_fingerprint_sql_def result_simps
        split: option.splits)
  with assms obtain facts where join: "session_join db sid = Some facts"
    by (auto simp: load_authorization_fingerprint_for_token_def load_request_fingerprint_sql_def result_simps
        split: option.splits)
  obtain s u organization m where facts: "facts = (s, u, organization, m)" by (cases facts)
  show ?thesis
    using that [OF sid join [unfolded facts]] assms sid join facts
    by (auto simp: load_authorization_fingerprint_for_token_def load_request_fingerprint_sql_def result_simps
        authorization_fingerprint_of_context_row split: if_splits)
qed

lemma set_role_permissions:
  "permission \<in> set (role_permissions db (Some organization) (Some m))
     \<longleftrightarrow> (organization, m_role_id m, permission) |\<in>| db_role_permissions db"
  by (force simp: role_permissions_def)

lemma session_join_Some:
  "session_join db sid = Some (s, u, organization, m) \<longleftrightarrow>
     fmlookup (db_sessions db) sid = Some s \<and> fmlookup (db_users db) (s_user_id s) = Some u
     \<and> organization = Option.bind (s_selected_organization_id s) (fmlookup (db_organizations db))
     \<and> m = Option.bind (s_selected_organization_id s) (\<lambda>o'.
         Option.bind (fmlookup (db_memberships db) (o', s_user_id s)) (\<lambda>m.
           if m_status m = lit ''active'' then Some m else None))"
  by (auto simp: session_join_def split: option.splits)

lemma joined_permissions:
  assumes "session_join db sid = Some (s, u, organization, m)"
  shows "permission \<in> set (role_permissions db (s_selected_organization_id s) m) \<longleftrightarrow>
    (\<exists>o' row. s_selected_organization_id s = Some o'
       \<and> fmlookup (db_memberships db) (o', s_user_id s) = Some row \<and> m_status row = lit ''active''
       \<and> (o', m_role_id row, permission) |\<in>| db_role_permissions db)"
proof (cases "s_selected_organization_id s")
  case None
  then show ?thesis by (simp add: role_permissions_def)
next
  case (Some o')
  with assms have m: "m = Option.bind (fmlookup (db_memberships db) (o', s_user_id s)) (\<lambda>m.
      if m_status m = lit ''active'' then Some m else None)" by (simp add: session_join_Some del: lit_Cons)
  show ?thesis
  proof (cases "fmlookup (db_memberships db) (o', s_user_id s)")
    case None
    with Some m show ?thesis by (simp add: role_permissions_def)
  next
    case row: (Some row)
    show ?thesis
    proof (cases "m_status row = lit ''active''")
      case True
      with Some row m show ?thesis by (simp add: set_role_permissions del: lit_Cons)
    next
      case False
      with Some row m show ?thesis by (simp add: role_permissions_def del: lit_Cons)
    qed
  qed
qed

subsection \<open>Properties\<close>


definition sample_db :: kernel_db where
  "sample_db = \<lparr>
     db_users = fmap_of_list [(lit ''u'', \<lparr>u_normalized_email = lit ''u@x.y'', u_primary_email = lit ''u@x.y'',
       u_status = lit ''active'', u_security_revision = 1, u_created_at_ms = 500, u_updated_at_ms = 500\<rparr>)],
     db_passwords = fmempty,
     db_sessions = fmap_of_list [(lit ''s'', \<lparr>s_user_id = lit ''u'', s_selected_organization_id = Some (lit ''o''),
       s_assurance = lit ''aal2'', s_session_revision = 1, s_user_security_revision = 1,
       s_expires_at_ms = 9000, s_revoked_at_ms = None, s_created_at_ms = 1000, s_updated_at_ms = 1000\<rparr>)],
     db_one_time_tokens = fmempty,
     db_organizations = fmap_of_list [(lit ''o'', \<lparr>o_name = lit ''O'', o_slug = Some (lit ''oo''), o_status = lit ''active'',
       o_authorization_revision = 1, o_owner_count = 1, o_created_by = lit ''u'', o_created_at_ms = 600,
       o_updated_at_ms = 600\<rparr>)],
     db_roles = fmap_of_list [((lit ''o'', lit ''owner''), \<lparr>r_name = lit ''Owner'', r_built_in = True,
       r_created_at_ms = 600, r_updated_at_ms = 600\<rparr>)],
     db_memberships = fmap_of_list [((lit ''o'', lit ''u''), \<lparr>m_role_id = lit ''owner'', m_status = lit ''active'',
       m_joined_at_ms = 600, m_updated_at_ms = 600\<rparr>)],
     db_role_permissions = {|(lit ''o'', lit ''owner'', lit ''p'')|},
     db_invitations = fmempty, db_policy_bundles = fmempty, db_system_administrators = fmempty,
     db_signing_keys = fmap_of_list [(lit ''k'', lit ''active'')],
     db_refresh_tokens = fmempty, db_idempotency = fmempty, db_rate_limit_buckets = fmempty,
     db_outbox = fmempty, db_audit_log = fmempty\<rparr>"

lemma sample_session_loads:
  "\<exists>vs. load_verified_session_for_token Some sample_db (lit ''s'') rid 2 (lit ''k'') = Inr vs"
proof -
  let ?s = "the (fmlookup (db_sessions sample_db) (lit ''s''))" and ?u = "the (fmlookup (db_users sample_db) (lit ''u''))"
    and ?o = "the (fmlookup (db_organizations sample_db) (lit ''o''))"
    and ?m = "the (fmlookup (db_memberships sample_db) (lit ''o'', lit ''u''))"
  have join: "session_join sample_db (lit ''s'') = Some (?s, ?u, Some ?o, Some ?m)"
    by (simp add: session_join_def sample_db_def)
  have live: "session_where (u64_to_i64 (saturating_mul 2 1000)) (?s, ?u, Some ?o, Some ?m)"
    by (simp add: session_where_def sample_db_def u64_to_i64_def saturating_mul_def)
  have "\<exists>vs. verified_session_of (request_context_row sample_db (lit ''s'') (?s, ?u, Some ?o, Some ?m)) rid = Inr vs"
    by (rule verified_session_of_succeeds)
      (simp_all add: sample_db_def valid_identifier_def is_control_def is_whitespace_def
        active_policy_revision_def list_all_iff set_role_permissions sorted_list_of_fset.rep_eq)
  with join live show ?thesis
    by (simp add: load_verified_session_for_token_def load_verified_session_with_signing_key_def
        load_request_context_sql_def valid_signing_key_id_def is_control_def signing_key_usable_def
        result_simps) (simp add: sample_db_def)
qed


end
