(* ===== verification/Jwt_Keys.thy ===== *)
theory Jwt_Keys
  imports Relational_Kernel
begin

section \<open>JWT claims and the signing-key ring\<close>

text \<open>
  Models \<open>authentication/error.rs\<close>, \<open>authentication/jwt.rs\<close> and the key ring of
  \<open>postgres/tokens.rs\<close> under \<open>src/crates/wasi-auth/src\<close>. The \<open>jsonwebtoken\<close> and \<open>serde_json\<close> crates
  are the parameter \<open>jwt_env\<close>: reading the key id of a token header, decoding with a validation,
  encoding, accepting elliptic-curve coordinates, deriving a public key and parsing JSON. Key material
  is kept as the constructor it was made with.
\<close>

subsection \<open>Workflow errors\<close>

datatype workflow_error =
  Validation rstr | AlreadyRegistered | UserDisabled | UserNotRegistered | InvalidProvider
| InvalidToken | SessionExpired | SessionRevoked | PermissionDenied

datatype auth_error_class =
  ClassInvalidArgument | ClassAlreadyExists | ClassNotFound | ClassUnauthenticated | ClassPermissionDenied

record auth_transport_mapping =
  tm_http_status :: nat
  tm_grpc_code :: rstr
  tm_server_fn_code :: rstr

fun public_code :: "workflow_error \<Rightarrow> rstr" where
  "public_code (Validation _) = lit ''validation''"
| "public_code AlreadyRegistered = lit ''already_registered''"
| "public_code UserDisabled = lit ''user_disabled''"
| "public_code UserNotRegistered = lit ''user_not_registered''"
| "public_code InvalidProvider = lit ''invalid_provider''"
| "public_code InvalidToken = lit ''invalid_token''"
| "public_code SessionExpired = lit ''session_expired''"
| "public_code SessionRevoked = lit ''session_revoked''"
| "public_code PermissionDenied = lit ''permission_denied''"

fun public_message :: "workflow_error \<Rightarrow> rstr" where
  "public_message (Validation message) = message"
| "public_message AlreadyRegistered = lit ''user is already registered''"
| "public_message UserDisabled = lit ''user is disabled''"
| "public_message UserNotRegistered = lit ''user is not registered''"
| "public_message InvalidProvider = lit ''auth provider is invalid''"
| "public_message InvalidToken = lit ''token is invalid''"
| "public_message SessionExpired = lit ''session is expired''"
| "public_message SessionRevoked = lit ''session is revoked''"
| "public_message PermissionDenied = lit ''permission denied''"

fun error_class :: "workflow_error \<Rightarrow> auth_error_class" where
  "error_class (Validation _) = ClassInvalidArgument"
| "error_class InvalidProvider = ClassInvalidArgument"
| "error_class AlreadyRegistered = ClassAlreadyExists"
| "error_class UserNotRegistered = ClassNotFound"
| "error_class InvalidToken = ClassUnauthenticated"
| "error_class SessionExpired = ClassUnauthenticated"
| "error_class SessionRevoked = ClassUnauthenticated"
| "error_class UserDisabled = ClassPermissionDenied"
| "error_class PermissionDenied = ClassPermissionDenied"

fun class_mapping :: "auth_error_class \<Rightarrow> auth_transport_mapping" where
  "class_mapping ClassInvalidArgument =
     \<lparr>tm_http_status = 400, tm_grpc_code = lit ''InvalidArgument'', tm_server_fn_code = lit ''validation''\<rparr>"
| "class_mapping ClassAlreadyExists =
     \<lparr>tm_http_status = 409, tm_grpc_code = lit ''AlreadyExists'', tm_server_fn_code = lit ''conflict''\<rparr>"
| "class_mapping ClassNotFound =
     \<lparr>tm_http_status = 404, tm_grpc_code = lit ''NotFound'', tm_server_fn_code = lit ''not_found''\<rparr>"
| "class_mapping ClassUnauthenticated =
     \<lparr>tm_http_status = 401, tm_grpc_code = lit ''Unauthenticated'', tm_server_fn_code = lit ''auth_required''\<rparr>"
| "class_mapping ClassPermissionDenied =
     \<lparr>tm_http_status = 403, tm_grpc_code = lit ''PermissionDenied'', tm_server_fn_code = lit ''forbidden''\<rparr>"

definition transport_mapping :: "workflow_error \<Rightarrow> auth_transport_mapping" where
  "transport_mapping e = class_mapping (error_class e)"

subsection \<open>Claims\<close>

datatype algorithm =
  HS256 | HS384 | HS512 | ES256 | ES384 | RS256 | RS384 | RS512 | PS256 | PS384 | PS512 | EdDSA

datatype encoding_key = EncodingFromSecret bytes | EncodingFromEcDer bytes
datatype decoding_key = DecodingFromSecret bytes | DecodingFromEc rstr rstr

record access_token_claims =
  cl_iss :: rstr
  cl_sub :: rstr
  cl_aud :: "rstr list"
  cl_exp :: u64
  cl_iat :: u64
  cl_jti :: rstr
  cl_tenant_id :: "organization_id option"
  cl_session_id :: "session_id option"
  cl_roles :: "rstr list"
  cl_scope :: "rstr list"
  cl_auth_time :: "u64 option"
  cl_extra :: "(rstr, rstr) fmap"

definition for_user ::
  "rstr \<Rightarrow> user_id \<Rightarrow> rstr list \<Rightarrow> u64 \<Rightarrow> u64 \<Rightarrow> rstr \<Rightarrow> access_token_claims" where
  "for_user issuer subject audience expires_at issued_at token_id =
     \<lparr>cl_iss = issuer, cl_sub = subject, cl_aud = audience, cl_exp = expires_at, cl_iat = issued_at,
      cl_jti = token_id, cl_tenant_id = None, cl_session_id = None, cl_roles = [], cl_scope = [],
      cl_auth_time = None, cl_extra = fmempty\<rparr>"

record jwks_key =
  jk_kid :: rstr
  jk_kty :: rstr
  jk_alg :: rstr
  jk_use :: rstr
  jk_public_parameters :: "(rstr, rstr) fmap"

definition jwks_key_by_id :: "jwks_key list \<Rightarrow> rstr \<Rightarrow> workflow_error + jwks_key" where
  "jwks_key_by_id jwks key_id = ok_or InvalidToken (List.find (\<lambda>key. jk_kid key = key_id) jwks)"

definition reject_revoked_session :: "access_token_claims \<Rightarrow> rstr list \<Rightarrow> workflow_error + unit" where
  "reject_revoked_session claims revoked_session_ids =
     (case cl_session_id claims of
        None \<Rightarrow> Inr ()
      | Some session_id \<Rightarrow>
        if list_ex (\<lambda>revoked. session_id = revoked) revoked_session_ids then Inl SessionRevoked
        else Inr ())"

datatype jwt_error_kind = ExpiredSignature | OtherJwtError

record jwt_validation =
  jv_algorithms :: "algorithm list"
  jv_issuer :: rstr
  jv_audience :: rstr

record jwt_env =
  je_header_kid :: "rstr \<Rightarrow> rstr option"
  je_decode :: "rstr \<Rightarrow> decoding_key \<Rightarrow> jwt_validation \<Rightarrow> jwt_error_kind + access_token_claims"
  je_encode :: "algorithm \<Rightarrow> rstr option \<Rightarrow> access_token_claims \<Rightarrow> encoding_key \<Rightarrow> rstr option"
  je_ec_components_ok :: "rstr \<Rightarrow> rstr \<Rightarrow> bool"
  je_public_jwk :: "encoding_key \<Rightarrow> jwks_key option"
  je_parse_json :: "rstr \<Rightarrow> json_value option"
  je_base64 :: "rstr \<Rightarrow> bytes option"

fun jwt_error_to_auth_error :: "jwt_error_kind \<Rightarrow> workflow_error" where
  "jwt_error_to_auth_error ExpiredSignature = SessionExpired"
| "jwt_error_to_auth_error OtherJwtError = InvalidToken"

definition encode_access_token ::
  "jwt_env \<Rightarrow> access_token_claims \<Rightarrow> encoding_key \<Rightarrow> algorithm \<Rightarrow> rstr option \<Rightarrow> workflow_error + rstr" where
  "encode_access_token env claims encoding_key algorithm key_id =
     ok_or InvalidToken (je_encode env algorithm key_id claims encoding_key)"

definition decode_access_token ::
  "jwt_env \<Rightarrow> rstr \<Rightarrow> decoding_key \<Rightarrow> rstr \<Rightarrow> rstr \<Rightarrow> algorithm list \<Rightarrow> workflow_error + access_token_claims" where
  "decode_access_token env token decoding_key issuer audience algorithms =
     (if algorithms = [] then Inl (Validation (lit ''at least one JWT algorithm is required''))
      else map_err jwt_error_to_auth_error
        (je_decode env token decoding_key
          \<lparr>jv_algorithms = algorithms, jv_issuer = issuer, jv_audience = audience\<rparr>))"

definition access_token_key_id :: "jwt_env \<Rightarrow> rstr \<Rightarrow> workflow_error + rstr" where
  "access_token_key_id env token =
     ok_or InvalidToken
       (Option.bind (je_header_kid env token) (\<lambda>kid. if trim kid = [] then None else Some kid))"

subsection \<open>The key ring\<close>

datatype token_configuration_error = InvalidTokenConfiguration

datatype key_status = KeyActive | KeyNext | KeyRetired | KeyRevoked

record jwt_key =
  key_kid :: rstr
  key_status :: key_status
  key_algorithm :: algorithm
  key_encoding :: "encoding_key option"
  key_decoding :: decoding_key
  key_public_jwk :: "jwks_key option"

record jwt_key_ring =
  kr_keys :: "jwt_key list"
  kr_active_index :: nat

definition valid_kid :: "rstr \<Rightarrow> bool" where
  "valid_kid v \<longleftrightarrow> v \<noteq> [] \<and> str_len v \<le> 128
     \<and> list_all (\<lambda>byte. is_ascii_alphanumeric byte \<or> byte \<in> {46, 95, 45}) (str_bytes v)"

definition development_hs256 :: "rstr \<Rightarrow> bytes \<Rightarrow> token_configuration_error + jwt_key_ring" where
  "development_hs256 kid secret =
     (if \<not> valid_kid kid \<or> length secret < 32 then Inl InvalidTokenConfiguration
      else Inr \<lparr>kr_keys = [\<lparr>key_kid = kid, key_status = KeyActive, key_algorithm = HS256,
                  key_encoding = Some (EncodingFromSecret secret),
                  key_decoding = DecodingFromSecret secret, key_public_jwk = None\<rparr>],
                kr_active_index = 0\<rparr>)"

fun json_get :: "json_value \<Rightarrow> rstr \<Rightarrow> json_value option" where
  "json_get (JvObject members) name = map_of members name"
| "json_get _ name = None"

fun json_as_str :: "json_value \<Rightarrow> rstr option" where
  "json_as_str (JvString t) = Some t"
| "json_as_str _ = None"

fun json_as_array :: "json_value \<Rightarrow> json_value list option" where
  "json_as_array (JvArray items) = Some items"
| "json_as_array _ = None"

definition json_text :: "json_value \<Rightarrow> rstr \<Rightarrow> rstr option" where
  "json_text value name = Option.bind (json_get value name) json_as_str"

definition required_json_text :: "json_value \<Rightarrow> rstr \<Rightarrow> token_configuration_error + rstr" where
  "required_json_text value name =
     ok_or InvalidTokenConfiguration
       (Option.bind (map_option trim (json_text value name)) (\<lambda>t.
          if t \<noteq> [] \<and> \<not> list_ex is_control t then Some t else None))"

definition decode_base64 :: "jwt_env \<Rightarrow> rstr \<Rightarrow> token_configuration_error + bytes" where
  "decode_base64 env value =
     ok_or InvalidTokenConfiguration (je_base64 env (filter (\<lambda>c. \<not> is_whitespace c) value))"

text \<open>
  \<open>serde_json::from_value::<JwksKey>\<close>: four string members with defaults, and every other member of
  the object must be a string too, because they are flattened into a map of strings.
\<close>

definition string_member :: "(rstr \<times> json_value) list \<Rightarrow> rstr \<Rightarrow> rstr \<Rightarrow> token_configuration_error + rstr" where
  "string_member members name fallback =
     (case map_of members name of
        None \<Rightarrow> Inr fallback
      | Some value \<Rightarrow> ok_or InvalidTokenConfiguration (json_as_str value))"

definition jwks_key_of_value :: "json_value \<Rightarrow> token_configuration_error + jwks_key" where
  "jwks_key_of_value value =
     (case value of
        JvObject members \<Rightarrow>
          rbind (string_member members (lit ''kid'') []) (\<lambda>kid.
          rbind (string_member members (lit ''kty'') []) (\<lambda>kty.
          rbind (string_member members (lit ''alg'') []) (\<lambda>alg.
          rbind (string_member members (lit ''use'') (lit ''sig'')) (\<lambda>use.
          rbind (try_map (\<lambda>(name, v). map_ok (Pair name) (ok_or InvalidTokenConfiguration (json_as_str v)))
             (filter (\<lambda>(name, _). name \<notin> {lit ''kid'', lit ''kty'', lit ''alg'', lit ''use''}) members))
             (\<lambda>parameters. Inr \<lparr>jk_kid = kid, jk_kty = kty, jk_alg = alg, jk_use = use,
                jk_public_parameters = fmap_of_list parameters\<rparr>)))))
      | _ \<Rightarrow> Inl InvalidTokenConfiguration)"

definition parse_jwk :: "jwt_env \<Rightarrow> rstr \<Rightarrow> token_configuration_error + jwks_key" where
  "parse_jwk env source =
     rbind (ok_or InvalidTokenConfiguration (je_parse_json env source)) (\<lambda>value.
       case Option.bind (json_get value (lit ''keys'')) json_as_array of
         Some keys \<Rightarrow> (case keys of [key] \<Rightarrow> jwks_key_of_value key | _ \<Rightarrow> Inl InvalidTokenConfiguration)
       | None \<Rightarrow> jwks_key_of_value value)"

definition decoding_key_of :: "jwt_env \<Rightarrow> jwks_key \<Rightarrow> token_configuration_error + decoding_key" where
  "decoding_key_of env key =
     rbind (ensure (jk_kty key = lit ''EC'' \<and> (jk_alg key = [] \<or> jk_alg key = lit ''ES256''))
              InvalidTokenConfiguration) (\<lambda>_.
     rbind (ok_or InvalidTokenConfiguration (fmlookup (jk_public_parameters key) (lit ''x''))) (\<lambda>x.
     rbind (ok_or InvalidTokenConfiguration (fmlookup (jk_public_parameters key) (lit ''y''))) (\<lambda>y.
     rbind (ensure (je_ec_components_ok env x y) InvalidTokenConfiguration) (\<lambda>_.
       Inr (DecodingFromEc x y)))))"

definition parse_key ::
  "jwt_env \<Rightarrow> json_value \<Rightarrow> rstr \<Rightarrow> key_status \<Rightarrow> algorithm \<Rightarrow> token_configuration_error + jwt_key" where
  "parse_key env value kid status algorithm =
     (case algorithm of
        HS256 \<Rightarrow>
          rbind (required_json_text value (lit ''secret'')) (\<lambda>text'.
          let secret = str_bytes text' in
          rbind (ensure (length secret \<ge> 32) InvalidTokenConfiguration) (\<lambda>_.
            Inr \<lparr>key_kid = kid, key_status = status, key_algorithm = algorithm,
                 key_encoding = Some (EncodingFromSecret secret),
                 key_decoding = DecodingFromSecret secret, key_public_jwk = None\<rparr>))
      | ES256 \<Rightarrow>
          rbind (opt_try (decode_base64 env) (json_text value (lit ''private_key_der_base64''))) (\<lambda>der.
          let encoding = map_option EncodingFromEcDer der in
          rbind (opt_try (parse_jwk env)
             (Option.bind (case json_get value (lit ''public_jwks_json'') of
                             Some v \<Rightarrow> Some v | None \<Rightarrow> json_get value (lit ''public_jwk_json''))
                json_as_str)) (\<lambda>configured.
          rbind (case configured of
                   Some jwk \<Rightarrow> Inr jwk
                 | None \<Rightarrow> rbind (ok_or InvalidTokenConfiguration encoding) (\<lambda>key.
                     ok_or InvalidTokenConfiguration (je_public_jwk env key))) (\<lambda>jwk.
          let public_jwk = jwk\<lparr>jk_kid := kid, jk_alg := lit ''ES256'', jk_use := lit ''sig''\<rparr> in
          rbind (decoding_key_of env public_jwk) (\<lambda>decoding.
          rbind (ensure (\<not> (status = KeyActive \<and> encoding = None)) InvalidTokenConfiguration) (\<lambda>_.
            Inr \<lparr>key_kid = kid, key_status = status, key_algorithm = algorithm,
                 key_encoding = encoding, key_decoding = decoding,
                 key_public_jwk = Some public_jwk\<rparr>)))))
      | _ \<Rightarrow> Inl InvalidTokenConfiguration)"

definition parse_key_status :: "rstr \<Rightarrow> token_configuration_error + key_status" where
  "parse_key_status v =
     (if v = lit ''active'' then Inr KeyActive
      else if v = lit ''next'' then Inr KeyNext
      else if v = lit ''retired'' then Inr KeyRetired
      else if v = lit ''revoked'' then Inr KeyRevoked
      else Inl InvalidTokenConfiguration)"

fun key_status_name :: "key_status \<Rightarrow> rstr" where
  "key_status_name KeyActive = lit ''active''"
| "key_status_name KeyNext = lit ''next''"
| "key_status_name KeyRetired = lit ''retired''"
| "key_status_name KeyRevoked = lit ''revoked''"

definition algorithm_name :: "algorithm \<Rightarrow> rstr" where
  "algorithm_name a =
     (case a of ES256 \<Rightarrow> lit ''ES256'' | HS256 \<Rightarrow> lit ''HS256'' | _ \<Rightarrow> lit ''unsupported'')"

definition entry_key ::
  "jwt_env \<Rightarrow> bool \<Rightarrow> jwt_key list \<Rightarrow> json_value \<Rightarrow> token_configuration_error + jwt_key" where
  "entry_key env production keys entry =
     rbind (required_json_text entry (lit ''kid'')) (\<lambda>kid.
     rbind (ensure (valid_kid kid \<and> \<not> list_ex (\<lambda>key. key_kid key = kid) keys) InvalidTokenConfiguration) (\<lambda>_.
     rbind (parse_key_status (case json_text entry (lit ''status'') of Some t \<Rightarrow> t | None \<Rightarrow> lit ''next''))
       (\<lambda>status.
     let alg = (case json_text entry (lit ''alg'') of Some t \<Rightarrow> t | None \<Rightarrow> lit ''ES256'') in
     rbind (if alg = lit ''ES256'' then Inr ES256
            else if alg = lit ''HS256'' \<and> \<not> production then Inr HS256
            else Inl InvalidTokenConfiguration) (\<lambda>algorithm.
       parse_key env entry kid status algorithm))))"

fun entry_keys ::
  "jwt_env \<Rightarrow> bool \<Rightarrow> jwt_key list \<Rightarrow> json_value list \<Rightarrow> token_configuration_error + jwt_key list" where
  "entry_keys env production keys [] = Inr keys"
| "entry_keys env production keys (entry # entries) =
     rbind (entry_key env production keys entry) (\<lambda>key.
       entry_keys env production (keys @ [key]) entries)"

definition signer :: "jwt_key \<Rightarrow> bool" where
  "signer key \<longleftrightarrow> key_status key = KeyActive \<and> key_encoding key \<noteq> None"

definition signer_indices :: "jwt_key list \<Rightarrow> nat list" where
  "signer_indices keys = filter (\<lambda>i. signer (keys ! i)) [0..<length keys]"

definition from_json :: "jwt_env \<Rightarrow> rstr \<Rightarrow> bool \<Rightarrow> token_configuration_error + jwt_key_ring" where
  "from_json env source production =
     rbind (ok_or InvalidTokenConfiguration (je_parse_json env source)) (\<lambda>parsed.
     rbind (ok_or InvalidTokenConfiguration
        (case json_as_array parsed of
           Some entries \<Rightarrow> Some entries
         | None \<Rightarrow> Option.bind (json_get parsed (lit ''keys'')) json_as_array)) (\<lambda>entries.
     rbind (ensure (entries \<noteq> [] \<and> length entries \<le> 32) InvalidTokenConfiguration) (\<lambda>_.
     rbind (entry_keys env production [] entries) (\<lambda>keys.
     rbind (ensure (\<not> (production \<and>
        list_ex (\<lambda>key. key_status key \<noteq> KeyRevoked \<and> key_algorithm key \<noteq> ES256) keys))
        InvalidTokenConfiguration) (\<lambda>_.
     case signer_indices keys of
       [i] \<Rightarrow> Inr \<lparr>kr_keys = keys, kr_active_index = i\<rparr>
     | _ \<Rightarrow> Inl InvalidTokenConfiguration)))))"

definition ring_jwks :: "jwt_key_ring \<Rightarrow> jwks_key list" where
  "ring_jwks ring = sort_key jk_kid
     (List.map_filter key_public_jwk (filter (\<lambda>key. key_status key \<noteq> KeyRevoked) (kr_keys ring)))"

fun set_status :: "rstr \<Rightarrow> key_status \<Rightarrow> jwt_key list \<Rightarrow> jwt_key list" where
  "set_status kid status [] = []"
| "set_status kid status (key # keys) =
     (if key_kid key = kid then key\<lparr>key_status := status\<rparr> # keys else key # set_status kid status keys)"

text \<open>
  \<open>apply_statuses\<close> mutates the ring in place: the keys returned beside the result are the ring the
  caller is left with, also when the result is an error.
\<close>

fun assign_statuses :: "(rstr \<times> rstr) list \<Rightarrow> jwt_key list \<Rightarrow> (token_configuration_error + unit) \<times> jwt_key list" where
  "assign_statuses [] keys = (Inr (), keys)"
| "assign_statuses ((kid, status) # statuses) keys =
     (if list_ex (\<lambda>key. key_kid key = kid) keys
      then (case parse_key_status status of
              Inl e \<Rightarrow> (Inl e, keys)
            | Inr parsed \<Rightarrow> assign_statuses statuses (set_status kid parsed keys))
      else assign_statuses statuses keys)"

definition apply_statuses ::
  "jwt_key_ring \<Rightarrow> (rstr \<times> rstr) list \<Rightarrow> (token_configuration_error + unit) \<times> jwt_key_ring" where
  "apply_statuses ring statuses =
     (case assign_statuses statuses (kr_keys ring) of
        (Inl e, keys) \<Rightarrow> (Inl e, ring\<lparr>kr_keys := keys\<rparr>)
      | (Inr _, keys) \<Rightarrow>
          (case signer_indices keys of
             [i] \<Rightarrow> (Inr (), \<lparr>kr_keys = keys, kr_active_index = i\<rparr>)
           | _ \<Rightarrow> (Inl InvalidTokenConfiguration, ring\<lparr>kr_keys := keys\<rparr>)))"

definition ring_active :: "jwt_key_ring \<Rightarrow> jwt_key" where
  "ring_active ring = kr_keys ring ! kr_active_index ring"

definition ring_verification :: "jwt_key_ring \<Rightarrow> rstr \<Rightarrow> jwt_key option" where
  "ring_verification ring kid =
     List.find (\<lambda>key. key_kid key = kid \<and> key_status key \<noteq> KeyRevoked) (kr_keys ring)"

subsection \<open>The invariant of a ring\<close>

definition one_signer :: "jwt_key_ring \<Rightarrow> bool" where
  "one_signer ring \<longleftrightarrow> kr_active_index ring < length (kr_keys ring)
     \<and> (\<forall>i < length (kr_keys ring). signer (kr_keys ring ! i) = (i = kr_active_index ring))"

definition wf_keys :: "bool \<Rightarrow> jwt_key list \<Rightarrow> bool" where
  "wf_keys production keys \<longleftrightarrow> distinct (map key_kid keys)
     \<and> (\<forall>key \<in> set keys. valid_kid (key_kid key)
          \<and> (if production then key_algorithm key = ES256 else key_algorithm key \<in> {ES256, HS256}))"

inductive reachable_ring :: "bool \<Rightarrow> jwt_key_ring \<Rightarrow> bool" for production where
  configured: "from_json env source production = Inr ring \<Longrightarrow> reachable_ring production ring"
| development: "\<not> production \<Longrightarrow> development_hs256 kid secret = Inr ring \<Longrightarrow> reachable_ring production ring"
| updated: "reachable_ring production ring \<Longrightarrow> apply_statuses ring statuses = (Inr (), ring')
    \<Longrightarrow> reachable_ring production ring'"

lemma signer_indices_single:
  "signer_indices keys = [i] \<Longrightarrow> one_signer \<lparr>kr_keys = keys, kr_active_index = i\<rparr>"
proof -
  assume *: "signer_indices keys = [i]"
  have "j \<in> set (signer_indices keys) \<longleftrightarrow> j < length keys \<and> signer (keys ! j)" for j
    by (auto simp: signer_indices_def)
  with * have "j = i \<longleftrightarrow> j < length keys \<and> signer (keys ! j)" for j by simp
  then show ?thesis unfolding one_signer_def by auto
qed

lemma parse_key_Inr:
  assumes "parse_key env v kid status algorithm = Inr key"
  shows "key_kid key = kid" "key_algorithm key = algorithm" "algorithm \<in> {ES256, HS256}"
  using assms by (auto simp: parse_key_def Let_def result_simps split: algorithm.splits)

lemma entry_key_Inr:
  assumes "entry_key env production keys entry = Inr key"
  shows "valid_kid (key_kid key)" "key_kid key \<notin> key_kid ` set keys"
    "if production then key_algorithm key = ES256 else key_algorithm key \<in> {ES256, HS256}"
proof -
  from assms obtain kid status algorithm where "valid_kid kid" "\<not> list_ex (\<lambda>key. key_kid key = kid) keys"
    and algorithm: "algorithm = ES256 \<or> algorithm = HS256 \<and> \<not> production"
    and key: "parse_key env entry kid status algorithm = Inr key"
    by (auto simp: entry_key_def Let_def result_simps split: if_splits)
  then show "valid_kid (key_kid key)" "key_kid key \<notin> key_kid ` set keys"
    "if production then key_algorithm key = ES256 else key_algorithm key \<in> {ES256, HS256}"
    using parse_key_Inr [OF key] by (auto simp: list_ex_iff)
qed

lemma entry_keys_wf:
  "entry_keys env production keys entries = Inr keys' \<Longrightarrow> wf_keys production keys \<Longrightarrow> wf_keys production keys'"
proof (induction entries arbitrary: keys)
  case (Cons entry entries)
  from Cons.prems(1) obtain key where key: "entry_key env production keys entry = Inr key"
    and rest: "entry_keys env production (keys @ [key]) entries = Inr keys'" by (auto simp: result_simps)
  have "wf_keys production (keys @ [key])"
    using Cons.prems(2) entry_key_Inr [OF key] by (auto simp: wf_keys_def)
  from Cons.IH [OF rest this] show ?case .
qed simp

lemma from_json_wf:
  assumes "from_json env source production = Inr ring"
  shows "wf_keys production (kr_keys ring) \<and> one_signer ring"
proof -
  from assms obtain entries keys where keys: "entry_keys env production [] entries = Inr keys"
    and ring: "(case signer_indices keys of [i] \<Rightarrow> Inr \<lparr>kr_keys = keys, kr_active_index = i\<rparr>
       | _ \<Rightarrow> Inl InvalidTokenConfiguration) = Inr ring"
    unfolding from_json_def rbind_Inr_iff by blast
  from ring obtain i where "signer_indices keys = [i]" "ring = \<lparr>kr_keys = keys, kr_active_index = i\<rparr>"
    by (auto split: list.splits)
  moreover have "wf_keys production keys" by (rule entry_keys_wf [OF keys]) (simp add: wf_keys_def)
  ultimately show ?thesis using signer_indices_single by simp
qed

lemma development_hs256_wf:
  "development_hs256 kid secret = Inr ring \<Longrightarrow> wf_keys False (kr_keys ring) \<and> one_signer ring"
  by (auto simp: development_hs256_def wf_keys_def one_signer_def signer_def split: if_splits)

text \<open>Status changes keep everything but the statuses.\<close>

definition key_material :: "jwt_key \<Rightarrow> rstr \<times> algorithm \<times> encoding_key option \<times> decoding_key \<times> jwks_key option" where
  "key_material key = (key_kid key, key_algorithm key, key_encoding key, key_decoding key, key_public_jwk key)"

lemma set_status_material: "map key_material (set_status kid status keys) = map key_material keys"
  by (induction kid status keys rule: set_status.induct) (simp_all add: key_material_def)

lemma assign_statuses_material:
  "assign_statuses statuses keys = (r, keys') \<Longrightarrow> map key_material keys' = map key_material keys"
  by (induction statuses keys arbitrary: r keys' rule: assign_statuses.induct)
    (auto simp: set_status_material split: if_splits sum.splits)

lemma wf_keys_material:
  assumes "map key_material keys' = map key_material keys" "wf_keys production keys"
  shows "wf_keys production keys'"
proof -
  have proj: "map f keys' = map f keys" if "\<And>key. f key = g (key_material key)" for f :: "jwt_key \<Rightarrow> 'a" and g
  proof -
    have "f = g \<circ> key_material" using that by (simp add: fun_eq_iff)
    then have "map f ks = map g (map key_material ks)" for ks by simp
    then show ?thesis by (simp only: assms(1))
  qed
  have kids: "map key_kid keys' = map key_kid keys" by (rule proj [of _ fst]) (simp add: key_material_def)
  have "map key_algorithm keys' = map key_algorithm keys"
    by (rule proj [of _ "\<lambda>x. fst (snd x)"]) (simp add: key_material_def)
  then have algorithms: "key_algorithm ` set keys' = key_algorithm ` set keys" by (metis list.set_map)
  have ids: "key_kid ` set keys' = key_kid ` set keys" using kids by (metis list.set_map)
  have "valid_kid (key_kid key)" if "key \<in> set keys'" for key
    using imageI [OF that, of key_kid] ids assms(2) by (auto simp: wf_keys_def)
  moreover have "if production then key_algorithm key = ES256 else key_algorithm key \<in> {ES256, HS256}"
    if "key \<in> set keys'" for key
    using imageI [OF that, of key_algorithm] algorithms assms(2) by (auto simp: wf_keys_def split: if_splits)
  moreover have "distinct (map key_kid keys')" using assms(2) kids by (simp add: wf_keys_def)
  ultimately show ?thesis unfolding wf_keys_def by blast
qed

lemma apply_statuses_ok:
  assumes "apply_statuses ring statuses = (Inr (), ring')"
  shows "one_signer ring' \<and> map key_material (kr_keys ring') = map key_material (kr_keys ring)"
  using assms signer_indices_single
  by (auto simp: apply_statuses_def split: prod.splits sum.splits list.splits dest: assign_statuses_material)

lemma reachable_ring_wf: "reachable_ring production ring \<Longrightarrow> wf_keys production (kr_keys ring) \<and> one_signer ring"
proof (induction rule: reachable_ring.induct)
  case (configured env source ring)
  then show ?case by (rule from_json_wf)
next
  case (development kid secret ring)
  then show ?case using development_hs256_wf by simp
next
  case (updated ring statuses ring')
  then show ?case using apply_statuses_ok wf_keys_material by blast
qed

lemma find_distinct:
  assumes "distinct (map f xs)" "x \<in> set xs" "P x"
  shows "List.find (\<lambda>y. f y = f x \<and> P y) xs = Some x"
  using assms
proof (induction xs)
  case (Cons y ys)
  then show ?case by (cases "x = y") (auto simp: image_iff)
qed simp

subsection \<open>Properties\<close>

text \<open>
  C22: a key ring always signs with its single active key and can verify what it signs. Whatever
  configuration produced the ring and whatever status updates succeeded since, exactly one key is an
  active key with private material and it is the one used for signing; looking its identifier up for
  verification finds that same key; verification never uses a revoked key; and in production every key is
  an ES256 key.
\<close>

theorem ring_signs_with_the_active_key:
  assumes "reachable_ring production ring"
  shows "ring_active ring \<in> set (kr_keys ring) \<and> signer (ring_active ring)
    \<and> (\<forall>i < length (kr_keys ring). signer (kr_keys ring ! i) \<longrightarrow> i = kr_active_index ring)
    \<and> ring_verification ring (key_kid (ring_active ring)) = Some (ring_active ring)
    \<and> (\<forall>kid key. ring_verification ring kid = Some key \<longrightarrow>
         key \<in> set (kr_keys ring) \<and> key_kid key = kid \<and> key_status key \<noteq> KeyRevoked
         \<and> (production \<longrightarrow> key_algorithm key = ES256))"
proof -
  from reachable_ring_wf [OF assms] have wf: "wf_keys production (kr_keys ring)" and one: "one_signer ring"
    by blast+
  from one have active: "ring_active ring \<in> set (kr_keys ring)" "signer (ring_active ring)"
    by (simp_all add: one_signer_def ring_active_def)
  have "ring_verification ring (key_kid (ring_active ring)) = Some (ring_active ring)"
    unfolding ring_verification_def
    by (rule find_distinct [where f = key_kid]) (use wf active in \<open>auto simp: wf_keys_def signer_def\<close>)
  moreover have "key \<in> set (kr_keys ring) \<and> key_kid key = kid \<and> key_status key \<noteq> KeyRevoked
      \<and> (production \<longrightarrow> key_algorithm key = ES256)" if "ring_verification ring kid = Some key" for kid key
    using that wf by (auto simp: ring_verification_def find_Some_iff wf_keys_def split: if_splits)
  moreover have "\<forall>i < length (kr_keys ring). signer (kr_keys ring ! i) \<longrightarrow> i = kr_active_index ring"
    using one by (simp add: one_signer_def)
  ultimately show ?thesis using active by blast
qed

definition sample_ring :: jwt_key_ring where
  "sample_ring = \<lparr>kr_keys = [\<lparr>key_kid = lit ''k'', key_status = KeyActive, key_algorithm = HS256,
     key_encoding = Some (EncodingFromSecret (replicate 32 1)),
     key_decoding = DecodingFromSecret (replicate 32 1), key_public_jwk = None\<rparr>], kr_active_index = 0\<rparr>"

lemma sample_ring_created: "development_hs256 (lit ''k'') (replicate 32 1) = Inr sample_ring"
  by (simp add: development_hs256_def sample_ring_def valid_kid_def is_ascii_alphanumeric_def)

theorem ring_signs_with_the_active_key_witness:
  "signer (ring_active sample_ring)
     \<and> ring_verification sample_ring (lit ''k'') = Some (ring_active sample_ring)"
proof -
  have "reachable_ring False sample_ring"
    by (rule reachable_ring.development [OF _ sample_ring_created]) simp
  from ring_signs_with_the_active_key [OF this] show ?thesis by (simp add: ring_active_def sample_ring_def)
qed

text \<open>
  C39: a status update that is rejected is not undone. The error of \<open>apply_statuses\<close> leaves the changed
  statuses in the ring while the index of the active key stays, so a ring that held exactly one active
  key can be left signing with a key that its own verification refuses as revoked.
\<close>

theorem rejected_status_update_is_kept:
  "\<exists>ring statuses ring'. one_signer ring \<and> apply_statuses ring statuses = (Inl InvalidTokenConfiguration, ring')
     \<and> key_status (ring_active ring') = KeyRevoked
     \<and> ring_verification ring' (key_kid (ring_active ring')) = None"
proof -
  let ?after = "sample_ring\<lparr>kr_keys := [hd (kr_keys sample_ring)\<lparr>key_status := KeyRevoked\<rparr>]\<rparr>"
  have "one_signer sample_ring" by (simp add: one_signer_def sample_ring_def signer_def)
  moreover have "apply_statuses sample_ring [(lit ''k'', lit ''revoked'')] = (Inl InvalidTokenConfiguration, ?after)"
    by (simp add: apply_statuses_def sample_ring_def parse_key_status_def signer_indices_def signer_def)
  moreover have "key_status (ring_active ?after) = KeyRevoked"
    "ring_verification ?after (key_kid (ring_active ?after)) = None"
    by (simp_all add: ring_active_def ring_verification_def sample_ring_def)
  ultimately show ?thesis by blast
qed

end
