(* ===== verification/Access_Tokens.thy ===== *)
theory Access_Tokens
  imports Jwt_Keys
begin

section \<open>Verification of access tokens\<close>

text \<open>
  Models the verifying half of \<open>src/crates/wasi-auth/src/postgres/tokens.rs\<close>: decoding a token with the
  key ring, loading the session it names, the comparison of claims and session, and the two ways an
  earlier result is reused, after a fingerprint query and under an unchanged invalidation epoch. Each
  query of \<open>verify_cached\<close> sees its own state of the database and its own reading of the clock.
\<close>

datatype 't token_service_error =
  InvalidSession | TokenInvalid | ExpiredToken | ReuseDetected | RandomnessUnavailable | Crypto
| TokenTransport 't | TokenRow row_decode_error

record verified_access_token =
  vt_user_id :: rstr
  vt_organization_id :: "rstr option"
  vt_session_id :: rstr
  vt_permissions :: "rstr list"
  vt_role_ids :: "rstr list"
  vt_policy_revision :: "rstr option"
  vt_assurance :: rstr
  vt_system_administrator :: bool
  vt_issued_at_seconds :: u64
  vt_expires_at_seconds :: u64
  vt_fingerprint :: authorization_fingerprint

record decoded_access_token =
  dt_claims :: access_token_claims
  dt_session_id :: session_id
  dt_kid :: rstr

record access_token_verifier =
  tv_keys :: jwt_key_ring
  tv_issuer :: rstr
  tv_audience :: rstr

definition valid_issuer_and_audience :: "rstr \<Rightarrow> rstr \<Rightarrow> bool" where
  "valid_issuer_and_audience issuer audience \<longleftrightarrow>
     issuer \<noteq> [] \<and> str_len issuer \<le> 2048 \<and> \<not> list_ex is_control issuer
     \<and> audience \<noteq> [] \<and> str_len audience \<le> 256 \<and> \<not> list_ex is_control audience"

definition verifier_new ::
  "jwt_key_ring \<Rightarrow> rstr \<Rightarrow> rstr \<Rightarrow> token_configuration_error + access_token_verifier" where
  "verifier_new keys issuer audience =
     (if \<not> valid_issuer_and_audience issuer audience then Inl InvalidTokenConfiguration
      else Inr \<lparr>tv_keys = keys, tv_issuer = issuer, tv_audience = audience\<rparr>)"

definition decode_verified_access_token ::
  "jwt_env \<Rightarrow> rstr \<Rightarrow> jwt_key_ring \<Rightarrow> rstr \<Rightarrow> rstr \<Rightarrow> workflow_error + decoded_access_token" where
  "decode_verified_access_token env token keys issuer audience =
     rbind (access_token_key_id env token) (\<lambda>kid.
     rbind (ok_or InvalidToken (ring_verification keys kid)) (\<lambda>key.
     rbind (decode_access_token env token (key_decoding key) issuer audience [key_algorithm key]) (\<lambda>claims.
     rbind (ok_or InvalidToken (Option.bind (cl_session_id claims) (\<lambda>session.
        case bounded_identifier_new session of Inl _ \<Rightarrow> None | Inr session_id \<Rightarrow> Some session_id)))
        (\<lambda>session_id.
       Inr \<lparr>dt_claims = claims, dt_session_id = session_id, dt_kid = kid\<rparr>))))"

definition map_access_token_decode_error :: "workflow_error \<Rightarrow> 't token_service_error" where
  "map_access_token_decode_error e = (case e of SessionExpired \<Rightarrow> ExpiredToken | _ \<Rightarrow> TokenInvalid)"

fun map_verification_store_error :: "'t postgres_store_error \<Rightarrow> 't token_service_error" where
  "map_verification_store_error (StoreTransport e) = TokenTransport e"
| "map_verification_store_error (StoreRow e) = TokenRow e"
| "map_verification_store_error (StoreValidation _) = TokenInvalid"
| "map_verification_store_error StoreContext = TokenInvalid"
| "map_verification_store_error EmailAlreadyExists = TokenInvalid"
| "map_verification_store_error IdempotencyConflict = TokenInvalid"
| "map_verification_store_error Unauthenticated = TokenInvalid"
| "map_verification_store_error UnexpectedOutcome = TokenInvalid"

definition matches_claims :: "verified_access_token \<Rightarrow> decoded_access_token \<Rightarrow> bool" where
  "matches_claims self decoded \<longleftrightarrow>
     vt_user_id self = cl_sub (dt_claims decoded)
     \<and> vt_session_id self = dt_session_id decoded
     \<and> vt_organization_id self = cl_tenant_id (dt_claims decoded)"

definition verified_access_token_of ::
  "access_token_claims \<Rightarrow> session_id \<Rightarrow> verified_session \<Rightarrow> 't token_service_error + verified_access_token" where
  "verified_access_token_of claims session_id session =
     (let auth = vrc_auth (vs_context session); authorization = vrc_authorization (vs_context session) in
      if cl_sub claims \<noteq> pr_user_id (vac_principal auth) \<or> cl_tenant_id claims \<noteq> vac_organization_id auth
      then Inl TokenInvalid
      else Inr
        \<lparr>vt_user_id = cl_sub claims,
         vt_organization_id = vac_organization_id auth,
         vt_session_id = session_id,
         vt_permissions = permissions authorization,
         vt_role_ids = role_ids authorization,
         vt_policy_revision = as_policy_revision authorization,
         vt_assurance = assurance_text (vac_assurance auth),
         vt_system_administrator = pr_system_administrator (vac_principal auth),
         vt_issued_at_seconds = cl_iat claims,
         vt_expires_at_seconds = cl_exp claims,
         vt_fingerprint = vs_fingerprint session\<rparr>)"

definition load_decoded ::
  "(rstr \<Rightarrow> rstr option) \<Rightarrow> kernel_db \<times> u64 \<Rightarrow> decoded_access_token \<Rightarrow> request_id \<Rightarrow>
   pg_error token_service_error + verified_access_token" where
  "load_decoded parse_uuid = (\<lambda>(db, now) decoded request_id.
     rbind (map_err map_verification_store_error
       (load_verified_session_for_token parse_uuid db (dt_session_id decoded) request_id now (dt_kid decoded)))
     (\<lambda>session. verified_access_token_of (dt_claims decoded) (dt_session_id decoded) session))"

definition verify_access_token ::
  "jwt_env \<Rightarrow> (rstr \<Rightarrow> rstr option) \<Rightarrow> kernel_db \<times> u64 \<Rightarrow> jwt_key_ring \<Rightarrow> rstr \<Rightarrow> rstr \<Rightarrow> rstr \<Rightarrow> request_id \<Rightarrow>
   pg_error token_service_error + verified_access_token" where
  "verify_access_token env parse_uuid at_load keys issuer audience token request_id =
     rbind (map_err map_access_token_decode_error
       (decode_verified_access_token env token keys issuer audience)) (\<lambda>decoded.
       load_decoded parse_uuid at_load decoded request_id)"

definition verifier_verify ::
  "jwt_env \<Rightarrow> (rstr \<Rightarrow> rstr option) \<Rightarrow> access_token_verifier \<Rightarrow> kernel_db \<times> u64 \<Rightarrow> rstr \<Rightarrow> request_id \<Rightarrow>
   pg_error token_service_error + verified_access_token" where
  "verifier_verify env parse_uuid self at_load token request_id =
     verify_access_token env parse_uuid at_load (tv_keys self) (tv_issuer self) (tv_audience self)
       token request_id"

definition with_claim_times :: "verified_access_token \<Rightarrow> access_token_claims \<Rightarrow> verified_access_token" where
  "with_claim_times cached claims =
     cached\<lparr>vt_issued_at_seconds := cl_iat claims, vt_expires_at_seconds := cl_exp claims\<rparr>"

definition verify_cached ::
  "jwt_env \<Rightarrow> (rstr \<Rightarrow> rstr option) \<Rightarrow> access_token_verifier \<Rightarrow> kernel_db \<times> u64 \<Rightarrow> kernel_db \<times> u64 \<Rightarrow>
   rstr \<Rightarrow> request_id \<Rightarrow> verified_access_token option \<Rightarrow> pg_error token_service_error + verified_access_token" where
  "verify_cached env parse_uuid self at_fingerprint at_load token request_id cached =
     rbind (map_err map_access_token_decode_error
       (decode_verified_access_token env token (tv_keys self) (tv_issuer self) (tv_audience self)))
     (\<lambda>decoded.
       case Option.bind cached (\<lambda>c. if matches_claims c decoded then Some c else None) of
         None \<Rightarrow> load_decoded parse_uuid at_load decoded request_id
       | Some c \<Rightarrow>
         rbind (map_err map_verification_store_error
           (load_authorization_fingerprint_for_token parse_uuid (fst at_fingerprint)
             (dt_session_id decoded) (snd at_fingerprint) (dt_kid decoded))) (\<lambda>fingerprint.
         if vt_fingerprint c = fingerprint then Inr (with_claim_times c (dt_claims decoded))
         else load_decoded parse_uuid at_load decoded request_id))"

text \<open>Invalidation epochs of \<open>postgres/native.rs\<close>.\<close>

record invalidation_epoch =
  ie_tracker_id :: u64
  ie_generation :: u64

record invalidation_tracker =
  it_tracker_id :: u64
  it_generation :: u64
  it_healthy :: bool

definition current_epoch :: "invalidation_tracker \<Rightarrow> invalidation_epoch option" where
  "current_epoch self =
     (if \<not> it_healthy self then None
      else Some \<lparr>ie_tracker_id = it_tracker_id self, ie_generation = it_generation self\<rparr>)"

definition tracker_invalidate :: "invalidation_tracker \<Rightarrow> invalidation_tracker" where
  "tracker_invalidate self = self\<lparr>it_generation := it_generation self + 1\<rparr>"

definition verify_invalidation_cached ::
  "jwt_env \<Rightarrow> access_token_verifier \<Rightarrow> u64 \<Rightarrow> rstr \<Rightarrow> verified_access_token \<Rightarrow> invalidation_epoch \<Rightarrow>
   invalidation_epoch \<Rightarrow> 't token_service_error + verified_access_token option" where
  "verify_invalidation_cached env self now token cached cached_epoch epoch =
     (if cached_epoch \<noteq> epoch then Inr None
      else
        rbind (map_err map_access_token_decode_error
          (decode_verified_access_token env token (tv_keys self) (tv_issuer self) (tv_audience self)))
        (\<lambda>decoded.
          if now \<ge> cl_exp (dt_claims decoded) then Inl ExpiredToken
          else if \<not> matches_claims cached decoded then Inr None
          else Inr (Some (with_claim_times cached (dt_claims decoded)))))"

subsection \<open>Lemmas\<close>

lemma identifier_ok_Some_iff:
  "(case bounded_identifier_new v of Inl _ \<Rightarrow> None | Inr w \<Rightarrow> Some w) = Some x \<longleftrightarrow> valid_identifier v \<and> x = v"
  using bounded_identifier_new_Inr_iff [of v] by (cases "bounded_identifier_new v") auto

lemma decode_verified_access_token_Inr:
  assumes "decode_verified_access_token env token keys issuer audience = Inr decoded"
  obtains key where
    "je_header_kid env token = Some (dt_kid decoded)"
    "ring_verification keys (dt_kid decoded) = Some key"
    "je_decode env token (key_decoding key)
       \<lparr>jv_algorithms = [key_algorithm key], jv_issuer = issuer, jv_audience = audience\<rparr>
       = Inr (dt_claims decoded)"
    "cl_session_id (dt_claims decoded) = Some (dt_session_id decoded)"
    "valid_identifier (dt_session_id decoded)"
  using assms
  by (auto simp: decode_verified_access_token_def access_token_key_id_def decode_access_token_def
      result_simps bind_eq_Some_conv identifier_ok_Some_iff split: if_splits)

lemma load_decoded_Inr:
  assumes "load_decoded parse_uuid (db, now) decoded request_id = Inr verified"
  obtains session where
    "load_verified_session_for_token parse_uuid db (dt_session_id decoded) request_id now (dt_kid decoded)
       = Inr session"
    "verified_access_token_of (dt_claims decoded) (dt_session_id decoded) session
       = (Inr verified :: pg_error token_service_error + verified_access_token)"
  using assms by (auto simp: load_decoded_def result_simps)

lemma verified_access_token_of_Inr_iff:
  "verified_access_token_of claims session_id session = Inr verified \<longleftrightarrow>
     cl_sub claims = pr_user_id (vac_principal (vrc_auth (vs_context session)))
     \<and> cl_tenant_id claims = vac_organization_id (vrc_auth (vs_context session))
     \<and> verified = \<lparr>vt_user_id = cl_sub claims,
         vt_organization_id = vac_organization_id (vrc_auth (vs_context session)),
         vt_session_id = session_id,
         vt_permissions = permissions (vrc_authorization (vs_context session)),
         vt_role_ids = role_ids (vrc_authorization (vs_context session)),
         vt_policy_revision = as_policy_revision (vrc_authorization (vs_context session)),
         vt_assurance = assurance_text (vac_assurance (vrc_auth (vs_context session))),
         vt_system_administrator = pr_system_administrator (vac_principal (vrc_auth (vs_context session))),
         vt_issued_at_seconds = cl_iat claims, vt_expires_at_seconds = cl_exp claims,
         vt_fingerprint = vs_fingerprint session\<rparr>"
  by (auto simp: verified_access_token_of_def Let_def)

text \<open>
  What a token verified against one state of the database carries, in terms of the joined rows. The
  permissions are the only part the fingerprint does not carry itself.
\<close>

definition token_of_facts ::
  "kernel_db \<Rightarrow> rstr \<Rightarrow> session_row \<times> user_row \<times> organization_row option \<times> membership_row option \<Rightarrow>
   access_token_claims \<Rightarrow> session_id \<Rightarrow> authorization_fingerprint \<Rightarrow> verified_access_token" where
  "token_of_facts db sid = (\<lambda>(s, u, organization, m) claims session_id fp.
     \<lparr>vt_user_id = fp_user_id fp, vt_organization_id = fp_organization_id fp, vt_session_id = session_id,
      vt_permissions = sorted_list_of_fset (fset_of_list (role_permissions db (s_selected_organization_id s) m)),
      vt_role_ids = (case fp_role_id fp of None \<Rightarrow> [] | Some role \<Rightarrow> [role]),
      vt_policy_revision = fp_policy_revision fp, vt_assurance = fp_assurance fp,
      vt_system_administrator = fp_system_administrator fp,
      vt_issued_at_seconds = cl_iat claims, vt_expires_at_seconds = cl_exp claims, vt_fingerprint = fp\<rparr>)"

lemma sorted_list_of_fset_singleton [simp]: "sorted_list_of_fset {|x|} = [x]"
  by (simp add: sorted_list_of_fset.rep_eq)

lemma sorted_list_of_fset_empty [simp]: "sorted_list_of_fset {||} = []"
  by (simp add: sorted_list_of_fset.rep_eq)

lemma load_decoded_facts:
  assumes "load_decoded parse_uuid (db, now) decoded request_id = Inr verified"
  obtains sid s u organization m where
    "parse_uuid (dt_session_id decoded) = Some sid" "session_join db sid = Some (s, u, organization, m)"
    "session_where (u64_to_i64 (saturating_mul now 1000)) (s, u, organization, m)"
    "signing_key_usable db (dt_kid decoded)"
    "authorization_fingerprint_of (request_context_row db sid (s, u, organization, m))
       = Inr (vt_fingerprint verified)"
    "verified = token_of_facts db sid (s, u, organization, m) (dt_claims decoded) (dt_session_id decoded)
       (vt_fingerprint verified)"
    "cl_sub (dt_claims decoded) = s_user_id s"
    "cl_tenant_id (dt_claims decoded) = s_selected_organization_id s"
proof -
  from assms obtain session where
    session: "load_verified_session_for_token parse_uuid db (dt_session_id decoded) request_id now
        (dt_kid decoded) = Inr session"
    and verified: "verified_access_token_of (dt_claims decoded) (dt_session_id decoded) session
       = (Inr verified :: pg_error token_service_error + verified_access_token)"
    by (rule load_decoded_Inr)
  from session have kid: "dt_kid decoded \<noteq> []"
    and load: "load_verified_session_with_signing_key parse_uuid db (dt_session_id decoded) request_id now
        (dt_kid decoded) = Inr session"
    by (auto simp: load_verified_session_for_token_def result_simps valid_signing_key_id_def)
  from load obtain sid s u organization m where
      facts: "parse_uuid (dt_session_id decoded) = Some sid" "session_join db sid = Some (s, u, organization, m)"
        "session_where (u64_to_i64 (saturating_mul now 1000)) (s, u, organization, m)"
        "dt_kid decoded = [] \<or> signing_key_usable db (dt_kid decoded)"
      and vs: "verified_session_of (request_context_row db sid (s, u, organization, m)) request_id = Inr session"
    by (rule load_verified_session_Inr)
  note fp = verified_session_of_Inr(1) [OF vs] and ctx = verified_session_of_Inr(3) [OF vs]
  have "verified = token_of_facts db sid (s, u, organization, m) (dt_claims decoded) (dt_session_id decoded)
      (vs_fingerprint session)"
    using verified authorization_fingerprint_of_Inr [OF fp]
    by (cases m) (simp_all add: verified_access_token_of_Inr_iff token_of_facts_def ctx from_verified_def
        permissions_def role_ids_def)
  moreover have "vt_fingerprint verified = vs_fingerprint session"
    using verified by (simp add: verified_access_token_of_Inr_iff)
  moreover have "cl_sub (dt_claims decoded) = s_user_id s"
    "cl_tenant_id (dt_claims decoded) = s_selected_organization_id s"
    using verified by (simp_all add: verified_access_token_of_Inr_iff ctx from_verified_def)
  ultimately show ?thesis using that facts kid fp by simp
qed

subsection \<open>Properties\<close>

text \<open>
  The discipline of the statements that change role permissions: they increase the authorization
  revision of the organization, so two states with the same revision of an organization agree on the
  permissions of its roles.
\<close>

definition same_revision_same_permissions :: "kernel_db \<Rightarrow> kernel_db \<Rightarrow> bool" where
  "same_revision_same_permissions db db' \<longleftrightarrow>
     (\<forall>organization row row'. fmlookup (db_organizations db) organization = Some row
        \<longrightarrow> fmlookup (db_organizations db') organization = Some row'
        \<longrightarrow> o_authorization_revision row = o_authorization_revision row'
        \<longrightarrow> (\<forall>role permission. (organization, role, permission) |\<in>| db_role_permissions db
               \<longleftrightarrow> (organization, role, permission) |\<in>| db_role_permissions db'))"

lemma role_permissions_by_fingerprint:
  assumes agree: "same_revision_same_permissions db db'"
    and join: "session_join db sid = Some (s, u, org, m)" "session_join db' sid' = Some (s', u', org', m')"
    and live: "session_where now (s, u, org, m)" "session_where now' (s', u', org', m')"
    and fp: "authorization_fingerprint_of (request_context_row db sid (s, u, org, m)) = Inr fp"
      "authorization_fingerprint_of (request_context_row db' sid' (s', u', org', m')) = Inr fp"
  shows "role_permissions db (s_selected_organization_id s) m
    = role_permissions db' (s_selected_organization_id s') m'"
proof -
  have same: "s_selected_organization_id s = s_selected_organization_id s'"
    "map_option o_authorization_revision org = map_option o_authorization_revision org'"
    "map_option m_role_id m = map_option m_role_id m'"
    using authorization_fingerprint_of_Inr [OF fp(1)] authorization_fingerprint_of_Inr [OF fp(2)] by simp_all
  show ?thesis
  proof (cases "s_selected_organization_id s")
    case None
    with same(1) show ?thesis by (simp add: role_permissions_def)
  next
    case (Some o')
    with live same(1) obtain row row' where rows: "org = Some row" "org' = Some row'"
      by (auto simp: session_where_def split: option.splits)
    with join Some same(1) have "fmlookup (db_organizations db) o' = Some row"
      "fmlookup (db_organizations db') o' = Some row'" by (auto simp: session_join_Some)
    moreover have "o_authorization_revision row = o_authorization_revision row'" using same(2) rows by simp
    ultimately have "(o', role, p) |\<in>| db_role_permissions db \<longleftrightarrow> (o', role, p) |\<in>| db_role_permissions db'"
      for role p using agree unfolding same_revision_same_permissions_def by blast
    then have "ffilter (\<lambda>(o'', role, _). o'' = o' \<and> role = r) (db_role_permissions db)
        = ffilter (\<lambda>(o'', role, _). o'' = o' \<and> role = r) (db_role_permissions db')" for r
      by (auto simp: fset_eq_iff)
    with Some same(1,3) show ?thesis by (cases m; cases m') (simp_all add: role_permissions_def)
  qed
qed

text \<open>A token verified earlier, with the fingerprint the tables give now, carries what the tables say now.\<close>

lemma same_fingerprint_current_facts:
  assumes agree: "same_revision_same_permissions db0 db"
    and cached: "load_decoded parse_uuid (db0, now0) decoded0 rid0 = Inr cached"
    and join: "session_join db sid = Some (s, u, organization, m)"
    and live: "session_where now (s, u, organization, m)"
    and fp: "authorization_fingerprint_of (request_context_row db sid (s, u, organization, m)) = Inr (vt_fingerprint cached)"
    and session: "vt_session_id cached = session_id"
  shows "with_claim_times cached claims
    = token_of_facts db sid (s, u, organization, m) claims session_id (vt_fingerprint cached)"
proof -
  from cached obtain sid0 s0 u0 o0 m0 where
      0: "session_join db0 sid0 = Some (s0, u0, o0, m0)"
        "session_where (u64_to_i64 (saturating_mul now0 1000)) (s0, u0, o0, m0)"
        "authorization_fingerprint_of (request_context_row db0 sid0 (s0, u0, o0, m0)) = Inr (vt_fingerprint cached)"
        "cached = token_of_facts db0 sid0 (s0, u0, o0, m0) (dt_claims decoded0) (dt_session_id decoded0)
          (vt_fingerprint cached)" by (rule load_decoded_facts)
  have "role_permissions db0 (s_selected_organization_id s0) m0 = role_permissions db (s_selected_organization_id s) m"
    using agree 0(1) join 0(2) live 0(3) fp by (rule role_permissions_by_fingerprint)
  moreover have "dt_session_id decoded0 = session_id"
    using arg_cong [OF 0(4), of vt_session_id] session by (simp add: token_of_facts_def)
  ultimately show ?thesis by (subst 0(4)) (simp add: token_of_facts_def with_claim_times_def)
qed

lemma same_fingerprint_same_token:
  assumes agree: "same_revision_same_permissions db0 db"
    and cached: "load_decoded parse_uuid (db0, now0) decoded0 rid0 = Inr cached"
    and fresh: "load_decoded parse_uuid (db, now) decoded rid = Inr verified"
    and fp: "vt_fingerprint cached = vt_fingerprint verified"
    and session: "vt_session_id cached = dt_session_id decoded"
  shows "with_claim_times cached (dt_claims decoded) = verified"
proof -
  from fresh obtain sid s u o' m where
      "session_join db sid = Some (s, u, o', m)"
      "session_where (u64_to_i64 (saturating_mul now 1000)) (s, u, o', m)"
      "authorization_fingerprint_of (request_context_row db sid (s, u, o', m)) = Inr (vt_fingerprint cached)"
      and verified: "verified = token_of_facts db sid (s, u, o', m) (dt_claims decoded) (dt_session_id decoded)
        (vt_fingerprint verified)" unfolding fp by (rule load_decoded_facts)
  from same_fingerprint_current_facts [OF agree cached this(1-3) session] verified fp show ?thesis by simp
qed

text \<open>
  What the stored tables say about a decoded token at one time: the signing key is active or retired, the
  session is live, its user active and of the same security revision, a selected organization active with
  an active membership, and user and tenant of the claims are those of the session. The token then carries
  exactly the stored facts; only its two times come from the claims.
\<close>

definition reflects_database ::
  "(rstr \<Rightarrow> rstr option) \<Rightarrow> kernel_db \<Rightarrow> u64 \<Rightarrow> decoded_access_token \<Rightarrow> verified_access_token \<Rightarrow> bool" where
  "reflects_database parse_uuid db now decoded verified \<longleftrightarrow>
     (\<exists>sid s u organization m. parse_uuid (dt_session_id decoded) = Some sid
        \<and> fmlookup (db_signing_keys db) (dt_kid decoded) \<in> {Some (lit ''active''), Some (lit ''retired'')}
        \<and> fmlookup (db_sessions db) sid = Some s \<and> fmlookup (db_users db) (s_user_id s) = Some u
        \<and> s_revoked_at_ms s = None \<and> u64_to_i64 (saturating_mul now 1000) < s_expires_at_ms s
        \<and> u_status u = lit ''active'' \<and> u_security_revision u = s_user_security_revision s
        \<and> (case s_selected_organization_id s of
             None \<Rightarrow> organization = None \<and> m = None
           | Some o' \<Rightarrow> (\<exists>row member. fmlookup (db_organizations db) o' = Some row \<and> o_status row = lit ''active''
               \<and> fmlookup (db_memberships db) (o', s_user_id s) = Some member \<and> m_status member = lit ''active''
               \<and> organization = Some row \<and> m = Some member))
        \<and> cl_sub (dt_claims decoded) = s_user_id s
        \<and> cl_tenant_id (dt_claims decoded) = s_selected_organization_id s
        \<and> vt_user_id verified = s_user_id s
        \<and> vt_organization_id verified = s_selected_organization_id s
        \<and> vt_session_id verified = dt_session_id decoded
        \<and> sorted (vt_permissions verified) \<and> distinct (vt_permissions verified)
        \<and> (\<forall>permission. permission \<in> set (vt_permissions verified) \<longleftrightarrow>
             (\<exists>o' member. s_selected_organization_id s = Some o' \<and> m = Some member
                \<and> (o', m_role_id member, permission) |\<in>| db_role_permissions db))
        \<and> vt_role_ids verified = (case m of None \<Rightarrow> [] | Some member \<Rightarrow> [m_role_id member])
        \<and> vt_policy_revision verified = active_policy_revision db
        \<and> s_assurance s \<in> {lit ''aal1'', lit ''aal2'', lit ''aal3''}
        \<and> vt_assurance verified = (if s_assurance s = lit ''aal1'' then lit ''aal1'' else lit ''aal2'')
        \<and> vt_system_administrator verified = (fmlookup (db_system_administrators db) (s_user_id s) = Some None)
        \<and> vt_issued_at_seconds verified = cl_iat (dt_claims decoded)
        \<and> vt_expires_at_seconds verified = cl_exp (dt_claims decoded)
        \<and> vt_fingerprint verified =
            \<lparr>fp_user_id = s_user_id s, fp_session_id = sid, fp_organization_id = s_selected_organization_id s,
             fp_assurance = vt_assurance verified, fp_expires_at_ms = s_expires_at_ms s,
             fp_session_revision = s_session_revision s, fp_user_security_revision = s_user_security_revision s,
             fp_organization_authorization_revision = map_option o_authorization_revision organization,
             fp_role_id = map_option m_role_id m, fp_policy_revision = active_policy_revision db,
             fp_system_administrator = vt_system_administrator verified\<rparr>)"

lemma fingerprint_assurance_stored:
  assumes "authorization_fingerprint_of (request_context_row db sid (s, u, organization, m)) = Inr fp"
  shows "s_assurance s \<in> {lit ''aal1'', lit ''aal2'', lit ''aal3''}"
  using assms
  by (auto simp: authorization_fingerprint_of_def column_lookups request_context_row_columns result_simps
      fingerprint_assurance_Inr_iff simp del: lit_Cons lit_Nil)

lemma facts_reflect_database:
  assumes sid: "parse_uuid (dt_session_id decoded) = Some sid"
    and join: "session_join db sid = Some (s, u, organization, m)"
    and live: "session_where (u64_to_i64 (saturating_mul now 1000)) (s, u, organization, m)"
    and key: "signing_key_usable db (dt_kid decoded)"
    and fp: "authorization_fingerprint_of (request_context_row db sid (s, u, organization, m)) = Inr fp"
    and claims: "cl_sub (dt_claims decoded) = s_user_id s" "cl_tenant_id (dt_claims decoded) = s_selected_organization_id s"
  shows "reflects_database parse_uuid db now decoded
    (token_of_facts db sid (s, u, organization, m) (dt_claims decoded) (dt_session_id decoded) fp)"
proof -
  let ?token = "token_of_facts db sid (s, u, organization, m) (dt_claims decoded) (dt_session_id decoded) fp"
  have tenant: "case s_selected_organization_id s of
      None \<Rightarrow> organization = None \<and> m = None
    | Some o' \<Rightarrow> (\<exists>row member. fmlookup (db_organizations db) o' = Some row \<and> o_status row = lit ''active''
        \<and> fmlookup (db_memberships db) (o', s_user_id s) = Some member \<and> m_status member = lit ''active''
        \<and> organization = Some row \<and> m = Some member)"
    using join live
    by (auto simp: session_join_Some session_where_def bind_eq_Some_conv split: option.splits if_splits
        simp del: lit_Cons lit_Nil)
  have perms: "permission \<in> set (vt_permissions ?token) \<longleftrightarrow> (\<exists>o' member. s_selected_organization_id s = Some o'
      \<and> m = Some member \<and> (o', m_role_id member, permission) |\<in>| db_role_permissions db)" for permission
    using tenant set_role_permissions [of permission db]
    by (cases "s_selected_organization_id s"; cases m)
       (simp_all add: token_of_facts_def fset_of_list.rep_eq role_permissions_def)
  note stored = authorization_fingerprint_of_Inr [OF fp]
  show ?thesis
    unfolding reflects_database_def
    using sid join live key claims tenant perms fingerprint_assurance_stored [OF fp]
    by (intro exI [of _ sid] exI [of _ s] exI [of _ u] exI [of _ organization] exI [of _ m])
       (simp add: token_of_facts_def stored session_join_Some session_where_def signing_key_usable_def
         is_system_administrator_def assurance_text_def stored_assurance_def
         sorted_sorted_list_of_fset distinct_sorted_list_of_fset split: option.splits del: lit_Cons lit_Nil)
qed

lemma loaded_reflects_database:
  assumes "load_decoded parse_uuid (db, now) decoded request_id = Inr verified"
  shows "reflects_database parse_uuid db now decoded verified"
proof -
  from assms obtain sid s u organization m where
      "parse_uuid (dt_session_id decoded) = Some sid" "session_join db sid = Some (s, u, organization, m)"
      "session_where (u64_to_i64 (saturating_mul now 1000)) (s, u, organization, m)"
      "signing_key_usable db (dt_kid decoded)"
      "authorization_fingerprint_of (request_context_row db sid (s, u, organization, m)) = Inr (vt_fingerprint verified)"
      and token: "verified = token_of_facts db sid (s, u, organization, m) (dt_claims decoded) (dt_session_id decoded)
        (vt_fingerprint verified)"
      and "cl_sub (dt_claims decoded) = s_user_id s" "cl_tenant_id (dt_claims decoded) = s_selected_organization_id s"
    by (rule load_decoded_facts)
  then show ?thesis by (subst token) (intro facts_reflect_database)
qed

text \<open>The query for a full load and the one for the fingerprint agree on what is live.\<close>

lemma loaded_fingerprint:
  assumes "load_decoded parse_uuid (db, now) decoded request_id = Inr verified"
  shows "load_authorization_fingerprint_for_token parse_uuid db (dt_session_id decoded) now (dt_kid decoded)
    = Inr (vt_fingerprint verified)"
proof -
  from assms obtain sid s u o' m where
      "parse_uuid (dt_session_id decoded) = Some sid" "session_join db sid = Some (s, u, o', m)"
      "session_where (u64_to_i64 (saturating_mul now 1000)) (s, u, o', m)"
      "signing_key_usable db (dt_kid decoded)"
      "authorization_fingerprint_of (request_context_row db sid (s, u, o', m)) = Inr (vt_fingerprint verified)"
    by (rule load_decoded_facts)
  moreover have "valid_signing_key_id (dt_kid decoded)"
    using assms by (auto simp: load_decoded_def load_verified_session_for_token_def result_simps)
  ultimately show ?thesis
    by (simp add: load_authorization_fingerprint_for_token_def load_request_fingerprint_sql_def
        authorization_fingerprint_of_context_row)
qed

lemma reused_reflects_database:
  assumes agree: "same_revision_same_permissions db0 db"
    and cached: "load_decoded parse_uuid (db0, now0) decoded0 rid0 = Inr cached"
    and fingerprint: "load_authorization_fingerprint_for_token parse_uuid db (dt_session_id decoded) now (dt_kid decoded)
      = Inr (vt_fingerprint cached)"
    and claims: "matches_claims cached decoded"
  shows "reflects_database parse_uuid db now decoded (with_claim_times cached (dt_claims decoded))"
proof -
  from fingerprint obtain sid s u o' m where sid: "parse_uuid (dt_session_id decoded) = Some sid"
      and join: "session_join db sid = Some (s, u, o', m)"
      and live: "session_where (u64_to_i64 (saturating_mul now 1000)) (s, u, o', m)"
      and key: "signing_key_usable db (dt_kid decoded)"
      and fp: "authorization_fingerprint_of (request_context_row db sid (s, u, o', m)) = Inr (vt_fingerprint cached)"
    by (rule load_fingerprint_Inr)
  have session: "vt_session_id cached = dt_session_id decoded" using claims by (simp add: matches_claims_def)
  have token: "with_claim_times cached (dt_claims decoded)
      = token_of_facts db sid (s, u, o', m) (dt_claims decoded) (dt_session_id decoded) (vt_fingerprint cached)"
    by (rule same_fingerprint_current_facts [OF agree cached join live fp session])
  have "vt_user_id cached = s_user_id s" "vt_organization_id cached = s_selected_organization_id s"
    using arg_cong [OF token, of vt_user_id] arg_cong [OF token, of vt_organization_id]
      authorization_fingerprint_of_Inr [OF fp] by (simp_all add: token_of_facts_def with_claim_times_def)
  with claims show ?thesis
    unfolding token by (intro facts_reflect_database sid join live key fp) (simp_all add: matches_claims_def)
qed

text \<open>
  C21: what a verified token grants comes from the database, not from the token. A token is accepted only
  if a key of the ring that is not revoked verifies it with that key's own algorithm and the configured
  issuer and audience, and the decoded claims name a session for which the tables say what
  \<open>reflects_database\<close> spells out. Every part of the result is then pinned: user, tenant, session, role,
  permissions, policy revision, assurance, administrator flag and fingerprint are the stored ones, whatever
  roles and scopes the claims list, and only the issue and expiry times are those of the claims.
\<close>

theorem verified_token_reflects_database:
  assumes "verifier_verify env parse_uuid self (db, now) token rid = Inr verified"
  shows "\<exists>decoded key. je_header_kid env token = Some (dt_kid decoded)
    \<and> ring_verification (tv_keys self) (dt_kid decoded) = Some key
    \<and> je_decode env token (key_decoding key) \<lparr>jv_algorithms = [key_algorithm key],
         jv_issuer = tv_issuer self, jv_audience = tv_audience self\<rparr> = Inr (dt_claims decoded)
    \<and> cl_session_id (dt_claims decoded) = Some (dt_session_id decoded)
    \<and> reflects_database parse_uuid db now decoded verified"
proof -
  from assms obtain decoded where
      decoded: "decode_verified_access_token env token (tv_keys self) (tv_issuer self) (tv_audience self) = Inr decoded"
    and fresh: "load_decoded parse_uuid (db, now) decoded rid = Inr verified"
    by (auto simp: verifier_verify_def verify_access_token_def result_simps)
  from decoded obtain key where "je_header_kid env token = Some (dt_kid decoded)"
      "ring_verification (tv_keys self) (dt_kid decoded) = Some key"
      "je_decode env token (key_decoding key) \<lparr>jv_algorithms = [key_algorithm key],
         jv_issuer = tv_issuer self, jv_audience = tv_audience self\<rparr> = Inr (dt_claims decoded)"
      "cl_session_id (dt_claims decoded) = Some (dt_session_id decoded)"
    by (rule decode_verified_access_token_Inr)
  with loaded_reflects_database [OF fresh] show ?thesis by blast
qed

definition sample_claims :: access_token_claims where
  "sample_claims = (for_user (lit ''i'') (lit ''u'') [lit ''a''] 8 1 (lit ''j''))
     \<lparr>cl_tenant_id := Some (lit ''o''), cl_session_id := Some (lit ''s'')\<rparr>"

definition sample_jwt_env :: jwt_env where
  "sample_jwt_env = \<lparr>je_header_kid = (\<lambda>_. Some (lit ''k'')), je_decode = (\<lambda>_ _ _. Inr sample_claims),
     je_encode = (\<lambda>_ _ _ _. None), je_ec_components_ok = (\<lambda>_ _. False), je_public_jwk = (\<lambda>_. None),
     je_parse_json = (\<lambda>_. None), je_base64 = (\<lambda>_. None)\<rparr>"

definition sample_verifier :: access_token_verifier where
  "sample_verifier = \<lparr>tv_keys = sample_ring, tv_issuer = lit ''i'', tv_audience = lit ''a''\<rparr>"

lemma sample_token_verifies:
  "\<exists>verified. verifier_verify sample_jwt_env Some sample_verifier (sample_db, 2) (lit ''t'') rid = Inr verified"
proof -
  have "trim (lit ''k'') \<noteq> []" by (simp add: trim_empty_iff is_whitespace_def)
  moreover have "valid_identifier (lit ''s'')" by (simp add: valid_identifier_def is_control_def is_whitespace_def)
  ultimately have decoded: "decode_verified_access_token sample_jwt_env (lit ''t'') sample_ring (lit ''i'') (lit ''a'')
      = Inr \<lparr>dt_claims = sample_claims, dt_session_id = lit ''s'', dt_kid = lit ''k''\<rparr>"
    by (simp add: decode_verified_access_token_def access_token_key_id_def sample_jwt_env_def
        ring_verification_def sample_ring_def decode_access_token_def sample_claims_def)
  from sample_session_loads obtain vs where vs:
    "load_verified_session_for_token Some sample_db (lit ''s'') rid 2 (lit ''k'') = Inr vs" by blast
  then have "load_verified_session_with_signing_key Some sample_db (lit ''s'') rid 2 (lit ''k'') = Inr vs"
    by (auto simp: load_verified_session_for_token_def result_simps)
  then obtain sid s u org m where row: "Some (lit ''s'') = Some sid" "session_join sample_db sid = Some (s, u, org, m)"
    and ok: "verified_session_of (request_context_row sample_db sid (s, u, org, m)) rid = Inr vs"
    by (rule load_verified_session_Inr)
  from row have s: "s_user_id s = lit ''u''" "s_selected_organization_id s = Some (lit ''o'')"
    by (auto simp: session_join_Some sample_db_def)
  show ?thesis
    using vs verified_session_of_Inr(3) [OF ok] decoded s
    by (simp add: verifier_verify_def verify_access_token_def sample_verifier_def load_decoded_def
        verified_access_token_of_Inr_iff from_verified_def sample_claims_def for_user_def)
qed

theorem verified_token_reflects_database_witness:
  "\<exists>verified. verifier_verify sample_jwt_env Some sample_verifier (sample_db, 2) (lit ''t'') (lit ''r'') = Inr verified
     \<and> lit ''p'' \<in> set (vt_permissions verified) \<and> \<not> vt_system_administrator verified"
proof -
  obtain verified where ok: "verifier_verify sample_jwt_env Some sample_verifier (sample_db, 2) (lit ''t'') (lit ''r'')
      = Inr verified" using sample_token_verifies by blast
  from verified_token_reflects_database [OF ok] obtain decoded where
      "cl_session_id (dt_claims decoded) = Some (dt_session_id decoded)" "dt_claims decoded = sample_claims"
      and reflects: "reflects_database Some sample_db 2 decoded verified"
    by (auto simp: sample_jwt_env_def)
  then have "dt_session_id decoded = lit ''s''" by (simp add: sample_claims_def)
  with reflects ok show ?thesis
    by (auto simp: reflects_database_def sample_db_def simp del: lit_Cons lit_Nil)
qed

end
