(* ===== verification/Refresh_Families.thy ===== *)
theory Refresh_Families
  imports Access_Tokens
begin

section \<open>Issuing tokens and rotating refresh families\<close>

text \<open>
  Models the issuing half of \<open>src/crates/wasi-auth/src/postgres/tokens.rs\<close> (\<open>TokenService\<close>, the
  configuration, the sealing of replayable responses, identifiers), the revocation of
  \<open>postgres/sessions.rs\<close>, and the statements they run: \<open>issue_token_pair.sql\<close>,
  \<open>load_refresh_session.sql\<close>, \<open>rotate_refresh_token.sql\<close> and \<open>revoke_session.sql\<close>. A statement is a
  function from the tables to its rows and the changed tables, or to the error that aborts it; the
  common table expressions of one statement all see the tables as they were before it. The outcome of
  each \<open>fill_bytes\<close> call is an argument. Hashing, encoding, authenticated encryption, the JSON form of a
  response and the text of a UUID are the parameter \<open>token_env\<close>. Of an audit record the
  metadata column is left out.
\<close>

subsection \<open>Statements\<close>

definition outcome_row :: "rstr \<Rightarrow> rstr option \<Rightarrow> bytes option \<Rightarrow> pg_row" where
  "outcome_row outcome version ciphertext = row_new
     [(lit ''outcome'', PgText outcome),
      (lit ''response_key_version'', pg_text_option version),
      (lit ''response_ciphertext'', case ciphertext of None \<Rightarrow> PgNull | Some c \<Rightarrow> PgBytes c)]"

definition audit_of :: "rstr \<Rightarrow> rstr \<Rightarrow> rstr \<Rightarrow> rstr \<Rightarrow> rstr \<Rightarrow> rstr \<Rightarrow> int \<Rightarrow> audit_row" where
  "audit_of user session action resource outcome request_id now =
     audit_entry None (Some user) (Some session) action (lit ''session'') resource outcome request_id now"

text \<open>The row both \<open>INSERT INTO auth_refresh_tokens\<close> write: every other column is null.\<close>

definition fresh_token :: "rstr \<Rightarrow> rstr \<Rightarrow> int \<Rightarrow> int \<Rightarrow> refresh_token_row" where
  "fresh_token session_id family_id expires_at_ms now =
     \<lparr>rt_session_id = session_id, rt_family_id = family_id, rt_successor_hash = None,
      rt_successor_key_version = None, rt_successor_ciphertext = None, rt_replay_until_ms = None,
      rt_expires_at_ms = expires_at_ms, rt_rotated_at_ms = None, rt_revoked_at_ms = None,
      rt_created_at_ms = now\<rparr>"

definition issue_token_pair_sql ::
  "(rstr \<Rightarrow> rstr option) \<Rightarrow> kernel_db \<Rightarrow> rstr \<Rightarrow> bytes \<Rightarrow> rstr \<Rightarrow> int \<Rightarrow> int \<Rightarrow> rstr \<Rightarrow> rstr \<Rightarrow>
   pg_error + pg_row list \<times> kernel_db" where
  "issue_token_pair_sql parse_uuid db session_text token_hash family_id expires_at_ms now audit_id request_id =
     (case parse_uuid session_text of
        None \<Rightarrow> Inl InvalidTextRepresentation
      | Some sid \<Rightarrow>
        (case session_usable db now sid of
           None \<Rightarrow> Inr ([], db)
         | Some (s, u) \<Rightarrow>
           if fmlookup (db_refresh_tokens db) token_hash \<noteq> None then Inr ([], db)
           else if fmlookup (db_audit_log db) audit_id \<noteq> None then Inl UniqueViolation
           else Inr ([row_new [(lit ''outcome'', PgText (lit ''issued''))]],
             db\<lparr>db_refresh_tokens := fmupd token_hash
                  (fresh_token sid family_id expires_at_ms now) (db_refresh_tokens db),
                db_audit_log := fmupd audit_id
                  (audit_of (s_user_id s) sid (lit ''auth.token.issue'') sid (lit ''succeeded'') request_id now)
                  (db_audit_log db)\<rparr>)))"

definition load_refresh_session_sql :: "kernel_db \<Rightarrow> bytes \<Rightarrow> pg_row list" where
  "load_refresh_session_sql db token_hash =
     (case fmlookup (db_refresh_tokens db) token_hash of
        None \<Rightarrow> []
      | Some t \<Rightarrow> [row_new [(lit ''session_id'', PgText (rt_session_id t))]])"

record rotate_parameters =
  rp_current_hash :: bytes
  rp_bound_session :: "rstr option"
  rp_next_hash :: bytes
  rp_key_version :: rstr
  rp_ciphertext :: bytes
  rp_replay_until_ms :: int
  rp_now_ms :: int
  rp_next_expires_at_ms :: int
  rp_rotation_audit :: rstr
  rp_reuse_audit :: rstr
  rp_request_id :: rstr
  rp_session_expires_at_ms :: int

definition current_token ::
  "(rstr \<Rightarrow> rstr option) \<Rightarrow> kernel_db \<Rightarrow> rotate_parameters \<Rightarrow>
   (refresh_token_row \<times> session_row \<times> user_row) option" where
  "current_token parse_uuid db p =
     Option.bind (fmlookup (db_refresh_tokens db) (rp_current_hash p)) (\<lambda>t.
     Option.bind (fmlookup (db_sessions db) (rt_session_id t)) (\<lambda>s.
     Option.bind (fmlookup (db_users db) (s_user_id s)) (\<lambda>u.
       if (case rp_bound_session p of None \<Rightarrow> True | Some b \<Rightarrow> parse_uuid b = Some (rt_session_id t))
       then Some (t, s, u) else None)))"

definition account_current :: "int \<Rightarrow> session_row \<Rightarrow> user_row \<Rightarrow> bool" where
  "account_current now s u \<longleftrightarrow>
     s_revoked_at_ms s = None \<and> s_expires_at_ms s > now
     \<and> u_security_revision u = s_user_security_revision s \<and> u_status u = lit ''active''"

definition rotatable :: "int \<Rightarrow> refresh_token_row \<times> session_row \<times> user_row \<Rightarrow> bool" where
  "rotatable now = (\<lambda>(t, s, u).
     rt_rotated_at_ms t = None \<and> rt_revoked_at_ms t = None \<and> rt_expires_at_ms t > now
     \<and> account_current now s u)"

definition replayable :: "int \<Rightarrow> refresh_token_row \<times> session_row \<times> user_row \<Rightarrow> bool" where
  "replayable now = (\<lambda>(t, s, u).
     rt_rotated_at_ms t \<noteq> None \<and> rt_revoked_at_ms t = None
     \<and> (case rt_replay_until_ms t of None \<Rightarrow> False | Some until \<Rightarrow> until \<ge> now)
     \<and> rt_successor_key_version t \<noteq> None \<and> rt_successor_ciphertext t \<noteq> None
     \<and> account_current now s u)"

definition reused :: "int \<Rightarrow> refresh_token_row \<times> session_row \<times> user_row \<Rightarrow> bool" where
  "reused now facts \<longleftrightarrow>
     rt_rotated_at_ms (fst facts) \<noteq> None \<and> rt_revoked_at_ms (fst facts) = None \<and> \<not> replayable now facts"

definition revoke_tokens :: "(refresh_token_row \<Rightarrow> bool) \<Rightarrow> int \<Rightarrow> kernel_db \<Rightarrow> kernel_db" where
  "revoke_tokens chosen now db = db\<lparr>db_refresh_tokens :=
     fmmap (\<lambda>t. if chosen t \<and> rt_revoked_at_ms t = None then t\<lparr>rt_revoked_at_ms := Some now\<rparr> else t)
       (db_refresh_tokens db)\<rparr>"

definition rotate_effect :: "kernel_db \<Rightarrow> rotate_parameters \<Rightarrow> refresh_token_row \<Rightarrow> session_row \<Rightarrow> kernel_db" where
  "rotate_effect db p t s = db
     \<lparr>db_refresh_tokens :=
        fmupd (rp_next_hash p)
          (fresh_token (rt_session_id t) (rt_family_id t) (rp_next_expires_at_ms p) (rp_now_ms p))
        (fmupd (rp_current_hash p)
          (t\<lparr>rt_rotated_at_ms := Some (rp_now_ms p), rt_successor_hash := Some (rp_next_hash p),
             rt_successor_key_version := Some (rp_key_version p),
             rt_successor_ciphertext := Some (rp_ciphertext p),
             rt_replay_until_ms := Some (rp_replay_until_ms p)\<rparr>) (db_refresh_tokens db)),
      db_sessions := fmupd (rt_session_id t)
        (s\<lparr>s_expires_at_ms := max (s_expires_at_ms s) (rp_session_expires_at_ms p),
           s_session_revision := s_session_revision s + 1, s_updated_at_ms := rp_now_ms p\<rparr>) (db_sessions db),
      db_audit_log := fmupd (rp_rotation_audit p)
        (audit_of (s_user_id s) (rt_session_id t) (lit ''auth.token.refresh'') (rt_session_id t) (lit ''succeeded'')
          (rp_request_id p) (rp_now_ms p)) (db_audit_log db)\<rparr>"

text \<open>
  The family is revoked in any case; the session and the audit record change only when the session was
  not revoked already, and only then is the outcome \<open>reuse_detected\<close>.
\<close>

definition reuse_effect ::
  "kernel_db \<Rightarrow> rotate_parameters \<Rightarrow> refresh_token_row \<Rightarrow> session_row \<Rightarrow> pg_error + pg_row list \<times> kernel_db" where
  "reuse_effect db p t s =
     (let revoked = revoke_tokens (\<lambda>t'. rt_family_id t' = rt_family_id t) (rp_now_ms p) db in
      if s_revoked_at_ms s \<noteq> None then Inr ([outcome_row (lit ''invalid'') None None], revoked)
      else if s_session_revision s + 1 > MAX_BIGINT then Inl NumericValueOutOfRange
      else if fmlookup (db_audit_log db) (rp_reuse_audit p) \<noteq> None then Inl UniqueViolation
      else Inr ([outcome_row (lit ''reuse_detected'') None None], revoked
        \<lparr>db_sessions := fmupd (rt_session_id t)
           (s\<lparr>s_revoked_at_ms := Some (rp_now_ms p), s_session_revision := s_session_revision s + 1,
              s_updated_at_ms := rp_now_ms p\<rparr>) (db_sessions db),
         db_audit_log := fmupd (rp_reuse_audit p)
           (audit_of (s_user_id s) (rt_session_id t) (lit ''auth.token.reuse'') (rt_session_id t) (lit ''failed'')
             (rp_request_id p) (rp_now_ms p)) (db_audit_log db)\<rparr>))"

definition rotate_refresh_token_sql ::
  "(rstr \<Rightarrow> rstr option) \<Rightarrow> kernel_db \<Rightarrow> rotate_parameters \<Rightarrow> pg_error + pg_row list \<times> kernel_db" where
  "rotate_refresh_token_sql parse_uuid db p =
     (if (case rp_bound_session p of None \<Rightarrow> False | Some b \<Rightarrow> parse_uuid b = None)
      then Inl InvalidTextRepresentation
      else case current_token parse_uuid db p of
        None \<Rightarrow> Inr ([outcome_row (lit ''invalid'') None None], db)
      | Some (t, s, u) \<Rightarrow>
        if rotatable (rp_now_ms p) (t, s, u) then
          (if fmlookup (db_refresh_tokens db) (rp_next_hash p) \<noteq> None
              \<or> fmlookup (db_audit_log db) (rp_rotation_audit p) \<noteq> None then Inl UniqueViolation
           else if s_session_revision s + 1 > MAX_BIGINT then Inl NumericValueOutOfRange
           else Inr ([outcome_row (lit ''rotated'') (Some (rp_key_version p)) (Some (rp_ciphertext p))],
                     rotate_effect db p t s))
        else if replayable (rp_now_ms p) (t, s, u) then
          Inr ([outcome_row (lit ''replayed'') (rt_successor_key_version t) (rt_successor_ciphertext t)], db)
        else if reused (rp_now_ms p) (t, s, u) then reuse_effect db p t s
        else Inr ([outcome_row (lit ''invalid'') None None], db))"

definition revoke_session_sql ::
  "(rstr \<Rightarrow> rstr option) \<Rightarrow> kernel_db \<Rightarrow> rstr \<Rightarrow> rstr \<Rightarrow> int \<Rightarrow> rstr \<Rightarrow> rstr \<Rightarrow>
   pg_error + pg_row list \<times> kernel_db" where
  "revoke_session_sql parse_uuid db target_text actor_text now audit_id request_id =
     (case (parse_uuid target_text, parse_uuid actor_text) of
        (Some target, Some actor) \<Rightarrow>
          (case (session_usable db now actor, fmlookup (db_sessions db) target) of
             (Some (a, _), Some s) \<Rightarrow>
               if s_user_id s \<noteq> s_user_id a \<or> s_revoked_at_ms s \<noteq> None then Inr ([], db)
               else if s_session_revision s + 1 > MAX_BIGINT then Inl NumericValueOutOfRange
               else if fmlookup (db_audit_log db) audit_id \<noteq> None then Inl UniqueViolation
               else Inr ([row_new [(lit ''outcome'', PgText (lit ''revoked''))]],
                 (revoke_tokens (\<lambda>t. rt_session_id t = target) now db)
                   \<lparr>db_sessions := fmupd target
                      (s\<lparr>s_revoked_at_ms := Some now, s_session_revision := s_session_revision s + 1,
                         s_updated_at_ms := now\<rparr>) (db_sessions db),
                    db_audit_log := fmupd audit_id
                      (audit_of (s_user_id s) actor (lit ''auth.session.revoke'') target (lit ''succeeded'') request_id now)
                      (db_audit_log db)\<rparr>)
           | _ \<Rightarrow> Inr ([], db))
      | _ \<Rightarrow> Inl InvalidTextRepresentation)"

subsection \<open>Configuration, identifiers and sealing\<close>

record token_service_config =
  tc_issuer :: rstr
  tc_audience :: rstr
  tc_access_ttl_seconds :: u64
  tc_refresh_ttl_seconds :: u64
  tc_session_ttl_seconds :: u64

definition token_config_new ::
  "rstr \<Rightarrow> rstr \<Rightarrow> u64 \<Rightarrow> u64 \<Rightarrow> u64 \<Rightarrow> token_configuration_error + token_service_config" where
  "token_config_new issuer audience access refresh session =
     (if \<not> valid_issuer_and_audience issuer audience
         \<or> \<not> (60 \<le> access \<and> access \<le> 3600)
         \<or> \<not> (300 \<le> refresh \<and> refresh \<le> 7776000)
         \<or> \<not> (300 \<le> session \<and> session \<le> 86400)
      then Inl InvalidTokenConfiguration
      else Inr \<lparr>tc_issuer = issuer, tc_audience = audience, tc_access_ttl_seconds = access,
                tc_refresh_ttl_seconds = refresh, tc_session_ttl_seconds = session\<rparr>)"

record refresh_sealing_key =
  rk_version :: rstr
  rk_key :: bytes

definition sealing_key_new :: "rstr \<Rightarrow> bytes \<Rightarrow> token_configuration_error + refresh_sealing_key" where
  "sealing_key_new version key =
     (if version = [] \<or> str_len version > 128 \<or> list_ex is_control version
      then Inl InvalidTokenConfiguration
      else Inr \<lparr>rk_version = version, rk_key = key\<rparr>)"

record token_pair =
  tp_access_token :: rstr
  tp_refresh_token :: rstr
  tp_expires_in_seconds :: u64

record token_env =
  te_jwt :: jwt_env
  te_parse_uuid :: "rstr \<Rightarrow> rstr option"
  te_sha256 :: "bytes \<Rightarrow> bytes"
  te_base64url :: "bytes \<Rightarrow> rstr"
  te_uuid_text :: "bytes \<Rightarrow> rstr"
  te_encrypt :: "bytes \<Rightarrow> bytes \<Rightarrow> bytes \<Rightarrow> bytes option"
  te_decrypt :: "bytes \<Rightarrow> bytes \<Rightarrow> bytes \<Rightarrow> bytes option"
  te_response_json :: "token_pair \<Rightarrow> bytes option"
  te_response_parse :: "bytes \<Rightarrow> token_pair option"

definition NONCE_BYTES :: nat where "NONCE_BYTES = 12"
definition REPLAY_WINDOW_MS :: u64 where "REPLAY_WINDOW_MS = 30000"

definition sealing_key_seal :: "token_env \<Rightarrow> refresh_sealing_key \<Rightarrow> bytes \<Rightarrow> bytes \<Rightarrow> bytes option" where
  "sealing_key_seal env self nonce plaintext =
     map_option (\<lambda>ciphertext. nonce @ ciphertext) (te_encrypt env (rk_key self) nonce plaintext)"

definition sealing_key_open :: "token_env \<Rightarrow> refresh_sealing_key \<Rightarrow> rstr \<Rightarrow> bytes \<Rightarrow> bytes option" where
  "sealing_key_open env self version sealed =
     (if version \<noteq> rk_version self \<or> length sealed \<le> NONCE_BYTES then None
      else te_decrypt env (rk_key self) (take NONCE_BYTES sealed) (drop NONCE_BYTES sealed))"

definition service_uuid :: "token_env \<Rightarrow> u64 \<Rightarrow> bytes option \<Rightarrow> 't token_service_error + rstr" where
  "service_uuid env now_ms random =
     map_ok (\<lambda>bytes. te_uuid_text env (uuid_v7 now_ms bytes)) (ok_or RandomnessUnavailable random)"

definition opaque_token :: "token_env \<Rightarrow> bytes option \<Rightarrow> 't token_service_error + rstr" where
  "opaque_token env random = map_ok (te_base64url env) (ok_or RandomnessUnavailable random)"

subsection \<open>The token service\<close>

record token_service =
  ts_keys :: jwt_key_ring
  ts_sealing_key :: refresh_sealing_key
  ts_config :: token_service_config

definition claims_of_session ::
  "token_service_config \<Rightarrow> verified_request_context \<Rightarrow> u64 \<Rightarrow> u64 \<Rightarrow> rstr \<Rightarrow> access_token_claims" where
  "claims_of_session config ctx expires_at now token_id =
     (for_user (tc_issuer config) (pr_user_id (vac_principal (vrc_auth ctx))) [tc_audience config]
        expires_at now token_id)
     \<lparr>cl_tenant_id := vac_organization_id (vrc_auth ctx),
      cl_session_id := Some (vac_session_id (vrc_auth ctx)),
      cl_roles := role_ids (vrc_authorization ctx),
      cl_scope := permissions (vrc_authorization ctx),
      cl_auth_time := Some (vac_issued_at (vrc_auth ctx))\<rparr>"

definition token_pair_of ::
  "token_env \<Rightarrow> token_service \<Rightarrow> verified_session \<Rightarrow> rstr \<Rightarrow> u64 \<Rightarrow> bytes option \<Rightarrow>
   't token_service_error + token_pair" where
  "token_pair_of env self session refresh_token now jti_random =
     (let ctx = vs_context session;
          expires_at = min (saturating_add now (tc_access_ttl_seconds (ts_config self)))
            (vac_expires_at (vrc_auth ctx));
          active = ring_active (ts_keys self) in
      if expires_at \<le> now then Inl InvalidSession
      else
        rbind (service_uuid env (saturating_mul now 1000) jti_random) (\<lambda>token_id.
        rbind (ok_or Crypto (key_encoding active)) (\<lambda>encoding.
        rbind (map_err (\<lambda>_. Crypto) (encode_access_token (te_jwt env)
           (claims_of_session (ts_config self) ctx expires_at now token_id) encoding
           (key_algorithm active) (Some (key_kid active)))) (\<lambda>access_token.
          Inr \<lparr>tp_access_token = access_token, tp_refresh_token = refresh_token,
               tp_expires_in_seconds = saturating_sub expires_at now\<rparr>))))"

record issue_entropy =
  en_opaque :: "bytes option"
  en_jti :: "bytes option"
  en_family :: "bytes option"
  en_audit :: "bytes option"

definition token_issue ::
  "token_env \<Rightarrow> token_service \<Rightarrow> kernel_db \<Rightarrow> u64 \<Rightarrow> issue_entropy \<Rightarrow> session_id \<Rightarrow> request_id \<Rightarrow>
   (pg_error token_service_error + token_pair) \<times> kernel_db" where
  "token_issue env self db now entropy session_id request_id =
     (let prepared =
        rbind (map_err (\<lambda>_. InvalidSession)
          (load_verified_session (te_parse_uuid env) db session_id request_id now)) (\<lambda>session.
        rbind (opaque_token env (en_opaque entropy)) (\<lambda>refresh.
        rbind (token_pair_of env self session refresh now (en_jti entropy)) (\<lambda>pair.
        rbind (service_uuid env (saturating_mul now 1000) (en_family entropy)) (\<lambda>family_id.
        rbind (service_uuid env (saturating_mul now 1000) (en_audit entropy)) (\<lambda>audit_id.
          Inr (pair, family_id, audit_id))))))
      in case prepared of
           Inl e \<Rightarrow> (Inl e, db)
         | Inr (pair, family_id, audit_id) \<Rightarrow>
           (case issue_token_pair_sql (te_parse_uuid env) db session_id
                   (te_sha256 env (str_bytes (tp_refresh_token pair))) family_id
                   (u64_to_i64 (saturating_mul (saturating_add now (tc_refresh_ttl_seconds (ts_config self))) 1000))
                   (u64_to_i64 (saturating_mul now 1000)) audit_id request_id of
              Inl e \<Rightarrow> (Inl (TokenTransport e), db)
            | Inr (rows, db') \<Rightarrow>
              (case rows of
                 [] \<Rightarrow> (Inl InvalidSession, db')
               | row # _ \<Rightarrow>
                 (if required_text row (lit ''outcome'') = Inr (lit ''issued'') then Inr pair
                  else Inl InvalidSession, db'))))"

definition decode_replay ::
  "token_env \<Rightarrow> token_service \<Rightarrow> pg_row \<Rightarrow> 't token_service_error + token_pair" where
  "decode_replay env self row =
     rbind (map_err TokenRow (required_text row (lit ''response_key_version''))) (\<lambda>version.
     rbind (map_err TokenRow (required_bytes row (lit ''response_ciphertext''))) (\<lambda>ciphertext.
     rbind (ok_or Crypto (sealing_key_open env (ts_sealing_key self) version ciphertext)) (\<lambda>plaintext.
       ok_or Crypto (te_response_parse env plaintext))))"

record refresh_entropy =
  re_opaque :: "bytes option"
  re_jti :: "bytes option"
  re_nonce :: "bytes option"
  re_rotation_audit :: "bytes option"
  re_reuse_audit :: "bytes option"

definition refresh_prepare ::
  "token_env \<Rightarrow> token_service \<Rightarrow> kernel_db \<Rightarrow> u64 \<Rightarrow> refresh_entropy \<Rightarrow> session_id option \<Rightarrow> rstr \<Rightarrow> request_id \<Rightarrow>
   pg_error token_service_error + token_pair \<times> rotate_parameters" where
  "refresh_prepare env self db now entropy bound refresh_token request_id =
     rbind (ensure (\<not> (str_len refresh_token < 32 \<or> str_len refresh_token > 512
              \<or> list_ex is_control refresh_token)) TokenInvalid) (\<lambda>_.
     let current_hash = te_sha256 env (str_bytes refresh_token);
         now_ms = saturating_mul now 1000 in
     rbind (case load_refresh_session_sql db current_hash of
              [] \<Rightarrow> Inl TokenInvalid
            | row # _ \<Rightarrow> map_err TokenRow (required_text row (lit ''session_id''))) (\<lambda>session_text.
     rbind (map_err (\<lambda>_. TokenInvalid) (bounded_identifier_new session_text)) (\<lambda>session_id.
     rbind (ensure (bound = None \<or> bound = Some session_id) TokenInvalid) (\<lambda>_.
     rbind (map_err (\<lambda>_. TokenInvalid)
       (load_verified_session (te_parse_uuid env) db session_id request_id now)) (\<lambda>session.
     rbind (opaque_token env (re_opaque entropy)) (\<lambda>next_refresh.
     rbind (token_pair_of env self session next_refresh now (re_jti entropy)) (\<lambda>pair.
     rbind (ok_or Crypto (te_response_json env pair)) (\<lambda>serialized.
     rbind (ok_or RandomnessUnavailable (re_nonce entropy)) (\<lambda>nonce.
     rbind (ok_or Crypto (sealing_key_seal env (ts_sealing_key self) nonce serialized)) (\<lambda>sealed.
     rbind (service_uuid env now_ms (re_rotation_audit entropy)) (\<lambda>rotation_audit.
     rbind (service_uuid env now_ms (re_reuse_audit entropy)) (\<lambda>reuse_audit.
       Inr (pair,
         \<lparr>rp_current_hash = current_hash, rp_bound_session = bound,
          rp_next_hash = te_sha256 env (str_bytes (tp_refresh_token pair)),
          rp_key_version = rk_version (ts_sealing_key self), rp_ciphertext = sealed,
          rp_replay_until_ms = u64_to_i64 (saturating_add now_ms REPLAY_WINDOW_MS),
          rp_now_ms = u64_to_i64 now_ms,
          rp_next_expires_at_ms = u64_to_i64 (saturating_mul
            (saturating_add now (tc_refresh_ttl_seconds (ts_config self))) 1000),
          rp_rotation_audit = rotation_audit, rp_reuse_audit = reuse_audit, rp_request_id = request_id,
          rp_session_expires_at_ms = u64_to_i64 (saturating_mul
            (saturating_add now (tc_session_ttl_seconds (ts_config self))) 1000)\<rparr>)))))))))))))"

definition refresh_answer ::
  "token_env \<Rightarrow> token_service \<Rightarrow> token_pair \<Rightarrow> pg_row list \<Rightarrow> pg_error token_service_error + token_pair" where
  "refresh_answer env self pair rows =
     (case rows of
        [] \<Rightarrow> Inl TokenInvalid
      | row # _ \<Rightarrow>
        rbind (map_err TokenRow (required_text row (lit ''outcome''))) (\<lambda>outcome.
          if outcome = lit ''rotated'' then Inr pair
          else if outcome = lit ''replayed'' then decode_replay env self row
          else if outcome = lit ''reuse_detected'' then Inl ReuseDetected
          else Inl TokenInvalid))"

definition token_refresh ::
  "token_env \<Rightarrow> token_service \<Rightarrow> kernel_db \<Rightarrow> u64 \<Rightarrow> refresh_entropy \<Rightarrow> session_id option \<Rightarrow> rstr \<Rightarrow> request_id \<Rightarrow>
   (pg_error token_service_error + token_pair) \<times> kernel_db" where
  "token_refresh env self db now entropy bound refresh_token request_id =
     (case refresh_prepare env self db now entropy bound refresh_token request_id of
        Inl e \<Rightarrow> (Inl e, db)
      | Inr (pair, p) \<Rightarrow>
        (case rotate_refresh_token_sql (te_parse_uuid env) db p of
           Inl e \<Rightarrow> (Inl (TokenTransport e), db)
         | Inr (rows, db') \<Rightarrow> (refresh_answer env self pair rows, db')))"

subsection \<open>Revoking a session\<close>

datatype 't session_service_error =
  NotAuthorized | SessionRandomnessUnavailable | SessionTransport 't | SessionRow row_decode_error | InvalidRow

definition session_service_revoke ::
  "token_env \<Rightarrow> kernel_db \<Rightarrow> u64 \<Rightarrow> bytes option \<Rightarrow> session_id \<Rightarrow> session_id \<Rightarrow> request_id \<Rightarrow>
   (pg_error session_service_error + unit) \<times> kernel_db" where
  "session_service_revoke env db now random target actor request_id =
     (let now_ms = saturating_mul now 1000 in
      case random of
        None \<Rightarrow> (Inl SessionRandomnessUnavailable, db)
      | Some bytes \<Rightarrow>
        (case revoke_session_sql (te_parse_uuid env) db target actor (u64_to_i64 now_ms)
                (te_uuid_text env (uuid_v7 now_ms bytes)) request_id of
           Inl e \<Rightarrow> (Inl (SessionTransport e), db)
         | Inr (rows, db') \<Rightarrow>
           (case rows of
              [] \<Rightarrow> (Inl NotAuthorized, db')
            | row # _ \<Rightarrow>
              (if required_text row (lit ''outcome'') = Inr (lit ''revoked'') then Inr () else Inl NotAuthorized,
               db'))))"

subsection \<open>Families under any sequence of statements\<close>

definition live_token :: "refresh_token_row \<Rightarrow> bool" where
  "live_token t \<longleftrightarrow> rt_rotated_at_ms t = None \<and> rt_revoked_at_ms t = None"

definition one_live_per_family :: "kernel_db \<Rightarrow> bool" where
  "one_live_per_family db \<longleftrightarrow> (\<forall>h h' t t'.
     fmlookup (db_refresh_tokens db) h = Some t \<longrightarrow> fmlookup (db_refresh_tokens db) h' = Some t'
     \<longrightarrow> rt_family_id t = rt_family_id t' \<longrightarrow> live_token t \<longrightarrow> live_token t' \<longrightarrow> h = h')"

definition family_dead :: "rstr \<Rightarrow> kernel_db \<Rightarrow> bool" where
  "family_dead family db \<longleftrightarrow> (\<exists>h t. fmlookup (db_refresh_tokens db) h = Some t \<and> rt_family_id t = family)
     \<and> (\<forall>h t. fmlookup (db_refresh_tokens db) h = Some t \<longrightarrow> rt_family_id t = family
          \<longrightarrow> rt_revoked_at_ms t \<noteq> None)"

text \<open>
  The other statements of the kernel touch refresh tokens only by revoking some of them
  (\<open>change_password.sql\<close>, \<open>complete_password_reset.sql\<close>); everything else in the tables may change.
\<close>

definition revoked_or_same :: "refresh_token_row \<Rightarrow> refresh_token_row \<Rightarrow> bool" where
  "revoked_or_same t t' \<longleftrightarrow> t' = t
     \<or> (rt_revoked_at_ms t = None \<and> (\<exists>now. t' = t\<lparr>rt_revoked_at_ms := Some now\<rparr>))"

definition only_revokes :: "kernel_db \<Rightarrow> kernel_db \<Rightarrow> bool" where
  "only_revokes db db' \<longleftrightarrow> (\<forall>h. rel_option revoked_or_same
     (fmlookup (db_refresh_tokens db) h) (fmlookup (db_refresh_tokens db') h))"

inductive family_step :: "(rstr \<Rightarrow> rstr option) \<Rightarrow> kernel_db \<Rightarrow> kernel_db \<Rightarrow> bool" for parse_uuid where
  issue: "issue_token_pair_sql parse_uuid db session_text token_hash family expires now audit rid = Inr (rows, db')
    \<Longrightarrow> (\<And>h t. fmlookup (db_refresh_tokens db) h = Some t \<Longrightarrow> rt_family_id t \<noteq> family)
    \<Longrightarrow> family_step parse_uuid db db'"
| rotate: "rotate_refresh_token_sql parse_uuid db p = Inr (rows, db') \<Longrightarrow> family_step parse_uuid db db'"
| revoke: "revoke_session_sql parse_uuid db target actor now audit rid = Inr (rows, db')
    \<Longrightarrow> family_step parse_uuid db db'"
| other: "only_revokes db db' \<Longrightarrow> family_step parse_uuid db db'"

lemma only_revokes_same: "db_refresh_tokens db' = db_refresh_tokens db \<Longrightarrow> only_revokes db db'"
  by (simp add: only_revokes_def revoked_or_same_def option.rel_refl)

lemma only_revokes_revoke_tokens:
  assumes "db_refresh_tokens db' = db_refresh_tokens (revoke_tokens chosen now db)"
  shows "only_revokes db db'"
  unfolding only_revokes_def
proof
  fix h
  show "rel_option revoked_or_same (fmlookup (db_refresh_tokens db) h) (fmlookup (db_refresh_tokens db') h)"
    using assms by (cases "fmlookup (db_refresh_tokens db) h") (auto simp: revoke_tokens_def revoked_or_same_def)
qed

lemma issue_effect:
  assumes "issue_token_pair_sql parse_uuid db session_text token_hash family expires now audit rid = Inr (rows, db')"
  shows "db_refresh_tokens db' = db_refresh_tokens db \<or>
    (\<exists>sid. fmlookup (db_refresh_tokens db) token_hash = None
       \<and> db_refresh_tokens db' = fmupd token_hash (fresh_token sid family expires now) (db_refresh_tokens db))"
proof (cases "parse_uuid session_text")
  case None
  with assms show ?thesis by (simp add: issue_token_pair_sql_def)
next
  case (Some sid)
  show ?thesis
  proof (cases "session_usable db now sid")
    case None
    with assms Some show ?thesis by (simp add: issue_token_pair_sql_def)
  next
    case facts: (Some facts)
    with assms Some show ?thesis
      by (cases facts) (auto simp: issue_token_pair_sql_def split: if_splits)
  qed
qed

lemma rotate_cases:
  assumes "rotate_refresh_token_sql parse_uuid db p = Inr (rows, db')"
  obtains (invalid) "rows = [outcome_row (lit ''invalid'') None None]" "db' = db"
  | (rotated) t s u where "current_token parse_uuid db p = Some (t, s, u)" "rotatable (rp_now_ms p) (t, s, u)"
      "fmlookup (db_refresh_tokens db) (rp_next_hash p) = None"
      "rows = [outcome_row (lit ''rotated'') (Some (rp_key_version p)) (Some (rp_ciphertext p))]"
      "db' = rotate_effect db p t s"
  | (replayed) t s u where "current_token parse_uuid db p = Some (t, s, u)" "replayable (rp_now_ms p) (t, s, u)"
      "rows = [outcome_row (lit ''replayed'') (rt_successor_key_version t) (rt_successor_ciphertext t)]"
      "db' = db"
  | (reuse) t s u where "current_token parse_uuid db p = Some (t, s, u)" "reused (rp_now_ms p) (t, s, u)"
      "reuse_effect db p t s = Inr (rows, db')"
proof (cases "current_token parse_uuid db p")
  case None
  then show ?thesis using assms invalid by (simp add: rotate_refresh_token_sql_def del: lit_Cons split: if_splits)
next
  case (Some facts)
  obtain t s u where facts: "facts = (t, s, u)" by (cases facts)
  have run: "rotate_refresh_token_sql parse_uuid db p =
     (if rotatable (rp_now_ms p) (t, s, u) then
        (if fmlookup (db_refresh_tokens db) (rp_next_hash p) \<noteq> None
            \<or> fmlookup (db_audit_log db) (rp_rotation_audit p) \<noteq> None then Inl UniqueViolation
         else if s_session_revision s + 1 > MAX_BIGINT then Inl NumericValueOutOfRange
         else Inr ([outcome_row (lit ''rotated'') (Some (rp_key_version p)) (Some (rp_ciphertext p))],
                   rotate_effect db p t s))
      else if replayable (rp_now_ms p) (t, s, u) then
        Inr ([outcome_row (lit ''replayed'') (rt_successor_key_version t) (rt_successor_ciphertext t)], db)
      else if reused (rp_now_ms p) (t, s, u) then reuse_effect db p t s
      else Inr ([outcome_row (lit ''invalid'') None None], db))"
    using assms Some facts unfolding rotate_refresh_token_sql_def by (auto split: if_splits)
  show ?thesis
    using assms [unfolded run] Some facts invalid rotated replayed reuse
    by (auto split: if_splits simp del: lit_Cons)
qed

lemma reuse_effect_Inr:
  assumes "reuse_effect db p t s = Inr (rows, db')"
  shows "db_refresh_tokens db' = db_refresh_tokens (revoke_tokens (\<lambda>t'. rt_family_id t' = rt_family_id t) (rp_now_ms p) db)"
    "rows = [outcome_row (lit ''invalid'') None None] \<or> rows = [outcome_row (lit ''reuse_detected'') None None]"
  using assms by (auto simp: reuse_effect_def Let_def split: if_splits simp del: lit_Cons)

lemma revoke_effect:
  assumes "revoke_session_sql parse_uuid db target_text actor_text now audit rid = Inr (rows, db')"
  shows "db_refresh_tokens db' = db_refresh_tokens db
    \<or> (\<exists>chosen. db_refresh_tokens db' = db_refresh_tokens (revoke_tokens chosen now db))"
proof -
  from assms obtain target actor where parsed: "parse_uuid target_text = Some target" "parse_uuid actor_text = Some actor"
    by (cases "parse_uuid target_text"; cases "parse_uuid actor_text") (simp_all add: revoke_session_sql_def)
  show ?thesis
  proof (cases "session_usable db now actor")
    case None
    with assms parsed show ?thesis by (simp add: revoke_session_sql_def)
  next
    case (Some a)
    with assms parsed show ?thesis
      by (cases a; cases "fmlookup (db_sessions db) target") (auto simp: revoke_session_sql_def split: if_splits)
  qed
qed

lemma only_revokes_back:
  "only_revokes db db' \<Longrightarrow> fmlookup (db_refresh_tokens db') h = Some t' \<Longrightarrow>
     \<exists>t. fmlookup (db_refresh_tokens db) h = Some t \<and> revoked_or_same t t'"
  unfolding only_revokes_def by (metis option.rel_cases option.distinct(1) option.inject)

lemma only_revokes_forth:
  "only_revokes db db' \<Longrightarrow> fmlookup (db_refresh_tokens db) h = Some t \<Longrightarrow>
     \<exists>t'. fmlookup (db_refresh_tokens db') h = Some t' \<and> revoked_or_same t t'"
  unfolding only_revokes_def by (metis option.rel_cases option.distinct(1) option.inject)

lemma revoked_or_same_simps:
  assumes "revoked_or_same t t'"
  shows "rt_family_id t' = rt_family_id t" "live_token t' \<Longrightarrow> live_token t"
    "rt_revoked_at_ms t \<noteq> None \<Longrightarrow> rt_revoked_at_ms t' \<noteq> None" "rt_rotated_at_ms t' = rt_rotated_at_ms t"
  using assms by (auto simp: revoked_or_same_def live_token_def)

lemma fresh_token_simps [simp]:
  "rt_family_id (fresh_token sid family expires now) = family"
  "rt_revoked_at_ms (fresh_token sid family expires now) = None"
  by (simp_all add: fresh_token_def)

lemma current_token_lookup:
  "current_token parse_uuid db p = Some (t, s, u) \<Longrightarrow> fmlookup (db_refresh_tokens db) (rp_current_hash p) = Some t"
  "current_token parse_uuid db p = Some (t, s, u) \<Longrightarrow> fmlookup (db_sessions db) (rt_session_id t) = Some s"
  by (auto simp: current_token_def bind_eq_Some_conv split: if_splits)

lemma family_step_cases:
  assumes "family_step parse_uuid db db'"
  obtains (revoked) "only_revokes db db'"
  | (issued) h sid family expires now where "fmlookup (db_refresh_tokens db) h = None"
      "\<And>h' t. fmlookup (db_refresh_tokens db) h' = Some t \<Longrightarrow> rt_family_id t \<noteq> family"
      "db_refresh_tokens db' = fmupd h (fresh_token sid family expires now) (db_refresh_tokens db)"
  | (rotated) h t t' h' fresh where "fmlookup (db_refresh_tokens db) h = Some t" "live_token t"
      "fmlookup (db_refresh_tokens db) h' = None" "rt_rotated_at_ms t' \<noteq> None" "rt_family_id t' = rt_family_id t"
      "rt_family_id fresh = rt_family_id t" "db_refresh_tokens db' = fmupd h' fresh (fmupd h t' (db_refresh_tokens db))"
  using assms
proof cases
  case (issue session_text h family expires now audit rid rows)
  from issue_effect [OF issue(1)] show ?thesis
  proof
    assume "db_refresh_tokens db' = db_refresh_tokens db"
    then show ?thesis by (intro revoked only_revokes_same)
  next
    assume "\<exists>sid. fmlookup (db_refresh_tokens db) h = None
       \<and> db_refresh_tokens db' = fmupd h (fresh_token sid family expires now) (db_refresh_tokens db)"
    then show ?thesis using issued issue(2) by blast
  qed
next
  case (rotate p rows)
  from rotate show ?thesis
  proof (cases rule: rotate_cases)
    case (rotated t s u)
    show ?thesis
      by (rule that(3) [OF current_token_lookup(1) [OF rotated(1)] _ rotated(3)])
        (use rotated in \<open>auto simp: rotatable_def live_token_def rotate_effect_def\<close>)
  next
    case (reuse t s u)
    from only_revokes_revoke_tokens [OF reuse_effect_Inr(1) [OF reuse(3)]] show ?thesis by (rule revoked)
  qed (auto intro: revoked only_revokes_same)
next
  case (revoke target actor now audit rid rows)
  from revoke_effect [OF revoke] show ?thesis
    using revoked only_revokes_same only_revokes_revoke_tokens by blast
qed (rule revoked)

lemma one_liveD:
  "one_live_per_family db \<Longrightarrow> fmlookup (db_refresh_tokens db) h = Some t \<Longrightarrow>
     fmlookup (db_refresh_tokens db) h' = Some t' \<Longrightarrow> rt_family_id t = rt_family_id t' \<Longrightarrow>
     live_token t \<Longrightarrow> live_token t' \<Longrightarrow> h = h'"
  unfolding one_live_per_family_def by blast

lemma one_liveI:
  assumes "\<And>h h' t t'. fmlookup (db_refresh_tokens db) h = Some t \<Longrightarrow>
     fmlookup (db_refresh_tokens db) h' = Some t' \<Longrightarrow> rt_family_id t = rt_family_id t' \<Longrightarrow>
     live_token t \<Longrightarrow> live_token t' \<Longrightarrow> h = h'"
  shows "one_live_per_family db"
  unfolding one_live_per_family_def using assms by blast

lemma one_live_step:
  assumes "family_step parse_uuid db db'" and one: "one_live_per_family db"
  shows "one_live_per_family db'"
  using assms(1)
proof (cases rule: family_step_cases)
  case revoked
  show ?thesis
  proof (rule one_liveI)
    fix h1 h2 t1 t2
    assume look: "fmlookup (db_refresh_tokens db') h1 = Some t1" "fmlookup (db_refresh_tokens db') h2 = Some t2"
      and fam: "rt_family_id t1 = rt_family_id t2" and live: "live_token t1" "live_token t2"
    from only_revokes_back [OF revoked look(1)] obtain r1
      where r1: "fmlookup (db_refresh_tokens db) h1 = Some r1" "revoked_or_same r1 t1" by blast
    from only_revokes_back [OF revoked look(2)] obtain r2
      where r2: "fmlookup (db_refresh_tokens db) h2 = Some r2" "revoked_or_same r2 t2" by blast
    show "h1 = h2"
      using one_liveD [OF one r1(1) r2(1)] fam live revoked_or_same_simps(1,2) [OF r1(2)]
        revoked_or_same_simps(1,2) [OF r2(2)] by simp
  qed
next
  case (issued h sid family expires now)
  show ?thesis
  proof (rule one_liveI)
    fix h1 h2 t1 t2
    assume look: "fmlookup (db_refresh_tokens db') h1 = Some t1" "fmlookup (db_refresh_tokens db') h2 = Some t2"
      and fam: "rt_family_id t1 = rt_family_id t2" and live: "live_token t1" "live_token t2"
    have old: "k = h \<and> rt_family_id r = family \<or> fmlookup (db_refresh_tokens db) k = Some r \<and> rt_family_id r \<noteq> family"
      if "fmlookup (db_refresh_tokens db') k = Some r" for k r
      using that issued(2,3) by (auto split: if_splits)
    from old [OF look(1)] old [OF look(2)] show "h1 = h2"
      using one_liveD [OF one _ _ fam live] fam by auto
  qed
next
  case (rotated h t t' h' fresh)
  show ?thesis
  proof (rule one_liveI)
    fix h1 h2 t1 t2
    assume look: "fmlookup (db_refresh_tokens db') h1 = Some t1" "fmlookup (db_refresh_tokens db') h2 = Some t2"
      and fam: "rt_family_id t1 = rt_family_id t2" and live: "live_token t1" "live_token t2"
    have old: "k = h' \<and> rt_family_id r = rt_family_id t
        \<or> fmlookup (db_refresh_tokens db) k = Some r \<and> rt_family_id r \<noteq> rt_family_id t"
      if "fmlookup (db_refresh_tokens db') k = Some r" "live_token r" for k r
    proof (cases "k = h'")
      case True
      with that rotated(6,7) show ?thesis by simp
    next
      case False
      with that rotated(4,7) have look: "fmlookup (db_refresh_tokens db) k = Some r" "k \<noteq> h"
        by (auto simp: live_token_def split: if_splits)
      with one_liveD [OF one look(1) rotated(1)] that(2) rotated(2) show ?thesis by blast
    qed
    from old [OF look(1) live(1)] old [OF look(2) live(2)] show "h1 = h2"
      using one_liveD [OF one _ _ fam live] fam by auto
  qed
qed

lemma family_dead_step:
  assumes "family_step parse_uuid db db'" and dead: "family_dead family db"
  shows "family_dead family db'"
  using assms(1)
proof (cases rule: family_step_cases)
  case revoked
  from dead obtain h t where "fmlookup (db_refresh_tokens db) h = Some t" "rt_family_id t = family"
    by (auto simp: family_dead_def)
  then have "\<exists>h t. fmlookup (db_refresh_tokens db') h = Some t \<and> rt_family_id t = family"
    using only_revokes_forth [OF revoked] revoked_or_same_simps(1) by metis
  moreover have "rt_revoked_at_ms t' \<noteq> None"
    if "fmlookup (db_refresh_tokens db') h' = Some t'" "rt_family_id t' = family" for h' t'
    using only_revokes_back [OF revoked that(1)] revoked_or_same_simps(1,3) dead that(2)
    unfolding family_dead_def by metis
  ultimately show ?thesis unfolding family_dead_def by blast
next
  case (issued h sid f expires now)
  from dead obtain h0 t0 where 0: "fmlookup (db_refresh_tokens db) h0 = Some t0" "rt_family_id t0 = family"
    by (auto simp: family_dead_def)
  then have other: "f \<noteq> family" "h0 \<noteq> h" using issued(1,2) by auto
  then have "fmlookup (db_refresh_tokens db') h0 = Some t0" using 0(1) issued(3) by simp
  moreover have "fmlookup (db_refresh_tokens db) k = Some r"
    if "fmlookup (db_refresh_tokens db') k = Some r" "rt_family_id r = family" for k r
    using that other(1) issued(3) by (auto split: if_splits)
  ultimately show ?thesis using dead 0(2) unfolding family_dead_def by blast
next
  case (rotated h t t' h' fresh)
  have other: "rt_family_id t \<noteq> family"
    using dead rotated(1,2) unfolding family_dead_def live_token_def by metis
  from dead obtain h0 t0 where 0: "fmlookup (db_refresh_tokens db) h0 = Some t0" "rt_family_id t0 = family"
    by (auto simp: family_dead_def)
  then have "fmlookup (db_refresh_tokens db') h0 = Some t0" using other rotated(1,3,7) by auto
  moreover have "fmlookup (db_refresh_tokens db) k = Some r"
    if "fmlookup (db_refresh_tokens db') k = Some r" "rt_family_id r = family" for k r
    using that other rotated(5-7) by (auto split: if_splits)
  ultimately show ?thesis using dead 0(2) unfolding family_dead_def by blast
qed

interpretation one_live: step_invariant "family_step parse_uuid" one_live_per_family for parse_uuid
  by unfold_locales (rule one_live_step)

interpretation dead_family: step_invariant "family_step parse_uuid" "family_dead family" for parse_uuid family
  by unfold_locales (rule family_dead_step)

lemma dead_family_never_rotates:
  assumes dead: "family_dead (rt_family_id t) db" and look: "fmlookup (db_refresh_tokens db) (rp_current_hash p) = Some t"
    and run: "rotate_refresh_token_sql parse_uuid db p = Inr (rows, db')"
  shows "rows = [outcome_row (lit ''invalid'') None None] \<and> db' = db"
proof -
  have revoked: "rt_revoked_at_ms t \<noteq> None" using dead look unfolding family_dead_def by blast
  have same: "t' = t" if "current_token parse_uuid db p = Some (t', s, u)" for t' s u
    using current_token_lookup(1) [OF that] look by simp
  from run show ?thesis
  proof (cases rule: rotate_cases)
    case invalid
    then show ?thesis by simp
  next
    case (rotated t' s u)
    with same revoked show ?thesis by (auto simp: rotatable_def)
  next
    case (replayed t' s u)
    with same revoked show ?thesis by (auto simp: replayable_def)
  next
    case (reuse t' s u)
    with same revoked show ?thesis by (auto simp: reused_def)
  qed
qed

lemma revoke_tokens_kills_family:
  assumes "fmlookup (db_refresh_tokens db) h = Some t"
    and "db_refresh_tokens db' = db_refresh_tokens (revoke_tokens (\<lambda>t'. rt_family_id t' = rt_family_id t) now db)"
  shows "family_dead (rt_family_id t) db'"
proof -
  let ?f = "\<lambda>t'. if rt_family_id t' = rt_family_id t \<and> rt_revoked_at_ms t' = None
      then t'\<lparr>rt_revoked_at_ms := Some now\<rparr> else t'"
  have tokens: "fmlookup (db_refresh_tokens db') k = map_option ?f (fmlookup (db_refresh_tokens db) k)" for k
    using assms(2) by (simp add: revoke_tokens_def)
  have "rt_family_id (?f t) = rt_family_id t" by simp
  moreover have "fmlookup (db_refresh_tokens db') h = Some (?f t)" using tokens assms(1) by simp
  moreover have "rt_revoked_at_ms r \<noteq> None"
    if look: "fmlookup (db_refresh_tokens db') k = Some r" and fam: "rt_family_id r = rt_family_id t" for k r
  proof -
    from look tokens obtain r0 where r: "r = ?f r0" by auto
    have "rt_family_id (?f r0) = rt_family_id r0" by simp
    with fam r have "rt_family_id r0 = rt_family_id t" by simp
    then show ?thesis using r by simp
  qed
  ultimately show ?thesis unfolding family_dead_def by blast
qed

subsection \<open>Properties\<close>

text \<open>
  C9: a refresh family has at most one usable token. Starting without refresh tokens, after any sequence
  of issuing (under a family identifier not yet in use), rotation with any parameters, session
  revocation and other revocations, two tokens of one family that are neither rotated nor revoked are the
  same token.
\<close>

theorem one_usable_token_per_family:
  assumes "(family_step parse_uuid)\<^sup>*\<^sup>* db db'" and "db_refresh_tokens db = fmempty"
    and "fmlookup (db_refresh_tokens db') h = Some t" "fmlookup (db_refresh_tokens db') h' = Some t'"
    and "rt_family_id t = rt_family_id t'"
    and "rt_rotated_at_ms t = None" "rt_revoked_at_ms t = None"
    and "rt_rotated_at_ms t' = None" "rt_revoked_at_ms t' = None"
  shows "h = h'"
proof -
  have "one_live_per_family db" using assms(2) by (simp add: one_live_per_family_def)
  with assms(1) have "one_live_per_family db'" by (rule one_live.steps_preserve)
  from one_liveD [OF this assms(3,4,5)] show ?thesis using assms(6-9) by (simp add: live_token_def)
qed

lemma sample_session_usable:
  "session_usable sample_db 2000 (lit ''s'') = Some
     (the (fmlookup (db_sessions sample_db) (lit ''s'')), the (fmlookup (db_users sample_db) (lit ''u'')))"
  by (simp add: session_usable_def sample_db_def)

theorem one_usable_token_per_family_witness:
  "\<exists>db' t. (family_step Some)\<^sup>*\<^sup>* sample_db db' \<and> fmlookup (db_refresh_tokens db') [1] = Some t
     \<and> (\<forall>h'. fmlookup (db_refresh_tokens db') h' = Some t \<longrightarrow> [1] = h')"
proof -
  have empty: "db_refresh_tokens sample_db = fmempty" "db_audit_log sample_db = fmempty"
    by (simp_all add: sample_db_def)
  obtain rows db' where run: "issue_token_pair_sql Some sample_db (lit ''s'') [1] (lit ''f'') 9000 2000 (lit ''a'') (lit ''r'')
      = Inr (rows, db')"
    and tokens: "db_refresh_tokens db' = fmupd [1] (fresh_token (lit ''s'') (lit ''f'') 9000 2000) fmempty"
    by (simp add: issue_token_pair_sql_def sample_session_usable empty del: lit_Cons lit_Nil)
  have "family_step Some sample_db db'"
    by (rule family_step.issue [OF run]) (simp add: sample_db_def)
  then have steps: "(family_step Some)\<^sup>*\<^sup>* sample_db db'" by simp
  have look: "fmlookup (db_refresh_tokens db') [1] = Some (fresh_token (lit ''s'') (lit ''f'') 9000 2000)"
    using tokens by simp
  have "[1] = h'" if "fmlookup (db_refresh_tokens db') h' = Some (fresh_token (lit ''s'') (lit ''f'') 9000 2000)" for h'
    by (rule one_usable_token_per_family [OF steps empty(1) look that]) (simp_all add: fresh_token_def)
  with steps look show ?thesis by blast
qed

text \<open>
  C3: reuse of a rotated refresh token ends its family. Presenting a token that was rotated, after its
  replay window, is reported as reuse and revokes the session; from then on, whatever statements run
  next, no token of that family is ever rotated or replayed again: every attempt is invalid and
  changes nothing.
\<close>

theorem reuse_ends_the_family:
  assumes "fmlookup (db_refresh_tokens db) (rp_current_hash p) = Some t"
    and "rt_rotated_at_ms t \<noteq> None" "rt_revoked_at_ms t = None"
    and "rt_replay_until_ms t = Some until" "until < rp_now_ms p"
    and "fmlookup (db_sessions db) (rt_session_id t) = Some s" "s_revoked_at_ms s = None"
    and "fmlookup (db_users db) (s_user_id s) = Some u"
    and "rp_bound_session p = None" "fmlookup (db_audit_log db) (rp_reuse_audit p) = None"
    and "s_session_revision s < MAX_BIGINT"
  shows "\<exists>db' s'. rotate_refresh_token_sql parse_uuid db p
        = Inr ([outcome_row (lit ''reuse_detected'') None None], db')
    \<and> fmlookup (db_sessions db') (rt_session_id t) = Some s' \<and> s_revoked_at_ms s' = Some (rp_now_ms p)
    \<and> (\<forall>later p' t' rows db''. (family_step parse_uuid)\<^sup>*\<^sup>* db' later \<longrightarrow>
         fmlookup (db_refresh_tokens later) (rp_current_hash p') = Some t' \<longrightarrow> rt_family_id t' = rt_family_id t \<longrightarrow>
         rotate_refresh_token_sql parse_uuid later p' = Inr (rows, db'') \<longrightarrow>
         rows = [outcome_row (lit ''invalid'') None None] \<and> db'' = later)"
proof -
  have current: "current_token parse_uuid db p = Some (t, s, u)"
    using assms(1,6,8,9) by (simp add: current_token_def)
  have kind: "\<not> rotatable (rp_now_ms p) (t, s, u)" "\<not> replayable (rp_now_ms p) (t, s, u)"
    "reused (rp_now_ms p) (t, s, u)"
    using assms(2-5) by (auto simp: rotatable_def replayable_def reused_def)
  let ?session = "s\<lparr>s_revoked_at_ms := Some (rp_now_ms p), s_session_revision := s_session_revision s + 1,
      s_updated_at_ms := rp_now_ms p\<rparr>"
  obtain db' where run: "rotate_refresh_token_sql parse_uuid db p
        = Inr ([outcome_row (lit ''reuse_detected'') None None], db')"
    and session: "fmlookup (db_sessions db') (rt_session_id t) = Some ?session"
    and tokens: "db_refresh_tokens db'
      = db_refresh_tokens (revoke_tokens (\<lambda>t'. rt_family_id t' = rt_family_id t) (rp_now_ms p) db)"
    using current kind assms(7,9,10,11)
    by (simp add: rotate_refresh_token_sql_def reuse_effect_def Let_def del: lit_Cons)
  have dead: "family_dead (rt_family_id t) db'" by (rule revoke_tokens_kills_family [OF assms(1) tokens])
  have "rows = [outcome_row (lit ''invalid'') None None] \<and> db'' = later"
    if "(family_step parse_uuid)\<^sup>*\<^sup>* db' later" "fmlookup (db_refresh_tokens later) (rp_current_hash p') = Some t'"
      "rt_family_id t' = rt_family_id t" "rotate_refresh_token_sql parse_uuid later p' = Inr (rows, db'')"
    for later p' t' rows db''
    using dead_family_never_rotates [OF _ that(2,4)] dead_family.steps_preserve [OF that(1) dead] that(3) by simp
  with run session show ?thesis
    by (intro exI [of _ db'] exI [of _ ?session]) simp
qed

theorem reuse_ends_the_family_witness:
  "\<exists>db p db'. rotate_refresh_token_sql Some db p
     = Inr ([outcome_row (lit ''reuse_detected'') None None], db')"
proof -
  let ?t = "(fresh_token (lit ''s'') (lit ''f'') 9000 1000)\<lparr>rt_rotated_at_ms := Some 1000, rt_replay_until_ms := Some 1500\<rparr>"
  let ?db = "sample_db\<lparr>db_refresh_tokens := fmupd [1] ?t fmempty\<rparr>"
  let ?p = "\<lparr>rp_current_hash = [1], rp_bound_session = None, rp_next_hash = [2], rp_key_version = lit ''v'',
      rp_ciphertext = [], rp_replay_until_ms = 4000, rp_now_ms = 2000, rp_next_expires_at_ms = 9000,
      rp_rotation_audit = lit ''a'', rp_reuse_audit = lit ''b'', rp_request_id = lit ''r'',
      rp_session_expires_at_ms = 9000\<rparr>"
  have look: "fmlookup (db_refresh_tokens ?db) (rp_current_hash ?p) = Some ?t" by simp
  have session: "fmlookup (db_sessions ?db) (rt_session_id ?t) = Some (the (fmlookup (db_sessions sample_db) (lit ''s'')))"
    by (simp add: sample_db_def fresh_token_def)
  have user: "fmlookup (db_users ?db) (s_user_id (the (fmlookup (db_sessions sample_db) (lit ''s''))))
      = Some (the (fmlookup (db_users sample_db) (lit ''u'')))"
    by (simp add: sample_db_def)
  obtain db' where "rotate_refresh_token_sql Some ?db ?p = Inr ([outcome_row (lit ''reuse_detected'') None None], db')"
    using reuse_ends_the_family [OF look _ _ _ _ session _ user, where until = 1500 and parse_uuid = Some]
    by (simp add: fresh_token_def sample_db_def MAX_BIGINT_def) blast
  then show ?thesis by (intro exI)
qed

text \<open>
  What the rotation relies on in the encryption and in the JSON form of a response: what was written is
  read back, and a ciphertext is not empty (it carries the authentication tag).
\<close>

definition token_laws :: "token_env \<Rightarrow> bool" where
  "token_laws env \<longleftrightarrow>
     (\<forall>key nonce m c. te_encrypt env key nonce m = Some c \<longrightarrow> c \<noteq> [] \<and> te_decrypt env key nonce c = Some m)
     \<and> (\<forall>pair j. te_response_json env pair = Some j \<longrightarrow> te_response_parse env j = Some pair)"

lemma sealing_round_trip:
  assumes "token_laws env" "sealing_key_seal env key nonce m = Some sealed" "length nonce = NONCE_BYTES"
  shows "sealing_key_open env key (rk_version key) sealed = Some m"
  using assms by (auto simp: sealing_key_seal_def sealing_key_open_def token_laws_def)

lemma outcome_row_columns:
  "required_text (outcome_row outcome version c) (lit ''outcome'') = Inr outcome"
  "required_text (outcome_row outcome (Some v) c) (lit ''response_key_version'') = Inr v"
  "required_bytes (outcome_row outcome version (Some b)) (lit ''response_ciphertext'') = Inr b"
  by (simp_all add: required_text_def row_text_def required_bytes_def row_bytes_def outcome_row_def
      row_new_lookup pg_text_option_def del: lit_Cons lit_Nil)

lemma load_refresh_session_row:
  "fmlookup (db_refresh_tokens db) h = Some t \<Longrightarrow>
     load_refresh_session_sql db h = [row_new [(lit ''session_id'', PgText (rt_session_id t))]]"
  "required_text (row_new [(lit ''session_id'', PgText sid)]) (lit ''session_id'') = Inr sid"
  by (simp_all add: load_refresh_session_sql_def required_text_def row_text_def row_new_lookup del: lit_Cons lit_Nil)

lemma refresh_prepare_Inr:
  assumes "refresh_prepare env self db now entropy bound tok rid = Inr (pair, p)"
    and "fmlookup (db_refresh_tokens db) (te_sha256 env (str_bytes tok)) = Some t"
  obtains session serialized nonce where
    "load_verified_session (te_parse_uuid env) db (rt_session_id t) rid now = Inr session"
    "te_response_json env pair = Some serialized" "re_nonce entropy = Some nonce"
    "sealing_key_seal env (ts_sealing_key self) nonce serialized = Some (rp_ciphertext p)"
    "rp_current_hash p = te_sha256 env (str_bytes tok)" "rp_bound_session p = bound"
    "bound = None \<or> bound = Some (rt_session_id t)"
    "rp_key_version p = rk_version (ts_sealing_key self)"
    "rp_now_ms p = u64_to_i64 (saturating_mul now 1000)"
    "rp_replay_until_ms p = u64_to_i64 (saturating_add (saturating_mul now 1000) REPLAY_WINDOW_MS)"
  using assms
  by (auto simp: refresh_prepare_def Let_def result_simps load_refresh_session_row simp del: lit_Cons lit_Nil)

lemma loaded_account_current:
  assumes "load_verified_session parse_uuid db session_text rid now = Inr session"
    and "parse_uuid session_text = Some sid"
  obtains s u where "fmlookup (db_sessions db) sid = Some s" "fmlookup (db_users db) (s_user_id s) = Some u"
    "account_current (u64_to_i64 (saturating_mul now 1000)) s u"
proof -
  from assms(1) obtain sid' s u o' m where "parse_uuid session_text = Some sid'"
      "session_join db sid' = Some (s, u, o', m)"
      "session_where (u64_to_i64 (saturating_mul now 1000)) (s, u, o', m)"
    unfolding load_verified_session_def by (rule load_verified_session_Inr)
  with assms(2) that show ?thesis by (auto simp: session_join_Some session_where_def account_current_def)
qed

text \<open>What the first refresh leaves behind: the old row is rotated and holds the sealed answer.\<close>

lemma refresh_rotates:
  assumes "fmlookup (db_refresh_tokens db) (te_sha256 env (str_bytes tok)) = Some t" "rt_rotated_at_ms t = None"
    and "token_refresh env self db now entropy bound tok rid = (Inr pair, db')"
  obtains t' serialized nonce where "te_response_json env pair = Some serialized" "re_nonce entropy = Some nonce"
    and "fmlookup (db_refresh_tokens db') (te_sha256 env (str_bytes tok)) = Some t'"
    and "rt_session_id t' = rt_session_id t" "rt_rotated_at_ms t' \<noteq> None" "rt_revoked_at_ms t' = None"
    and "rt_replay_until_ms t' = Some (u64_to_i64 (saturating_add (saturating_mul now 1000) REPLAY_WINDOW_MS))"
    and "rt_successor_key_version t' = Some (rk_version (ts_sealing_key self))"
    and "rt_successor_ciphertext t' \<noteq> None"
    and "sealing_key_seal env (ts_sealing_key self) nonce serialized = rt_successor_ciphertext t'"
proof -
  let ?h = "te_sha256 env (str_bytes tok)"
  from assms(3) obtain pair1 p rows where prep: "refresh_prepare env self db now entropy bound tok rid = Inr (pair1, p)"
    and run: "rotate_refresh_token_sql (te_parse_uuid env) db p = Inr (rows, db')"
    and answer: "refresh_answer env self pair1 rows = Inr pair"
    by (auto simp: token_refresh_def split: sum.splits prod.splits)
  from prep assms(1) obtain serialized nonce where
      first: "te_response_json env pair1 = Some serialized" "re_nonce entropy = Some nonce"
        "sealing_key_seal env (ts_sealing_key self) nonce serialized = Some (rp_ciphertext p)"
        "rp_current_hash p = ?h" "rp_key_version p = rk_version (ts_sealing_key self)"
        "rp_replay_until_ms p = u64_to_i64 (saturating_add (saturating_mul now 1000) REPLAY_WINDOW_MS)"
    by (rule refresh_prepare_Inr)
  show ?thesis
    using run
  proof (cases rule: rotate_cases)
    case (rotated t0 s u)
    have "t0 = t" using current_token_lookup(1) [OF rotated(1)] assms(1) first(4) by simp
    moreover have "rp_next_hash p \<noteq> ?h" using rotated(3) assms(1) by auto
    moreover have "pair1 = pair"
      using answer rotated(4) by (simp add: refresh_answer_def outcome_row_columns del: lit_Cons)
    ultimately have row: "fmlookup (db_refresh_tokens db') ?h = Some (t\<lparr>rt_rotated_at_ms := Some (rp_now_ms p),
        rt_successor_hash := Some (rp_next_hash p), rt_successor_key_version := Some (rp_key_version p),
        rt_successor_ciphertext := Some (rp_ciphertext p), rt_replay_until_ms := Some (rp_replay_until_ms p)\<rparr>)"
      "te_response_json env pair = Some serialized" "rt_revoked_at_ms t = None"
      using rotated(2,5) first(1,4) by (simp_all add: rotate_effect_def rotatable_def)
    show ?thesis using first(3,5,6) row(3) by (intro that [OF row(2) first(2) row(1)]) simp_all
  next
    case invalid
    with answer show ?thesis by (simp add: refresh_answer_def outcome_row_columns del: lit_Cons)
  next
    case (replayed t0 s u)
    then show ?thesis
      using current_token_lookup(1) [OF replayed(1)] assms(1,2) first(4) by (auto simp: replayable_def)
  next
    case (reuse t0 s u)
    then show ?thesis
      using current_token_lookup(1) [OF reuse(1)] assms(1,2) first(4) by (auto simp: reused_def)
  qed
qed

text \<open>The rotation statement on a row that is inside its replay window.\<close>

lemma replay_statement:
  assumes "refresh_prepare env self db now entropy bound tok rid = Inr (pair, p)"
    and "fmlookup (db_refresh_tokens db) (te_sha256 env (str_bytes tok)) = Some t"
    and "te_parse_uuid env (rt_session_id t) = Some (rt_session_id t)"
    and "rt_rotated_at_ms t \<noteq> None" "rt_revoked_at_ms t = None" "rt_replay_until_ms t = Some until"
    and "u64_to_i64 (saturating_mul now 1000) \<le> until"
    and "rt_successor_key_version t = Some version" "rt_successor_ciphertext t = Some ciphertext"
  shows "rotate_refresh_token_sql (te_parse_uuid env) db p
    = Inr ([outcome_row (lit ''replayed'') (Some version) (Some ciphertext)], db)"
proof -
  from assms(1,2) obtain session where
      prep: "load_verified_session (te_parse_uuid env) db (rt_session_id t) rid now = Inr session"
        "rp_current_hash p = te_sha256 env (str_bytes tok)" "rp_bound_session p = bound"
        "bound = None \<or> bound = Some (rt_session_id t)" "rp_now_ms p = u64_to_i64 (saturating_mul now 1000)"
    by (rule refresh_prepare_Inr)
  from loaded_account_current [OF prep(1)] assms(3) obtain s u where
      account: "fmlookup (db_sessions db) (rt_session_id t) = Some s" "fmlookup (db_users db) (s_user_id s) = Some u"
        "account_current (rp_now_ms p) s u" by (metis prep(5))
  have "current_token (te_parse_uuid env) db p = Some (t, s, u)"
    using assms(2,3) account(1,2) prep(2-4) by (auto simp: current_token_def)
  moreover have "replayable (rp_now_ms p) (t, s, u)" "\<not> rotatable (rp_now_ms p) (t, s, u)"
    using assms(4-9) account(3) prep(5) by (auto simp: replayable_def rotatable_def)
  ultimately show ?thesis
    using assms(3,8,9) prep(3,4) by (auto simp: rotate_refresh_token_sql_def simp del: lit_Cons)
qed

text \<open>
  C17: retrying a refresh inside the replay window returns the very same tokens. If a refresh rotated a
  token and answered with a pair, then presenting the old token again while the window is open, with any
  fresh randomness and for any request, answers with the same pair and changes nothing, provided the
  retry gets as far as the rotation statement (its session still loads). It is not taken for reuse.
\<close>

theorem retry_returns_the_same_pair:
  assumes "token_laws env"
    and "fmlookup (db_refresh_tokens db) (te_sha256 env (str_bytes tok)) = Some t" "rt_rotated_at_ms t = None"
    and "te_parse_uuid env (rt_session_id t) = Some (rt_session_id t)"
    and "re_nonce entropy = Some nonce" "length nonce = NONCE_BYTES"
    and "token_refresh env self db now entropy bound tok rid = (Inr pair, db')"
    and "refresh_prepare env self db' now' entropy' bound' tok rid' = Inr prepared"
    and "u64_to_i64 (saturating_mul now' 1000)
      \<le> u64_to_i64 (saturating_add (saturating_mul now 1000) REPLAY_WINDOW_MS)"
  shows "token_refresh env self db' now' entropy' bound' tok rid' = (Inr pair, db')"
proof -
  from assms(2,3,7) obtain t' serialized nonce' where
      json: "te_response_json env pair = Some serialized" and nonce': "re_nonce entropy = Some nonce'"
      and row: "fmlookup (db_refresh_tokens db') (te_sha256 env (str_bytes tok)) = Some t'"
        "rt_session_id t' = rt_session_id t" "rt_rotated_at_ms t' \<noteq> None" "rt_revoked_at_ms t' = None"
        "rt_replay_until_ms t' = Some (u64_to_i64 (saturating_add (saturating_mul now 1000) REPLAY_WINDOW_MS))"
        "rt_successor_key_version t' = Some (rk_version (ts_sealing_key self))"
        "rt_successor_ciphertext t' \<noteq> None"
      and seal: "sealing_key_seal env (ts_sealing_key self) nonce' serialized = rt_successor_ciphertext t'"
    by (rule refresh_rotates)
  obtain ciphertext where c: "rt_successor_ciphertext t' = Some ciphertext" using row(7) by blast
  obtain pair2 p' where prepared: "prepared = (pair2, p')" by (cases prepared)
  let ?answer = "outcome_row (lit ''replayed'') (Some (rk_version (ts_sealing_key self))) (Some ciphertext)"
  have replay: "rotate_refresh_token_sql (te_parse_uuid env) db' p' = Inr ([?answer], db')"
    using replay_statement [OF assms(8) [unfolded prepared] row(1) _ row(3,4,5) assms(9) row(6) c] row(2) assms(4)
    by simp
  have "sealing_key_open env (ts_sealing_key self) (rk_version (ts_sealing_key self)) ciphertext = Some serialized"
    using sealing_round_trip [OF assms(1) seal [unfolded c]] assms(5,6) nonce' by simp
  then have "decode_replay env self ?answer = Inr pair"
    using assms(1) json by (simp add: decode_replay_def outcome_row_columns token_laws_def del: lit_Cons)
  then have "refresh_answer env self pair2 [?answer] = Inr pair"
    by (simp add: refresh_answer_def outcome_row_columns del: lit_Cons)
  with assms(8) replay prepared show ?thesis by (simp add: token_refresh_def)
qed

definition sample_refresh_db :: kernel_db where
  "sample_refresh_db = sample_db
     \<lparr>db_sessions := fmupd (lit ''s'')
        ((the (fmlookup (db_sessions sample_db) (lit ''s'')))\<lparr>s_expires_at_ms := 302000\<rparr>) fmempty,
      db_refresh_tokens := fmupd (replicate 32 65) (fresh_token (lit ''s'') (lit ''f'') 9000 1000) fmempty\<rparr>"

definition sample_pair :: token_pair where
  "sample_pair = \<lparr>tp_access_token = lit ''jwt'', tp_refresh_token = replicate 32 2, tp_expires_in_seconds = 60\<rparr>"

definition sample_token_env :: token_env where
  "sample_token_env = \<lparr>te_jwt = sample_jwt_env\<lparr>je_encode := (\<lambda>_ _ _ _. Some (lit ''jwt''))\<rparr>,
     te_parse_uuid = Some, te_sha256 = (\<lambda>b. b), te_base64url = map unat, te_uuid_text = map unat,
     te_encrypt = (\<lambda>_ _ m. Some (0 # m)), te_decrypt = (\<lambda>_ _ c. Some (tl c)),
     te_response_json = (\<lambda>pair. if pair = sample_pair then Some [7] else None),
     te_response_parse = (\<lambda>_. Some sample_pair)\<rparr>"

definition sample_service :: token_service where
  "sample_service = \<lparr>ts_keys = sample_ring, ts_sealing_key = \<lparr>rk_version = lit ''v'', rk_key = []\<rparr>,
     ts_config = \<lparr>tc_issuer = lit ''i'', tc_audience = lit ''a'', tc_access_ttl_seconds = 60,
       tc_refresh_ttl_seconds = 300, tc_session_ttl_seconds = 300\<rparr>\<rparr>"

definition sample_entropy :: refresh_entropy where
  "sample_entropy = \<lparr>re_opaque = Some (replicate 32 2), re_jti = Some (replicate 10 0),
     re_nonce = Some (replicate 12 0), re_rotation_audit = Some (replicate 10 1),
     re_reuse_audit = Some (replicate 10 2)\<rparr>"

lemma sample_refresh_session_loads:
  assumes "fmlookup (db_sessions db) (lit ''s'') = Some s" "s_user_id s = lit ''u''"
    and "s_selected_organization_id s = Some (lit ''o'')" "s_assurance s = lit ''aal2''" "0 < s_session_revision s"
    and "s_user_security_revision s = 1" "s_created_at_ms s = 1000" "s_expires_at_ms s = 302000" "s_revoked_at_ms s = None"
    and "db_users db = db_users sample_db" "db_organizations db = db_organizations sample_db"
    and "db_memberships db = db_memberships sample_db" "db_role_permissions db = db_role_permissions sample_db"
    and "db_policy_bundles db = fmempty"
  shows "\<exists>vs. load_verified_session Some db (lit ''s'') (lit ''r'') 2 = Inr vs
    \<and> vac_expires_at (vrc_auth (vs_context vs)) = 302"
proof -
  let ?u = "the (fmlookup (db_users sample_db) (lit ''u''))"
    and ?o = "the (fmlookup (db_organizations sample_db) (lit ''o''))"
    and ?m = "the (fmlookup (db_memberships sample_db) (lit ''o'', lit ''u''))"
  have join: "session_join db (lit ''s'') = Some (s, ?u, Some ?o, Some ?m)"
    using assms by (simp add: session_join_Some sample_db_def)
  have live: "session_where (u64_to_i64 (saturating_mul 2 1000)) (s, ?u, Some ?o, Some ?m)"
    using assms by (simp add: session_where_def sample_db_def u64_to_i64_def saturating_mul_def)
  have "\<exists>vs. verified_session_of (request_context_row db (lit ''s'') (s, ?u, Some ?o, Some ?m)) (lit ''r'') = Inr vs"
    by (rule verified_session_of_succeeds)
      (use assms in \<open>simp_all add: sample_db_def valid_identifier_def is_control_def is_whitespace_def
        active_policy_revision_def list_all_iff set_role_permissions sorted_list_of_fset.rep_eq\<close>)
  then obtain vs where vs: "verified_session_of (request_context_row db (lit ''s'') (s, ?u, Some ?o, Some ?m)) (lit ''r'') = Inr vs"
    by blast
  have "vac_expires_at (vrc_auth (vs_context vs)) = 302"
    using verified_session_of_Inr(3) [OF vs] assms(8) by (simp add: from_verified_def)
  with vs join live show ?thesis
    by (simp add: load_verified_session_def load_verified_session_with_signing_key_def load_request_context_sql_def)
qed

lemma sample_token_env_simps:
  "te_parse_uuid sample_token_env = Some" "te_sha256 sample_token_env b = b" "te_base64url sample_token_env b = map unat b"
  "te_encrypt sample_token_env k n m = Some (0 # m)" "te_response_json sample_token_env sample_pair = Some [7]"
  by (simp_all add: sample_token_env_def)

lemma sample_prepare:
  assumes "fmlookup (db_refresh_tokens db) (replicate 32 65) = Some t" "rt_session_id t = lit ''s''"
    and "\<exists>vs. load_verified_session Some db (lit ''s'') (lit ''r'') 2 = Inr vs
      \<and> vac_expires_at (vrc_auth (vs_context vs)) = 302"
  shows "\<exists>p. refresh_prepare sample_token_env sample_service db 2 sample_entropy None (replicate 32 65) (lit ''r'')
      = Inr (sample_pair, p) \<and> rp_next_hash p = replicate 32 2 \<and> rp_current_hash p = replicate 32 65
      \<and> rp_bound_session p = None \<and> rp_now_ms p = 2000 \<and> rp_session_expires_at_ms p = 302000"
proof -
  from assms(3) obtain vs where vs: "load_verified_session Some db (lit ''s'') (lit ''r'') 2 = Inr vs"
    "vac_expires_at (vrc_auth (vs_context vs)) = 302" by blast
  have tok: "str_bytes (replicate 32 65) = replicate 32 65" "str_bytes (replicate 32 2) = replicate 32 2"
    "str_len (replicate 32 65) = 32" "\<not> list_ex is_control (replicate 32 65)"
    by (simp_all add: str_bytes_def str_len_def is_control_def numeral_nat)
  have id: "bounded_identifier_new (lit ''s'') = Inr (lit ''s'')"
    by (simp add: result_simps valid_identifier_def is_control_def is_whitespace_def)
  have pair: "token_pair_of sample_token_env sample_service vs (map unat (replicate 32 (2 :: u8))) 2 (Some (replicate 10 0))
      = (Inr sample_pair :: pg_error token_service_error + token_pair)"
    using vs(2)
    by (simp add: token_pair_of_def sample_service_def sample_token_env_def ring_active_def sample_ring_def Let_def
        encode_access_token_def service_uuid_def saturating_add_def saturating_sub_def sample_pair_def)
  have times: "u64_to_i64 (saturating_mul 2 1000) = 2000"
    "u64_to_i64 (saturating_mul (saturating_add 2 (tc_session_ttl_seconds (ts_config sample_service))) 1000) = 302000"
    by (simp_all add: sample_service_def saturating_mul_def saturating_add_def u64_to_i64_def)
  have next_hash: "str_bytes (tp_refresh_token sample_pair) = replicate 32 2"
    using tok(2) by (simp add: sample_pair_def)
  show ?thesis
    using assms(1,2) vs(1) tok(1,3,4) id pair
    by (simp add: refresh_prepare_def Let_def load_refresh_session_row sample_entropy_def opaque_token_def
        service_uuid_def sealing_key_seal_def sample_token_env_simps times next_hash del: lit_Cons lit_Nil)
qed

theorem retry_returns_the_same_pair_witness:
  "\<exists>db'. token_refresh sample_token_env sample_service db' 2 sample_entropy None (replicate 32 65) (lit ''r'')
     = (Inr sample_pair, db')"
proof -
  let ?env = sample_token_env and ?self = sample_service and ?tok = "replicate 32 65 :: rstr"
  let ?t = "fresh_token (lit ''s'') (lit ''f'') 9000 1000"
  let ?s = "(the (fmlookup (db_sessions sample_db) (lit ''s'')))\<lparr>s_expires_at_ms := 302000\<rparr>"
  let ?u = "the (fmlookup (db_users sample_db) (lit ''u''))"
  have tok: "str_bytes ?tok = replicate 32 65" by (simp add: str_bytes_def numeral_nat)
  have laws: "token_laws ?env" by (auto simp: token_laws_def sample_token_env_def split: if_splits)
  have look: "fmlookup (db_refresh_tokens sample_refresh_db) (replicate 32 65) = Some ?t"
    "fmlookup (db_sessions sample_refresh_db) (lit ''s'') = Some ?s"
    "fmlookup (db_users sample_refresh_db) (lit ''u'') = Some ?u"
    "db_audit_log sample_refresh_db = fmempty"
    by (simp_all add: sample_refresh_db_def sample_db_def)
  have session: "s_user_id ?s = lit ''u''" "s_selected_organization_id ?s = Some (lit ''o'')"
    "s_assurance ?s = lit ''aal2''" "s_session_revision ?s = 1" "s_user_security_revision ?s = 1"
    "s_created_at_ms ?s = 1000" "s_expires_at_ms ?s = 302000" "s_revoked_at_ms ?s = None"
    "u_status ?u = lit ''active''" "u_security_revision ?u = 1"
    by (simp_all add: sample_db_def)
  have tables: "db_users sample_refresh_db = db_users sample_db"
    "db_organizations sample_refresh_db = db_organizations sample_db"
    "db_memberships sample_refresh_db = db_memberships sample_db"
    "db_role_permissions sample_refresh_db = db_role_permissions sample_db"
    "db_policy_bundles sample_refresh_db = fmempty"
    by (simp_all add: sample_refresh_db_def sample_db_def)
  have t: "rt_session_id ?t = lit ''s''" "rt_rotated_at_ms ?t = None" by (simp_all add: fresh_token_def)
  have loads: "\<exists>vs. load_verified_session Some sample_refresh_db (lit ''s'') (lit ''r'') 2 = Inr vs
      \<and> vac_expires_at (vrc_auth (vs_context vs)) = 302"
    by (rule sample_refresh_session_loads [OF look(2)]) (use session tables in simp_all)
  from sample_prepare [OF look(1) t(1) loads] obtain p where
      prep: "refresh_prepare ?env ?self sample_refresh_db 2 sample_entropy None ?tok (lit ''r'') = Inr (sample_pair, p)"
      and p: "rp_next_hash p = replicate 32 2" "rp_current_hash p = replicate 32 65" "rp_bound_session p = None"
        "rp_now_ms p = 2000" "rp_session_expires_at_ms p = 302000" by blast
  let ?db' = "rotate_effect sample_refresh_db p ?t ?s"
  have current: "current_token Some sample_refresh_db p = Some (?t, ?s, ?u)"
    using look p(2,3) t(1) session(1) by (simp add: current_token_def del: lit_Cons)
  have rotatable: "rotatable (rp_now_ms p) (?t, ?s, ?u)"
    using session p(4) by (simp add: rotatable_def account_current_def fresh_token_def del: lit_Cons)
  have fresh: "fmlookup (db_refresh_tokens sample_refresh_db) (rp_next_hash p) = None"
    by (simp add: sample_refresh_db_def p(1))
  have run: "rotate_refresh_token_sql Some sample_refresh_db p
      = Inr ([outcome_row (lit ''rotated'') (Some (rp_key_version p)) (Some (rp_ciphertext p))], ?db')"
    using current rotatable fresh look(4) session(4) p(3)
    by (simp add: rotate_refresh_token_sql_def MAX_BIGINT_def del: lit_Cons)
  have first: "token_refresh ?env ?self sample_refresh_db 2 sample_entropy None ?tok (lit ''r'') = (Inr sample_pair, ?db')"
    using prep run by (simp add: token_refresh_def sample_token_env_simps refresh_answer_def outcome_row_columns del: lit_Cons)
  let ?s' = "?s\<lparr>s_expires_at_ms := max (s_expires_at_ms ?s) (rp_session_expires_at_ms p),
      s_session_revision := s_session_revision ?s + 1, s_updated_at_ms := rp_now_ms p\<rparr>"
  have look': "fmlookup (db_sessions ?db') (lit ''s'') = Some ?s'"
    using t(1) by (simp add: rotate_effect_def del: lit_Cons)
  obtain t' where t': "fmlookup (db_refresh_tokens ?db') (replicate 32 65) = Some t'" "rt_session_id t' = lit ''s''"
    using p(1,2) t(1) by (auto simp: rotate_effect_def simp del: lit_Cons)
  have loads': "\<exists>vs. load_verified_session Some ?db' (lit ''s'') (lit ''r'') 2 = Inr vs
      \<and> vac_expires_at (vrc_auth (vs_context vs)) = 302"
    by (rule sample_refresh_session_loads [OF look'])
      (use session tables p(5) in \<open>simp_all add: rotate_effect_def del: lit_Cons\<close>)
  from sample_prepare [OF t' loads'] obtain p' where
    again: "refresh_prepare ?env ?self ?db' 2 sample_entropy None ?tok (lit ''r'') = Inr (sample_pair, p')" by blast
  have "token_refresh ?env ?self ?db' 2 sample_entropy None ?tok (lit ''r'') = (Inr sample_pair, ?db')"
    by (rule retry_returns_the_same_pair [OF laws _ t(2) _ _ _ first again, where nonce = "replicate 12 0"])
      (use look(1) t(1) in \<open>simp_all add: tok sample_token_env_simps sample_entropy_def NONCE_BYTES_def
        REPLAY_WINDOW_MS_def saturating_mul_def saturating_add_def u64_to_i64_def del: lit_Cons\<close>)
  then show ?thesis by (rule exI)
qed

end
