(* ===== verification/Trusted_Context.thy ===== *)
theory Trusted_Context
  imports Auth_Context
begin

section \<open>The signed trusted context\<close>

text \<open>
  Models \<open>TrustedContextCodec\<close> of \<open>src/crates/wasi-auth/src/http.rs\<close>: the envelope that carries a
  verified request context from the native ingress to the guest. The Base64, HMAC and JSON crates
  are the record \<open>codec_env\<close>, an argument of every definition that uses them; \<open>codec_laws\<close> names
  their documented behaviour (decoding inverts encoding, the URL-safe alphabet has no dot). A tag is
  verified by comparing it with the recomputed one, which is what \<open>verify_slice\<close> decides. HTTP
  methods are their text.
\<close>

datatype trusted_context_error =
  TcInvalidConfiguration | TcInvalidEnvelope | TcExpired | TcBindingMismatch | TcInvalidContext

definition MAX_TRUSTED_CONTEXT_HEADER_BYTES :: nat where
  "MAX_TRUSTED_CONTEXT_HEADER_BYTES = 32 * 1024"

definition TRUSTED_CONTEXT_VERSION :: u8 where "TRUSTED_CONTEXT_VERSION = 1"

definition DEFAULT_TRUSTED_CONTEXT_MAX_AGE_SECONDS :: u64 where
  "DEFAULT_TRUSTED_CONTEXT_MAX_AGE_SECONDS = 5"

definition TRUSTED_CONTEXT_DOMAIN :: bytes where
  "TRUSTED_CONTEXT_DOMAIN = str_bytes (lit ''wasi-auth:trusted-context:v1'' @ [0])"

record trusted_context_payload =
  tp_version :: u8
  tp_audience :: rstr
  tp_method :: rstr
  tp_path :: rstr
  tp_sealed_at :: u64
  tp_user_id :: rstr
  tp_issuer :: rstr
  tp_system_administrator :: bool
  tp_organization_id :: "rstr option"
  tp_session_id :: rstr
  tp_request_id :: rstr
  tp_assurance :: authentication_assurance
  tp_issued_at :: u64
  tp_expires_at :: u64
  tp_decision_id :: "rstr option"
  tp_policy_revision :: "rstr option"
  tp_permissions :: "rstr list"
  tp_role_ids :: "rstr list"
  tp_consistency_token :: "rstr option"

record codec_env =
  b64_encode :: "bytes \<Rightarrow> rstr"
  b64_decode :: "rstr \<Rightarrow> bytes option"
  hmac_new :: "bytes \<Rightarrow> (bytes \<Rightarrow> bytes) option"
  payload_to_json :: "trusted_context_payload \<Rightarrow> bytes option"
  payload_of_json :: "bytes \<Rightarrow> trusted_context_payload option"

definition codec_laws :: "codec_env \<Rightarrow> bool" where
  "codec_laws env \<longleftrightarrow>
     (\<forall>bs. b64_decode env (b64_encode env bs) = Some bs)
     \<and> (\<forall>bs. 46 \<notin> set (b64_encode env bs))
     \<and> (\<forall>p bs. payload_to_json env p = Some bs \<longrightarrow> payload_of_json env bs = Some p)"

record trusted_context_codec =
  tc_audience :: rstr
  tc_key :: bytes
  tc_max_age_seconds :: u64

definition codec_new :: "rstr \<Rightarrow> bytes \<Rightarrow> trusted_context_error + trusted_context_codec" where
  "codec_new audience key =
     (if audience = [] \<or> str_len audience > 256 \<or> list_ex is_control audience
         \<or> list_all (\<lambda>byte. byte = 0) key
      then Inl TcInvalidConfiguration
      else Inr \<lparr>tc_audience = audience, tc_key = key,
                tc_max_age_seconds = DEFAULT_TRUSTED_CONTEXT_MAX_AGE_SECONDS\<rparr>)"

definition with_max_age_seconds ::
  "trusted_context_codec \<Rightarrow> u64 \<Rightarrow> trusted_context_error + trusted_context_codec" where
  "with_max_age_seconds self max_age_seconds =
     (if \<not> (1 \<le> max_age_seconds \<and> max_age_seconds \<le> 30) then Inl TcInvalidConfiguration
      else Inr (self\<lparr>tc_max_age_seconds := max_age_seconds\<rparr>))"

definition validate_trusted_path :: "rstr \<Rightarrow> trusted_context_error + unit" where
  "validate_trusted_path path =
     (if path = [] \<or> str_len path > 2048 \<or> hd path \<noteq> 47 \<or> list_ex is_control path
      then Inl TcBindingMismatch else Inr ())"

text \<open>\<open>mac\<close> starts the keyed hash with the domain prefix; \<open>signature\<close> finishes it.\<close>

definition codec_mac ::
  "codec_env \<Rightarrow> trusted_context_codec \<Rightarrow> trusted_context_error + (bytes \<Rightarrow> bytes)" where
  "codec_mac env self =
     map_ok (\<lambda>finish message. finish (TRUSTED_CONTEXT_DOMAIN @ message))
       (ok_or TcInvalidConfiguration (hmac_new env (tc_key self)))"

definition codec_signature ::
  "codec_env \<Rightarrow> trusted_context_codec \<Rightarrow> bytes \<Rightarrow> trusted_context_error + bytes" where
  "codec_signature env self payload = rbind (codec_mac env self) (\<lambda>mac. Inr (mac payload))"

subsection \<open>Sealing\<close>

definition sealed_payload ::
  "trusted_context_codec \<Rightarrow> verified_request_context \<Rightarrow> rstr \<Rightarrow> rstr \<Rightarrow> u64 \<Rightarrow> trusted_context_payload" where
  "sealed_payload self context request_method path now =
     \<lparr>tp_version = TRUSTED_CONTEXT_VERSION,
      tp_audience = tc_audience self,
      tp_method = request_method,
      tp_path = path,
      tp_sealed_at = now,
      tp_user_id = pr_user_id (vac_principal (vrc_auth context)),
      tp_issuer = pr_issuer (vac_principal (vrc_auth context)),
      tp_system_administrator = pr_system_administrator (vac_principal (vrc_auth context)),
      tp_organization_id = vac_organization_id (vrc_auth context),
      tp_session_id = vac_session_id (vrc_auth context),
      tp_request_id = vac_request_id (vrc_auth context),
      tp_assurance = vac_assurance (vrc_auth context),
      tp_issued_at = vac_issued_at (vrc_auth context),
      tp_expires_at = vac_expires_at (vrc_auth context),
      tp_decision_id = vac_decision_id (vrc_auth context),
      tp_policy_revision = vac_policy_revision (vrc_auth context),
      tp_permissions = permissions (vrc_authorization context),
      tp_role_ids = role_ids (vrc_authorization context),
      tp_consistency_token = as_consistency_token (vrc_authorization context)\<rparr>"

definition seal ::
  "codec_env \<Rightarrow> trusted_context_codec \<Rightarrow> verified_request_context \<Rightarrow> rstr \<Rightarrow> rstr \<Rightarrow> u64 \<Rightarrow>
   trusted_context_error + rstr" where
  "seal env self context request_method path now =
     rbind (validate_trusted_path path) (\<lambda>_.
       if vac_expires_at (vrc_auth context) \<le> now then Inl TcExpired
       else if vac_policy_revision (vrc_auth context) \<noteq> as_policy_revision (vrc_authorization context)
       then Inl TcInvalidContext
       else
         rbind (ok_or TcInvalidEnvelope
             (payload_to_json env (sealed_payload self context request_method path now)))
           (\<lambda>json. let payload = b64_encode env json in
             rbind (codec_signature env self (str_bytes payload)) (\<lambda>signature.
               let envelope = payload @ [46] @ b64_encode env signature in
               if str_len envelope > MAX_TRUSTED_CONTEXT_HEADER_BYTES then Inl TcInvalidEnvelope
               else Inr envelope)))"

subsection \<open>Opening\<close>

definition payload_bound ::
  "trusted_context_codec \<Rightarrow> rstr \<Rightarrow> rstr \<Rightarrow> rstr \<Rightarrow> trusted_context_payload \<Rightarrow> bool" where
  "payload_bound self request_method path request_id payload \<longleftrightarrow>
     \<not> (tp_version payload \<noteq> TRUSTED_CONTEXT_VERSION \<or> tp_audience payload \<noteq> tc_audience self
        \<or> tp_method payload \<noteq> request_method \<or> tp_path payload \<noteq> path
        \<or> tp_request_id payload \<noteq> request_id)"

definition payload_fresh :: "trusted_context_codec \<Rightarrow> u64 \<Rightarrow> trusted_context_payload \<Rightarrow> bool" where
  "payload_fresh self now payload \<longleftrightarrow>
     \<not> (tp_sealed_at payload > saturating_add now 1
        \<or> saturating_sub now (tp_sealed_at payload) > tc_max_age_seconds self
        \<or> tp_expires_at payload \<le> now)"

definition context_of_payload ::
  "trusted_context_payload \<Rightarrow> trusted_context_error + verified_request_context" where
  "context_of_payload payload =
     map_err (\<lambda>_. TcInvalidContext)
       (rbind (opt_try bounded_identifier_new (tp_policy_revision payload)) (\<lambda>policy_revision.
        rbind (bounded_identifier_new (tp_user_id payload)) (\<lambda>user_id.
        rbind (principal_new user_id (tp_issuer payload) (tp_system_administrator payload)) (\<lambda>principal.
        rbind (opt_try bounded_identifier_new (tp_organization_id payload)) (\<lambda>organization_id.
        rbind (bounded_identifier_new (tp_session_id payload)) (\<lambda>session_id.
        rbind (bounded_identifier_new (tp_request_id payload)) (\<lambda>request_id.
        rbind (opt_try bounded_identifier_new (tp_decision_id payload)) (\<lambda>decision_id.
        rbind (from_validated
            \<lparr>vcp_principal = principal, vcp_organization_id = organization_id,
             vcp_session_id = session_id, vcp_request_id = request_id,
             vcp_assurance = tp_assurance payload, vcp_issued_at = tp_issued_at payload,
             vcp_expires_at = tp_expires_at payload, vcp_decision_id = decision_id,
             vcp_policy_revision = policy_revision\<rparr>) (\<lambda>auth.
        rbind (try_map bounded_identifier_new (tp_role_ids payload)) (\<lambda>roles.
        rbind (snapshot_new (tp_permissions payload) roles policy_revision (tp_consistency_token payload))
          (\<lambda>authorization. Inr (from_verified auth authorization))))))))))))"

definition codec_open ::
  "codec_env \<Rightarrow> trusted_context_codec \<Rightarrow> rstr \<Rightarrow> rstr \<Rightarrow> rstr \<Rightarrow> rstr \<Rightarrow> u64 \<Rightarrow>
   trusted_context_error + verified_request_context" where
  "codec_open env self envelope request_method path request_id now =
     rbind (validate_trusted_path path) (\<lambda>_.
     if str_len envelope > MAX_TRUSTED_CONTEXT_HEADER_BYTES then Inl TcInvalidEnvelope
     else
       rbind (ok_or TcInvalidEnvelope
           (case split_once 46 envelope of
              Some (payload, signature) \<Rightarrow> if 46 \<in> set signature then None else Some (payload, signature)
            | None \<Rightarrow> None))
         (\<lambda>(payload, signature).
       rbind (ok_or TcInvalidEnvelope (b64_decode env signature)) (\<lambda>tag.
       rbind (codec_mac env self) (\<lambda>mac.
       if mac (str_bytes payload) \<noteq> tag then Inl TcInvalidEnvelope
       else
         rbind (ok_or TcInvalidEnvelope (b64_decode env payload)) (\<lambda>json.
         rbind (ok_or TcInvalidEnvelope (payload_of_json env json)) (\<lambda>payload.
         if \<not> payload_bound self request_method path request_id payload then Inl TcBindingMismatch
         else if \<not> payload_fresh self now payload then Inl TcExpired
         else context_of_payload payload))))))"

subsection \<open>Lemmas\<close>

text \<open>What the guest learns about the signature: the envelope is the payload, a dot and the tag of
  exactly that payload under the codec's key.\<close>

definition authentic ::
  "codec_env \<Rightarrow> trusted_context_codec \<Rightarrow> rstr \<Rightarrow> trusted_context_payload \<Rightarrow> bool" where
  "authentic env self envelope payload \<longleftrightarrow>
     (\<exists>encoded signature finish json.
        envelope = encoded @ [46] @ signature \<and> 46 \<notin> set encoded \<and> 46 \<notin> set signature
        \<and> hmac_new env (tc_key self) = Some finish
        \<and> b64_decode env signature = Some (finish (TRUSTED_CONTEXT_DOMAIN @ str_bytes encoded))
        \<and> b64_decode env encoded = Some json \<and> payload_of_json env json = Some payload)"

definition trusted_path :: "rstr \<Rightarrow> bool" where
  "trusted_path path \<longleftrightarrow>
     path \<noteq> [] \<and> str_len path \<le> 2048 \<and> hd path = 47 \<and> (\<forall>c \<in> set path. \<not> is_control c)"

lemma validate_trusted_path_Inr_iff [result_simps]:
  "validate_trusted_path path = Inr u \<longleftrightarrow> trusted_path path"
  by (auto simp: validate_trusted_path_def trusted_path_def list_ex_iff)

lemma codec_mac_Inr_iff [result_simps]:
  "codec_mac env self = Inr mac \<longleftrightarrow>
     (\<exists>finish. hmac_new env (tc_key self) = Some finish
        \<and> mac = (\<lambda>message. finish (TRUSTED_CONTEXT_DOMAIN @ message)))"
  by (cases "hmac_new env (tc_key self)") (auto simp: codec_mac_def)

lemma try_map_identifier_Inr_iff [result_simps]:
  "try_map bounded_identifier_new xs = Inr ys \<longleftrightarrow> list_all valid_identifier xs \<and> ys = xs"
proof (induction xs arbitrary: ys)
  case (Cons x xs)
  then show ?case by (auto simp: result_simps)
qed auto

lemma payload_bound_iff:
  "payload_bound self m path rid p \<longleftrightarrow>
     tp_version p = TRUSTED_CONTEXT_VERSION \<and> tp_audience p = tc_audience self
     \<and> tp_method p = m \<and> tp_path p = path \<and> tp_request_id p = rid"
  by (auto simp: payload_bound_def)

lemma payload_fresh_iff:
  "payload_fresh self now p \<longleftrightarrow>
     unat (tp_sealed_at p) \<le> unat now + 1
     \<and> unat now \<le> unat (tp_sealed_at p) + unat (tc_max_age_seconds self)
     \<and> unat now < unat (tp_expires_at p)"
  using unat_u64_less [of "tp_sealed_at p"]
  by (auto simp: payload_fresh_def word_less_nat_alt word_le_nat_alt unat_saturating_add
      unat_saturating_sub not_less not_le)

lemma authentic_unique:
  assumes "authentic env self envelope p" "authentic env self envelope q"
  shows "p = q"
proof -
  have split: "split_once 46 envelope = Some (a, b)" if "envelope = a @ [46] @ b" "46 \<notin> set a" for a b
    using that by (simp add: split_once_Some_iff)
  from assms show ?thesis
    unfolding authentic_def using split by (metis option.inject prod.inject)
qed

lemma codec_open_eq:
  assumes "trusted_path path" "str_len envelope \<le> MAX_TRUSTED_CONTEXT_HEADER_BYTES"
    and "authentic env self envelope payload"
  shows "codec_open env self envelope m path rid now =
    (if \<not> payload_bound self m path rid payload then Inl TcBindingMismatch
     else if \<not> payload_fresh self now payload then Inl TcExpired
     else context_of_payload payload)"
proof -
  from assms(3) obtain encoded signature finish json where
    "split_once 46 envelope = Some (encoded, signature)" "46 \<notin> set signature"
    "hmac_new env (tc_key self) = Some finish"
    "b64_decode env signature = Some (finish (TRUSTED_CONTEXT_DOMAIN @ str_bytes encoded))"
    "b64_decode env encoded = Some json" "payload_of_json env json = Some payload"
    by (auto simp: authentic_def)
  moreover have "validate_trusted_path path = Inr ()"
    using assms(1) by (simp add: validate_trusted_path_Inr_iff)
  ultimately show ?thesis
    using assms(2) by (simp add: codec_open_def codec_mac_def)
qed

lemma codec_open_authentic:
  assumes "codec_open env self envelope m path rid now = Inr ctx"
  obtains payload where "trusted_path path" "authentic env self envelope payload"
    "payload_bound self m path rid payload" "payload_fresh self now payload"
    "context_of_payload payload = Inr ctx"
proof -
  from assms obtain encoded signature finish json payload where
    "trusted_path path" "split_once 46 envelope = Some (encoded, signature)" "46 \<notin> set signature"
    "hmac_new env (tc_key self) = Some finish"
    "b64_decode env signature = Some (finish (TRUSTED_CONTEXT_DOMAIN @ str_bytes encoded))"
    "b64_decode env encoded = Some json" "payload_of_json env json = Some payload"
    "payload_bound self m path rid payload" "payload_fresh self now payload"
    "context_of_payload payload = Inr ctx"
    by (auto simp: codec_open_def result_simps split: if_splits option.splits prod.splits)
  then show ?thesis
    by (intro that [of payload]) (auto simp: authentic_def split_once_Some_iff)
qed

lemma context_of_payload_wf:
  assumes "context_of_payload payload = Inr ctx"
  shows "wf_request_context ctx"
    and "vac_request_id (vrc_auth ctx) = tp_request_id payload"
    and "vac_expires_at (vrc_auth ctx) = tp_expires_at payload"
  using assms
  by (auto simp: context_of_payload_def result_simps from_verified_def wf_context_defs list_all_iff
      fset_of_list_elem)

lemma context_of_sealed_payload:
  assumes "wf_request_context ctx"
    and "vac_policy_revision (vrc_auth ctx) = as_policy_revision (vrc_authorization ctx)"
  shows "context_of_payload (sealed_payload self ctx m path now) = Inr ctx"
  using assms
  by (auto simp: context_of_payload_def sealed_payload_def result_simps from_verified_def wf_context_defs
      permissions_def role_ids_def list_all_iff)

lemma seal_authentic:
  assumes "codec_laws env" "seal env self ctx m path now = Inr envelope"
  shows "trusted_path path" "str_len envelope \<le> MAX_TRUSTED_CONTEXT_HEADER_BYTES"
    "vac_policy_revision (vrc_auth ctx) = as_policy_revision (vrc_authorization ctx)"
    "authentic env self envelope (sealed_payload self ctx m path now)"
proof -
  from assms(2) obtain json finish where facts: "trusted_path path"
    "vac_policy_revision (vrc_auth ctx) = as_policy_revision (vrc_authorization ctx)"
    "payload_to_json env (sealed_payload self ctx m path now) = Some json"
    "hmac_new env (tc_key self) = Some finish"
    "str_len envelope \<le> MAX_TRUSTED_CONTEXT_HEADER_BYTES"
    and envelope: "envelope = b64_encode env json @ [46]
      @ b64_encode env (finish (TRUSTED_CONTEXT_DOMAIN @ str_bytes (b64_encode env json)))"
    by (auto simp: seal_def codec_signature_def result_simps Let_def not_less split: if_splits)
  then show "trusted_path path" "str_len envelope \<le> MAX_TRUSTED_CONTEXT_HEADER_BYTES"
    "vac_policy_revision (vrc_auth ctx) = as_policy_revision (vrc_authorization ctx)"
    by simp_all
  show "authentic env self envelope (sealed_payload self ctx m path now)"
    unfolding authentic_def
    by (intro exI conjI, rule envelope) (use assms(1) facts in \<open>auto simp: codec_laws_def\<close>)
qed

lemma codec_open_sealed:
  assumes "codec_laws env" "wf_request_context ctx"
    and "seal env codec ctx m path now = Inr envelope"
    and "trusted_path path'"
  shows "codec_open env codec envelope m' path' rid' now' =
    (if m' \<noteq> m \<or> path' \<noteq> path \<or> rid' \<noteq> vac_request_id (vrc_auth ctx) then Inl TcBindingMismatch
     else if unat now' + 1 < unat now \<or> unat now + unat (tc_max_age_seconds codec) < unat now'
         \<or> vac_expires_at (vrc_auth ctx) \<le> now' then Inl TcExpired
     else Inr ctx)"
proof -
  note sealed = seal_authentic [OF assms(1,3)]
  have "payload_bound codec m' path' rid' (sealed_payload codec ctx m path now) \<longleftrightarrow>
      m' = m \<and> path' = path \<and> rid' = vac_request_id (vrc_auth ctx)"
    by (auto simp: payload_bound_iff sealed_payload_def)
  moreover have "payload_fresh codec now' (sealed_payload codec ctx m path now) \<longleftrightarrow>
      \<not> (unat now' + 1 < unat now \<or> unat now + unat (tc_max_age_seconds codec) < unat now'
         \<or> vac_expires_at (vrc_auth ctx) \<le> now')"
    by (auto simp: payload_fresh_iff sealed_payload_def word_le_nat_alt not_less not_le)
  ultimately show ?thesis
    using codec_open_eq [OF assms(4) sealed(2,4)] context_of_sealed_payload [OF assms(2) sealed(3)]
    by simp
qed

subsection \<open>Properties\<close>

text \<open>
  A concrete environment for the witnesses: shifted bytes as text, a tag that is the length of the
  message, and a JSON writer that knows one payload.
\<close>

definition sample_verified :: verified_request_context where
  "sample_verified =
     \<lparr>vrc_auth =
        \<lparr>vac_principal = \<lparr>pr_user_id = lit ''u'', pr_issuer = lit ''i'', pr_system_administrator = False\<rparr>,
         vac_organization_id = None, vac_session_id = lit ''s'', vac_request_id = lit ''r'',
         vac_assurance = Aal1, vac_issued_at = 1, vac_expires_at = 100, vac_decision_id = None,
         vac_policy_revision = None\<rparr>,
      vrc_authorization =
        \<lparr>as_permissions = {||}, as_role_ids = {||}, as_policy_revision = None,
         as_consistency_token = None\<rparr>\<rparr>"

definition sample_codec :: trusted_context_codec where
  "sample_codec = \<lparr>tc_audience = lit ''a'', tc_key = [1], tc_max_age_seconds = 5\<rparr>"

definition sample_env :: codec_env where
  "sample_env =
     \<lparr>b64_encode = map (\<lambda>b. 100 + unat b),
      b64_decode = (\<lambda>s. Some (map (\<lambda>c. of_nat (c - 100)) s)),
      hmac_new = (\<lambda>key. Some (\<lambda>message. [of_nat (length message)])),
      payload_to_json = (\<lambda>p. if p = sealed_payload sample_codec sample_verified (lit ''GET'') (lit ''/x'') 10
                              then Some [] else None),
      payload_of_json = (\<lambda>bs. Some (sealed_payload sample_codec sample_verified (lit ''GET'') (lit ''/x'') 10))\<rparr>"

definition sample_envelope :: rstr where "sample_envelope = [46, 129]"

lemma sample_env_laws: "codec_laws sample_env"
  by (auto simp: codec_laws_def sample_env_def comp_def split: if_splits)

lemma sample_verified_wf: "wf_request_context sample_verified"
  by (simp add: sample_verified_def wf_context_defs valid_identifier_def valid_text_def is_control_def
      is_whitespace_def)

lemma sample_trusted_path: "trusted_path (lit ''/x'')"
  by (simp add: trusted_path_def is_control_def)

lemma sample_seal:
  "seal sample_env sample_codec sample_verified (lit ''GET'') (lit ''/x'') 10 = Inr sample_envelope"
  by (simp add: seal_def sample_env_def codec_signature_def codec_mac_def TRUSTED_CONTEXT_DOMAIN_def
      sample_envelope_def validate_trusted_path_def is_control_def MAX_TRUSTED_CONTEXT_HEADER_BYTES_def
      utf8_char_def) (simp add: sample_verified_def)

text \<open>
  C4: a sealed envelope opens at its own request boundary and nowhere else. For every envelope
  \<open>seal\<close> produced from a well-formed context, \<open>open\<close> at any boundary with a valid path answers: another
  method, path or request id is a binding mismatch; outside the window (more than one second early,
  more than \<open>max_age_seconds\<close> late, or at or after the session's expiry) the envelope has expired;
  otherwise the very context that was sealed comes back.
\<close>

theorem sealed_envelope_opens_exactly:
  assumes "codec_laws env" "wf_request_context ctx"
    and "seal env codec ctx m path now = Inr envelope"
    and "trusted_path path'"
  shows "codec_open env codec envelope m' path' rid' now' =
    (if m' \<noteq> m \<or> path' \<noteq> path \<or> rid' \<noteq> vac_request_id (vrc_auth ctx) then Inl TcBindingMismatch
     else if unat now' + 1 < unat now \<or> unat now + unat (tc_max_age_seconds codec) < unat now'
         \<or> vac_expires_at (vrc_auth ctx) \<le> now' then Inl TcExpired
     else Inr ctx)"
  using assms by (rule codec_open_sealed)

theorem sealed_envelope_opens_exactly_witness:
  "codec_open sample_env sample_codec sample_envelope (lit ''GET'') (lit ''/x'') (lit ''r'') 15 = Inr sample_verified
   \<and> codec_open sample_env sample_codec sample_envelope (lit ''GET'') (lit ''/x'') (lit ''r'') 16 = Inl TcExpired
   \<and> codec_open sample_env sample_codec sample_envelope (lit ''PUT'') (lit ''/x'') (lit ''r'') 15
       = Inl TcBindingMismatch"
  unfolding sealed_envelope_opens_exactly
    [OF sample_env_laws sample_verified_wf sample_seal sample_trusted_path]
  by (simp add: sample_verified_def sample_codec_def)

text \<open>
  C19: \<open>open\<close> fails closed. Whatever bytes are presented, a context is returned only if the envelope
  carries the tag of its payload under the codec's key and domain, that payload names this audience,
  method, path and request id, was sealed at most \<open>max_age_seconds\<close> ago and not in the future, and the
  session has not expired; and then the context is well formed and carries this request id.
\<close>

theorem open_fails_closed:
  assumes "codec_open env codec envelope m path rid now = Inr ctx"
  shows "(\<exists>payload. authentic env codec envelope payload
        \<and> tp_version payload = 1 \<and> tp_audience payload = tc_audience codec
        \<and> tp_method payload = m \<and> tp_path payload = path \<and> tp_request_id payload = rid
        \<and> unat (tp_sealed_at payload) \<le> unat now + 1
        \<and> unat now \<le> unat (tp_sealed_at payload) + unat (tc_max_age_seconds codec)
        \<and> context_of_payload payload = Inr ctx)
    \<and> wf_request_context ctx \<and> vac_request_id (vrc_auth ctx) = rid \<and> \<not> is_expired_at (vrc_auth ctx) now"
proof -
  from assms obtain payload where payload: "authentic env codec envelope payload"
    "payload_bound codec m path rid payload" "payload_fresh codec now payload"
    "context_of_payload payload = Inr ctx"
    by (rule codec_open_authentic)
  then have "wf_request_context ctx" "vac_request_id (vrc_auth ctx) = rid" "\<not> is_expired_at (vrc_auth ctx) now"
    using context_of_payload_wf [OF payload(4)]
    by (auto simp: payload_bound_iff payload_fresh_iff is_expired_at_def word_le_nat_alt)
  moreover have "tp_version payload = 1" "tp_audience payload = tc_audience codec" "tp_method payload = m"
    "tp_path payload = path" "tp_request_id payload = rid"
    using payload(2) by (simp_all add: payload_bound_iff TRUSTED_CONTEXT_VERSION_def)
  ultimately show ?thesis using payload(1,3,4) by (auto simp: payload_fresh_iff)
qed

theorem open_fails_closed_witness:
  "\<exists>payload. authentic sample_env sample_codec sample_envelope payload \<and> tp_path payload = lit ''/x''"
proof -
  have "codec_open sample_env sample_codec sample_envelope (lit ''GET'') (lit ''/x'')
      (vac_request_id (vrc_auth sample_verified)) 10 = Inr sample_verified"
    unfolding codec_open_sealed [OF sample_env_laws sample_verified_wf sample_seal sample_trusted_path]
    by (simp add: sample_verified_def)
  from open_fails_closed [OF this] show ?thesis by blast
qed

end
