(* ===== verification/Http_Boundary.thy ===== *)
theory Http_Boundary
  imports Trusted_Context
begin

section \<open>The HTTP boundary of the ingress\<close>

text \<open>
  Models the rest of \<open>src/crates/wasi-auth/src/http.rs\<close>: CORS, credential extraction, CSRF, the route
  policies, \<open>TrustedIngress::authenticate_request\<close> and the response headers. A \<open>HeaderMap\<close> gives for
  each (lower-case) name its values in order; a value is \<open>Some text\<close> when \<open>HeaderValue::to_str\<close>
  succeeds and \<open>None\<close> when it does not. The checks of the \<open>http\<close> crate on header values, header names
  and methods are the record \<open>http_env\<close>. The credential authenticator and the clock are arguments of
  the ingress. \<open>usize\<close> has 64 bits: the ingress is a native program.
\<close>

type_synonym header_map = "rstr \<Rightarrow> rstr option list"

definition ORIGIN :: rstr where "ORIGIN = lit ''origin''"
definition VARY :: rstr where "VARY = lit ''vary''"
definition COOKIE :: rstr where "COOKIE = lit ''cookie''"
definition AUTHORIZATION :: rstr where "AUTHORIZATION = lit ''authorization''"
definition CONTENT_LENGTH :: rstr where "CONTENT_LENGTH = lit ''content-length''"
definition CACHE_CONTROL :: rstr where "CACHE_CONTROL = lit ''cache-control''"
definition REFERRER_POLICY :: rstr where "REFERRER_POLICY = lit ''referrer-policy''"
definition CONTENT_SECURITY_POLICY :: rstr where "CONTENT_SECURITY_POLICY = lit ''content-security-policy''"
definition X_CONTENT_TYPE_OPTIONS :: rstr where "X_CONTENT_TYPE_OPTIONS = lit ''x-content-type-options''"
definition STRICT_TRANSPORT_SECURITY :: rstr where
  "STRICT_TRANSPORT_SECURITY = lit ''strict-transport-security''"
definition ACCESS_CONTROL_ALLOW_ORIGIN :: rstr where
  "ACCESS_CONTROL_ALLOW_ORIGIN = lit ''access-control-allow-origin''"
definition ACCESS_CONTROL_ALLOW_CREDENTIALS :: rstr where
  "ACCESS_CONTROL_ALLOW_CREDENTIALS = lit ''access-control-allow-credentials''"
definition ACCESS_CONTROL_ALLOW_METHODS :: rstr where
  "ACCESS_CONTROL_ALLOW_METHODS = lit ''access-control-allow-methods''"
definition ACCESS_CONTROL_ALLOW_HEADERS :: rstr where
  "ACCESS_CONTROL_ALLOW_HEADERS = lit ''access-control-allow-headers''"
definition ACCESS_CONTROL_REQUEST_METHOD :: rstr where
  "ACCESS_CONTROL_REQUEST_METHOD = lit ''access-control-request-method''"
definition ACCESS_CONTROL_REQUEST_HEADERS :: rstr where
  "ACCESS_CONTROL_REQUEST_HEADERS = lit ''access-control-request-headers''"
definition REQUEST_ID_HEADER :: rstr where "REQUEST_ID_HEADER = lit ''x-request-id''"
definition AUTH_CONTEXT_HEADER :: rstr where "AUTH_CONTEXT_HEADER = lit ''x-wasi-auth-context''"
definition LEGACY_SESSION_HEADER :: rstr where "LEGACY_SESSION_HEADER = lit ''x-auth-session''"
definition LEGACY_ADMIN_HEADER :: rstr where "LEGACY_ADMIN_HEADER = lit ''x-auth-admin-token''"
definition CSRF_HEADER :: rstr where "CSRF_HEADER = lit ''x-csrf-token''"

lemmas header_name_defs =
  ORIGIN_def VARY_def COOKIE_def AUTHORIZATION_def CONTENT_LENGTH_def CACHE_CONTROL_def
  REFERRER_POLICY_def CONTENT_SECURITY_POLICY_def X_CONTENT_TYPE_OPTIONS_def
  STRICT_TRANSPORT_SECURITY_def ACCESS_CONTROL_ALLOW_ORIGIN_def ACCESS_CONTROL_ALLOW_CREDENTIALS_def
  ACCESS_CONTROL_ALLOW_METHODS_def ACCESS_CONTROL_ALLOW_HEADERS_def ACCESS_CONTROL_REQUEST_METHOD_def
  ACCESS_CONTROL_REQUEST_HEADERS_def REQUEST_ID_HEADER_def AUTH_CONTEXT_HEADER_def
  LEGACY_SESSION_HEADER_def LEGACY_ADMIN_HEADER_def CSRF_HEADER_def

text \<open>\<open>headers.get(name).and_then(|value| value.to_str().ok())\<close>, \<open>insert\<close> and \<open>remove\<close>.\<close>

definition header_text :: "header_map \<Rightarrow> rstr \<Rightarrow> rstr option" where
  "header_text headers name = (case headers name of [] \<Rightarrow> None | v # _ \<Rightarrow> v)"

definition header_insert :: "rstr \<Rightarrow> rstr \<Rightarrow> header_map \<Rightarrow> header_map" where
  "header_insert name v headers = headers(name := [Some v])"

definition header_remove :: "rstr \<Rightarrow> header_map \<Rightarrow> header_map" where
  "header_remove name headers = headers(name := [])"

record http_env =
  header_value_ok :: "rstr \<Rightarrow> bool"
  header_name_ok :: "rstr \<Rightarrow> bool"
  method_ok :: "rstr \<Rightarrow> bool"

record http_request =
  rq_method :: rstr
  rq_headers :: header_map

record http_response =
  rs_status :: nat
  rs_headers :: header_map

definition starts_with :: "rstr \<Rightarrow> rstr \<Rightarrow> bool" where
  "starts_with p s \<longleftrightarrow> strip_prefix p s \<noteq> None"

fun str_join :: "rstr \<Rightarrow> rstr list \<Rightarrow> rstr" where
  "str_join sep [] = []"
| "str_join sep [x] = x"
| "str_join sep (x # y # xs) = x @ sep @ str_join sep (y # xs)"

subsection \<open>CORS\<close>

datatype cors_error = CorsInvalidConfiguration | PreflightRejected

record cors_config =
  cc_allowed_origins :: "rstr fset"
  cc_allowed_methods :: "rstr fset"
  cc_allowed_headers :: "rstr fset"
  cc_allow_credentials :: bool

definition origin_malformed :: "rstr \<Rightarrow> bool" where
  "origin_malformed origin \<longleftrightarrow>
     origin = lit ''*'' \<or> list_ex is_control origin
     \<or> (\<not> starts_with (lit ''https://'') origin \<and> \<not> starts_with (lit ''http://localhost'') origin
        \<and> \<not> starts_with (lit ''http://127.0.0.1'') origin \<and> \<not> starts_with (lit ''http://[::1]'') origin)"

definition cors_new ::
  "http_env \<Rightarrow> rstr list \<Rightarrow> rstr list \<Rightarrow> rstr list \<Rightarrow> bool \<Rightarrow> cors_error + cors_config" where
  "cors_new env origins methods headers allow_credentials =
     (let allowed_origins = fset_of_list origins;
          allowed_methods = fset_of_list (map to_ascii_uppercase methods);
          allowed_headers = fset_of_list (map to_ascii_lowercase headers) in
      if allowed_origins = {||} \<or> allowed_methods = {||}
         \<or> fBex allowed_origins origin_malformed
         \<or> fBex allowed_methods (\<lambda>m. \<not> method_ok env m)
         \<or> fBex allowed_headers (\<lambda>h. h = [] \<or> \<not> header_name_ok env h)
      then Inl CorsInvalidConfiguration
      else Inr \<lparr>cc_allowed_origins = allowed_origins, cc_allowed_methods = allowed_methods,
                cc_allowed_headers = allowed_headers, cc_allow_credentials = allow_credentials\<rparr>)"

definition cors_apply ::
  "http_env \<Rightarrow> cors_config \<Rightarrow> header_map \<Rightarrow> http_response \<Rightarrow> bool \<times> http_response" where
  "cors_apply env self request_headers response =
     (case header_text request_headers ORIGIN of
        None \<Rightarrow> (False, response)
      | Some origin \<Rightarrow>
          if origin |\<notin>| cc_allowed_origins self then (False, response)
          else if \<not> header_value_ok env origin then (False, response)
          else
            let headers = header_insert VARY (lit ''Origin'')
                  (header_insert ACCESS_CONTROL_ALLOW_ORIGIN origin (rs_headers response));
                headers = (if cc_allow_credentials self
                  then header_insert ACCESS_CONTROL_ALLOW_CREDENTIALS (lit ''true'') headers else headers)
            in (True, response\<lparr>rs_headers := headers\<rparr>))"

definition requested_header_set :: "header_map \<Rightarrow> rstr fset" where
  "requested_header_set request_headers =
     fset_of_list (map to_ascii_lowercase (filter (\<lambda>h. h \<noteq> []) (map trim (split_char 44
       (case header_text request_headers ACCESS_CONTROL_REQUEST_HEADERS of None \<Rightarrow> [] | Some v \<Rightarrow> v)))))"

definition cors_preflight ::
  "http_env \<Rightarrow> cors_config \<Rightarrow> header_map \<Rightarrow> cors_error + http_response" where
  "cors_preflight env self request_headers =
     (case header_text request_headers ORIGIN of
        None \<Rightarrow> Inl PreflightRejected
      | Some origin \<Rightarrow>
     if origin |\<notin>| cc_allowed_origins self then Inl PreflightRejected
     else
     (case map_option to_ascii_uppercase (header_text request_headers ACCESS_CONTROL_REQUEST_METHOD) of
        None \<Rightarrow> Inl PreflightRejected
      | Some m \<Rightarrow>
     if m |\<notin>| cc_allowed_methods self then Inl PreflightRejected
     else
       let requested_headers = requested_header_set request_headers in
       if \<not> requested_headers |\<subseteq>| cc_allowed_headers self then Inl PreflightRejected
       else if \<not> header_value_ok env origin then Inl PreflightRejected
       else if \<not> header_value_ok env m then Inl PreflightRejected
       else
         let headers_value = str_join (lit '', '') (sorted_list_of_fset requested_headers) in
         if requested_headers \<noteq> {||} \<and> \<not> header_value_ok env headers_value then Inl PreflightRejected
         else
           let headers = header_insert ACCESS_CONTROL_ALLOW_METHODS m
                 (header_insert ACCESS_CONTROL_ALLOW_ORIGIN origin (\<lambda>_. []));
               headers = (if requested_headers \<noteq> {||}
                 then header_insert ACCESS_CONTROL_ALLOW_HEADERS headers_value headers else headers);
               headers = header_insert VARY (lit ''Origin'') headers;
               headers = (if cc_allow_credentials self
                 then header_insert ACCESS_CONTROL_ALLOW_CREDENTIALS (lit ''true'') headers else headers)
           in Inr \<lparr>rs_status = 204, rs_headers = headers\<rparr>))"

subsection \<open>Errors, credentials and policies\<close>

datatype 'e http_boundary_error =
  BodyTooLarge | InvalidContentLength | InvalidRequestId | InvalidCredentials | MissingCredentials
| Authenticator 'e | InvalidContext context_error | InsufficientAssurance | Csrf

fun status_code :: "'e http_boundary_error \<Rightarrow> nat" where
  "status_code BodyTooLarge = 413"
| "status_code InvalidContentLength = 400"
| "status_code InvalidRequestId = 400"
| "status_code InvalidCredentials = 400"
| "status_code Csrf = 400"
| "status_code MissingCredentials = 401"
| "status_code InsufficientAssurance = 401"
| "status_code (Authenticator _) = 503"
| "status_code (InvalidContext _) = 503"

datatype credential = Bearer rstr | SessionCookie rstr

record authenticated_session =
  ses_principal :: principal
  ses_organization_id :: "organization_id option"
  ses_session_id :: session_id
  ses_assurance :: authentication_assurance
  ses_issued_at :: u64
  ses_expires_at :: u64
  ses_decision_id :: "decision_id option"
  ses_policy_revision :: "policy_revision option"
  ses_authorization :: authorization_snapshot

datatype route_policy = Public | PublicForm | Optional | Authenticated | SessionMutation | StepUp

fun required_assurance :: "route_policy \<Rightarrow> authentication_assurance option" where
  "required_assurance Public = None"
| "required_assurance PublicForm = None"
| "required_assurance Optional = None"
| "required_assurance Authenticated = Some Aal1"
| "required_assurance SessionMutation = Some Aal1"
| "required_assurance StepUp = Some Aal2"

definition DEFAULT_MAX_REQUEST_BODY_BYTES :: nat where
  "DEFAULT_MAX_REQUEST_BODY_BYTES = 256 * 1024"

record trusted_ingress_config =
  ti_max_request_body_bytes :: nat
  ti_allowed_browser_origin :: rstr
  ti_allow_development_session_cookie :: bool

definition ingress_config_new :: "rstr \<Rightarrow> context_error + trusted_ingress_config" where
  "ingress_config_new allowed_browser_origin =
     (if allowed_browser_origin = [] \<or> list_ex is_control allowed_browser_origin
      then Inl InvalidIdentifier
      else Inr \<lparr>ti_max_request_body_bytes = DEFAULT_MAX_REQUEST_BODY_BYTES,
                ti_allowed_browser_origin = allowed_browser_origin,
                ti_allow_development_session_cookie = False\<rparr>)"

definition with_max_request_body_bytes :: "trusted_ingress_config \<Rightarrow> nat \<Rightarrow> trusted_ingress_config" where
  "with_max_request_body_bytes self n = self\<lparr>ti_max_request_body_bytes := n\<rparr>"

definition with_development_session_cookie :: "trusted_ingress_config \<Rightarrow> trusted_ingress_config" where
  "with_development_session_cookie self =
     self\<lparr>ti_allow_development_session_cookie :=
       (starts_with (lit ''http://localhost'') (ti_allowed_browser_origin self)
        \<or> starts_with (lit ''http://127.0.0.1'') (ti_allowed_browser_origin self)
        \<or> starts_with (lit ''http://[::1]'') (ti_allowed_browser_origin self))\<rparr>"

subsection \<open>Request metadata\<close>

text \<open>\<open>str::parse::<usize>\<close>: an optional plus sign, at least one digit, no overflow.\<close>

definition parse_usize :: "rstr \<Rightarrow> nat option" where
  "parse_usize s =
     (let digits = (case s of c # cs \<Rightarrow> if c = 43 then cs else s | [] \<Rightarrow> []) in
      if digits = [] \<or> \<not> list_all (\<lambda>c. 48 \<le> c \<and> c \<le> 57) digits then None
      else let n = foldl (\<lambda>acc c. 10 * acc + (c - 48)) 0 digits in
           if n < 2 ^ 64 then Some n else None)"

definition validate_content_length :: "header_map \<Rightarrow> nat \<Rightarrow> 'e http_boundary_error + unit" where
  "validate_content_length headers limit =
     (case headers CONTENT_LENGTH of
        [] \<Rightarrow> Inr ()
      | [v] \<Rightarrow>
          rbind (ok_or InvalidContentLength (Option.bind v parse_usize)) (\<lambda>n.
            if n > limit then Inl BodyTooLarge else Inr ())
      | _ \<Rightarrow> Inl InvalidContentLength)"

definition request_id_of :: "header_map \<Rightarrow> 'e http_boundary_error + request_id" where
  "request_id_of headers =
     (case headers REQUEST_ID_HEADER of
        [v] \<Rightarrow> rbind (ok_or InvalidRequestId v) (\<lambda>text.
          map_err (\<lambda>_. InvalidRequestId) (bounded_identifier_new text))
      | _ \<Rightarrow> Inl InvalidRequestId)"

text \<open>The loops of \<open>cookie_value\<close>: over the cookies of one header, and over the headers.\<close>

fun scan_cookies :: "rstr \<Rightarrow> rstr list \<Rightarrow> rstr option \<Rightarrow> 'e http_boundary_error + rstr option" where
  "scan_cookies name [] found = Inr found"
| "scan_cookies name (cookie # cookies) found =
     (case split_once 61 (trim cookie) of
        None \<Rightarrow> scan_cookies name cookies found
      | Some (cookie_name, v) \<Rightarrow>
          if cookie_name = name then
            if found \<noteq> None \<or> v = [] then Inl InvalidCredentials
            else scan_cookies name cookies (Some v)
          else scan_cookies name cookies found)"

fun scan_cookie_headers ::
  "rstr \<Rightarrow> rstr option list \<Rightarrow> rstr option \<Rightarrow> 'e http_boundary_error + rstr option" where
  "scan_cookie_headers name [] found = Inr found"
| "scan_cookie_headers name (header # headers) found =
     rbind (ok_or InvalidCredentials header) (\<lambda>text.
     rbind (scan_cookies name (split_char 59 text) found) (\<lambda>found'.
       scan_cookie_headers name headers found'))"

definition cookie_value :: "header_map \<Rightarrow> rstr \<Rightarrow> 'e http_boundary_error + rstr option" where
  "cookie_value headers name = scan_cookie_headers name (headers COOKIE) None"

definition credential_of :: "header_map \<Rightarrow> bool \<Rightarrow> 'e http_boundary_error + credential option" where
  "credential_of headers allow_development_session_cookie =
     (if length (headers AUTHORIZATION) > 1 then Inl InvalidCredentials
      else
        let bearer = (case headers AUTHORIZATION of [] \<Rightarrow> None | v # _ \<Rightarrow> Some v) in
        rbind (cookie_value headers (lit ''__Host-session'')) (\<lambda>host_session_cookie.
        rbind (if allow_development_session_cookie
               then cookie_value headers (lit ''wasi_auth_dev_session'') else Inr None)
          (\<lambda>development_session_cookie.
        if host_session_cookie \<noteq> None \<and> development_session_cookie \<noteq> None
        then Inl InvalidCredentials
        else
          let session_cookie = (case host_session_cookie of
                Some c \<Rightarrow> Some c | None \<Rightarrow> development_session_cookie) in
          if bearer \<noteq> None \<and> session_cookie \<noteq> None then Inl InvalidCredentials
          else
            (case bearer of
               Some v \<Rightarrow>
                 rbind (ok_or InvalidCredentials v) (\<lambda>text.
                   (case strip_prefix (lit ''Bearer '') text of
                      Some token \<Rightarrow>
                        if token \<noteq> [] then Inr (Some (Bearer token)) else Inl InvalidCredentials
                    | None \<Rightarrow> Inl InvalidCredentials))
             | None \<Rightarrow> Inr (map_option SessionCookie session_cookie)))))"

definition requires_csrf :: "rstr \<Rightarrow> bool" where
  "requires_csrf m \<longleftrightarrow> \<not> (m = lit ''GET'' \<or> m = lit ''HEAD'' \<or> m = lit ''OPTIONS'')"

definition validate_csrf :: "header_map \<Rightarrow> rstr \<Rightarrow> 'e http_boundary_error + unit" where
  "validate_csrf headers allowed_origin =
     rbind (ok_or Csrf (case header_text headers ORIGIN of
         Some origin \<Rightarrow> if origin = allowed_origin then Some origin else None | None \<Rightarrow> None))
       (\<lambda>origin.
     if origin \<noteq> allowed_origin then Inl Csrf
     else
       rbind (ok_or Csrf (header_text headers CSRF_HEADER)) (\<lambda>header_token.
       rbind (cookie_value headers (lit ''__Host-csrf'')) (\<lambda>cookie.
       rbind (ok_or Csrf cookie) (\<lambda>cookie_token.
         if str_len header_token < 32 \<or> str_bytes header_token \<noteq> str_bytes cookie_token
         then Inl Csrf else Inr ()))))"

subsection \<open>Authentication\<close>

text \<open>The part of \<open>authenticate_request\<close> after the metadata has been validated.\<close>

definition authenticate_with ::
  "(credential \<Rightarrow> 'e + authenticated_session) \<Rightarrow> u64 \<Rightarrow> route_policy \<Rightarrow> request_id \<Rightarrow> credential option \<Rightarrow>
   'e http_boundary_error + verified_request_context option" where
  "authenticate_with authenticator now policy request_id credential =
     (case credential of
        None \<Rightarrow>
          if policy \<in> {Public, PublicForm, Optional} then Inr None else Inl MissingCredentials
      | Some credential \<Rightarrow>
          if policy \<in> {Public, PublicForm} then Inl InvalidCredentials
          else
            rbind (map_err Authenticator (authenticator credential)) (\<lambda>session.
            if now \<ge> ses_expires_at session then Inl (InvalidContext InvalidLifetime)
            else if (case required_assurance policy of
                       Some required \<Rightarrow> \<not> satisfies (ses_assurance session) required | None \<Rightarrow> False)
            then Inl InsufficientAssurance
            else
              rbind (map_err InvalidContext (from_validated
                \<lparr>vcp_principal = ses_principal session,
                 vcp_organization_id = ses_organization_id session,
                 vcp_session_id = ses_session_id session,
                 vcp_request_id = request_id,
                 vcp_assurance = ses_assurance session,
                 vcp_issued_at = ses_issued_at session,
                 vcp_expires_at = ses_expires_at session,
                 vcp_decision_id = ses_decision_id session,
                 vcp_policy_revision = ses_policy_revision session\<rparr>))
              (\<lambda>auth. Inr (Some (from_verified auth (ses_authorization session))))))"

definition authenticate_request ::
  "trusted_ingress_config \<Rightarrow> (credential \<Rightarrow> 'e + authenticated_session) \<Rightarrow> u64 \<Rightarrow> http_request \<Rightarrow> route_policy \<Rightarrow>
   'e http_boundary_error + verified_request_context option" where
  "authenticate_request config authenticator now request policy =
     rbind (validate_content_length (rq_headers request) (ti_max_request_body_bytes config)) (\<lambda>_.
     rbind (request_id_of (rq_headers request)) (\<lambda>request_id.
     rbind (credential_of (rq_headers request) (ti_allow_development_session_cookie config)) (\<lambda>credential.
     rbind
       (if requires_csrf (rq_method request) \<and> policy \<in> {PublicForm, SessionMutation}
           \<and> \<not> (case credential of Some (Bearer _) \<Rightarrow> True | _ \<Rightarrow> False)
        then validate_csrf (rq_headers request) (ti_allowed_browser_origin config) else Inr ())
       (\<lambda>_.
     authenticate_with authenticator now policy request_id credential))))"

definition authenticate ::
  "trusted_ingress_config \<Rightarrow> (credential \<Rightarrow> 'e + authenticated_session) \<Rightarrow> u64 \<Rightarrow> http_request \<Rightarrow> route_policy \<Rightarrow>
   'e http_boundary_error + verified_auth_context option" where
  "authenticate config authenticator now request policy =
     map_ok (map_option (\<lambda>context. fst (into_parts context)))
       (authenticate_request config authenticator now request policy)"

subsection \<open>Headers across the boundary\<close>

definition strip_untrusted_auth_metadata :: "header_map \<Rightarrow> header_map" where
  "strip_untrusted_auth_metadata headers =
     header_remove LEGACY_ADMIN_HEADER (header_remove LEGACY_SESSION_HEADER
       (header_remove AUTH_CONTEXT_HEADER headers))"

datatype response_security_policy = Sensitive | DynamicPage | ImmutableAsset

fun cache_directive :: "response_security_policy \<Rightarrow> rstr" where
  "cache_directive Sensitive = lit ''no-store''"
| "cache_directive DynamicPage = lit ''no-cache, must-revalidate''"
| "cache_directive ImmutableAsset = lit ''public, max-age=31536000, immutable''"

definition csp_directive :: rstr where
  "csp_directive = lit ''default-src '' @ [39] @ lit ''self'' @ [39] @ lit ''; frame-ancestors '' @ [39]
     @ lit ''none'' @ [39] @ lit ''; base-uri '' @ [39] @ lit ''self'' @ [39]"

definition apply_response_security ::
  "http_response \<Rightarrow> response_security_policy \<Rightarrow> bool \<Rightarrow> http_response" where
  "apply_response_security response policy secure_transport =
     (let headers = header_insert CACHE_CONTROL (cache_directive policy) (rs_headers response);
          headers = header_insert X_CONTENT_TYPE_OPTIONS (lit ''nosniff'') headers;
          headers = header_insert REFERRER_POLICY (lit ''same-origin'') headers;
          headers = (if policy \<noteq> ImmutableAsset
            then header_insert CONTENT_SECURITY_POLICY csp_directive headers else headers);
          headers = (if secure_transport
            then header_insert STRICT_TRANSPORT_SECURITY (lit ''max-age=31536000; includeSubDomains'') headers
            else header_remove STRICT_TRANSPORT_SECURITY headers)
      in response\<lparr>rs_headers := headers\<rparr>)"

definition apply_secure_response_headers :: "http_response \<Rightarrow> http_response" where
  "apply_secure_response_headers response = apply_response_security response Sensitive True"

end
