(* ===== verification/Http_Properties.thy ===== *)
theory Http_Properties
  imports Http_Boundary
begin

section \<open>Correctness of the HTTP boundary\<close>

text \<open>
  What an authenticated request guarantees, the cookie scanner against a reference definition, the
  CORS policy, and the header filters of the ingress.
\<close>

subsection \<open>Cookies\<close>

text \<open>Reference: the values of all cookies with a name, over all headers, in order.\<close>

definition cookies_named :: "rstr \<Rightarrow> rstr list \<Rightarrow> rstr list" where
  "cookies_named name cookies =
     List.map_filter (\<lambda>cookie. case split_once 61 (trim cookie) of
        Some (n, v) \<Rightarrow> if n = name then Some v else None | None \<Rightarrow> None) cookies"

definition header_cookies :: "rstr \<Rightarrow> rstr option list \<Rightarrow> rstr list" where
  "header_cookies name headers =
     concat (map (\<lambda>h. case h of None \<Rightarrow> [] | Some text \<Rightarrow> cookies_named name (split_char 59 text)) headers)"

text \<open>What is found after the values \<open>vs\<close>, starting from \<open>found\<close>.\<close>

fun only_cookie :: "rstr option \<Rightarrow> rstr list \<Rightarrow> 'e http_boundary_error + rstr option" where
  "only_cookie found [] = Inr found"
| "only_cookie None [v] = (if v = [] then Inl InvalidCredentials else Inr (Some v))"
| "only_cookie found (v # vs) = Inl InvalidCredentials"

lemma cookies_named_simps [simp]:
  "cookies_named name [] = []"
  "cookies_named name (c # cs) =
     (case split_once 61 (trim c) of
        Some (n, v) \<Rightarrow> if n = name then v # cookies_named name cs else cookies_named name cs
      | None \<Rightarrow> cookies_named name cs)"
  by (auto simp: cookies_named_def List.map_filter_simps split: option.splits prod.splits)

lemma only_cookie_Some [simp]: "only_cookie (Some f) (v # vs) = Inl InvalidCredentials"
  by (cases vs) simp_all

lemma only_cookie_append:
  "only_cookie found (vs @ ws) = rbind (only_cookie found vs) (\<lambda>found'. only_cookie found' ws)"
proof (induction found vs rule: only_cookie.induct)
  case (2 v)
  then show ?case by (cases ws) auto
qed auto

lemma scan_cookies_eq: "scan_cookies name cookies found = only_cookie found (cookies_named name cookies)"
proof (induction name cookies found rule: scan_cookies.induct)
  case (2 name cookie cookies found)
  then show ?case
    by (cases found; cases "cookies_named name cookies") (auto split: option.splits)
qed simp

lemma scan_cookie_headers_eq:
  "scan_cookie_headers name headers found =
     (if None \<in> set headers then Inl InvalidCredentials
      else only_cookie found (header_cookies name headers))"
proof (induction name headers found rule: scan_cookie_headers.induct)
  case (1 name found)
  then show ?case by (simp add: header_cookies_def)
next
  case (2 name header headers found)
  show ?case
  proof (cases header)
    case None
    then show ?thesis by simp
  next
    case (Some content)
    have err: "only_cookie found vs = Inl e \<Longrightarrow> e = InvalidCredentials" for found vs and e :: "'a http_boundary_error"
      by (induction found vs rule: only_cookie.induct) (auto split: if_splits)
    show ?thesis
      using Some "2.IH" err
      by (cases "only_cookie found (cookies_named name (split_char 59 content)) :: 'a http_boundary_error + _")
        (auto simp: scan_cookies_eq header_cookies_def only_cookie_append)
  qed
qed

text \<open>
  A cookie is read only when it is unambiguous. \<open>cookie_value\<close> agrees with the reference: it fails
  when some cookie header is not text, when the name occurs more than once over all headers, or when
  its value is empty; otherwise it returns the single value, or none when the name does not occur.
\<close>

theorem cookie_value_unambiguous:
  "cookie_value headers name =
     (if None \<in> set (headers COOKIE) then Inl InvalidCredentials
      else case header_cookies name (headers COOKIE) of
             [] \<Rightarrow> Inr None
           | [v] \<Rightarrow> if v = [] then Inl InvalidCredentials else Inr (Some v)
           | _ \<Rightarrow> Inl InvalidCredentials)"
  by (auto simp: cookie_value_def scan_cookie_headers_eq split: list.splits)

subsection \<open>Authentication\<close>

lemma validate_content_length_Inr_iff [result_simps]:
  "validate_content_length headers limit = Inr u \<longleftrightarrow>
     headers CONTENT_LENGTH = []
     \<or> (\<exists>text n. headers CONTENT_LENGTH = [Some text] \<and> parse_usize text = Some n \<and> n \<le> limit)"
  by (auto simp: validate_content_length_def result_simps bind_eq_Some_conv not_less
      split: list.splits if_splits)

lemma request_id_of_Inr_iff [result_simps]:
  "request_id_of headers = Inr rid \<longleftrightarrow> headers REQUEST_ID_HEADER = [Some rid] \<and> valid_identifier rid"
  by (auto simp: request_id_of_def result_simps split: list.splits)

lemma validate_csrf_Inr_iff [result_simps]:
  "(validate_csrf headers allowed_origin :: 'e http_boundary_error + unit) = Inr u \<longleftrightarrow>
     (\<exists>header_token cookie_token. header_text headers ORIGIN = Some allowed_origin
        \<and> header_text headers CSRF_HEADER = Some header_token
        \<and> (cookie_value headers (lit ''__Host-csrf'') :: 'e http_boundary_error + _) = Inr (Some cookie_token)
        \<and> 32 \<le> str_len header_token \<and> str_bytes header_token = str_bytes cookie_token)"
  by (auto simp: validate_csrf_def result_simps not_less split: option.splits if_splits)

text \<open>The session a request context came from.\<close>

definition context_of_session ::
  "authenticated_session \<Rightarrow> request_id \<Rightarrow> verified_request_context" where
  "context_of_session session rid =
     \<lparr>vrc_auth =
        \<lparr>vac_principal = ses_principal session, vac_organization_id = ses_organization_id session,
         vac_session_id = ses_session_id session, vac_request_id = rid,
         vac_assurance = ses_assurance session, vac_issued_at = ses_issued_at session,
         vac_expires_at = ses_expires_at session, vac_decision_id = ses_decision_id session,
         vac_policy_revision = ses_policy_revision session\<rparr>,
      vrc_authorization = ses_authorization session\<rparr>"

text \<open>A credential is read from two headers only; without them there is none.\<close>

lemma credential_of_cong:
  "headers AUTHORIZATION = headers' AUTHORIZATION \<Longrightarrow> headers COOKIE = headers' COOKIE \<Longrightarrow>
     credential_of headers allow = credential_of headers' allow"
  by (simp add: credential_of_def cookie_value_def)

lemma credential_of_absent:
  "headers AUTHORIZATION = [] \<Longrightarrow> headers COOKIE = [] \<Longrightarrow> credential_of headers allow = Inr None"
  by (simp add: credential_of_def cookie_value_def)

lemma authenticate_request_None:
  assumes "authenticate_request config authenticator now request Optional = (Inr None :: 'e http_boundary_error + _)"
  shows "credential_of (rq_headers request) (ti_allow_development_session_cookie config)
    = (Inr None :: 'e http_boundary_error + _)"
proof -
  from assms obtain rid credential where
      cred: "(credential_of (rq_headers request) (ti_allow_development_session_cookie config)
        :: 'e http_boundary_error + _) = Inr credential"
      and rest: "authenticate_with authenticator now Optional rid credential = Inr None"
    by (auto simp: authenticate_request_def rbind_Inr_iff)
  with rest show ?thesis
    by (cases credential) (auto simp: authenticate_with_def rbind_Inr_iff split: if_splits)
qed

lemma authenticate_request_Some:
  assumes "authenticate_request config authenticator now request policy = Inr (Some ctx)"
  obtains cred session rid where
    "credential_of (rq_headers request) (ti_allow_development_session_cookie config)
       = (Inr (Some cred) :: 'e http_boundary_error + _)"
    "authenticator cred = (Inr session :: 'e + _)" "policy \<notin> {Public, PublicForm}"
    "rq_headers request REQUEST_ID_HEADER = [Some rid]" "valid_identifier rid"
    "now < ses_expires_at session" "ses_issued_at session < ses_expires_at session"
    "\<forall>required. required_assurance policy = Some required \<longrightarrow> satisfies (ses_assurance session) required"
    "policy = SessionMutation \<and> requires_csrf (rq_method request) \<and> (\<forall>token. cred \<noteq> Bearer token) \<longrightarrow>
       validate_csrf (rq_headers request) (ti_allowed_browser_origin config)
         = (Inr () :: 'e http_boundary_error + unit)"
    "ctx = context_of_session session rid"
proof -
  from assms obtain rid credential where rid:
    "(request_id_of (rq_headers request) :: 'e http_boundary_error + _) = Inr rid"
    and cred: "(credential_of (rq_headers request) (ti_allow_development_session_cookie config)
       :: 'e http_boundary_error + _) = Inr credential"
    and csrf: "(if requires_csrf (rq_method request) \<and> policy \<in> {PublicForm, SessionMutation}
         \<and> \<not> (case credential of Some (Bearer _) \<Rightarrow> True | _ \<Rightarrow> False)
      then validate_csrf (rq_headers request) (ti_allowed_browser_origin config)
      else (Inr () :: 'e http_boundary_error + unit)) = Inr ()"
    and rest: "authenticate_with authenticator now policy rid credential = Inr (Some ctx)"
    by (auto simp: authenticate_request_def authenticate_with_def rbind_Inr_iff)
  from rest obtain c where c: "credential = Some c"
    by (cases credential) (auto simp: authenticate_with_def split: if_splits)
  from rest obtain session where
    "policy \<notin> {Public, PublicForm}" "authenticator c = Inr session" "now < ses_expires_at session"
    "\<not> (case required_assurance policy of
          Some required \<Rightarrow> \<not> satisfies (ses_assurance session) required | None \<Rightarrow> False)"
    "ses_issued_at session < ses_expires_at session" "ctx = context_of_session session rid"
    by (auto simp: c authenticate_with_def rbind_Inr_iff map_err_Inr_iff from_validated_Inr_iff
        from_verified_def context_of_session_def not_le split: if_splits)
  moreover have "validate_csrf (rq_headers request) (ti_allowed_browser_origin config)
      = (Inr () :: 'e http_boundary_error + unit)"
    if "policy = SessionMutation \<and> requires_csrf (rq_method request) \<and> (\<forall>token. c \<noteq> Bearer token)"
    using csrf that by (auto simp: c split: credential.splits)
  ultimately show ?thesis
    using that [of c session rid] cred rid c by (auto simp: request_id_of_Inr_iff split: option.splits)
qed

text \<open>
  C16: an authenticated context is earned. When the ingress returns a context, the request carried
  exactly one credential, the authenticator accepted that very credential, the route is not public,
  the session is unexpired and meets the assurance the route demands, the context is the session's
  data under the request's own single request id, and a cookie-backed mutation had the allowed
  origin and a CSRF header of at least 32 bytes equal to the CSRF cookie.
\<close>

theorem authenticated_context_is_earned:
  fixes authenticator :: "credential \<Rightarrow> 'e + authenticated_session"
  assumes "authenticate_request config authenticator now request policy = Inr (Some ctx)"
  shows "\<exists>cred session rid.
    (credential_of (rq_headers request) (ti_allow_development_session_cookie config)
       :: 'e http_boundary_error + credential option) = Inr (Some cred)
    \<and> authenticator cred = Inr session \<and> policy \<notin> {Public, PublicForm}
    \<and> rq_headers request REQUEST_ID_HEADER = [Some rid] \<and> valid_identifier rid
    \<and> now < ses_expires_at session
    \<and> (policy = StepUp \<longrightarrow> ses_assurance session = Aal2)
    \<and> (policy = SessionMutation \<and> requires_csrf (rq_method request) \<and> (\<forall>token. cred \<noteq> Bearer token) \<longrightarrow>
         header_text (rq_headers request) ORIGIN = Some (ti_allowed_browser_origin config)
         \<and> (\<exists>token cookie. header_text (rq_headers request) CSRF_HEADER = Some token
              \<and> (cookie_value (rq_headers request) (lit ''__Host-csrf'')
                   :: 'e http_boundary_error + rstr option) = Inr (Some cookie)
              \<and> 32 \<le> str_len token \<and> str_bytes token = str_bytes cookie))
    \<and> ctx = context_of_session session rid"
proof -
  from assms obtain cred session rid where
    "(credential_of (rq_headers request) (ti_allow_development_session_cookie config)
       :: 'e http_boundary_error + credential option) = Inr (Some cred)"
    "authenticator cred = Inr session" "policy \<notin> {Public, PublicForm}"
    "rq_headers request REQUEST_ID_HEADER = [Some rid]" "valid_identifier rid"
    "now < ses_expires_at session" "ctx = context_of_session session rid"
    and assurance: "\<forall>required. required_assurance policy = Some required \<longrightarrow>
       satisfies (ses_assurance session) required"
    and csrf: "policy = SessionMutation \<and> requires_csrf (rq_method request) \<and> (\<forall>token. cred \<noteq> Bearer token) \<longrightarrow>
       validate_csrf (rq_headers request) (ti_allowed_browser_origin config)
         = (Inr () :: 'e http_boundary_error + unit)"
    by (rule authenticate_request_Some)
  moreover have "policy = StepUp \<longrightarrow> ses_assurance session = Aal2"
    using assurance by (auto simp: satisfies_iff)
  moreover note csrf [unfolded validate_csrf_Inr_iff]
  ultimately show ?thesis by (intro exI [of _ cred] exI [of _ session] exI [of _ rid]) blast
qed

definition sample_session :: authenticated_session where
  "sample_session =
     \<lparr>ses_principal = \<lparr>pr_user_id = lit ''u'', pr_issuer = lit ''i'', pr_system_administrator = False\<rparr>,
      ses_organization_id = None, ses_session_id = lit ''s'', ses_assurance = Aal2,
      ses_issued_at = 1, ses_expires_at = 100, ses_decision_id = None, ses_policy_revision = None,
      ses_authorization = \<lparr>as_permissions = {||}, as_role_ids = {||}, as_policy_revision = None,
        as_consistency_token = None\<rparr>\<rparr>"

definition sample_http_request :: http_request where
  "sample_http_request =
     \<lparr>rq_method = lit ''GET'',
      rq_headers = (\<lambda>_. [])(REQUEST_ID_HEADER := [Some (lit ''r'')],
                           AUTHORIZATION := [Some (lit ''Bearer t'')])\<rparr>"

definition sample_ingress :: trusted_ingress_config where
  "sample_ingress =
     \<lparr>ti_max_request_body_bytes = 10, ti_allowed_browser_origin = lit ''https://a'',
      ti_allow_development_session_cookie = False\<rparr>"

lemma sample_identifier: "valid_identifier (lit ''r'')"
  by (simp add: valid_identifier_def is_control_def is_whitespace_def)

lemma sample_authenticate:
  "authenticate_request sample_ingress (\<lambda>c. Inr sample_session :: unit + _) 10 sample_http_request StepUp
     = Inr (Some (context_of_session sample_session (lit ''r'')))"
proof -
  have "bounded_identifier_new (lit ''r'') = Inr (lit ''r'')" using sample_identifier by simp
  then show ?thesis
    by (simp add: authenticate_request_def validate_content_length_def request_id_of_def credential_of_def
        cookie_value_def sample_http_request_def header_name_defs authenticate_with_def sample_session_def
        satisfies_iff from_validated_def context_of_session_def from_verified_def word_le_nat_alt)
qed

theorem authenticated_context_is_earned_witness:
  "\<exists>cred. (credential_of (rq_headers sample_http_request) False :: unit http_boundary_error + _)
     = Inr (Some cred) \<and> ses_assurance sample_session = Aal2"
  using authenticated_context_is_earned [OF sample_authenticate] by (auto simp: sample_ingress_def)

text \<open>
  C34: only open routes are anonymous. The ingress lets a request through without a context only when
  the request carries no credential and the route is public, a public form or optional, and a public
  form that changes state has then passed the CSRF check. A credential on a public route is rejected.
\<close>

theorem anonymous_only_on_open_routes:
  fixes authenticator :: "credential \<Rightarrow> 'e + authenticated_session"
  assumes "authenticate_request config authenticator now request policy = Inr None"
  shows "policy \<in> {Public, PublicForm, Optional}
    \<and> (credential_of (rq_headers request) (ti_allow_development_session_cookie config)
         :: 'e http_boundary_error + credential option) = Inr None
    \<and> (policy = PublicForm \<and> requires_csrf (rq_method request) \<longrightarrow>
         header_text (rq_headers request) ORIGIN = Some (ti_allowed_browser_origin config)
         \<and> (\<exists>token cookie. header_text (rq_headers request) CSRF_HEADER = Some token
              \<and> (cookie_value (rq_headers request) (lit ''__Host-csrf'')
                   :: 'e http_boundary_error + rstr option) = Inr (Some cookie)
              \<and> 32 \<le> str_len token \<and> str_bytes token = str_bytes cookie))"
proof -
  from assms obtain rid credential where
    cred: "(credential_of (rq_headers request) (ti_allow_development_session_cookie config)
       :: 'e http_boundary_error + _) = Inr credential"
    and csrf: "(if requires_csrf (rq_method request) \<and> policy \<in> {PublicForm, SessionMutation}
         \<and> \<not> (case credential of Some (Bearer _) \<Rightarrow> True | _ \<Rightarrow> False)
      then validate_csrf (rq_headers request) (ti_allowed_browser_origin config)
      else (Inr () :: 'e http_boundary_error + unit)) = Inr ()"
    and rest: "authenticate_with authenticator now policy rid credential = Inr None"
    by (auto simp: authenticate_request_def rbind_Inr_iff)
  from rest have none: "credential = None" and policy: "policy \<in> {Public, PublicForm, Optional}"
    by (auto simp: authenticate_with_def rbind_Inr_iff split: option.splits if_splits)
  have "policy = PublicForm \<and> requires_csrf (rq_method request) \<longrightarrow>
      validate_csrf (rq_headers request) (ti_allowed_browser_origin config)
        = (Inr () :: 'e http_boundary_error + unit)"
    using csrf none by auto
  from this [unfolded validate_csrf_Inr_iff] show ?thesis using cred none policy by blast
qed

theorem anonymous_only_on_open_routes_witness:
  "(credential_of (\<lambda>n. if n = REQUEST_ID_HEADER then [Some (lit ''r'')] else []) False
      :: unit http_boundary_error + credential option) = Inr None"
proof -
  let ?request = "\<lparr>rq_method = lit ''GET'',
    rq_headers = (\<lambda>n. if n = REQUEST_ID_HEADER then [Some (lit ''r'')] else [])\<rparr>"
  have "bounded_identifier_new (lit ''r'') = Inr (lit ''r'')" using sample_identifier by simp
  then have "authenticate_request sample_ingress (\<lambda>c. Inr sample_session :: unit + _) 10 ?request Optional = Inr None"
    by (simp add: authenticate_request_def validate_content_length_def request_id_of_def credential_of_def
        cookie_value_def header_name_defs authenticate_with_def)
  from anonymous_only_on_open_routes [OF this] show ?thesis by (simp add: sample_ingress_def)
qed

subsection \<open>CORS\<close>

text \<open>
  C31: CORS grants exactly what is configured. With a configuration that \<open>CorsConfig::new\<close> accepted, a
  response is marked only for a request whose \<open>Origin\<close> is one of the configured origins, and the mark is
  that origin, never the wildcard; credentials are allowed only if the configuration says so, no other
  header is touched, and any other response is left as it was. A preflight that succeeds names such an
  origin, the requested method, which is configured, and in \<open>Access-Control-Allow-Headers\<close> the requested
  headers in order, all of them configured, or no such header when none is requested; besides \<open>Vary\<close> and the
  configured permission for credentials it has no other header.
\<close>

theorem cors_grants_exact_origins:
  assumes "cors_new env origins methods headers credentials = Inr cors"
  shows "(case cors_apply env cors request response of
      (True, response') \<Rightarrow> (\<exists>origin \<in> set origins. header_text request ORIGIN = Some origin \<and> origin \<noteq> lit ''*''
        \<and> rs_status response' = rs_status response
        \<and> rs_headers response' = (rs_headers response)(ACCESS_CONTROL_ALLOW_ORIGIN := [Some origin], VARY := [Some (lit ''Origin'')],
            ACCESS_CONTROL_ALLOW_CREDENTIALS := (if credentials then [Some (lit ''true'')]
              else rs_headers response ACCESS_CONTROL_ALLOW_CREDENTIALS)))
    | (False, response') \<Rightarrow> response' = response)
   \<and> (\<forall>response'. cors_preflight env cors request = Inr response' \<longrightarrow>
        rs_status response' = 204
        \<and> (\<exists>origin \<in> set origins. \<exists>asked. header_text request ORIGIN = Some origin \<and> origin \<noteq> lit ''*''
             \<and> header_text request ACCESS_CONTROL_REQUEST_METHOD = Some asked
             \<and> to_ascii_uppercase asked \<in> set (map to_ascii_uppercase methods)
             \<and> fset (requested_header_set request) \<subseteq> set (map to_ascii_lowercase headers)
             \<and> rs_headers response' = (\<lambda>_. [])(ACCESS_CONTROL_ALLOW_ORIGIN := [Some origin],
                 ACCESS_CONTROL_ALLOW_METHODS := [Some (to_ascii_uppercase asked)],
                 ACCESS_CONTROL_ALLOW_HEADERS := (if requested_header_set request = {||} then []
                   else [Some (str_join (lit '', '') (sorted_list_of_fset (requested_header_set request)))]),
                 VARY := [Some (lit ''Origin'')],
                 ACCESS_CONTROL_ALLOW_CREDENTIALS := (if credentials then [Some (lit ''true'')] else []))))"
proof -
  from assms have cors: "cc_allowed_origins cors = fset_of_list origins"
    "cc_allowed_methods cors = fset_of_list (map to_ascii_uppercase methods)"
    "cc_allowed_headers cors = fset_of_list (map to_ascii_lowercase headers)" "cc_allow_credentials cors = credentials"
    by (auto simp: cors_new_def Let_def split: if_splits)
  from assms have "\<not> fBex (fset_of_list origins) origin_malformed"
    by (auto simp: cors_new_def Let_def split: if_splits)
  then have star: "origin \<noteq> lit ''*''" if "origin \<in> set origins" for origin
    using that by (auto simp: origin_malformed_def fset_of_list_elem)
  note names = header_insert_def header_name_defs
  show ?thesis
  proof (intro conjI allI impI)
    show "case cors_apply env cors request response of
      (True, response') \<Rightarrow> (\<exists>origin \<in> set origins. header_text request ORIGIN = Some origin \<and> origin \<noteq> lit ''*''
        \<and> rs_status response' = rs_status response
        \<and> rs_headers response' = (rs_headers response)(ACCESS_CONTROL_ALLOW_ORIGIN := [Some origin], VARY := [Some (lit ''Origin'')],
            ACCESS_CONTROL_ALLOW_CREDENTIALS := (if credentials then [Some (lit ''true'')]
              else rs_headers response ACCESS_CONTROL_ALLOW_CREDENTIALS)))
    | (False, response') \<Rightarrow> response' = response"
      using star
      by (auto simp: cors_apply_def Let_def cors fset_of_list_elem names fun_eq_iff split: option.splits simp del: lit_Cons lit_Nil)
  next
    fix response' assume ok: "cors_preflight env cors request = Inr response'"
    then show "rs_status response' = 204"
      by (auto simp: cors_preflight_def Let_def split: option.splits if_splits)
    from ok star show "\<exists>origin \<in> set origins. \<exists>asked. header_text request ORIGIN = Some origin \<and> origin \<noteq> lit ''*''
             \<and> header_text request ACCESS_CONTROL_REQUEST_METHOD = Some asked
             \<and> to_ascii_uppercase asked \<in> set (map to_ascii_uppercase methods)
             \<and> fset (requested_header_set request) \<subseteq> set (map to_ascii_lowercase headers)
             \<and> rs_headers response' = (\<lambda>_. [])(ACCESS_CONTROL_ALLOW_ORIGIN := [Some origin],
                 ACCESS_CONTROL_ALLOW_METHODS := [Some (to_ascii_uppercase asked)],
                 ACCESS_CONTROL_ALLOW_HEADERS := (if requested_header_set request = {||} then []
                   else [Some (str_join (lit '', '') (sorted_list_of_fset (requested_header_set request)))]),
                 VARY := [Some (lit ''Origin'')],
                 ACCESS_CONTROL_ALLOW_CREDENTIALS := (if credentials then [Some (lit ''true'')] else []))"
      by (auto simp: cors_preflight_def Let_def cors fset_of_list_elem names less_eq_fset.rep_eq fset_of_list.rep_eq fun_eq_iff
          split: option.splits if_splits simp del: lit_Cons lit_Nil)
  qed
qed

definition sample_http_env :: http_env where
  "sample_http_env = \<lparr>header_value_ok = (\<lambda>_. True), header_name_ok = (\<lambda>_. True), method_ok = (\<lambda>_. True)\<rparr>"

definition sample_cors :: cors_config where
  "sample_cors = \<lparr>cc_allowed_origins = {|lit ''https://a''|}, cc_allowed_methods = {|lit ''GET''|},
     cc_allowed_headers = {||}, cc_allow_credentials = False\<rparr>"

theorem cors_grants_exact_origins_witness:
  "rs_headers (snd (cors_apply sample_http_env sample_cors ((\<lambda>_. [])(ORIGIN := [Some (lit ''https://a'')]))
     \<lparr>rs_status = 200, rs_headers = (\<lambda>_. [])\<rparr>)) ACCESS_CONTROL_ALLOW_ORIGIN = [Some (lit ''https://a'')]"
proof -
  have "cors_new sample_http_env [lit ''https://a''] [lit ''get''] [] False = Inr sample_cors"
    by (simp add: cors_new_def sample_cors_def sample_http_env_def origin_malformed_def is_control_def
        starts_with_def ascii_upper_def)
  note cors_grants_exact_origins [OF this, THEN conjunct1,
      of "(\<lambda>_. [])(ORIGIN := [Some (lit ''https://a'')])" "\<lparr>rs_status = 200, rs_headers = (\<lambda>_. [])\<rparr>"]
  moreover have "fst (cors_apply sample_http_env sample_cors ((\<lambda>_. [])(ORIGIN := [Some (lit ''https://a'')]))
      \<lparr>rs_status = 200, rs_headers = (\<lambda>_. [])\<rparr>)"
    by (simp add: cors_apply_def header_text_def sample_cors_def sample_http_env_def Let_def)
  ultimately show ?thesis by (auto simp: header_text_def header_name_defs split: prod.splits bool.splits)
qed

subsection \<open>Headers across the boundary\<close>

lemma strip_untrusted_auth_metadata_eq:
  "strip_untrusted_auth_metadata headers =
     headers(AUTH_CONTEXT_HEADER := [], LEGACY_SESSION_HEADER := [], LEGACY_ADMIN_HEADER := [])"
  by (simp add: strip_untrusted_auth_metadata_def header_remove_def)

end
