(* ===== verification/Token_Cache.thy ===== *)
theory Token_Cache
  imports Http_Boundary Access_Tokens
begin

section \<open>The native authenticator and its token cache\<close>

text \<open>
  Models \<open>NativeAuthenticator\<close> of \<open>src/services/trusted-ingress/src/main.rs\<close>: the least-recently-used
  cache of verified access tokens, authentication of a bearer token or of a session cookie, and the
  sessions made from either. Everything one call observes of its surroundings (the two readings of the
  invalidation epoch, the clock, the database at the time of its query, the fresh identifier) is the
  record \<open>auth_moment\<close>. The mutex of the cache is never poisoned: no code that holds it can panic.
\<close>

record cached_token =
  ct_key :: bytes
  ct_verified :: verified_access_token
  ct_epoch :: invalidation_epoch
  ct_validated_at_ms :: u64

type_synonym token_cache = "cached_token list"

datatype native_authentication_error =
  NativeToken "pg_error token_service_error" | NativeStore "pg_error postgres_store_error"
| InvalidCredential | NativeInvalidContext

fun is_credential_rejection :: "native_authentication_error \<Rightarrow> bool" where
  "is_credential_rejection (NativeToken e) \<longleftrightarrow> e \<in> {InvalidSession, TokenInvalid, ExpiredToken, ReuseDetected}"
| "is_credential_rejection (NativeStore e) \<longleftrightarrow> e = Unauthenticated"
| "is_credential_rejection InvalidCredential \<longleftrightarrow> True"
| "is_credential_rejection NativeInvalidContext \<longleftrightarrow> False"

record native_authenticator =
  na_verifier :: access_token_verifier
  na_token_cache_capacity :: nat
  na_cache_revalidate_ms :: u64

record native_env =
  ne_jwt :: jwt_env
  ne_parse_uuid :: "rstr \<Rightarrow> rstr option"
  ne_uuid_ok :: "rstr \<Rightarrow> bool"
  ne_sha256 :: "bytes \<Rightarrow> bytes"

record auth_moment =
  am_epoch_before :: "invalidation_epoch option"
  am_epoch_after :: "invalidation_epoch option"
  am_lookup_now :: u64
  am_lookup_now_ms :: u64
  am_cached_now :: u64
  am_db :: kernel_db
  am_load_now :: u64
  am_stored_at_ms :: u64
  am_uuid :: rstr

subsection \<open>Cache operations\<close>

definition cache_key :: "native_env \<Rightarrow> rstr \<Rightarrow> bytes" where
  "cache_key env token = ne_sha256 env (str_bytes token)"

text \<open>\<open>iter().position(...)\<close> followed by \<open>remove(index)\<close>.\<close>

fun remove_entry :: "bytes \<Rightarrow> token_cache \<Rightarrow> token_cache" where
  "remove_entry key [] = []"
| "remove_entry key (entry # cache) =
     (if ct_key entry = key then cache else entry # remove_entry key cache)"

definition cached_token_of ::
  "native_env \<Rightarrow> native_authenticator \<Rightarrow> auth_moment \<Rightarrow> rstr \<Rightarrow> token_cache \<Rightarrow> cached_token option \<times> token_cache" where
  "cached_token_of env self moment token cache =
     (let key = cache_key env token in
      case List.find (\<lambda>candidate. ct_key candidate = key) cache of
        None \<Rightarrow> (None, cache)
      | Some entry \<Rightarrow>
        (let rest = remove_entry key cache in
         if vt_expires_at_seconds (ct_verified entry) \<le> am_lookup_now moment
            \<or> saturating_sub (am_lookup_now_ms moment) (ct_validated_at_ms entry) > na_cache_revalidate_ms self
         then (None, rest)
         else (Some entry, rest @ [entry])))"

text \<open>\<open>while cache.len() > capacity { cache.pop_front(); }\<close>\<close>

function evict :: "nat \<Rightarrow> token_cache \<Rightarrow> token_cache" where
  "evict capacity cache = (if length cache > capacity then evict capacity (tl cache) else cache)"
  by pat_completeness auto
termination
  by (relation "measure (\<lambda>(_, cache). length cache)") auto

declare evict.simps [simp del]

definition cache_token ::
  "native_env \<Rightarrow> native_authenticator \<Rightarrow> auth_moment \<Rightarrow> rstr \<Rightarrow> verified_access_token \<Rightarrow> invalidation_epoch \<Rightarrow>
   token_cache \<Rightarrow> token_cache" where
  "cache_token env self moment token verified epoch cache =
     (let key = cache_key env token in
      evict (na_token_cache_capacity self)
        (remove_entry key cache
         @ [\<lparr>ct_key = key, ct_verified = verified, ct_epoch = epoch,
             ct_validated_at_ms = am_stored_at_ms moment\<rparr>]))"

definition remove_cached_token :: "native_env \<Rightarrow> rstr \<Rightarrow> token_cache \<Rightarrow> token_cache" where
  "remove_cached_token env token cache = remove_entry (cache_key env token) cache"

subsection \<open>Sessions\<close>

definition token_assurance :: "rstr \<Rightarrow> native_authentication_error + authentication_assurance" where
  "token_assurance label =
     (if label = lit ''aal1'' then Inr Aal1
      else if label = lit ''aal2'' then Inr Aal2 else Inl NativeInvalidContext)"

definition authenticated_session_from_token ::
  "verified_access_token \<Rightarrow> native_authentication_error + authenticated_session" where
  "authenticated_session_from_token verified =
     rbind (map_err (\<lambda>_. NativeInvalidContext) (opt_try bounded_identifier_new (vt_policy_revision verified)))
       (\<lambda>policy_revision.
     rbind (map_err (\<lambda>_. NativeInvalidContext) (bounded_identifier_new (vt_user_id verified))) (\<lambda>user_id.
     rbind (map_err (\<lambda>_. NativeInvalidContext)
       (principal_new user_id (lit ''wasi-auth'') (vt_system_administrator verified))) (\<lambda>principal.
     rbind (map_err (\<lambda>_. NativeInvalidContext) (opt_try bounded_identifier_new (vt_organization_id verified)))
       (\<lambda>organization_id.
     rbind (map_err (\<lambda>_. NativeInvalidContext) (bounded_identifier_new (vt_session_id verified))) (\<lambda>session_id.
     rbind (token_assurance (vt_assurance verified)) (\<lambda>assurance.
     rbind (map_err (\<lambda>_. NativeInvalidContext) (try_map bounded_identifier_new (vt_role_ids verified))) (\<lambda>roles.
     rbind (map_err (\<lambda>_. NativeInvalidContext)
       (snapshot_new (vt_permissions verified) roles policy_revision None)) (\<lambda>authorization.
       Inr \<lparr>ses_principal = principal, ses_organization_id = organization_id, ses_session_id = session_id,
            ses_assurance = assurance, ses_issued_at = vt_issued_at_seconds verified,
            ses_expires_at = vt_expires_at_seconds verified, ses_decision_id = None,
            ses_policy_revision = policy_revision, ses_authorization = authorization\<rparr>))))))))"

definition authenticated_session_from_context ::
  "verified_request_context \<Rightarrow> native_authentication_error + authenticated_session" where
  "authenticated_session_from_context ctx = Inr
     \<lparr>ses_principal = vac_principal (vrc_auth ctx), ses_organization_id = vac_organization_id (vrc_auth ctx),
      ses_session_id = vac_session_id (vrc_auth ctx), ses_assurance = vac_assurance (vrc_auth ctx),
      ses_issued_at = vac_issued_at (vrc_auth ctx), ses_expires_at = vac_expires_at (vrc_auth ctx),
      ses_decision_id = vac_decision_id (vrc_auth ctx),
      ses_policy_revision = vac_policy_revision (vrc_auth ctx), ses_authorization = vrc_authorization ctx\<rparr>"

subsection \<open>Authentication\<close>

definition ingress_request_id :: "rstr \<Rightarrow> native_authentication_error + request_id" where
  "ingress_request_id uuid =
     map_err (\<lambda>_. NativeInvalidContext) (bounded_identifier_new (lit ''ingress-'' @ uuid))"

text \<open>The second half of the bearer case: the full verification and the store into the cache.\<close>

definition authenticate_uncached ::
  "native_env \<Rightarrow> native_authenticator \<Rightarrow> auth_moment \<Rightarrow> rstr \<Rightarrow> token_cache \<Rightarrow>
   (native_authentication_error + authenticated_session) \<times> token_cache" where
  "authenticate_uncached env self moment token cache =
     (case rbind (ingress_request_id (am_uuid moment)) (\<lambda>rid.
        map_err NativeToken (verifier_verify (ne_jwt env) (ne_parse_uuid env) (na_verifier self)
          (am_db moment, am_load_now moment) token rid)) of
        Inl e \<Rightarrow> (Inl e, cache)
      | Inr verified \<Rightarrow>
        (authenticated_session_from_token verified,
         case (am_epoch_before moment, am_epoch_after moment) of
           (Some before, Some after) \<Rightarrow>
             if before = after then cache_token env self moment token verified after cache else cache
         | _ \<Rightarrow> cache))"

definition authenticate_bearer ::
  "native_env \<Rightarrow> native_authenticator \<Rightarrow> auth_moment \<Rightarrow> rstr \<Rightarrow> token_cache \<Rightarrow>
   (native_authentication_error + authenticated_session) \<times> token_cache" where
  "authenticate_bearer env self moment token cache =
     (case (cached_token_of env self moment token cache, am_epoch_before moment) of
        ((Some cached, cache'), Some epoch) \<Rightarrow>
          (case verify_invalidation_cached (ne_jwt env) (na_verifier self) (am_cached_now moment) token
                  (ct_verified cached) (ct_epoch cached) epoch of
             Inr (Some verified) \<Rightarrow> (authenticated_session_from_token verified, cache')
           | Inr None \<Rightarrow> authenticate_uncached env self moment token cache'
           | Inl e \<Rightarrow> (Inl (NativeToken e), remove_cached_token env token cache'))
      | ((_, cache'), _) \<Rightarrow> authenticate_uncached env self moment token cache')"

definition authenticate_cookie ::
  "native_env \<Rightarrow> auth_moment \<Rightarrow> rstr \<Rightarrow> native_authentication_error + authenticated_session" where
  "authenticate_cookie env moment text =
     rbind (ensure (ne_uuid_ok env text) InvalidCredential) (\<lambda>_.
     rbind (map_err (\<lambda>_. InvalidCredential) (bounded_identifier_new text)) (\<lambda>session_id.
     rbind (ingress_request_id (am_uuid moment)) (\<lambda>rid.
     rbind (map_err NativeStore (load_verified_session (ne_parse_uuid env) (am_db moment) session_id rid
       (am_load_now moment))) (\<lambda>verified.
       authenticated_session_from_context (vs_context verified)))))"

definition native_authenticate ::
  "native_env \<Rightarrow> native_authenticator \<Rightarrow> auth_moment \<Rightarrow> credential \<Rightarrow> token_cache \<Rightarrow>
   (native_authentication_error + authenticated_session) \<times> token_cache" where
  "native_authenticate env self moment credential cache =
     (case credential of
        Bearer token \<Rightarrow> authenticate_bearer env self moment token cache
      | SessionCookie text \<Rightarrow> (authenticate_cookie env moment text, cache))"

subsection \<open>The shape of the cache\<close>

lemma set_remove_entry: "set (remove_entry key cache) \<subseteq> set cache"
  by (induction cache) auto

lemma length_remove_entry: "length (remove_entry key cache) \<le> length cache"
  by (induction cache) auto

lemma remove_entry_absent:
  "distinct (map ct_key cache) \<Longrightarrow> key \<notin> ct_key ` set (remove_entry key cache)"
  by (induction cache) auto

lemma distinct_remove_entry:
  "distinct (map ct_key cache) \<Longrightarrow> distinct (map ct_key (remove_entry key cache))"
proof (induction cache)
  case (Cons entry cache)
  then show ?case using set_remove_entry [of key cache] by (auto simp: image_iff)
qed simp

lemma remove_entry_found:
  "List.find (\<lambda>candidate. ct_key candidate = key) cache = Some entry \<Longrightarrow>
     ct_key entry = key \<and> entry \<in> set cache \<and> Suc (length (remove_entry key cache)) = length cache"
  by (induction cache) (auto split: if_splits)

lemma evict_eq: "evict capacity cache = drop (length cache - capacity) cache"
proof (induction capacity cache rule: evict.induct)
  case (1 capacity cache)
  then show ?case
    by (subst evict.simps) (cases cache; auto simp: Suc_diff_le)
qed

definition wf_cache :: "native_authenticator \<Rightarrow> token_cache \<Rightarrow> bool" where
  "wf_cache self cache \<longleftrightarrow> distinct (map ct_key cache) \<and> length cache \<le> na_token_cache_capacity self"

lemma wf_cache_lookup:
  assumes "wf_cache self cache" "cached_token_of env self moment token cache = (found, cache')"
  shows "wf_cache self cache' \<and> set cache' \<subseteq> set cache \<and> (\<forall>entry. found = Some entry \<longrightarrow> entry \<in> set cache
    \<and> ct_key entry = cache_key env token \<and> am_lookup_now moment < vt_expires_at_seconds (ct_verified entry)
    \<and> saturating_sub (am_lookup_now_ms moment) (ct_validated_at_ms entry) \<le> na_cache_revalidate_ms self)"
proof (cases "List.find (\<lambda>candidate. ct_key candidate = cache_key env token) cache")
  case None
  with assms show ?thesis by (auto simp: cached_token_of_def Let_def)
next
  case (Some entry)
  from remove_entry_found [OF Some] have found: "ct_key entry = cache_key env token" "entry \<in> set cache"
    "Suc (length (remove_entry (cache_key env token) cache)) = length cache" by simp_all
  have "cache_key env token \<notin> ct_key ` set (remove_entry (cache_key env token) cache)"
    using assms(1) by (simp add: wf_cache_def remove_entry_absent)
  with assms Some found show ?thesis
    using distinct_remove_entry [of cache "cache_key env token"] set_remove_entry [of "cache_key env token" cache]
    by (auto simp: cached_token_of_def Let_def wf_cache_def image_iff not_le not_less split: if_splits)
qed

lemma wf_cache_remove: "wf_cache self cache \<Longrightarrow> wf_cache self (remove_entry key cache)"
  using length_remove_entry [of key cache] by (auto simp: wf_cache_def distinct_remove_entry)

lemma wf_cache_store:
  "wf_cache self cache \<Longrightarrow> wf_cache self (cache_token env self moment token verified epoch cache)"
  using remove_entry_absent [of cache "cache_key env token"] distinct_remove_entry [of cache "cache_key env token"]
  by (auto simp: wf_cache_def cache_token_def Let_def evict_eq drop_map [symmetric] image_iff
      simp del: drop_append)

subsection \<open>The tables an epoch stands for\<close>

text \<open>
  The tables with a trigger of \<open>0009_context_invalidation.sql\<close>: a commit that changes one of them
  announces a new epoch. They are all a session load reads.
\<close>

definition context_tables :: "kernel_db \<Rightarrow> (rstr, user_row) fmap \<times> (rstr, session_row) fmap
    \<times> (rstr, organization_row) fmap \<times> (rstr \<times> rstr, membership_row) fmap \<times> (rstr \<times> rstr \<times> rstr) fset
    \<times> (rstr, rstr) fmap \<times> (rstr, int option) fmap \<times> (rstr, rstr) fmap" where
  "context_tables db = (db_users db, db_sessions db, db_organizations db, db_memberships db,
     db_role_permissions db, db_policy_bundles db, db_system_administrators db, db_signing_keys db)"

lemma context_tables_load:
  assumes "context_tables db = context_tables db'"
  shows "load_request_context_sql parse_uuid db = load_request_context_sql parse_uuid db'"
proof -
  have join: "session_join db sid = session_join db' sid" for sid
    using assms by (simp add: context_tables_def session_join_def cong: option.case_cong)
  have "role_permissions db = role_permissions db'" "active_policy_revision db = active_policy_revision db'"
    "is_system_administrator db = is_system_administrator db'" "signing_key_usable db = signing_key_usable db'"
    using assms
    by (simp_all add: context_tables_def role_permissions_def active_policy_revision_def fun_eq_iff
        is_system_administrator_def signing_key_usable_def cong: option.case_cong)
  then have "request_context_row db = request_context_row db'" "signing_key_usable db = signing_key_usable db'"
    by (simp_all add: request_context_row_def fun_eq_iff split: prod.split)
  with join show ?thesis
    by (intro ext) (simp add: load_request_context_sql_def cong: option.case_cong if_cong)
qed

lemma context_tables_load_decoded:
  assumes "context_tables db = context_tables db'"
  shows "load_decoded parse_uuid (db, now) decoded rid = load_decoded parse_uuid (db', now) decoded rid"
  using context_tables_load [OF assms, of parse_uuid]
  by (simp add: load_decoded_def load_verified_session_for_token_def load_verified_session_with_signing_key_def)

lemma context_tables_verify:
  assumes "context_tables db = context_tables db'"
  shows "verifier_verify env parse_uuid self (db, now) token rid = verifier_verify env parse_uuid self (db', now) token rid"
  using context_tables_load_decoded [OF assms] by (simp add: verifier_verify_def verify_access_token_def)

text \<open>
  What the tracker promises: when both readings of a call are the epoch \<open>e\<close>, its query between them saw
  the tables \<open>tables e\<close> of that epoch.
\<close>

definition epoch_honest :: "(invalidation_epoch \<Rightarrow> kernel_db) \<Rightarrow> auth_moment \<Rightarrow> bool" where
  "epoch_honest tables moment \<longleftrightarrow>
     (\<forall>e. am_epoch_before moment = Some e \<longrightarrow> am_epoch_after moment = Some e \<longrightarrow>
        context_tables (am_db moment) = context_tables (tables e))"

inductive cache_step ::
  "native_env \<Rightarrow> native_authenticator \<Rightarrow> (invalidation_epoch \<Rightarrow> kernel_db) \<Rightarrow> token_cache \<Rightarrow> token_cache \<Rightarrow> bool"
  for env self tables where
  "epoch_honest tables moment \<Longrightarrow>
   cache_step env self tables cache (snd (native_authenticate env self moment credential cache))"

inductive_cases cache_stepE: "cache_step env self tables cache cache'"

text \<open>Where an entry came from: a full verification of a token with its key, at its epoch.\<close>

definition justified ::
  "native_env \<Rightarrow> native_authenticator \<Rightarrow> (invalidation_epoch \<Rightarrow> kernel_db) \<Rightarrow> cached_token \<Rightarrow> bool" where
  "justified env self tables entry \<longleftrightarrow>
     (\<exists>token now rid. cache_key env token = ct_key entry
        \<and> verifier_verify (ne_jwt env) (ne_parse_uuid env) (na_verifier self) (tables (ct_epoch entry), now) token rid
            = Inr (ct_verified entry))"

definition sound_cache ::
  "native_env \<Rightarrow> native_authenticator \<Rightarrow> (invalidation_epoch \<Rightarrow> kernel_db) \<Rightarrow> token_cache \<Rightarrow> bool" where
  "sound_cache env self tables cache \<longleftrightarrow>
     wf_cache self cache \<and> (\<forall>entry \<in> set cache. justified env self tables entry)"

lemma sound_cache_subset:
  "sound_cache env self tables cache \<Longrightarrow> wf_cache self cache' \<Longrightarrow> set cache' \<subseteq> set cache \<Longrightarrow>
     sound_cache env self tables cache'"
  by (auto simp: sound_cache_def)

lemma sound_cache_lookup:
  "sound_cache env self tables cache \<Longrightarrow> cached_token_of env self moment token cache = (found, cache') \<Longrightarrow>
     sound_cache env self tables cache'"
  using wf_cache_lookup by (metis sound_cache_def subsetD)

lemma sound_cache_store:
  assumes "sound_cache env self tables cache" "context_tables (am_db moment) = context_tables (tables e)"
    and "verifier_verify (ne_jwt env) (ne_parse_uuid env) (na_verifier self) (am_db moment, am_load_now moment)
      token rid = Inr verified"
  shows "sound_cache env self tables (cache_token env self moment token verified e cache)"
proof -
  have "justified env self tables \<lparr>ct_key = cache_key env token, ct_verified = verified, ct_epoch = e,
      ct_validated_at_ms = am_stored_at_ms moment\<rparr>"
    using assms(3) context_tables_verify [OF assms(2)] by (auto simp: justified_def)
  moreover have "set (cache_token env self moment token verified e cache) \<subseteq> insert
      \<lparr>ct_key = cache_key env token, ct_verified = verified, ct_epoch = e,
       ct_validated_at_ms = am_stored_at_ms moment\<rparr> (set cache)"
    using set_remove_entry [of "cache_key env token" cache]
    by (auto simp: cache_token_def Let_def evict_eq simp del: drop_append dest!: in_set_dropD)
  ultimately show ?thesis
    using assms(1) wf_cache_store by (auto simp: sound_cache_def)
qed

lemma sound_cache_uncached:
  assumes "sound_cache env self tables cache" "epoch_honest tables moment"
  shows "sound_cache env self tables (snd (authenticate_uncached env self moment token cache))"
  using assms sound_cache_store [OF assms(1)]
  by (auto simp: authenticate_uncached_def epoch_honest_def result_simps
      split: sum.splits option.splits)

lemma sound_cache_bearer:
  assumes "sound_cache env self tables cache" "epoch_honest tables moment"
  shows "sound_cache env self tables (snd (authenticate_bearer env self moment token cache))"
proof -
  obtain found cache' where found: "cached_token_of env self moment token cache = (found, cache')" by fastforce
  note sound = sound_cache_lookup [OF assms(1) this]
  have "sound_cache env self tables (remove_cached_token env token cache')"
    using sound set_remove_entry wf_cache_remove
    by (metis remove_cached_token_def sound_cache_def sound_cache_subset)
  with sound sound_cache_uncached [OF sound assms(2)] found show ?thesis
    by (auto simp: authenticate_bearer_def split: option.splits sum.splits)
qed

lemma cache_step_sound:
  assumes "cache_step env self tables cache cache'" "sound_cache env self tables cache"
  shows "sound_cache env self tables cache'"
  using assms sound_cache_bearer
  by (auto elim!: cache_stepE simp: native_authenticate_def split: credential.split)

interpretation token_cache: step_invariant "cache_step env self tables" "sound_cache env self tables"
  for env self tables
  by unfold_locales (rule cache_step_sound)

text \<open>Two verifications of one session against the same tables agree on everything but the claim times.\<close>

lemma same_tables_same_token:
  assumes cached: "load_decoded parse_uuid (db, now0) decoded0 rid0 = Inr cached"
    and fresh: "load_decoded parse_uuid (db, now) decoded rid = Inr verified"
    and session: "vt_session_id cached = dt_session_id decoded"
  shows "with_claim_times cached (dt_claims decoded) = verified"
proof -
  from cached obtain sid0 s0 u0 o0 m0 where
      0: "parse_uuid (dt_session_id decoded0) = Some sid0" "session_join db sid0 = Some (s0, u0, o0, m0)"
        "authorization_fingerprint_of (request_context_row db sid0 (s0, u0, o0, m0)) = Inr (vt_fingerprint cached)"
        "cached = token_of_facts db sid0 (s0, u0, o0, m0) (dt_claims decoded0) (dt_session_id decoded0)
          (vt_fingerprint cached)" by (rule load_decoded_facts)
  from fresh obtain sid s u o' m where
      1: "parse_uuid (dt_session_id decoded) = Some sid" "session_join db sid = Some (s, u, o', m)"
        "authorization_fingerprint_of (request_context_row db sid (s, u, o', m)) = Inr (vt_fingerprint verified)"
      by (rule load_decoded_facts)
  have "dt_session_id decoded0 = dt_session_id decoded"
    using arg_cong [OF 0(4), of vt_session_id] session by (simp add: token_of_facts_def)
  with 0(1-3) 1 have "vt_fingerprint cached = vt_fingerprint verified" by simp
  then show ?thesis
    by (intro same_fingerprint_same_token [OF _ cached fresh _ session]) (auto simp: same_revision_same_permissions_def)
qed

lemma verifier_verify_Inr_iff:
  "verifier_verify env parse_uuid self at_load token rid = Inr verified \<longleftrightarrow>
     (\<exists>decoded. decode_verified_access_token env token (tv_keys self) (tv_issuer self) (tv_audience self) = Inr decoded
        \<and> load_decoded parse_uuid at_load decoded rid = Inr verified)"
  by (auto simp: verifier_verify_def verify_access_token_def result_simps)

lemma verify_invalidation_cached_Some:
  "verify_invalidation_cached env self now token cached cached_epoch epoch = Inr (Some verified) \<longleftrightarrow>
     cached_epoch = epoch
     \<and> (\<exists>decoded. decode_verified_access_token env token (tv_keys self) (tv_issuer self) (tv_audience self) = Inr decoded
          \<and> now < cl_exp (dt_claims decoded) \<and> matches_claims cached decoded
          \<and> verified = with_claim_times cached (dt_claims decoded))"
  by (auto simp: verify_invalidation_cached_def result_simps not_le)

text \<open>Every verified token makes a session.\<close>

lemma session_of_verified_token:
  assumes "verifier_verify env parse_uuid self at_load token rid = Inr verified" "valid_identifier rid"
  shows "\<exists>session. authenticated_session_from_token verified = Inr session"
proof -
  obtain db now where at_load: "at_load = (db, now)" by (cases at_load)
  from assms(1) obtain decoded where decode:
      "decode_verified_access_token env token (tv_keys self) (tv_issuer self) (tv_audience self) = Inr decoded"
      and load: "load_decoded parse_uuid (db, now) decoded rid = Inr verified"
    unfolding at_load by (auto simp: verifier_verify_Inr_iff)
  from load obtain session where
      loaded: "load_verified_session_for_token parse_uuid db (dt_session_id decoded) rid now (dt_kid decoded) = Inr session"
      and verified: "verified_access_token_of (dt_claims decoded) (dt_session_id decoded) session
        = (Inr verified :: pg_error token_service_error + verified_access_token)" by (rule load_decoded_Inr)
  from loaded have "load_verified_session_with_signing_key parse_uuid db (dt_session_id decoded) rid now
      (dt_kid decoded) = Inr session" by (auto simp: load_verified_session_for_token_def result_simps)
  then have wf: "wf_request_context (vs_context session)"
    by (rule load_verified_session_Inr) (auto intro: verified_session_of_Inr(4) assms(2))
  obtain assurance where label: "token_assurance (vt_assurance verified) = Inr assurance"
    using verified
    by (cases "vac_assurance (vrc_auth (vs_context session))")
      (simp_all add: verified_access_token_of_Inr_iff token_assurance_def assurance_text_def)
  have "valid_identifier (dt_session_id decoded)"
    using decode by (rule decode_verified_access_token_Inr)
  moreover have "valid_text 512 (lit ''wasi-auth'')" by (simp add: valid_text_def is_control_def)
  ultimately show ?thesis
    using wf verified label
    by (auto simp: authenticated_session_from_token_def verified_access_token_of_Inr_iff wf_context_defs
        permissions_def role_ids_def list_all_iff principal_new_Inr_iff snapshot_new_Inr_iff
        try_map_identifier_Inr_iff opt_try_identifier_Inr_iff result_simps simp del: lit_Cons lit_Nil)
qed

subsection \<open>Properties\<close>

definition sample_native_env :: native_env where
  "sample_native_env = \<lparr>ne_jwt = sample_jwt_env, ne_parse_uuid = Some, ne_uuid_ok = (\<lambda>_. True), ne_sha256 = id\<rparr>"

definition sample_authenticator :: native_authenticator where
  "sample_authenticator = \<lparr>na_verifier = sample_verifier, na_token_cache_capacity = 1, na_cache_revalidate_ms = 1000\<rparr>"

definition sample_moment :: auth_moment where
  "sample_moment = \<lparr>am_epoch_before = Some \<lparr>ie_tracker_id = 1, ie_generation = 0\<rparr>,
     am_epoch_after = Some \<lparr>ie_tracker_id = 1, ie_generation = 0\<rparr>, am_lookup_now = 2, am_lookup_now_ms = 2000,
     am_cached_now = 2, am_db = sample_db, am_load_now = 2, am_stored_at_ms = 2000, am_uuid = lit ''1''\<rparr>"

lemma matches_own_claims:
  assumes "load_decoded parse_uuid (db, now) decoded rid = Inr verified"
  shows "matches_claims verified decoded" "with_claim_times verified (dt_claims decoded) = verified"
    "vt_expires_at_seconds verified = cl_exp (dt_claims decoded)"
    "vt_issued_at_seconds verified = cl_iat (dt_claims decoded)"
  using assms
  by (auto elim!: load_decoded_Inr simp: verified_access_token_of_Inr_iff matches_claims_def with_claim_times_def)

lemma authenticate_hit:
  assumes "cached_token_of env self moment token cache = (Some entry, cache')" "am_epoch_before moment = Some e"
    and "verify_invalidation_cached (ne_jwt env) (na_verifier self) (am_cached_now moment) token
      (ct_verified entry) (ct_epoch entry) e = (Inr (Some verified) :: pg_error token_service_error + _)"
  shows "native_authenticate env self moment (Bearer token) cache = (authenticated_session_from_token verified, cache')"
  using assms by (simp add: native_authenticate_def authenticate_bearer_def)

text \<open>The first authentication of the sample token stores it, the second is served from the cache.\<close>

lemma sample_authentications:
  obtains session entry where
    "native_authenticate sample_native_env sample_authenticator sample_moment (Bearer (lit ''t'')) []
       = (Inr session, [entry])"
    "cached_token_of sample_native_env sample_authenticator sample_moment (lit ''t'') [entry] = (Some entry, [entry])"
    "native_authenticate sample_native_env sample_authenticator sample_moment (Bearer (lit ''t'')) [entry]
       = (Inr session, [entry])"
    "ses_issued_at session = 1" "ses_expires_at session = 8"
    "as_policy_revision (ses_authorization session) = ses_policy_revision session"
proof -
  have rid: "valid_identifier (lit ''ingress-1'')"
    by (simp add: valid_identifier_def is_control_def is_whitespace_def)
  obtain verified where v: "verifier_verify sample_jwt_env Some sample_verifier (sample_db, 2) (lit ''t'')
      (lit ''ingress-1'') = Inr verified" using sample_token_verifies by blast
  then obtain decoded where d: "decode_verified_access_token sample_jwt_env (lit ''t'') (tv_keys sample_verifier)
      (tv_issuer sample_verifier) (tv_audience sample_verifier) = Inr decoded"
    and l: "load_decoded Some (sample_db, 2) decoded (lit ''ingress-1'') = Inr verified"
    by (auto simp: verifier_verify_Inr_iff)
  from d have "dt_claims decoded = sample_claims"
    by (rule decode_verified_access_token_Inr) (simp add: sample_jwt_env_def)
  then have exp: "cl_exp (dt_claims decoded) = 8" "cl_iat (dt_claims decoded) = 1"
    by (simp_all add: sample_claims_def for_user_def)
  obtain session where s: "authenticated_session_from_token verified = Inr session"
    using session_of_verified_token [OF v rid] by blast
  let ?entry = "\<lparr>ct_key = str_bytes (lit ''t''), ct_verified = verified,
    ct_epoch = \<lparr>ie_tracker_id = 1, ie_generation = 0\<rparr>, ct_validated_at_ms = 2000\<rparr>"
  note samples = sample_native_env_def sample_authenticator_def sample_moment_def cache_key_def
  have append: "lit ''ingress-'' @ lit ''1'' = lit ''ingress-1''" by simp
  have first: "native_authenticate sample_native_env sample_authenticator sample_moment (Bearer (lit ''t'')) []
      = (Inr session, [?entry])"
    using v s rid
    by (simp add: native_authenticate_def authenticate_bearer_def cached_token_of_def authenticate_uncached_def
        ingress_request_id_def append cache_token_def evict_eq samples Let_def del: lit_Cons lit_Nil)
  have lookup: "cached_token_of sample_native_env sample_authenticator sample_moment (lit ''t'') [?entry]
      = (Some ?entry, [?entry])"
    using matches_own_claims(3) [OF l] exp
    by (simp add: cached_token_of_def samples Let_def saturating_sub_def del: lit_Cons lit_Nil)
  have "verify_invalidation_cached sample_jwt_env sample_verifier 2 (lit ''t'') verified e e
      = (Inr (Some verified) :: pg_error token_service_error + _)" for e
    using d exp matches_own_claims(1,2) [OF l] by (simp add: verify_invalidation_cached_Some)
  then have "native_authenticate sample_native_env sample_authenticator sample_moment (Bearer (lit ''t'')) [?entry]
      = (Inr session, [?entry])"
    using authenticate_hit [OF lookup, of "\<lparr>ie_tracker_id = 1, ie_generation = 0\<rparr>" verified] s
    by (simp add: sample_native_env_def sample_authenticator_def sample_moment_def del: lit_Cons lit_Nil)
  moreover have "ses_issued_at session = 1" "ses_expires_at session = 8"
    "as_policy_revision (ses_authorization session) = ses_policy_revision session"
    using s exp matches_own_claims(3,4) [OF l]
    by (auto simp: authenticated_session_from_token_def result_simps)
  ultimately show ?thesis using first lookup by (intro that) auto
qed

lemma sample_cache_reached:
  assumes "native_authenticate sample_native_env sample_authenticator sample_moment credential [] = (result, cache)"
  shows "(cache_step sample_native_env sample_authenticator (\<lambda>_. sample_db))\<^sup>*\<^sup>* [] cache"
proof -
  have "epoch_honest (\<lambda>_. sample_db) sample_moment" by (simp add: epoch_honest_def sample_moment_def)
  from cache_step.intros [OF this, of sample_native_env sample_authenticator "[]" credential] assms
  show ?thesis by auto
qed

text \<open>
  C28: the token cache stays bounded and never serves a stale entry. After any sequence of
  authentications that started with the empty cache it holds at most its capacity, one entry per key,
  and the loop that evicts always ends. A lookup returns an entry only for the key of the token asked
  for, only before the expiry of the token and only within the revalidation interval.
\<close>

theorem token_cache_bounded:
  assumes "(cache_step env self tables)\<^sup>*\<^sup>* [] cache"
    and "cached_token_of env self moment token cache = (found, cache')"
  shows "distinct (map ct_key cache) \<and> length cache \<le> na_token_cache_capacity self
    \<and> (\<forall>entry. found = Some entry \<longrightarrow> ct_key entry = cache_key env token
         \<and> am_lookup_now moment < vt_expires_at_seconds (ct_verified entry)
         \<and> saturating_sub (am_lookup_now_ms moment) (ct_validated_at_ms entry) \<le> na_cache_revalidate_ms self)"
proof -
  have "sound_cache env self tables []" by (simp add: sound_cache_def wf_cache_def)
  with assms(1) have "wf_cache self cache" using token_cache.steps_preserve sound_cache_def by blast
  with wf_cache_lookup [OF this assms(2)] show ?thesis by (auto simp: wf_cache_def)
qed

theorem token_cache_bounded_witness:
  "\<exists>entry. cached_token_of sample_native_env sample_authenticator sample_moment (lit ''t'') [entry] = (Some entry, [entry])
     \<and> am_lookup_now sample_moment < vt_expires_at_seconds (ct_verified entry)"
proof -
  obtain session entry where
      run: "native_authenticate sample_native_env sample_authenticator sample_moment (Bearer (lit ''t'')) []
        = (Inr session, [entry])"
      and lookup: "cached_token_of sample_native_env sample_authenticator sample_moment (lit ''t'') [entry]
        = (Some entry, [entry])" by (rule sample_authentications)
  from token_cache_bounded [OF sample_cache_reached [OF run] lookup] lookup show ?thesis by blast
qed

text \<open>
  C7: authentication from the cache is as good as a query. A bearer token is accepted only if its
  signature and claims verify now, and either the full verification against the database accepts it, or
  the invalidation epoch is one at which a token with the same hash was fully verified and the token is
  unexpired; the session returned is then the one a full verification of the presented token against the
  tables of that epoch returns, whenever that verification still accepts it.
\<close>

theorem cached_authentication_is_current:
  assumes "(cache_step env self tables)\<^sup>*\<^sup>* [] cache"
    and "native_authenticate env self moment (Bearer token) cache = (Inr session, cache')"
  shows "\<exists>decoded verified. authenticated_session_from_token verified = Inr session
    \<and> decode_verified_access_token (ne_jwt env) token (tv_keys (na_verifier self)) (tv_issuer (na_verifier self))
        (tv_audience (na_verifier self)) = Inr decoded
    \<and> ((\<exists>rid. verifier_verify (ne_jwt env) (ne_parse_uuid env) (na_verifier self)
            (am_db moment, am_load_now moment) token rid = Inr verified)
       \<or> (\<exists>e token0 now0 rid0 cached. am_epoch_before moment = Some e
            \<and> cache_key env token0 = cache_key env token
            \<and> verifier_verify (ne_jwt env) (ne_parse_uuid env) (na_verifier self) (tables e, now0) token0 rid0
                = Inr cached
            \<and> am_cached_now moment < cl_exp (dt_claims decoded)
            \<and> verified = with_claim_times cached (dt_claims decoded)
            \<and> (\<forall>now rid w. verifier_verify (ne_jwt env) (ne_parse_uuid env) (na_verifier self)
                  (tables e, now) token rid = Inr w \<longrightarrow> w = verified)))"
proof -
  let ?v = "na_verifier self" and ?parse = "ne_parse_uuid env"
  have sound: "sound_cache env self tables cache"
    using token_cache.steps_preserve [OF assms(1)] by (simp add: sound_cache_def wf_cache_def)
  obtain found cache1 where found: "cached_token_of env self moment token cache = (found, cache1)" by fastforce
  consider (full) rid verified where
      "verifier_verify (ne_jwt env) ?parse ?v (am_db moment, am_load_now moment) token rid = Inr verified"
      "authenticated_session_from_token verified = Inr session"
    | (cached) entry e verified where "found = Some entry" "am_epoch_before moment = Some e"
      "verify_invalidation_cached (ne_jwt env) ?v (am_cached_now moment) token (ct_verified entry) (ct_epoch entry) e
         = (Inr (Some verified) :: pg_error token_service_error + _)"
      "authenticated_session_from_token verified = Inr session"
    using assms(2) found
    by (auto simp: native_authenticate_def authenticate_bearer_def authenticate_uncached_def result_simps
        split: option.splits sum.splits)
  then show ?thesis
  proof cases
    case full
    then show ?thesis by (auto simp: verifier_verify_Inr_iff)
  next
    case cached
    from cached(3) obtain decoded where d: "ct_epoch entry = e"
        "decode_verified_access_token (ne_jwt env) token (tv_keys ?v) (tv_issuer ?v) (tv_audience ?v) = Inr decoded"
        "am_cached_now moment < cl_exp (dt_claims decoded)" "matches_claims (ct_verified entry) decoded"
        "verified = with_claim_times (ct_verified entry) (dt_claims decoded)"
      by (auto simp: verify_invalidation_cached_Some)
    from wf_cache_lookup [of self cache env moment token] sound found cached(1)
    have "entry \<in> set cache" "ct_key entry = cache_key env token" by (auto simp: sound_cache_def)
    with sound d(1) obtain token0 now0 rid0 where j: "cache_key env token0 = cache_key env token"
        "verifier_verify (ne_jwt env) ?parse ?v (tables e, now0) token0 rid0 = Inr (ct_verified entry)"
      by (auto simp: sound_cache_def justified_def)
    from j(2) obtain decoded0 where l: "load_decoded ?parse (tables e, now0) decoded0 rid0 = Inr (ct_verified entry)"
      by (auto simp: verifier_verify_Inr_iff)
    have "w = verified" if "verifier_verify (ne_jwt env) ?parse ?v (tables e, now) token rid = Inr w" for now rid w
      using that d(2,4,5) same_tables_same_token [OF l]
      by (auto simp: verifier_verify_Inr_iff matches_claims_def)
    with cached(2,4) d j show ?thesis by blast
  qed
qed

theorem cached_authentication_is_current_witness:
  "\<exists>session entry verified. native_authenticate sample_native_env sample_authenticator sample_moment
       (Bearer (lit ''t'')) [entry] = (Inr session, [entry])
     \<and> authenticated_session_from_token verified = Inr session"
proof -
  obtain session entry where
      run: "native_authenticate sample_native_env sample_authenticator sample_moment (Bearer (lit ''t'')) []
        = (Inr session, [entry])"
      and again: "native_authenticate sample_native_env sample_authenticator sample_moment (Bearer (lit ''t'')) [entry]
        = (Inr session, [entry])" by (rule sample_authentications)
  from cached_authentication_is_current [OF sample_cache_reached [OF run] again] again show ?thesis by blast
qed

end
