(* ===== verification/Cedar_Provider.thy ===== *)
theory Cedar_Provider
  imports Authorization
begin

section \<open>The embedded Cedar provider\<close>

text \<open>
  Models \<open>src/crates/wasi-auth/src/cedar.rs\<close> and the policy \<open>cedar/default_application.cedar\<close> beside it.
  The Cedar engine is the record \<open>cedar_engine\<close>, an argument of \<open>check_sync\<close>: it says which
  identifiers, entities, contexts and requests Cedar accepts and what it decides. What the provider
  hands to the engine is the record \<open>cedar_query\<close>; the parents of the two dynamic entities are read
  from the engine's own trusted entities and handed back unchanged, so they are left to the engine.
  A loaded provider is its policy revision together with its engine.
\<close>

datatype cedar_error =
  InvalidPolicy | InvalidSchema | PolicyValidation | InvalidEntity | CedarInvalidIdentifier
| InvalidRequest | Indeterminate | UnsupportedConsistency | InvalidMetadata

text \<open>The JSON values the provider builds.\<close>

datatype json = JBool bool | JText rstr | JTexts "rstr list"

type_synonym cedar_uid = "rstr \<times> rstr"

record cedar_query =
  cq_principal :: cedar_uid
  cq_action :: cedar_uid
  cq_resource :: cedar_uid
  cq_principal_attributes :: "(rstr, json) fmap"
  cq_resource_attributes :: "(rstr, json) fmap"
  cq_context :: "(rstr, json) fmap"

record cedar_engine =
  ce_type_ok :: "rstr \<Rightarrow> bool"
  ce_id_ok :: "rstr \<Rightarrow> bool"
  ce_entities_ok :: "cedar_query \<Rightarrow> bool"
  ce_context_ok :: "cedar_query \<Rightarrow> bool"
  ce_request_ok :: "cedar_query \<Rightarrow> bool"
  ce_allows :: "cedar_query \<Rightarrow> bool"
  ce_diagnoses :: "cedar_query \<Rightarrow> bool"

text \<open>Loading: the parsers and the strict validator of the engine, as the outcomes of its calls.\<close>

record cedar_sources =
  cs_policies_parse :: bool
  cs_schema_parses :: bool
  cs_validation_passes :: bool
  cs_entities_parse :: bool

definition new_prevalidated :: "cedar_sources \<Rightarrow> rstr \<Rightarrow> cedar_error + policy_revision" where
  "new_prevalidated sources revision =
     rbind (ensure (cs_policies_parse sources) InvalidPolicy) (\<lambda>_.
     rbind (ensure (cs_entities_parse sources) InvalidEntity) (\<lambda>_.
       map_err (\<lambda>_. InvalidMetadata) (bounded_identifier_new revision)))"

definition new_validated :: "cedar_sources \<Rightarrow> rstr \<Rightarrow> cedar_error + policy_revision" where
  "new_validated sources revision =
     rbind (ensure (cs_policies_parse sources) InvalidPolicy) (\<lambda>_.
     rbind (ensure (cs_schema_parses sources) InvalidSchema) (\<lambda>_.
     rbind (ensure (cs_validation_passes sources) PolicyValidation) (\<lambda>_.
     rbind (ensure (cs_entities_parse sources) InvalidEntity) (\<lambda>_.
       map_err (\<lambda>_. InvalidMetadata) (bounded_identifier_new revision)))))"

subsection \<open>Requests in Cedar's terms\<close>

definition canonical_identity :: "access_request \<Rightarrow> bytes" where
  "canonical_identity request =
     str_bytes (pr_issuer (vac_principal (ar_context request))) @ [0]
     @ str_bytes (pr_user_id (vac_principal (ar_context request)))"

definition canonical_principal_id :: "(bytes \<Rightarrow> rstr) \<Rightarrow> access_request \<Rightarrow> rstr" where
  "canonical_principal_id encode request = lit ''v1_'' @ encode (canonical_identity request)"

definition cedar_uid_of :: "cedar_engine \<Rightarrow> rstr \<Rightarrow> rstr \<Rightarrow> cedar_error + cedar_uid" where
  "cedar_uid_of engine entity_type entity_id =
     rbind (ensure (ce_type_ok engine entity_type) CedarInvalidIdentifier) (\<lambda>_.
     rbind (ensure (ce_id_ok engine entity_id) CedarInvalidIdentifier) (\<lambda>_.
       Inr (entity_type, entity_id)))"

definition assurance_label :: "authentication_assurance \<Rightarrow> rstr" where
  "assurance_label a = (case a of Aal1 \<Rightarrow> lit ''aal1'' | Aal2 \<Rightarrow> lit ''aal2'')"

definition optional_text :: "rstr \<Rightarrow> rstr option \<Rightarrow> (rstr, json) fmap \<Rightarrow> (rstr, json) fmap" where
  "optional_text name v attributes =
     (case v of Some t \<Rightarrow> fmupd name (JText t) attributes | None \<Rightarrow> attributes)"

definition principal_attributes :: "access_request \<Rightarrow> (rstr, json) fmap" where
  "principal_attributes request =
     optional_text (lit ''wasi_organization_id'') (vac_organization_id (ar_context request))
       (fmupd (lit ''wasi_permissions'')
          (JTexts (case ar_authorization request of Some snapshot \<Rightarrow> permissions snapshot | None \<Rightarrow> []))
       (fmupd (lit ''wasi_system_administrator'')
          (JBool (pr_system_administrator (vac_principal (ar_context request))))
       (fmupd (lit ''wasi_assurance'') (JText (assurance_label (vac_assurance (ar_context request))))
       (fmupd (lit ''wasi_issuer'') (JText (pr_issuer (vac_principal (ar_context request)))) fmempty))))"

definition resource_attributes :: "access_request \<Rightarrow> (rstr, json) fmap" where
  "resource_attributes request =
     optional_text (lit ''wasi_organization_id'') (res_organization_id (ar_resource request)) fmempty"

definition request_context_json :: "access_request \<Rightarrow> (rstr, json) fmap" where
  "request_context_json request =
     optional_text (lit ''wasi_organization_id'') (vac_organization_id (ar_context request))
       (fmmap JText (ar_attributes request))"

definition check_sync ::
  "(bytes \<Rightarrow> rstr) \<Rightarrow> cedar_engine \<Rightarrow> policy_revision \<Rightarrow> access_request \<Rightarrow> cedar_error + decision" where
  "check_sync encode engine revision request =
     (case ar_consistency request of
        AtLeastAsFresh _ \<Rightarrow> Inl UnsupportedConsistency
      | _ \<Rightarrow>
     rbind (cedar_uid_of engine (lit ''User'') (canonical_principal_id encode request)) (\<lambda>principal.
     rbind (cedar_uid_of engine (lit ''Action'') (ar_action request)) (\<lambda>action.
     rbind (cedar_uid_of engine (res_resource_type (ar_resource request)) (res_id (ar_resource request)))
       (\<lambda>resource.
     let query = \<lparr>cq_principal = principal, cq_action = action, cq_resource = resource,
           cq_principal_attributes = principal_attributes request,
           cq_resource_attributes = resource_attributes request,
           cq_context = request_context_json request\<rparr> in
     rbind (ensure (ce_entities_ok engine query) InvalidEntity) (\<lambda>_.
     rbind (ensure (ce_context_ok engine query) InvalidEntity) (\<lambda>_.
     rbind (ensure (ce_request_ok engine query) InvalidRequest) (\<lambda>_.
     if ce_diagnoses engine query then Inl Indeterminate
     else Inr (if ce_allows engine query then decision_allow revision (lit ''cedar.allow'')
               else decision_deny revision (lit ''cedar.deny'')))))))))"

definition cedar_capabilities :: provider_capabilities where
  "cedar_capabilities = \<lparr>pc_batch_check = True, pc_list_resources = False, pc_consistency_tokens = False\<rparr>"

definition cedar_batch_check ::
  "(bytes \<Rightarrow> rstr) \<Rightarrow> cedar_engine \<Rightarrow> policy_revision \<Rightarrow> access_request list \<Rightarrow> cedar_error + decision list" where
  "cedar_batch_check encode engine revision requests = try_map (check_sync encode engine revision) requests"

subsection \<open>The default application policy\<close>

text \<open>\<open>default_application.cedar\<close>: its single \<open>permit\<close> with its condition.\<close>

definition json_texts :: "json option \<Rightarrow> rstr list" where
  "json_texts v = (case v of Some (JTexts ts) \<Rightarrow> ts | _ \<Rightarrow> [])"

definition default_application_policy :: "cedar_query \<Rightarrow> bool" where
  "default_application_policy q \<longleftrightarrow>
     fst (cq_principal q) = lit ''User''
     \<and> cq_action q = (lit ''Action'', lit ''authorization.check'')
     \<and> fst (cq_resource q) = lit ''ApplicationResource''
     \<and> (case fmlookup (cq_context q) (lit ''requested_action'') of
          Some (JText action) \<Rightarrow>
            action \<in> set (json_texts (fmlookup (cq_principal_attributes q) (lit ''wasi_permissions'')))
        | _ \<Rightarrow> False)
     \<and> ((fmlookup (cq_principal_attributes q) (lit ''wasi_system_administrator'') = Some (JBool True)
           \<and> fmlookup (cq_principal_attributes q) (lit ''wasi_assurance'') = Some (JText (lit ''aal2'')))
        \<or> (fmlookup (cq_principal_attributes q) (lit ''wasi_system_administrator'') \<noteq> Some (JBool True)
           \<and> fmlookup (cq_principal_attributes q) (lit ''wasi_organization_id'') \<noteq> None
           \<and> fmlookup (cq_resource_attributes q) (lit ''wasi_organization_id'') \<noteq> None
           \<and> fmlookup (cq_principal_attributes q) (lit ''wasi_organization_id'')
               = fmlookup (cq_resource_attributes q) (lit ''wasi_organization_id'')))"

subsection \<open>Lemmas\<close>

interpretation cedar_provider:
  decision_provider "check_sync encode engine revision" "cedar_batch_check encode engine revision"
  for encode engine revision
  by unfold_locales (simp_all add: cedar_batch_check_def try_map_length try_map_nth)

lemma check_sync_Inr:
  assumes "check_sync encode engine revision request = Inr d"
  obtains query where
    "query = \<lparr>cq_principal = (lit ''User'', canonical_principal_id encode request),
       cq_action = (lit ''Action'', ar_action request),
       cq_resource = (res_resource_type (ar_resource request), res_id (ar_resource request)),
       cq_principal_attributes = principal_attributes request,
       cq_resource_attributes = resource_attributes request,
       cq_context = request_context_json request\<rparr>"
    "\<not> ce_diagnoses engine query" "d_allowed d = ce_allows engine query" "d_policy_revision d = revision"
    "\<forall>token. ar_consistency request \<noteq> AtLeastAsFresh token"
  using assms
  by (auto simp: check_sync_def cedar_uid_of_def result_simps Let_def decision_allow_def decision_deny_def
      split: consistency_requirement.splits if_splits)

lemma principal_attributes_lookup:
  "fmlookup (principal_attributes request) (lit ''wasi_permissions'')
     = Some (JTexts (case ar_authorization request of Some snapshot \<Rightarrow> permissions snapshot | None \<Rightarrow> []))"
  "fmlookup (principal_attributes request) (lit ''wasi_system_administrator'')
     = Some (JBool (pr_system_administrator (vac_principal (ar_context request))))"
  "fmlookup (principal_attributes request) (lit ''wasi_assurance'')
     = Some (JText (assurance_label (vac_assurance (ar_context request))))"
  "fmlookup (principal_attributes request) (lit ''wasi_organization_id'')
     = map_option JText (vac_organization_id (ar_context request))"
  by (auto simp: principal_attributes_def optional_text_def split: option.split)

lemma resource_attributes_lookup:
  "fmlookup (resource_attributes request) (lit ''wasi_organization_id'')
     = map_option JText (res_organization_id (ar_resource request))"
  by (auto simp: resource_attributes_def optional_text_def split: option.split)

text \<open>Every attribute of the query, absent ones included.\<close>

lemma principal_attributes_exact:
  "fmlookup (principal_attributes request) name =
     (if name = lit ''wasi_issuer'' then Some (JText (pr_issuer (vac_principal (ar_context request))))
      else if name = lit ''wasi_assurance''
      then Some (JText (case vac_assurance (ar_context request) of Aal1 \<Rightarrow> lit ''aal1'' | Aal2 \<Rightarrow> lit ''aal2''))
      else if name = lit ''wasi_system_administrator''
      then Some (JBool (pr_system_administrator (vac_principal (ar_context request))))
      else if name = lit ''wasi_permissions''
      then Some (JTexts (case ar_authorization request of Some s \<Rightarrow> permissions s | None \<Rightarrow> []))
      else if name = lit ''wasi_organization_id'' then map_option JText (vac_organization_id (ar_context request))
      else None)"
  by (auto simp: principal_attributes_def optional_text_def assurance_label_def split: option.split authentication_assurance.split)

lemma resource_attributes_exact:
  "fmlookup (resource_attributes request) name =
     (if name = lit ''wasi_organization_id'' then map_option JText (res_organization_id (ar_resource request)) else None)"
  by (auto simp: resource_attributes_def optional_text_def split: option.split)

lemma request_context_exact:
  "fmlookup (request_context_json request) name =
     (if name = lit ''wasi_organization_id'' \<and> vac_organization_id (ar_context request) \<noteq> None
      then map_option JText (vac_organization_id (ar_context request))
      else map_option JText (fmlookup (ar_attributes request) name))"
  by (auto simp: request_context_json_def optional_text_def split: option.split)

lemma assurance_label_iff: "assurance_label a = lit ''aal2'' \<longleftrightarrow> a = Aal2"
  by (cases a) (simp_all add: assurance_label_def)

subsection \<open>Properties\<close>

definition scalar_principal :: "principal \<Rightarrow> bool" where
  "scalar_principal p \<longleftrightarrow> list_all is_scalar (pr_issuer p) \<and> list_all is_scalar (pr_user_id p)"

lemma canonical_identity_inj:
  assumes "wf_principal (vac_principal (ar_context r))" "wf_principal (vac_principal (ar_context r'))"
    and "scalar_principal (vac_principal (ar_context r))" "scalar_principal (vac_principal (ar_context r'))"
    and "canonical_identity r = canonical_identity r'"
  shows "pr_issuer (vac_principal (ar_context r)) = pr_issuer (vac_principal (ar_context r'))
    \<and> pr_user_id (vac_principal (ar_context r)) = pr_user_id (vac_principal (ar_context r'))"
proof -
  have no_nul: "0 \<notin> set (str_bytes (pr_issuer p))" if "wf_principal p" "scalar_principal p" for p
    using that zero_in_str_bytes [of "pr_issuer p"]
    by (fastforce simp: wf_principal_def valid_text_def scalar_principal_def is_control_def)
  let ?p = "vac_principal (ar_context r)" and ?p' = "vac_principal (ar_context r')"
  have "str_bytes (pr_issuer ?p) @ 0 # str_bytes (pr_user_id ?p)
      = str_bytes (pr_issuer ?p') @ 0 # str_bytes (pr_user_id ?p')"
    using assms(5) by (simp add: canonical_identity_def)
  then have "str_bytes (pr_issuer ?p) = str_bytes (pr_issuer ?p')"
    "str_bytes (pr_user_id ?p) = str_bytes (pr_user_id ?p')"
    using append_separator_inj [OF _ no_nul [OF assms(1,3)] no_nul [OF assms(2,4)]] by simp_all
  then show ?thesis
    using assms(3,4) by (auto simp: scalar_principal_def dest: str_bytes_inj)
qed

text \<open>
  C32: two principals never share a Cedar identity. The canonical principal id joins issuer and user id
  with a zero byte; because neither can contain one and UTF-8 is injective, two requests have the same
  Cedar principal only if they have the same issuer and the same user, for any injective encoder.
\<close>

theorem canonical_principal_id_injective:
  assumes "inj encode"
    and "wf_principal (vac_principal (ar_context r))" "wf_principal (vac_principal (ar_context r'))"
    and "scalar_principal (vac_principal (ar_context r))" "scalar_principal (vac_principal (ar_context r'))"
    and "canonical_principal_id encode r = canonical_principal_id encode r'"
  shows "pr_issuer (vac_principal (ar_context r)) = pr_issuer (vac_principal (ar_context r'))
    \<and> pr_user_id (vac_principal (ar_context r)) = pr_user_id (vac_principal (ar_context r'))"
proof -
  have "canonical_identity r = canonical_identity r'"
    using assms(1,6) by (auto simp: canonical_principal_id_def dest: injD)
  with assms(2-5) show ?thesis by (rule canonical_identity_inj)
qed

theorem canonical_principal_id_injective_witness:
  "pr_user_id (vac_principal (ar_context sample_request))
     = pr_user_id (vac_principal (ar_context (with_consistency sample_request FullyConsistent)))"
proof -
  let ?encode = "map unat :: bytes \<Rightarrow> rstr" and ?r = "with_consistency sample_request FullyConsistent"
  have inj: "inj ?encode" by (simp add: inj_def word_unat_eq_iff inj_map_eq_map)
  have wf: "wf_principal (vac_principal (ar_context sample_request))"
    by (simp add: sample_request_def sample_auth_context_def wf_principal_def valid_identifier_def
        valid_text_def is_control_def is_whitespace_def)
  have scalar: "scalar_principal (vac_principal (ar_context sample_request))"
    by (simp add: sample_request_def sample_auth_context_def scalar_principal_def is_scalar_def)
  have "canonical_principal_id ?encode sample_request = canonical_principal_id ?encode ?r"
    by (simp add: canonical_principal_id_def canonical_identity_def with_consistency_def)
  from canonical_principal_id_injective [OF inj wf _ scalar _ this] wf scalar
  show ?thesis by (simp add: with_consistency_def)
qed

text \<open>
  C33: Cedar decides the query of this request and fails closed. Whenever a decision is returned, it is what
  the engine says, without an evaluation error, about the query for this request: its principal, action and
  resource, the principal's issuer, assurance, administrator flag, organization and granted permissions and
  no other attribute, the organization of the resource and no other attribute, and the attributes of the
  request with the organization of its context. The decision names the provider's revision, and a request for an
  external consistency token never gets one.
\<close>

theorem cedar_allows_only_clean_allow:
  assumes "check_sync encode engine revision request = Inr d"
  shows "(\<exists>query. d_allowed d = ce_allows engine query \<and> \<not> ce_diagnoses engine query
      \<and> cq_principal query = (lit ''User'', canonical_principal_id encode request)
      \<and> cq_action query = (lit ''Action'', ar_action request)
      \<and> cq_resource query = (res_resource_type (ar_resource request), res_id (ar_resource request))
      \<and> (\<forall>name. fmlookup (cq_principal_attributes query) name =
          (if name = lit ''wasi_issuer'' then Some (JText (pr_issuer (vac_principal (ar_context request))))
           else if name = lit ''wasi_assurance''
           then Some (JText (case vac_assurance (ar_context request) of Aal1 \<Rightarrow> lit ''aal1'' | Aal2 \<Rightarrow> lit ''aal2''))
           else if name = lit ''wasi_system_administrator''
           then Some (JBool (pr_system_administrator (vac_principal (ar_context request))))
           else if name = lit ''wasi_permissions''
           then Some (JTexts (case ar_authorization request of Some s \<Rightarrow> permissions s | None \<Rightarrow> []))
           else if name = lit ''wasi_organization_id'' then map_option JText (vac_organization_id (ar_context request))
           else None))
      \<and> (\<forall>name. fmlookup (cq_resource_attributes query) name =
          (if name = lit ''wasi_organization_id'' then map_option JText (res_organization_id (ar_resource request)) else None))
      \<and> (\<forall>name. fmlookup (cq_context query) name =
          (if name = lit ''wasi_organization_id'' \<and> vac_organization_id (ar_context request) \<noteq> None
           then map_option JText (vac_organization_id (ar_context request))
           else map_option JText (fmlookup (ar_attributes request) name))))
    \<and> d_policy_revision d = revision
    \<and> (\<forall>token. ar_consistency request \<noteq> AtLeastAsFresh token)"
proof -
  from assms obtain query where query: "query = \<lparr>cq_principal = (lit ''User'', canonical_principal_id encode request),
       cq_action = (lit ''Action'', ar_action request),
       cq_resource = (res_resource_type (ar_resource request), res_id (ar_resource request)),
       cq_principal_attributes = principal_attributes request,
       cq_resource_attributes = resource_attributes request,
       cq_context = request_context_json request\<rparr>"
    and decided: "\<not> ce_diagnoses engine query" "d_allowed d = ce_allows engine query"
      "d_policy_revision d = revision" "\<forall>token. ar_consistency request \<noteq> AtLeastAsFresh token"
    by (rule check_sync_Inr)
  show ?thesis
    using decided
    by (intro conjI exI [of _ query])
       (simp_all only: query cedar_query.simps principal_attributes_exact resource_attributes_exact
         request_context_exact simp_thms)
qed

theorem cedar_allows_only_clean_allow_witness:
  "\<exists>d. check_sync (\<lambda>_. []) \<lparr>ce_type_ok = (\<lambda>_. True), ce_id_ok = (\<lambda>_. True), ce_entities_ok = (\<lambda>_. True),
      ce_context_ok = (\<lambda>_. True), ce_request_ok = (\<lambda>_. True), ce_allows = (\<lambda>_. True),
      ce_diagnoses = (\<lambda>_. False)\<rparr> (lit ''p'') sample_request = Inr d \<and> d_policy_revision d = lit ''p''"
proof -
  have "check_sync (\<lambda>_. []) \<lparr>ce_type_ok = (\<lambda>_. True), ce_id_ok = (\<lambda>_. True), ce_entities_ok = (\<lambda>_. True),
      ce_context_ok = (\<lambda>_. True), ce_request_ok = (\<lambda>_. True), ce_allows = (\<lambda>_. True),
      ce_diagnoses = (\<lambda>_. False)\<rparr> (lit ''p'') sample_request
      = Inr (decision_allow (lit ''p'') (lit ''cedar.allow''))"
    by (simp add: check_sync_def cedar_uid_of_def sample_request_def Let_def)
  moreover from cedar_allows_only_clean_allow [OF this]
  have "d_policy_revision (decision_allow (lit ''p'') (lit ''cedar.allow'')) = lit ''p''"
    by (simp add: decision_allow_def)
  ultimately show ?thesis by blast
qed

end
