(* ===== verification/Native_Authorization.thy ===== *)
theory Native_Authorization
  imports Cedar_Provider Access_Tokens
begin

section \<open>Authorization inside the trusted ingress\<close>

text \<open>
  Models the authorization half of \<open>src/services/trusted-ingress/src/main.rs\<close>: loading the active Cedar
  policy with its retry loop, the cached policy, and the evaluation of one check
  (\<open>load_cedar\<close>, \<open>load_consistent_cedar\<close>, \<open>current_cedar\<close>, \<open>evaluate_authorization\<close>), together with the
  bundle load of \<open>src/crates/wasi-auth/src/postgres/policy.rs\<close>. The JSON writer and the parsers of the
  Cedar crate are the record \<open>policy_env\<close>; what the tracker and the database answer during one call is
  an argument.
\<close>

subsection \<open>The active policy bundle\<close>

datatype 't policy_bundle_load_error =
  PolicyTransport 't | PolicyRow row_decode_error | PolicyInvalidRow

definition MAX_POLICY_BYTES :: nat where "MAX_POLICY_BYTES = 1024 * 1024"
definition MAX_ENTITY_BYTES :: nat where "MAX_ENTITY_BYTES = 4 * 1024 * 1024"

record active_policy_bundle =
  pb_policy_revision :: rstr
  pb_cedar_schema :: rstr
  pb_cedar_policy :: rstr
  pb_entities :: json_value

record policy_env =
  pe_json_bytes :: "json_value \<Rightarrow> bytes option"
  pe_json_text :: "json_value \<Rightarrow> rstr option"
  pe_sources :: "rstr \<Rightarrow> rstr \<Rightarrow> rstr \<Rightarrow> cedar_sources"
  pe_engine :: "rstr \<Rightarrow> rstr \<Rightarrow> rstr \<Rightarrow> cedar_engine"
  pe_default_policy :: rstr
  pe_default_schema :: rstr

definition active_policy_from_row ::
  "policy_env \<Rightarrow> pg_row \<Rightarrow> 't policy_bundle_load_error + active_policy_bundle" where
  "active_policy_from_row env row =
     rbind (map_err PolicyRow (required_text row (lit ''policy_revision''))) (\<lambda>policy_revision.
     rbind (map_err PolicyRow (required_text row (lit ''cedar_schema''))) (\<lambda>cedar_schema.
     rbind (map_err PolicyRow (required_text row (lit ''cedar_policy''))) (\<lambda>cedar_policy.
     rbind (map_err PolicyRow (row_json row (lit ''entities''))) (\<lambda>json.
     rbind (ok_or PolicyInvalidRow json) (\<lambda>entities.
       if cedar_schema = [] \<or> str_len cedar_schema > MAX_POLICY_BYTES
          \<or> cedar_policy = [] \<or> str_len cedar_policy > MAX_POLICY_BYTES
          \<or> (case pe_json_bytes env entities of None \<Rightarrow> True | Some bytes \<Rightarrow> length bytes > MAX_ENTITY_BYTES)
          \<or> json_as_array entities = None
       then Inl PolicyInvalidRow
       else Inr \<lparr>pb_policy_revision = policy_revision, pb_cedar_schema = cedar_schema,
                 pb_cedar_policy = cedar_policy, pb_entities = entities\<rparr>)))))"

definition load_active_policy_bundle ::
  "policy_env \<Rightarrow> 't + pg_row list \<Rightarrow> 't policy_bundle_load_error + active_policy_bundle option" where
  "load_active_policy_bundle env reply =
     rbind (map_err PolicyTransport reply) (\<lambda>rows.
       case rows of
         [] \<Rightarrow> Inr None
       | row # _ \<Rightarrow> map_ok Some (active_policy_from_row env row))"

subsection \<open>Loading Cedar\<close>

datatype cedar_runtime_error =
  CrInvalidation | CrLoad "pg_error policy_bundle_load_error" | CrCedar cedar_error | CrSerialization
| UnstableRevision

text \<open>A loaded \<open>CedarProvider\<close>.\<close>

record loaded_cedar =
  lc_engine :: cedar_engine
  lc_revision :: policy_revision

definition cedar_new_validated ::
  "policy_env \<Rightarrow> rstr \<Rightarrow> rstr \<Rightarrow> rstr \<Rightarrow> rstr \<Rightarrow> cedar_runtime_error + loaded_cedar" where
  "cedar_new_validated env policy schema entities revision =
     map_ok (\<lambda>revision'. \<lparr>lc_engine = pe_engine env policy schema entities, lc_revision = revision'\<rparr>)
       (map_err CrCedar (new_validated (pe_sources env policy schema entities) revision))"

definition cedar_from_active_bundle ::
  "policy_env \<Rightarrow> active_policy_bundle \<Rightarrow> cedar_runtime_error + loaded_cedar" where
  "cedar_from_active_bundle env bundle =
     rbind (ok_or CrSerialization (pe_json_text env (pb_entities bundle))) (\<lambda>entities.
       cedar_new_validated env (pb_cedar_policy bundle) (pb_cedar_schema bundle) entities
         (pb_policy_revision bundle))"

definition DEFAULT_APPLICATION_POLICY_REVISION :: rstr where
  "DEFAULT_APPLICATION_POLICY_REVISION = lit ''embedded-v1''"

definition load_cedar :: "policy_env \<Rightarrow> pg_error + pg_row list \<Rightarrow> cedar_runtime_error + loaded_cedar" where
  "load_cedar env reply =
     rbind (map_err CrLoad (load_active_policy_bundle env reply)) (\<lambda>bundle.
       case bundle of
         Some bundle \<Rightarrow> cedar_from_active_bundle env bundle
       | None \<Rightarrow> cedar_new_validated env (pe_default_policy env) (pe_default_schema env) (lit ''[]'')
           DEFAULT_APPLICATION_POLICY_REVISION)"

text \<open>One round of the loop: an epoch, the answer to the query, an epoch.\<close>

record cedar_attempt =
  ca_epoch_before :: "invalidation_epoch option"
  ca_reply :: "pg_error + pg_row list"
  ca_epoch_after :: "invalidation_epoch option"

fun load_attempts ::
  "policy_env \<Rightarrow> (nat \<Rightarrow> cedar_attempt) \<Rightarrow> nat \<Rightarrow> nat \<Rightarrow> cedar_runtime_error + loaded_cedar \<times> invalidation_epoch" where
  "load_attempts env attempts i 0 = Inl UnstableRevision"
| "load_attempts env attempts i (Suc n) =
     rbind (ok_or CrInvalidation (ca_epoch_before (attempts i))) (\<lambda>epoch_before.
     rbind (load_cedar env (ca_reply (attempts i))) (\<lambda>provider.
     rbind (ok_or CrInvalidation (ca_epoch_after (attempts i))) (\<lambda>epoch_after.
       if epoch_before = epoch_after then Inr (provider, epoch_after)
       else load_attempts env attempts (Suc i) n)))"

definition load_consistent_cedar ::
  "policy_env \<Rightarrow> (nat \<Rightarrow> cedar_attempt) \<Rightarrow> cedar_runtime_error + loaded_cedar \<times> invalidation_epoch" where
  "load_consistent_cedar env attempts = load_attempts env attempts 0 3"

record cached_cedar =
  cx_provider :: loaded_cedar
  cx_epoch :: invalidation_epoch

text \<open>
  One call of \<open>current_cedar\<close>: the cached policy behind the read lock, the epochs read before each lock
  is used, and the attempts to load. The policy behind the write lock is the state: another call may
  have replaced it between the two locks.
\<close>

record cedar_moment =
  cm_seen :: cached_cedar
  cm_first_epoch :: "invalidation_epoch option"
  cm_second_epoch :: "invalidation_epoch option"
  cm_attempts :: "nat \<Rightarrow> cedar_attempt"

definition current_cedar ::
  "policy_env \<Rightarrow> cedar_moment \<Rightarrow> cached_cedar \<Rightarrow> (cedar_runtime_error + loaded_cedar) \<times> cached_cedar" where
  "current_cedar env moment cached =
     (case cm_first_epoch moment of
        None \<Rightarrow> (Inl CrInvalidation, cached)
      | Some epoch \<Rightarrow>
        if cx_epoch (cm_seen moment) = epoch then (Inr (cx_provider (cm_seen moment)), cached)
        else (case cm_second_epoch moment of
          None \<Rightarrow> (Inl CrInvalidation, cached)
        | Some epoch \<Rightarrow>
          if cx_epoch cached = epoch then (Inr (cx_provider cached), cached)
          else (case load_consistent_cedar env (cm_attempts moment) of
            Inl e \<Rightarrow> (Inl e, cached)
          | Inr (provider, epoch) \<Rightarrow> (Inr provider, \<lparr>cx_provider = provider, cx_epoch = epoch\<rparr>))))"

subsection \<open>Checks\<close>

record authorization_check_input =
  ai_action :: rstr
  ai_resource_type :: rstr
  ai_resource_id :: rstr
  ai_organization_id :: "rstr option"

record authorization_check_output =
  ao_allowed :: bool
  ao_reason :: rstr
  ao_policy_revision :: rstr
  ao_consistency_token :: "rstr option"
  ao_resource_revision :: "u64 option"

text \<open>Errors are HTTP status codes.\<close>

definition evaluate_authorization ::
  "(bytes \<Rightarrow> rstr) \<Rightarrow> loaded_cedar \<Rightarrow> authorization_check_input \<Rightarrow> verified_request_context \<Rightarrow>
   nat + authorization_check_output" where
  "evaluate_authorization encode cedar input ctx =
     rbind (map_err (\<lambda>_. 400) (action_name_new (ai_action input))) (\<lambda>requested_action.
     rbind (map_err (\<lambda>_. 400) (resource_type_new (ai_resource_type input))) (\<lambda>requested_resource_type.
     rbind (map_err (\<lambda>_. 400) (opt_try bounded_identifier_new (ai_organization_id input))) (\<lambda>named.
     let organization_id = (case named of Some organization \<Rightarrow> Some organization | None \<Rightarrow> vac_organization_id (vrc_auth ctx)) in
     rbind (map_err (\<lambda>_. 500) (resource_type_new (lit ''ApplicationResource''))) (\<lambda>resource_type.
     rbind (map_err (\<lambda>_. 400)
       (resource_new resource_type (requested_resource_type @ [58] @ ai_resource_id input) organization_id))
       (\<lambda>resource.
     let granted = permissions (vrc_authorization ctx)
           @ (if pr_system_administrator (vac_principal (vrc_auth ctx)) \<and> vac_assurance (vrc_auth ctx) = Aal2
              then [requested_action] else []) in
     rbind (map_err (\<lambda>_. 500) (snapshot_new granted [] None None)) (\<lambda>authorization.
     rbind (map_err (\<lambda>_. 500) (action_name_new (lit ''authorization.check''))) (\<lambda>action.
     rbind (map_err (\<lambda>_. 403) (access_request_new (vrc_auth ctx) action resource)) (\<lambda>request.
     rbind (map_err (\<lambda>_. 400)
       (rbind (with_attribute (with_authorization_snapshot request authorization)
           (lit ''requested_action'') requested_action) (\<lambda>request.
          with_attribute request (lit ''requested_resource_type'') requested_resource_type))) (\<lambda>request.
     rbind (map_err (\<lambda>_. 503) (check_sync encode (lc_engine cedar) (lc_revision cedar) request)) (\<lambda>decision.
       Inr \<lparr>ao_allowed = d_allowed decision, ao_reason = d_reason decision,
            ao_policy_revision = d_policy_revision decision,
            ao_consistency_token = d_consistency_token decision, ao_resource_revision = None\<rparr>))))))))))"

definition evaluate_batch ::
  "(bytes \<Rightarrow> rstr) \<Rightarrow> loaded_cedar \<Rightarrow> authorization_check_input list \<Rightarrow> verified_request_context \<Rightarrow>
   nat + authorization_check_output list" where
  "evaluate_batch encode cedar checks ctx = try_map (\<lambda>check. evaluate_authorization encode cedar check ctx) checks"

subsection \<open>Lemmas\<close>

definition attempt_stable :: "policy_env \<Rightarrow> cedar_attempt \<Rightarrow> loaded_cedar \<Rightarrow> invalidation_epoch \<Rightarrow> bool" where
  "attempt_stable env attempt provider epoch \<longleftrightarrow>
     ca_epoch_before attempt = Some epoch \<and> ca_epoch_after attempt = Some epoch
     \<and> load_cedar env (ca_reply attempt) = Inr provider"

definition attempt_moved :: "policy_env \<Rightarrow> cedar_attempt \<Rightarrow> bool" where
  "attempt_moved env attempt \<longleftrightarrow>
     (\<exists>before after provider. ca_epoch_before attempt = Some before \<and> ca_epoch_after attempt = Some after
        \<and> before \<noteq> after \<and> load_cedar env (ca_reply attempt) = Inr provider)"

lemma load_attempts_Inr_iff:
  "load_attempts env attempts i n = Inr (provider, epoch) \<longleftrightarrow>
     (\<exists>k<n. attempt_stable env (attempts (i + k)) provider epoch
        \<and> (\<forall>j<k. attempt_moved env (attempts (i + j))))"
proof (induction n arbitrary: i)
  case (Suc n)
  have split: "(\<exists>k<Suc n. Q k) \<longleftrightarrow> Q 0 \<or> (\<exists>k<n. Q (Suc k))" for Q
    by (metis less_Suc_eq_0_disj)
  have all: "(\<forall>j<Suc k. Q j) \<longleftrightarrow> Q 0 \<and> (\<forall>j<k. Q (Suc j))" for Q k
    by (metis less_Suc_eq_0_disj)
  have exclusive: "\<not> (attempt_stable env attempt p e \<and> attempt_moved env attempt)" for attempt p e
    by (auto simp: attempt_stable_def attempt_moved_def)
  show ?case
    unfolding split all
    by (auto simp: result_simps Suc.IH attempt_stable_def attempt_moved_def split: if_splits)
qed simp

lemma load_attempts_cong:
  "(\<And>k. k < n \<Longrightarrow> attempts (i + k) = attempts' (i + k)) \<Longrightarrow>
     load_attempts env attempts i n = load_attempts env attempts' i n"
proof (induction n arbitrary: i)
  case (Suc n)
  have "attempts i = attempts' i" using Suc.prems [of 0] by simp
  moreover have "load_attempts env attempts (Suc i) n = load_attempts env attempts' (Suc i) n"
    using Suc.prems [of "Suc _"] by (intro Suc.IH) simp
  ultimately show ?case by (simp cong: if_cong)
qed simp

lemma load_cedar_not_unstable: "load_cedar env reply \<noteq> Inl UnstableRevision"
  by (auto simp: load_cedar_def cedar_from_active_bundle_def cedar_new_validated_def result_simps
      split: option.splits)

lemma load_attempts_unstable_iff:
  "load_attempts env attempts i n = Inl UnstableRevision \<longleftrightarrow> (\<forall>k<n. attempt_moved env (attempts (i + k)))"
proof (induction n arbitrary: i)
  case (Suc n)
  have all: "(\<forall>j<Suc k. Q j) \<longleftrightarrow> Q 0 \<and> (\<forall>j<k. Q (Suc j))" for Q k
    by (metis less_Suc_eq_0_disj)
  show ?case
    unfolding all
    by (auto simp: result_simps Suc.IH attempt_moved_def load_cedar_not_unstable split: if_splits)
qed simp

text \<open>
  What the tracker promises of a load: when both readings are the epoch \<open>e\<close>, the rows the query returned
  are the rows \<open>policies e\<close> of that epoch.
\<close>

definition attempt_honest :: "(invalidation_epoch \<Rightarrow> pg_row list) \<Rightarrow> cedar_attempt \<Rightarrow> bool" where
  "attempt_honest policies attempt \<longleftrightarrow>
     (\<forall>e rows. ca_epoch_before attempt = Some e \<longrightarrow> ca_epoch_after attempt = Some e \<longrightarrow>
        ca_reply attempt = Inr rows \<longrightarrow> rows = policies e)"

text \<open>The policies the cache has held, latest first: loaded once at start, then replaced by calls.\<close>

inductive cedar_history :: "policy_env \<Rightarrow> (invalidation_epoch \<Rightarrow> pg_row list) \<Rightarrow> cached_cedar list \<Rightarrow> bool"
  for env policies where
  start: "load_consistent_cedar env attempts = Inr (provider, epoch) \<Longrightarrow>
    (\<And>k. attempt_honest policies (attempts k)) \<Longrightarrow>
    cedar_history env policies [\<lparr>cx_provider = provider, cx_epoch = epoch\<rparr>]"
| call: "cedar_history env policies (cached # older) \<Longrightarrow> cm_seen moment \<in> set (cached # older) \<Longrightarrow>
    (\<And>k. attempt_honest policies (cm_attempts moment k)) \<Longrightarrow>
    cedar_history env policies (snd (current_cedar env moment cached) # cached # older)"

definition cedar_sound :: "policy_env \<Rightarrow> (invalidation_epoch \<Rightarrow> pg_row list) \<Rightarrow> cached_cedar \<Rightarrow> bool" where
  "cedar_sound env policies cached \<longleftrightarrow> load_cedar env (Inr (policies (cx_epoch cached))) = Inr (cx_provider cached)"

lemma load_cedar_Inr_reply: "load_cedar env reply = Inr provider \<Longrightarrow> \<exists>rows. reply = Inr rows"
  by (auto simp: load_cedar_def load_active_policy_bundle_def result_simps)

lemma load_consistent_sound:
  assumes "load_consistent_cedar env attempts = Inr (provider, epoch)" "\<And>k. attempt_honest policies (attempts k)"
  shows "load_cedar env (Inr (policies epoch)) = Inr provider
    \<and> (\<exists>k<3. ca_epoch_before (attempts k) = Some epoch \<and> ca_epoch_after (attempts k) = Some epoch)"
proof -
  from assms(1) obtain k where k: "k < 3" "attempt_stable env (attempts k) provider epoch"
    by (auto simp: load_consistent_cedar_def load_attempts_Inr_iff)
  then obtain rows where "ca_reply (attempts k) = Inr rows"
    by (auto simp: attempt_stable_def dest: load_cedar_Inr_reply)
  with k assms(2) [of k] show ?thesis by (auto simp: attempt_stable_def attempt_honest_def)
qed

lemma current_cedar_cases:
  assumes "current_cedar env moment cached = (result, cached')"
  obtains (refused) e where "result = Inl e" "cached' = cached"
  | (seen) "cm_first_epoch moment = Some (cx_epoch (cm_seen moment))"
      "result = Inr (cx_provider (cm_seen moment))" "cached' = cached"
  | (kept) "cm_second_epoch moment = Some (cx_epoch cached)" "result = Inr (cx_provider cached)" "cached' = cached"
  | (loaded) provider epoch where "load_consistent_cedar env (cm_attempts moment) = Inr (provider, epoch)"
      "result = Inr provider" "cached' = \<lparr>cx_provider = provider, cx_epoch = epoch\<rparr>"
proof (cases "cm_first_epoch moment = Some (cx_epoch (cm_seen moment))")
  case True
  with assms show ?thesis by (intro seen) (simp_all add: current_cedar_def)
next
  case not_seen: False
  show ?thesis
  proof (cases "cm_first_epoch moment = None \<or> cm_second_epoch moment = None")
    case True
    with assms not_seen show ?thesis
      by (intro refused [of CrInvalidation]) (auto simp: current_cedar_def split: option.splits)
  next
    case False
    then have run: "current_cedar env moment cached =
        (if cm_second_epoch moment = Some (cx_epoch cached) then (Inr (cx_provider cached), cached)
         else (case load_consistent_cedar env (cm_attempts moment) of
            Inl e \<Rightarrow> (Inl e, cached)
          | Inr (provider, epoch) \<Rightarrow> (Inr provider, \<lparr>cx_provider = provider, cx_epoch = epoch\<rparr>)))"
      using not_seen by (auto simp: current_cedar_def)
    show ?thesis
    proof (cases "cm_second_epoch moment = Some (cx_epoch cached)")
      case True
      with assms run show ?thesis by (intro kept) auto
    next
      case moved: False
      show ?thesis
      proof (cases "load_consistent_cedar env (cm_attempts moment)")
        case (Inl e)
        then show ?thesis using assms run moved by (intro refused [of e]) auto
      next
        case (Inr loaded_pair)
        obtain provider epoch where "loaded_pair = (provider, epoch)" by (cases loaded_pair)
        then show ?thesis using assms run moved Inr by (intro loaded [of provider epoch]) auto
      qed
    qed
  qed
qed

lemma cedar_history_sound:
  assumes "cedar_history env policies history"
  shows "\<forall>cached \<in> set history. cedar_sound env policies cached"
  using assms
proof induction
  case (start attempts provider epoch)
  then show ?case using load_consistent_sound by (auto simp: cedar_sound_def)
next
  case (call cached older moment)
  obtain result cached' where run: "current_cedar env moment cached = (result, cached')" by fastforce
  then have "cedar_sound env policies cached'"
  proof (cases rule: current_cedar_cases)
    case (loaded provider epoch)
    then show ?thesis using load_consistent_sound [OF loaded(1) call.hyps(3)] by (simp add: cedar_sound_def)
  qed (use call.IH in simp_all)
  with call.IH run show ?case by simp
qed

subsection \<open>Properties\<close>

definition sample_policy_env :: policy_env where
  "sample_policy_env = \<lparr>pe_json_bytes = (\<lambda>_. None), pe_json_text = (\<lambda>_. None),
     pe_sources = (\<lambda>_ _ _. \<lparr>cs_policies_parse = True, cs_schema_parses = True, cs_validation_passes = True,
       cs_entities_parse = True\<rparr>),
     pe_engine = (\<lambda>_ _ _. \<lparr>ce_type_ok = (\<lambda>_. True), ce_id_ok = (\<lambda>_. True), ce_entities_ok = (\<lambda>_. True),
       ce_context_ok = (\<lambda>_. True), ce_request_ok = (\<lambda>_. True), ce_allows = default_application_policy,
       ce_diagnoses = (\<lambda>_. False)\<rparr>),
     pe_default_policy = lit ''permit'', pe_default_schema = lit ''{}''\<rparr>"

definition epoch_at :: "u64 \<Rightarrow> invalidation_epoch" where
  "epoch_at n = \<lparr>ie_tracker_id = 1, ie_generation = n\<rparr>"

text \<open>The epoch moves during the first round and stays during the later ones.\<close>

definition sample_attempts :: "nat \<Rightarrow> cedar_attempt" where
  "sample_attempts k = \<lparr>ca_epoch_before = Some (epoch_at (if k = 0 then 0 else 1)), ca_reply = Inr [],
     ca_epoch_after = Some (epoch_at 1)\<rparr>"

lemma sample_policy_loads: "\<exists>provider. load_cedar sample_policy_env (Inr []) = Inr provider"
proof -
  have "valid_identifier (lit ''embedded-v1'')" by (simp add: valid_identifier_def is_control_def is_whitespace_def)
  then show ?thesis
    by (simp add: load_cedar_def load_active_policy_bundle_def cedar_new_validated_def new_validated_def
        sample_policy_env_def DEFAULT_APPLICATION_POLICY_REVISION_def result_simps del: lit_Cons lit_Nil)
qed

lemma sample_attempts_settle:
  assumes "load_cedar sample_policy_env (Inr []) = Inr provider"
  shows "attempt_stable sample_policy_env (sample_attempts 1) provider (epoch_at 1)"
    "attempt_moved sample_policy_env (sample_attempts 0)"
  using assms by (simp_all add: attempt_stable_def attempt_moved_def sample_attempts_def epoch_at_def)

text \<open>
  C23: a check is decided by the policy of the current epoch. Whatever interleaving of calls produced the
  cached policy, the provider a call returns is the one the policy table yields in an epoch the tracker
  reported during this very call, before or after each lock or around one of at most three loads. A call
  never decides by a policy of an epoch that had ended before it began.
\<close>

theorem current_policy_is_consistent:
  assumes "cedar_history env policies (cached # older)" "cm_seen moment \<in> set (cached # older)"
    and "\<And>k. attempt_honest policies (cm_attempts moment k)"
    and "current_cedar env moment cached = (Inr provider, cached')"
  shows "\<exists>epoch. load_cedar env (Inr (policies epoch)) = Inr provider
    \<and> (cm_first_epoch moment = Some epoch \<or> cm_second_epoch moment = Some epoch
       \<or> (\<exists>k<3. ca_epoch_before (cm_attempts moment k) = Some epoch
              \<and> ca_epoch_after (cm_attempts moment k) = Some epoch))"
  using assms(4)
proof (cases rule: current_cedar_cases)
  case seen
  then show ?thesis using cedar_history_sound [OF assms(1)] assms(2) by (auto simp: cedar_sound_def)
next
  case kept
  then show ?thesis using cedar_history_sound [OF assms(1)] by (auto simp: cedar_sound_def)
next
  case (loaded p epoch)
  then show ?thesis using load_consistent_sound [OF loaded(1) assms(3)] by auto
qed simp

theorem current_policy_is_consistent_witness:
  "\<exists>provider cached. current_cedar sample_policy_env \<lparr>cm_seen = cached, cm_first_epoch = Some (epoch_at 1),
      cm_second_epoch = None, cm_attempts = sample_attempts\<rparr> cached = (Inr provider, cached)
    \<and> load_cedar sample_policy_env (Inr []) = Inr provider"
proof -
  obtain provider where p: "load_cedar sample_policy_env (Inr []) = Inr provider" using sample_policy_loads by blast
  let ?cached = "\<lparr>cx_provider = provider, cx_epoch = epoch_at 1\<rparr>"
  let ?moment = "\<lparr>cm_seen = ?cached, cm_first_epoch = Some (epoch_at 1), cm_second_epoch = None,
    cm_attempts = sample_attempts\<rparr>"
  have honest: "attempt_honest (\<lambda>_. []) (sample_attempts k)" for k
    by (simp add: attempt_honest_def sample_attempts_def)
  have "load_consistent_cedar sample_policy_env sample_attempts = Inr (provider, epoch_at 1)"
    unfolding load_consistent_cedar_def load_attempts_Inr_iff
    using sample_attempts_settle [OF p] by (intro exI [of _ 1]) simp
  then have "cedar_history sample_policy_env (\<lambda>_. []) [?cached]" using honest by (rule cedar_history.start)
  moreover have run: "current_cedar sample_policy_env ?moment ?cached = (Inr provider, ?cached)"
    by (simp add: current_cedar_def)
  ultimately have "\<exists>epoch. load_cedar sample_policy_env (Inr []) = Inr provider"
    using current_policy_is_consistent [of sample_policy_env "\<lambda>_. []" ?cached "[]" ?moment] honest by auto
  with run show ?thesis by (intro exI [of _ provider] exI [of _ ?cached]) simp
qed

text \<open>
  C40: the policy load ends after at most three rounds. It returns a provider exactly when some round saw
  the same epoch before and after its query and every earlier round loaded a policy but saw the epoch
  move; it gives up as unstable exactly when all three rounds did; and no later round is looked at.
\<close>

theorem policy_load_settles:
  "(load_consistent_cedar env attempts = Inr (provider, epoch) \<longleftrightarrow>
      (\<exists>k<3. attempt_stable env (attempts k) provider epoch \<and> (\<forall>j<k. attempt_moved env (attempts j))))
   \<and> (load_consistent_cedar env attempts = Inl UnstableRevision \<longleftrightarrow> (\<forall>k<3. attempt_moved env (attempts k)))
   \<and> load_consistent_cedar env attempts = load_consistent_cedar env (\<lambda>k. attempts (min k 2))"
proof (intro conjI)
  show "load_consistent_cedar env attempts = load_consistent_cedar env (\<lambda>k. attempts (min k 2))"
    unfolding load_consistent_cedar_def by (rule load_attempts_cong) (simp add: min_def)
qed (simp_all add: load_consistent_cedar_def load_attempts_Inr_iff load_attempts_unstable_iff)

theorem policy_load_settles_witness:
  "\<exists>provider. load_consistent_cedar sample_policy_env sample_attempts = Inr (provider, epoch_at 1)"
proof -
  obtain provider where p: "load_cedar sample_policy_env (Inr []) = Inr provider" using sample_policy_loads by blast
  have "load_consistent_cedar sample_policy_env sample_attempts = Inr (provider, epoch_at 1)"
    unfolding policy_load_settles [THEN conjunct1]
    using sample_attempts_settle [OF p] by (intro exI [of _ 1]) simp
  then show ?thesis ..
qed

text \<open>The request an accepted check puts to Cedar.\<close>

definition checked_organization :: "authorization_check_input \<Rightarrow> verified_request_context \<Rightarrow> rstr option" where
  "checked_organization input ctx =
     (case ai_organization_id input of Some organization \<Rightarrow> Some organization
      | None \<Rightarrow> vac_organization_id (vrc_auth ctx))"

definition check_request :: "authorization_check_input \<Rightarrow> verified_request_context \<Rightarrow> access_request" where
  "check_request input ctx =
     \<lparr>ar_context = vrc_auth ctx, ar_action = lit ''authorization.check'',
      ar_resource = \<lparr>res_resource_type = lit ''ApplicationResource'',
        res_id = ai_resource_type input @ [58] @ ai_resource_id input,
        res_organization_id = checked_organization input ctx\<rparr>,
      ar_consistency = MinimizeLatency,
      ar_attributes = fmupd (lit ''requested_resource_type'') (ai_resource_type input)
        (fmupd (lit ''requested_action'') (ai_action input) fmempty),
      ar_authorization = Some \<lparr>as_permissions = fset_of_list (permissions (vrc_authorization ctx)
          @ (if pr_system_administrator (vac_principal (vrc_auth ctx)) \<and> vac_assurance (vrc_auth ctx) = Aal2
             then [ai_action input] else [])),
        as_role_ids = {||}, as_policy_revision = None, as_consistency_token = None\<rparr>\<rparr>"

lemma evaluate_authorization_Inr:
  assumes "evaluate_authorization encode cedar input ctx = Inr answer"
  shows "(pr_system_administrator (vac_principal (vrc_auth ctx))
      \<or> checked_organization input ctx = vac_organization_id (vrc_auth ctx))
    \<and> (\<exists>d. check_sync encode (lc_engine cedar) (lc_revision cedar) (check_request input ctx) = Inr d
       \<and> ao_allowed answer = d_allowed d \<and> ao_policy_revision answer = d_policy_revision d)"
  using assms
  by (auto simp: evaluate_authorization_def Let_def result_simps action_name_new_def resource_type_new_def
      resource_new_def with_authorization_snapshot_def access_request_new_def checked_organization_def [symmetric]
      check_request_def split: if_split_asm simp del: lit_Cons lit_Nil fset_of_list_append)

lemma check_request_policy:
  assumes "cq_principal q = (lit ''User'', p)" "cq_action q = (lit ''Action'', lit ''authorization.check'')"
    and "cq_resource q = (lit ''ApplicationResource'', r)"
    and "cq_principal_attributes q = principal_attributes (check_request input ctx)"
    and "cq_resource_attributes q = resource_attributes (check_request input ctx)"
    and "cq_context q = request_context_json (check_request input ctx)"
    and "pr_system_administrator (vac_principal (vrc_auth ctx))
      \<or> checked_organization input ctx = vac_organization_id (vrc_auth ctx)"
  shows "default_application_policy q \<longleftrightarrow>
     (if pr_system_administrator (vac_principal (vrc_auth ctx)) then vac_assurance (vrc_auth ctx) = Aal2
      else has_permission (vrc_authorization ctx) (ai_action input) \<and> vac_organization_id (vrc_auth ctx) \<noteq> None)"
proof -
  have action: "fmlookup (request_context_json (check_request input ctx)) (lit ''requested_action'')
      = Some (JText (ai_action input))"
    by (simp add: request_context_json_def optional_text_def check_request_def split: option.split)
  have "ai_action input \<in> set (permissions \<lparr>as_permissions = fset_of_list (permissions (vrc_authorization ctx) @ extra),
        as_role_ids = {||}, as_policy_revision = None, as_consistency_token = None\<rparr>)
      \<longleftrightarrow> has_permission (vrc_authorization ctx) (ai_action input) \<or> ai_action input \<in> set extra" for extra
    by (auto simp: permissions_def has_permission_def fset_of_list_elem)
  then show ?thesis
    using assms action
    by (auto simp: default_application_policy_def principal_attributes_lookup resource_attributes_lookup
        json_texts_def assurance_label_iff check_request_def simp del: lit_Cons lit_Nil fset_of_list_append)
qed

text \<open>
  C20: a native check decides exactly the default application policy. Under a Cedar engine that decides
  the default policy, a check that is answered allows a system administrator exactly with second-factor
  assurance, and anyone else exactly when the session carries the permission named by the requested
  action and has selected an organization, which is then the organization of the resource: a check that
  names another organization is never answered for a user who is not a system administrator.
\<close>

theorem native_check_decides_policy:
  assumes "evaluate_authorization encode cedar input ctx = Inr answer"
    and "ce_allows (lc_engine cedar) = default_application_policy"
  shows "(ao_allowed answer \<longleftrightarrow>
      (if pr_system_administrator (vac_principal (vrc_auth ctx)) then vac_assurance (vrc_auth ctx) = Aal2
       else has_permission (vrc_authorization ctx) (ai_action input) \<and> vac_organization_id (vrc_auth ctx) \<noteq> None))
    \<and> (pr_system_administrator (vac_principal (vrc_auth ctx)) \<or> ai_organization_id input = None
       \<or> ai_organization_id input = vac_organization_id (vrc_auth ctx))
    \<and> ao_policy_revision answer = lc_revision cedar"
proof -
  from evaluate_authorization_Inr [OF assms(1)] obtain d where
      tenant: "pr_system_administrator (vac_principal (vrc_auth ctx))
        \<or> checked_organization input ctx = vac_organization_id (vrc_auth ctx)"
      and d: "check_sync encode (lc_engine cedar) (lc_revision cedar) (check_request input ctx) = Inr d"
        "ao_allowed answer = d_allowed d" "ao_policy_revision answer = d_policy_revision d" by blast
  from d(1) obtain query where query: "query = \<lparr>cq_principal = (lit ''User'', canonical_principal_id encode (check_request input ctx)),
       cq_action = (lit ''Action'', ar_action (check_request input ctx)),
       cq_resource = (res_resource_type (ar_resource (check_request input ctx)), res_id (ar_resource (check_request input ctx))),
       cq_principal_attributes = principal_attributes (check_request input ctx),
       cq_resource_attributes = resource_attributes (check_request input ctx),
       cq_context = request_context_json (check_request input ctx)\<rparr>"
    and decided: "d_allowed d = ce_allows (lc_engine cedar) query" "d_policy_revision d = lc_revision cedar"
    by (rule check_sync_Inr)
  have "d_allowed d \<longleftrightarrow>
      (if pr_system_administrator (vac_principal (vrc_auth ctx)) then vac_assurance (vrc_auth ctx) = Aal2
       else has_permission (vrc_authorization ctx) (ai_action input) \<and> vac_organization_id (vrc_auth ctx) \<noteq> None)"
    unfolding decided(1) assms(2) using tenant
    by (intro check_request_policy) (simp_all add: query check_request_def del: lit_Cons lit_Nil)
  moreover have "pr_system_administrator (vac_principal (vrc_auth ctx)) \<or> ai_organization_id input = None
      \<or> ai_organization_id input = vac_organization_id (vrc_auth ctx)"
    using tenant by (auto simp: checked_organization_def split: option.splits)
  ultimately show ?thesis using d(2,3) decided(2) by simp
qed

definition sample_cedar :: loaded_cedar where
  "sample_cedar = \<lparr>lc_engine = \<lparr>ce_type_ok = (\<lambda>_. True), ce_id_ok = (\<lambda>_. True), ce_entities_ok = (\<lambda>_. True),
      ce_context_ok = (\<lambda>_. True), ce_request_ok = (\<lambda>_. True), ce_allows = default_application_policy,
      ce_diagnoses = (\<lambda>_. False)\<rparr>, lc_revision = lit ''embedded-v1''\<rparr>"

definition sample_check :: authorization_check_input where
  "sample_check = \<lparr>ai_action = lit ''read'', ai_resource_type = lit ''doc'', ai_resource_id = lit ''1'',
     ai_organization_id = None\<rparr>"

definition sample_check_context :: verified_request_context where
  "sample_check_context = \<lparr>vrc_auth = sample_auth_context, vrc_authorization =
     \<lparr>as_permissions = {|lit ''read''|}, as_role_ids = {||}, as_policy_revision = None, as_consistency_token = None\<rparr>\<rparr>"

theorem native_check_decides_policy_witness:
  "\<exists>answer. evaluate_authorization (\<lambda>_. []) sample_cedar sample_check sample_check_context = Inr answer
     \<and> ao_allowed answer"
proof -
  have names: "valid_name (lit ''read'')" "valid_name (lit ''doc'')" "valid_name (lit ''ApplicationResource'')"
    "valid_name (lit ''authorization.check'')" "valid_name (lit ''requested_action'')"
    "valid_name (lit ''requested_resource_type'')"
    by (simp_all add: valid_name_asciiI name_char_def)
  have ok: "valid_identifier (lit ''read'')" by (simp add: valid_identifier_def is_control_def is_whitespace_def)
  have named: "action_name_new (lit ''read'') = Inr (lit ''read'')" "resource_type_new (lit ''doc'') = Inr (lit ''doc'')"
    "resource_type_new (lit ''ApplicationResource'') = Inr (lit ''ApplicationResource'')"
    "action_name_new (lit ''authorization.check'') = Inr (lit ''authorization.check'')"
    using names by (simp_all add: action_name_new_def resource_type_new_def result_simps del: lit_Cons lit_Nil)
  have attribute: "with_attribute r n v = Inr (r\<lparr>ar_attributes := fmupd n v (ar_attributes r)\<rparr>)"
    if "fcard (fmdom (ar_attributes r)) < 64" "valid_name n" "v = lit ''read'' \<or> v = lit ''doc''" for r n v
    using that by (auto simp: with_attribute_Inr_iff is_control_def)
  have snapshot: "snapshot_new [lit ''read''] [] None None
      = Inr \<lparr>as_permissions = {|lit ''read''|}, as_role_ids = {||}, as_policy_revision = None, as_consistency_token = None\<rparr>"
    using ok by (simp add: snapshot_new_Inr_iff del: lit_Cons lit_Nil)
  have resource: "\<exists>r. resource_new t (lit ''doc'' @ [58] @ lit ''1'') organization = Inr r
      \<and> res_organization_id r = organization" for t organization
    by (simp add: resource_new_def is_control_def MAX_RESOURCE_ID_BYTES_def)
  have "\<exists>answer. evaluate_authorization (\<lambda>_. []) sample_cedar sample_check sample_check_context = Inr answer"
    using named(1-4) names(5,6) snapshot resource [of "lit ''ApplicationResource''" "Some (lit ''o'')"]
    by (auto simp: evaluate_authorization_def sample_check_def sample_check_context_def sample_auth_context_def
        access_request_new_def permissions_def attribute with_authorization_snapshot_def sample_cedar_def
        check_sync_def cedar_uid_of_def Let_def fcard_finsert_if simp del: lit_Cons lit_Nil)
  then obtain answer where
      out: "evaluate_authorization (\<lambda>_. []) sample_cedar sample_check sample_check_context = Inr answer" ..
  have "ce_allows (lc_engine sample_cedar) = default_application_policy" by (simp add: sample_cedar_def)
  from native_check_decides_policy [OF out this] have "ao_allowed answer"
    by (simp add: sample_check_context_def sample_check_def sample_auth_context_def has_permission_def)
  with out show ?thesis by blast
qed

end
