(* ===== verification/Trusted_Ingress.thy ===== *)
theory Trusted_Ingress
  imports Http_Properties Token_Cache Native_Authorization
begin

section \<open>The trusted ingress service\<close>

text \<open>
  Models the request path of \<open>src/services/trusted-ingress/src/main.rs\<close>: \<open>proxy_request\<close> with every helper
  it calls, and the startup checks of its configuration (\<open>parse_backend_origin\<close>, \<open>jwt_key_ring\<close>,
  \<open>ingress_key\<close>, \<open>bool_env\<close>, \<open>usize_env\<close>). The state a request changes is the record \<open>ingress_state\<close>: the
  token cache, the cached policy and the invalidation tracker. What the request observes of clock,
  database, randomness and body is \<open>ingress_moment\<close>; the URI type, the response builders and the JSON
  reader are \<open>ingress_env\<close>. The client that sends the forwarded request is an argument of
  \<open>proxy_request\<close>. Not modelled: the listener loop and log records.
\<close>

definition HOST :: rstr where "HOST = lit ''host''"
definition CONNECTION :: rstr where "CONNECTION = lit ''connection''"
definition TRANSFER_ENCODING :: rstr where "TRANSFER_ENCODING = lit ''transfer-encoding''"
definition UPGRADE :: rstr where "UPGRADE = lit ''upgrade''"
definition CONTENT_TYPE :: rstr where "CONTENT_TYPE = lit ''content-type''"
definition ACCEPT :: rstr where "ACCEPT = lit ''accept''"
definition LOCATION :: rstr where "LOCATION = lit ''location''"
definition SET_COOKIE :: rstr where "SET_COOKIE = lit ''set-cookie''"

lemmas ingress_header_defs =
  HOST_def CONNECTION_def TRANSFER_ENCODING_def UPGRADE_def CONTENT_TYPE_def ACCEPT_def LOCATION_def
  SET_COOKIE_def

record request_uri =
  uri_scheme :: "rstr option"
  uri_authority :: "rstr option"
  uri_path_and_query :: "rstr option"

datatype http_version = HTTP_11 | HTTP_2 | OtherVersion

record ingress_request =
  ir_method :: rstr
  ir_uri :: request_uri
  ir_version :: http_version
  ir_headers :: header_map

datatype ingress_body =
  PlainText rstr | CheckResult authorization_check_output | BatchResult "authorization_check_output list"
| EmptyBody | BackendBody bytes

record ingress_response =
  ip_response :: http_response
  ip_body :: ingress_body

record ingress_env =
  ig_native :: native_env
  ig_codec :: codec_env
  ig_http :: http_env
  ig_policy :: policy_env
  ig_principal_encode :: "bytes \<Rightarrow> rstr"
  ig_uri_path :: "request_uri \<Rightarrow> rstr"
  ig_uri_from_parts :: "request_uri \<Rightarrow> request_uri option"
  ig_builder_ok :: "rstr \<Rightarrow> request_uri \<Rightarrow> bool"
  ig_text_headers :: header_map
  ig_json_headers :: header_map
  ig_parse_check :: "bytes \<Rightarrow> authorization_check_input option"
  ig_parse_batch :: "bytes \<Rightarrow> authorization_check_input list option"

record backend_origin =
  bo_authority :: rstr
  bo_host :: rstr

record ingress_config =
  ic_ingress :: trusted_ingress_config
  ic_authenticator :: native_authenticator
  ic_codec :: trusted_context_codec
  ic_backend :: backend_origin
  ic_native_authorization_enabled :: bool
  ic_secure_transport :: bool

record ingress_state =
  is_token_cache :: token_cache
  is_cedar :: cached_cedar
  is_tracker :: invalidation_tracker

record ingress_moment =
  im_request_uuid :: rstr
  im_auth :: auth_moment
  im_now :: u64
  im_cedar :: cedar_moment
  im_body :: "bytes option"
  im_seal_now :: u64

subsection \<open>Responses\<close>

definition text_response :: "ingress_env \<Rightarrow> nat \<Rightarrow> rstr \<Rightarrow> ingress_response" where
  "text_response env status message =
     \<lparr>ip_response = \<lparr>rs_status = status, rs_headers = ig_text_headers env\<rparr>, ip_body = PlainText message\<rparr>"

definition json_response :: "ingress_env \<Rightarrow> ingress_body \<Rightarrow> ingress_response" where
  "json_response env body = \<lparr>ip_response = \<lparr>rs_status = 200, rs_headers = ig_json_headers env\<rparr>, ip_body = body\<rparr>"

definition internal_error :: "ingress_env \<Rightarrow> ingress_response" where
  "internal_error env = text_response env 502 (lit ''Trusted ingress could not reach the application.'')"

definition secure_authorization_response :: "ingress_response \<Rightarrow> bool \<Rightarrow> ingress_response" where
  "secure_authorization_response response secure_transport =
     response\<lparr>ip_response := apply_response_security (ip_response response) Sensitive secure_transport\<rparr>"

definition header_append :: "rstr \<Rightarrow> rstr \<Rightarrow> header_map \<Rightarrow> header_map" where
  "header_append name v headers = headers(name := headers name @ [Some v])"

definition browser_document_navigation :: "ingress_env \<Rightarrow> ingress_request \<Rightarrow> bool" where
  "browser_document_navigation env request \<longleftrightarrow>
     (ir_method request = lit ''GET'' \<or> ir_method request = lit ''HEAD'')
     \<and> \<not> starts_with (lit ''/auth/'') (ig_uri_path env (ir_uri request))
     \<and> (case header_text (ir_headers request) ACCEPT of
          None \<Rightarrow> False
        | Some v \<Rightarrow> list_ex (\<lambda>item. starts_with (lit ''text/html'') (trim item)) (split_char 44 v))"

definition authentication_redirect :: "ingress_env \<Rightarrow> ingress_request \<Rightarrow> ingress_response" where
  "authentication_redirect env request =
     (let location = lit ''/auth/required?next='' @ ig_uri_path env (ir_uri request) in
      if \<not> header_value_ok (ig_http env) location then internal_error env
      else \<lparr>ip_response = \<lparr>rs_status = 303, rs_headers =
          header_append SET_COOKIE (lit ''wasi_auth_dev_session=; Path=/; Max-Age=0; HttpOnly; SameSite=Lax'')
          (header_append SET_COOKIE (lit ''__Host-session=; Path=/; Max-Age=0; HttpOnly; SameSite=Lax; Secure'')
          (header_insert CACHE_CONTROL (lit ''no-store'') (header_insert LOCATION location (\<lambda>_. []))))\<rparr>,
        ip_body = EmptyBody\<rparr>)"

fun boundary_status :: "native_authentication_error http_boundary_error \<Rightarrow> nat" where
  "boundary_status MissingCredentials = 401"
| "boundary_status InsufficientAssurance = 401"
| "boundary_status (Authenticator e) = (if is_credential_rejection e then 401 else 503)"
| "boundary_status BodyTooLarge = 413"
| "boundary_status InvalidContentLength = 400"
| "boundary_status InvalidRequestId = 400"
| "boundary_status InvalidCredentials = 400"
| "boundary_status Csrf = 400"
| "boundary_status (InvalidContext _) = 503"

definition boundary_error ::
  "ingress_env \<Rightarrow> native_authentication_error http_boundary_error \<Rightarrow> ingress_request \<Rightarrow> ingress_response" where
  "boundary_error env e request =
     (let credential_rejection = (case e of Authenticator e' \<Rightarrow> is_credential_rejection e' | _ \<Rightarrow> False) in
      if credential_rejection \<and> browser_document_navigation env request
      then authentication_redirect env request
      else text_response env (boundary_status e) (lit ''Request rejected.''))"

subsection \<open>Request metadata\<close>

definition ensure_request_id :: "ingress_env \<Rightarrow> rstr \<Rightarrow> header_map \<Rightarrow> nat + header_map" where
  "ensure_request_id env uuid headers =
     (case headers REQUEST_ID_HEADER of
        [] \<Rightarrow>
          (let request_id = lit ''request-'' @ uuid in
           if header_value_ok (ig_http env) request_id
           then Inr (header_insert REQUEST_ID_HEADER request_id headers) else Inl 500)
      | [v] \<Rightarrow>
          (case v of
             None \<Rightarrow> Inl 400
           | Some text \<Rightarrow> map_ok (\<lambda>_. headers) (map_err (\<lambda>_. 400) (bounded_identifier_new text)))
      | _ \<Rightarrow> Inl 400)"

definition contains_key :: "header_map \<Rightarrow> rstr \<Rightarrow> bool" where
  "contains_key headers name \<longleftrightarrow> headers name \<noteq> []"

definition is_grpc_request :: "ingress_request \<Rightarrow> bool" where
  "is_grpc_request request \<longleftrightarrow>
     (case header_text (ir_headers request) CONTENT_TYPE of
        None \<Rightarrow> False | Some v \<Rightarrow> starts_with (lit ''application/grpc'') v)"

definition remove_http2_hop_headers :: "header_map \<Rightarrow> header_map" where
  "remove_http2_hop_headers headers =
     header_remove (lit ''proxy-connection'') (header_remove (lit ''keep-alive'') (header_remove UPGRADE
       (header_remove TRANSFER_ENCODING (header_remove CONNECTION (header_remove HOST headers)))))"

fun contains_text :: "rstr \<Rightarrow> rstr \<Rightarrow> bool" where
  "contains_text needle [] \<longleftrightarrow> needle = []"
| "contains_text needle (c # cs) \<longleftrightarrow> starts_with needle (c # cs) \<or> contains_text needle cs"

definition mutation_may_change_authorization :: "rstr \<Rightarrow> rstr \<Rightarrow> bool" where
  "mutation_may_change_authorization request_method path \<longleftrightarrow>
     \<not> (request_method = lit ''GET'' \<or> request_method = lit ''HEAD'' \<or> request_method = lit ''OPTIONS'')
     \<and> \<not> starts_with (lit ''/api/authorization/'') path
     \<and> \<not> contains_text (lit ''authorization.v1.AuthorizationService/'') path"

definition backend_uri :: "ingress_env \<Rightarrow> backend_origin \<Rightarrow> request_uri \<Rightarrow> request_uri option" where
  "backend_uri env origin original =
     ig_uri_from_parts env (original\<lparr>uri_scheme := Some (lit ''http''), uri_authority := Some (bo_authority origin)\<rparr>)"

subsection \<open>Authorization requests\<close>

definition native_authorization_request ::
  "ingress_env \<Rightarrow> ingress_config \<Rightarrow> ingress_moment \<Rightarrow> ingress_request \<Rightarrow> verified_request_context option \<Rightarrow>
   cached_cedar \<Rightarrow> ingress_response \<times> cached_cedar" where
  "native_authorization_request env config moment request ctx cached =
     (case ctx of
        None \<Rightarrow> (text_response env 401 (lit ''Authentication is required.''), cached)
      | Some ctx \<Rightarrow>
        (case current_cedar (ig_policy env) (im_cedar moment) cached of
           (Inl _, cached') \<Rightarrow> (text_response env 503 (lit ''Authorization is unavailable.''), cached')
         | (Inr cedar, cached') \<Rightarrow>
           (case (case im_body moment of None \<Rightarrow> None
                  | Some body \<Rightarrow> if length body > DEFAULT_MAX_REQUEST_BODY_BYTES then None else Some body) of
              None \<Rightarrow> (text_response env 413 (lit ''Authorization request is too large.''), cached')
            | Some body \<Rightarrow>
              if ig_uri_path env (ir_uri request) = lit ''/api/authorization/check'' then
                (case ig_parse_check env body of
                   None \<Rightarrow> (text_response env 400 (lit ''Authorization request is invalid.''), cached')
                 | Some input \<Rightarrow>
                   (secure_authorization_response
                      (case evaluate_authorization (ig_principal_encode env) cedar input ctx of
                         Inr result \<Rightarrow> json_response env (CheckResult result)
                       | Inl status \<Rightarrow> text_response env status (lit ''Authorization request was rejected.''))
                      (ic_secure_transport config), cached'))
              else
                (case (case ig_parse_batch env body of None \<Rightarrow> None
                       | Some checks \<Rightarrow> if length checks \<le> 100 then Some checks else None) of
                   None \<Rightarrow> (text_response env 400 (lit ''Authorization batch is invalid.''), cached')
                 | Some checks \<Rightarrow>
                   (secure_authorization_response
                      (case evaluate_batch (ig_principal_encode env) cedar checks ctx of
                         Inr results \<Rightarrow> json_response env (BatchResult results)
                       | Inl status \<Rightarrow> text_response env status (lit ''Authorization request was rejected.''))
                      (ic_secure_transport config), cached')))))"

subsection \<open>Proxying\<close>

text \<open>
  The credential \<open>authenticate_request\<close> hands to its authenticator, if it gets that far: an
  authenticator that answers with the credential itself as its error makes it visible.
\<close>

definition asked_credential ::
  "trusted_ingress_config \<Rightarrow> u64 \<Rightarrow> http_request \<Rightarrow> route_policy \<Rightarrow> credential option" where
  "asked_credential config now request policy =
     (case authenticate_request config Inl now request policy of
        Inl (Authenticator credential) \<Rightarrow> Some credential
      | _ \<Rightarrow> None)"

definition authentication_request :: "ingress_request \<Rightarrow> http_request" where
  "authentication_request request = \<lparr>rq_method = ir_method request, rq_headers = ir_headers request\<rparr>"

definition ingress_authenticate ::
  "ingress_env \<Rightarrow> ingress_config \<Rightarrow> ingress_moment \<Rightarrow> ingress_request \<Rightarrow> token_cache \<Rightarrow>
   (native_authentication_error http_boundary_error + verified_request_context option) \<times> token_cache" where
  "ingress_authenticate env config moment request cache =
     (let authenticator = (\<lambda>credential. native_authenticate (ig_native env) (ic_authenticator config)
            (im_auth moment) credential cache)
      in (authenticate_request (ic_ingress config) (\<lambda>credential. fst (authenticator credential)) (im_now moment)
            (authentication_request request) Optional,
          case asked_credential (ic_ingress config) (im_now moment) (authentication_request request) Optional of
            None \<Rightarrow> cache | Some credential \<Rightarrow> snd (authenticator credential)))"

definition install_context ::
  "ingress_env \<Rightarrow> ingress_config \<Rightarrow> ingress_moment \<Rightarrow> ingress_request \<Rightarrow> verified_request_context option \<Rightarrow>
   ingress_response + header_map" where
  "install_context env config moment request ctx =
     (case ctx of
        None \<Rightarrow> Inr (ir_headers request)
      | Some ctx \<Rightarrow>
        rbind (map_err (\<lambda>_. internal_error env) (seal (ig_codec env) (ic_codec config) ctx (ir_method request)
          (ig_uri_path env (ir_uri request)) (im_seal_now moment))) (\<lambda>envelope.
        if \<not> header_value_ok (ig_http env) envelope then Inl (internal_error env)
        else Inr (header_insert AUTH_CONTEXT_HEADER envelope (ir_headers request))))"

text \<open>The end of \<open>proxy_request\<close>, from the sealed context to the request for the backend.\<close>

definition forward_request ::
  "ingress_env \<Rightarrow> ingress_config \<Rightarrow> ingress_request \<Rightarrow> ingress_response + ingress_request" where
  "forward_request env config request =
     (case backend_uri env (ic_backend config) (ir_uri request) of
        None \<Rightarrow> Inl (internal_error env)
      | Some uri \<Rightarrow>
        Inr (if is_grpc_request request
          then request\<lparr>ir_uri := uri, ir_version := HTTP_2,
                       ir_headers := remove_http2_hop_headers (ir_headers request)\<rparr>
          else request\<lparr>ir_uri := uri, ir_version := HTTP_11,
                       ir_headers := header_insert HOST (bo_host (ic_backend config)) (ir_headers request)\<rparr>))"

definition native_authorization_path :: "ingress_env \<Rightarrow> ingress_config \<Rightarrow> ingress_request \<Rightarrow> bool" where
  "native_authorization_path env config request \<longleftrightarrow>
     ic_native_authorization_enabled config
     \<and> contains_key (ir_headers request) AUTHORIZATION
     \<and> ir_method request = lit ''POST''
     \<and> ig_uri_path env (ir_uri request) \<in> {lit ''/api/authorization/check'', lit ''/api/authorization/batch-check''}"

text \<open>\<open>proxy_request\<close> up to the call of the client: a response, or the request to forward.\<close>

definition proxy_prepare ::
  "ingress_env \<Rightarrow> ingress_config \<Rightarrow> ingress_moment \<Rightarrow> ingress_request \<Rightarrow> ingress_state \<Rightarrow>
   (ingress_response + ingress_request) \<times> ingress_state" where
  "proxy_prepare env config moment request0 state =
     (case ensure_request_id env (im_request_uuid moment)
             (strip_untrusted_auth_metadata (ir_headers request0)) of
        Inl status \<Rightarrow> (Inl (text_response env status (lit ''Request correlation is invalid.'')), state)
      | Inr headers \<Rightarrow>
        (let request = request0\<lparr>ir_headers := headers\<rparr>;
             has_credential = contains_key headers AUTHORIZATION \<or> contains_key headers COOKIE in
         if has_credential \<and> \<not> ig_builder_ok env (ir_method request) (ir_uri request)
         then (Inl (internal_error env), state)
         else
           (case (if has_credential then ingress_authenticate env config moment request (is_token_cache state)
                  else (Inr None, is_token_cache state)) of
              (Inl e, cache) \<Rightarrow> (Inl (boundary_error env e request), state\<lparr>is_token_cache := cache\<rparr>)
            | (Inr ctx, cache) \<Rightarrow>
              (let state = state\<lparr>is_token_cache := cache\<rparr> in
               if native_authorization_path env config request then
                 (let (response, cached) = native_authorization_request env config moment request ctx (is_cedar state)
                  in (Inl response, state\<lparr>is_cedar := cached\<rparr>))
               else (case install_context env config moment request ctx of
                  Inl response \<Rightarrow> (Inl response, state)
                | Inr headers \<Rightarrow>
                  (forward_request env config (request\<lparr>ir_headers := headers\<rparr>),
                   if mutation_may_change_authorization (ir_method request) (ig_uri_path env (ir_uri request))
                   then state\<lparr>is_tracker := tracker_invalidate (is_tracker state)\<rparr> else state))))))"

definition proxy_request ::
  "(ingress_request \<Rightarrow> ingress_response option) \<Rightarrow> ingress_env \<Rightarrow> ingress_config \<Rightarrow> ingress_moment \<Rightarrow>
   ingress_request \<Rightarrow> ingress_state \<Rightarrow> ingress_response \<times> ingress_state" where
  "proxy_request client env config moment request state =
     (case proxy_prepare env config moment request state of
        (Inl response, state') \<Rightarrow> (response, state')
      | (Inr forwarded, state') \<Rightarrow>
        (case client forwarded of
           Some response \<Rightarrow> (response, state')
         | None \<Rightarrow> (internal_error env, state')))"

subsection \<open>Startup configuration\<close>

datatype startup_error = StartupMissing rstr | StartupInvalid rstr

text \<open>\<open>variables\<close> is the process environment: \<open>env::var(name).ok()\<close>.\<close>

definition required_var :: "(rstr \<Rightarrow> rstr option) \<Rightarrow> rstr \<Rightarrow> startup_error + rstr" where
  "required_var variables name =
     ok_or (StartupMissing name)
       (case variables name of None \<Rightarrow> None | Some v \<Rightarrow> if trim v = [] then None else Some v)"

definition bool_env :: "(rstr \<Rightarrow> rstr option) \<Rightarrow> rstr \<Rightarrow> bool \<Rightarrow> startup_error + bool" where
  "bool_env variables name fallback =
     (case variables name of
        None \<Rightarrow> Inr fallback
      | Some v \<Rightarrow>
        if v = lit ''true'' \<or> v = lit ''1'' then Inr True
        else if v = lit ''false'' \<or> v = lit ''0'' then Inr False
        else Inl (StartupInvalid name))"

definition usize_env ::
  "(rstr \<Rightarrow> rstr option) \<Rightarrow> rstr \<Rightarrow> nat \<Rightarrow> nat \<Rightarrow> nat \<Rightarrow> startup_error + nat" where
  "usize_env variables name fallback minimum maximum =
     rbind (case variables name of
              None \<Rightarrow> Inr fallback
            | Some v \<Rightarrow> ok_or (StartupInvalid name) (parse_usize v)) (\<lambda>v.
       if minimum \<le> v \<and> v \<le> maximum then Inr v else Inl (StartupInvalid name))"

definition parse_backend_origin ::
  "(rstr \<Rightarrow> request_uri option) \<Rightarrow> (request_uri \<Rightarrow> rstr option) \<Rightarrow> http_env \<Rightarrow> rstr \<Rightarrow> bool \<Rightarrow>
   startup_error + backend_origin" where
  "parse_backend_origin parse_uri uri_host http origin production =
     (let invalid = StartupInvalid (lit ''AUTH_INGRESS_BACKEND_ORIGIN'') in
      rbind (ok_or invalid (parse_uri origin)) (\<lambda>uri.
      if uri_scheme uri \<noteq> Some (lit ''http'')
         \<or> (case uri_path_and_query uri of None \<Rightarrow> False | Some v \<Rightarrow> v \<noteq> lit ''/'')
      then Inl invalid
      else
        rbind (ok_or invalid (uri_authority uri)) (\<lambda>authority.
        if production \<and> uri_host uri \<notin> {Some (lit ''127.0.0.1''), Some (lit ''localhost''),
             Some (lit ''[::1]''), Some (lit ''::1'')}
        then Inl invalid
        else if \<not> header_value_ok http authority then Inl invalid
        else Inr \<lparr>bo_authority = authority, bo_host = authority\<rparr>)))"

definition development_ring :: "(rstr \<Rightarrow> rstr option) \<Rightarrow> startup_error + jwt_key_ring" where
  "development_ring variables =
     (let kid = (case variables (lit ''AUTH_JWT_KID'') of Some v \<Rightarrow> v | None \<Rightarrow> lit ''fullstack-app-dev-hs256'');
          secret = (case variables (lit ''AUTH_JWT_SECRET'') of Some v \<Rightarrow> v
                    | None \<Rightarrow> lit ''dev-fullstack-app-secret-change-me'') in
      map_err (\<lambda>_. StartupInvalid (lit ''AUTH_JWT_SECRET'')) (development_hs256 kid (str_bytes secret)))"

definition ingress_key_ring ::
  "jwt_env \<Rightarrow> (rstr \<Rightarrow> rstr option) \<Rightarrow> bool \<Rightarrow> startup_error + jwt_key_ring" where
  "ingress_key_ring env variables production =
     (case variables (lit ''AUTH_JWT_KEY_RING_JSON'') of
        Some v \<Rightarrow>
          if trim v \<noteq> []
          then map_err (\<lambda>_. StartupInvalid (lit ''AUTH_JWT_KEY_RING_JSON'')) (from_json env v production)
          else if production then Inl (StartupMissing (lit ''AUTH_JWT_KEY_RING_JSON''))
          else development_ring variables
      | None \<Rightarrow>
          if production then Inl (StartupMissing (lit ''AUTH_JWT_KEY_RING_JSON''))
          else development_ring variables)"

definition ingress_key :: "(rstr \<Rightarrow> bytes option) \<Rightarrow> (rstr \<Rightarrow> rstr option) \<Rightarrow> startup_error + bytes" where
  "ingress_key base64_decode variables =
     rbind (required_var variables (lit ''AUTH_TRUSTED_INGRESS_KEY_BASE64'')) (\<lambda>encoded.
       ok_or (StartupInvalid (lit ''AUTH_TRUSTED_INGRESS_KEY_BASE64''))
         (case base64_decode (trim encoded) of
            None \<Rightarrow> None | Some bytes \<Rightarrow> if length bytes = 32 then Some bytes else None))"

subsection \<open>Lemmas\<close>

definition wf_session :: "authenticated_session \<Rightarrow> bool" where
  "wf_session session \<longleftrightarrow>
     wf_principal (ses_principal session) \<and> pred_option valid_identifier (ses_organization_id session)
     \<and> valid_identifier (ses_session_id session) \<and> pred_option valid_identifier (ses_decision_id session)
     \<and> pred_option valid_identifier (ses_policy_revision session) \<and> wf_snapshot (ses_authorization session)"

lemma session_from_token_wf:
  "authenticated_session_from_token verified = Inr session \<Longrightarrow> wf_session session"
  by (auto simp: authenticated_session_from_token_def result_simps wf_session_def wf_principal_def
      wf_snapshot_def list_all_iff fset_of_list_elem)

lemma authenticate_cookie_wf:
  assumes "authenticate_cookie env moment text = Inr session"
  shows "wf_session session"
proof -
  from assms obtain rid vs where rid: "valid_identifier rid"
    and load: "load_verified_session (ne_parse_uuid env) (am_db moment) text rid (am_load_now moment) = Inr vs"
    and session: "authenticated_session_from_context (vs_context vs) = Inr session"
    by (auto simp: authenticate_cookie_def ingress_request_id_def result_simps)
  from load have "wf_request_context (vs_context vs)"
    unfolding load_verified_session_def by (rule load_verified_session_Inr) (auto intro: verified_session_of_Inr(4) rid)
  with session show ?thesis
    by (auto simp: authenticated_session_from_context_def wf_session_def wf_request_context_def wf_auth_context_def)
qed

lemma native_authenticate_wf:
  assumes "fst (native_authenticate env self moment credential cache) = Inr session"
  shows "wf_session session"
  using assms authenticate_cookie_wf session_from_token_wf
  by (auto simp: native_authenticate_def authenticate_bearer_def authenticate_uncached_def
      split: credential.splits prod.splits option.splits sum.splits)

lemma context_of_session_wf:
  "wf_session session \<Longrightarrow> valid_identifier rid \<Longrightarrow> ses_issued_at session < ses_expires_at session \<Longrightarrow>
     wf_request_context (context_of_session session rid)"
  by (simp add: wf_session_def context_of_session_def wf_request_context_def wf_auth_context_def)

lemma ensure_request_id_Inr:
  assumes "ensure_request_id env uuid headers = Inr headers'"
  shows "\<exists>rid. headers' REQUEST_ID_HEADER = [Some rid]"
    and "name \<noteq> REQUEST_ID_HEADER \<Longrightarrow> headers' name = headers name"
  using assms
  by (auto simp: ensure_request_id_def header_insert_def Let_def result_simps
      split: list.splits option.splits if_splits)

lemma proxy_prepare_forward:
  assumes "proxy_prepare env config moment request state = (Inr forwarded, state')"
  shows "\<exists>headers ctx cache headers'.
    ensure_request_id env (im_request_uuid moment) (strip_untrusted_auth_metadata (ir_headers request)) = Inr headers
    \<and> (ctx = None \<and> headers AUTHORIZATION = [] \<and> headers COOKIE = []
       \<or> ingress_authenticate env config moment (request\<lparr>ir_headers := headers\<rparr>) (is_token_cache state) = (Inr ctx, cache))
    \<and> install_context env config moment (request\<lparr>ir_headers := headers\<rparr>) ctx = Inr headers'
    \<and> forward_request env config (request\<lparr>ir_headers := headers'\<rparr>) = Inr forwarded"
  using assms
  by (auto simp: proxy_prepare_def Let_def contains_key_def split: sum.splits prod.splits if_splits)

lemma ingress_authenticate_None:
  assumes "fst (ingress_authenticate env config moment request cache) = Inr None"
  shows "credential_of (ir_headers request) (ti_allow_development_session_cookie (ic_ingress config))
    = (Inr None :: native_authentication_error http_boundary_error + _)"
  using assms authenticate_request_None [of "ic_ingress config" _ "im_now moment" "authentication_request request"]
  by (simp add: ingress_authenticate_def Let_def authentication_request_def)

lemma ingress_authenticate_Some:
  assumes "fst (ingress_authenticate env config moment request cache) = Inr (Some ctx)"
    and "ir_headers request REQUEST_ID_HEADER = [Some rid]"
  obtains credential session where
    "fst (native_authenticate (ig_native env) (ic_authenticator config) (im_auth moment) credential cache) = Inr session"
    "credential_of (ir_headers request) (ti_allow_development_session_cookie (ic_ingress config))
       = (Inr (Some credential) :: native_authentication_error http_boundary_error + _)"
    "im_now moment < ses_expires_at session" "ctx = context_of_session session rid" "wf_request_context ctx"
proof -
  from assms(1) have "authenticate_request (ic_ingress config)
      (\<lambda>credential. fst (native_authenticate (ig_native env) (ic_authenticator config) (im_auth moment) credential cache))
      (im_now moment) (authentication_request request) Optional = Inr (Some ctx)"
    by (simp add: ingress_authenticate_def Let_def)
  then obtain cred session rid' where
      "credential_of (rq_headers (authentication_request request))
        (ti_allow_development_session_cookie (ic_ingress config))
        = (Inr (Some cred) :: native_authentication_error http_boundary_error + _)"
      "fst (native_authenticate (ig_native env) (ic_authenticator config) (im_auth moment) cred cache) = Inr session"
      "rq_headers (authentication_request request) REQUEST_ID_HEADER = [Some rid']" "valid_identifier rid'"
      "im_now moment < ses_expires_at session" "ses_issued_at session < ses_expires_at session"
      "ctx = context_of_session session rid'"
    by (rule authenticate_request_Some)
  with assms(2) context_of_session_wf native_authenticate_wf that show ?thesis
    by (simp add: authentication_request_def)
qed

lemma forward_request_Inr:
  assumes "forward_request env config request = Inr forwarded"
  shows "ir_method forwarded = ir_method request
    \<and> backend_uri env (ic_backend config) (ir_uri request) = Some (ir_uri forwarded)
    \<and> (\<forall>name. name \<notin> {HOST, CONNECTION, TRANSFER_ENCODING, UPGRADE, lit ''keep-alive'', lit ''proxy-connection''}
         \<longrightarrow> ir_headers forwarded name = ir_headers request name)"
  using assms
  by (auto simp: forward_request_def remove_http2_hop_headers_def header_remove_def header_insert_def
      split: option.splits if_splits)

text \<open>What the guest makes of the header the ingress installs.\<close>

lemma installed_context_opens:
  assumes "codec_laws (ig_codec env)" "wf_request_context ctx"
    and "install_context env config moment request (Some ctx) = Inr headers"
  obtains envelope where "headers = header_insert AUTH_CONTEXT_HEADER envelope (ir_headers request)"
    and "\<And>now. codec_open (ig_codec env) (ic_codec config) envelope (ir_method request)
        (ig_uri_path env (ir_uri request)) (vac_request_id (vrc_auth ctx)) now =
       (if unat now + 1 < unat (im_seal_now moment)
           \<or> unat (im_seal_now moment) + unat (tc_max_age_seconds (ic_codec config)) < unat now
           \<or> vac_expires_at (vrc_auth ctx) \<le> now
        then Inl TcExpired else Inr ctx)"
proof -
  from assms(3) obtain envelope where
      sealed: "seal (ig_codec env) (ic_codec config) ctx (ir_method request) (ig_uri_path env (ir_uri request))
        (im_seal_now moment) = Inr envelope"
      and headers: "headers = header_insert AUTH_CONTEXT_HEADER envelope (ir_headers request)"
    by (auto simp: install_context_def result_simps split: if_splits)
  have "trusted_path (ig_uri_path env (ir_uri request))" using sealed by (auto simp: seal_def result_simps)
  from that [OF headers] codec_open_sealed [OF assms(1,2) sealed this] show ?thesis by simp
qed

definition path_preserved :: "ingress_env \<Rightarrow> bool" where
  "path_preserved env \<longleftrightarrow>
     (\<forall>uri scheme authority uri'.
        ig_uri_from_parts env (uri\<lparr>uri_scheme := scheme, uri_authority := authority\<rparr>) = Some uri'
        \<longrightarrow> ig_uri_path env uri' = ig_uri_path env uri)"

text \<open>A forwarded request in terms of the request that was authenticated: the client's, stripped and with its request id.\<close>

lemma forwarded_request:
  assumes "path_preserved env" "proxy_prepare env config moment request state = (Inr forwarded, state')"
  obtains r ctx headers rid where
    "install_context env config moment r ctx = Inr headers"
    "ctx = None \<and> ir_headers r AUTHORIZATION = [] \<and> ir_headers r COOKIE = []
       \<or> fst (ingress_authenticate env config moment r (is_token_cache state)) = Inr ctx"
    "ir_headers r AUTH_CONTEXT_HEADER = []" "ir_headers r LEGACY_SESSION_HEADER = []"
    "ir_headers r LEGACY_ADMIN_HEADER = []" "ir_headers r REQUEST_ID_HEADER = [Some rid]"
    "\<forall>allow. credential_of (ir_headers r) allow
       = (credential_of (ir_headers request) allow :: native_authentication_error http_boundary_error + _)"
    "\<forall>name \<in> {AUTH_CONTEXT_HEADER, LEGACY_SESSION_HEADER, LEGACY_ADMIN_HEADER, REQUEST_ID_HEADER}.
       ir_headers forwarded name = headers name"
    "ir_method forwarded = ir_method r" "ig_uri_path env (ir_uri forwarded) = ig_uri_path env (ir_uri r)"
proof -
  from proxy_prepare_forward [OF assms(2)] obtain headers ctx cache headers' where
      id: "ensure_request_id env (im_request_uuid moment) (strip_untrusted_auth_metadata (ir_headers request)) = Inr headers"
      and ctx: "ctx = None \<and> headers AUTHORIZATION = [] \<and> headers COOKIE = []
        \<or> ingress_authenticate env config moment (request\<lparr>ir_headers := headers\<rparr>) (is_token_cache state) = (Inr ctx, cache)"
      and install: "install_context env config moment (request\<lparr>ir_headers := headers\<rparr>) ctx = Inr headers'"
      and fwd: "forward_request env config (request\<lparr>ir_headers := headers'\<rparr>) = Inr forwarded"
    by blast
  from ensure_request_id_Inr(1) [OF id] obtain rid where rid: "headers REQUEST_ID_HEADER = [Some rid]" ..
  have stripped: "headers AUTH_CONTEXT_HEADER = []" "headers LEGACY_SESSION_HEADER = []" "headers LEGACY_ADMIN_HEADER = []"
    using ensure_request_id_Inr(2) [OF id] by (simp_all add: strip_untrusted_auth_metadata_eq header_name_defs)
  have same: "credential_of headers allow
      = (credential_of (ir_headers request) allow :: native_authentication_error http_boundary_error + _)" for allow
    using ensure_request_id_Inr(2) [OF id]
    by (intro credential_of_cong) (simp_all add: strip_untrusted_auth_metadata_eq header_name_defs)
  note f = forward_request_Inr [OF fwd]
  have kept: "\<forall>name \<in> {AUTH_CONTEXT_HEADER, LEGACY_SESSION_HEADER, LEGACY_ADMIN_HEADER, REQUEST_ID_HEADER}.
      ir_headers forwarded name = headers' name"
    using f by (auto simp: header_name_defs ingress_header_defs simp del: lit_Cons lit_Nil)
  have path: "ig_uri_path env (ir_uri forwarded) = ig_uri_path env (ir_uri request)"
    using f assms(1) by (auto simp: backend_uri_def path_preserved_def)
  show ?thesis
    using that [OF install _ _ _ _ _ _ kept] ctx rid stripped same f path by auto
qed

subsection \<open>Properties\<close>

text \<open>
  C2: the identity that reaches the guest is the one the ingress verified for the credential of this client.
  Whatever headers a client sends, a forwarded request carries no legacy identity header and exactly one
  request id. If the client's own headers hold no credential, no context header is forwarded. Otherwise the
  context header is exactly the envelope the ingress sealed, and the guest opens it, for the method, path
  and request id of the request it receives and while the envelope is fresh, to the context of the session
  the native authenticator returned for the credential read from the client's headers, unexpired at the time.
\<close>

theorem forwarded_identity_is_verified:
  assumes "codec_laws (ig_codec env)" "path_preserved env"
    and "proxy_prepare env config moment request state = (Inr forwarded, state')"
  shows "ir_headers forwarded LEGACY_SESSION_HEADER = [] \<and> ir_headers forwarded LEGACY_ADMIN_HEADER = []
    \<and> (\<exists>rid presented. ir_headers forwarded REQUEST_ID_HEADER = [Some rid]
       \<and> credential_of (ir_headers request) (ti_allow_development_session_cookie (ic_ingress config))
           = (Inr presented :: native_authentication_error http_boundary_error + credential option)
       \<and> (case presented of
            None \<Rightarrow> ir_headers forwarded AUTH_CONTEXT_HEADER = []
          | Some credential \<Rightarrow> (\<exists>envelope session.
               ir_headers forwarded AUTH_CONTEXT_HEADER = [Some envelope]
               \<and> fst (native_authenticate (ig_native env) (ic_authenticator config) (im_auth moment) credential
                    (is_token_cache state)) = Inr session
               \<and> im_now moment < ses_expires_at session
               \<and> (\<forall>now. codec_open (ig_codec env) (ic_codec config) envelope (ir_method forwarded)
                     (ig_uri_path env (ir_uri forwarded)) rid now =
                    (if unat now + 1 < unat (im_seal_now moment)
                        \<or> unat (im_seal_now moment) + unat (tc_max_age_seconds (ic_codec config)) < unat now
                        \<or> ses_expires_at session \<le> now
                     then Inl TcExpired else Inr (context_of_session session rid))))))"
proof -
  from assms(2,3) obtain r ctx headers' rid where
      install: "install_context env config moment r ctx = Inr headers'"
      and ctx: "ctx = None \<and> ir_headers r AUTHORIZATION = [] \<and> ir_headers r COOKIE = []
        \<or> fst (ingress_authenticate env config moment r (is_token_cache state)) = Inr ctx"
      and headers: "ir_headers r AUTH_CONTEXT_HEADER = []" "ir_headers r LEGACY_SESSION_HEADER = []"
        "ir_headers r LEGACY_ADMIN_HEADER = []" and rid: "ir_headers r REQUEST_ID_HEADER = [Some rid]"
      and same: "\<forall>allow. credential_of (ir_headers r) allow
        = (credential_of (ir_headers request) allow :: native_authentication_error http_boundary_error + _)"
      and kept: "\<forall>name \<in> {AUTH_CONTEXT_HEADER, LEGACY_SESSION_HEADER, LEGACY_ADMIN_HEADER, REQUEST_ID_HEADER}.
        ir_headers forwarded name = headers' name"
      and f: "ir_method forwarded = ir_method r" "ig_uri_path env (ir_uri forwarded) = ig_uri_path env (ir_uri r)"
    by (rule forwarded_request)
  show ?thesis
  proof (cases ctx)
    case None
    with ctx ingress_authenticate_None [of env config moment r] credential_of_absent [of "ir_headers r"]
    have "credential_of (ir_headers r) (ti_allow_development_session_cookie (ic_ingress config))
        = (Inr None :: native_authentication_error http_boundary_error + credential option)" by auto
    with None install headers rid kept same show ?thesis by (simp add: install_context_def)
  next
    case (Some found)
    with ctx have "fst (ingress_authenticate env config moment r (is_token_cache state)) = Inr (Some found)" by simp
    from this rid obtain credential session where
        s: "fst (native_authenticate (ig_native env) (ic_authenticator config) (im_auth moment) credential
          (is_token_cache state)) = Inr session"
        "credential_of (ir_headers r) (ti_allow_development_session_cookie (ic_ingress config))
          = (Inr (Some credential) :: native_authentication_error http_boundary_error + _)"
        "im_now moment < ses_expires_at session"
        "found = context_of_session session rid" "wf_request_context found"
      by (rule ingress_authenticate_Some)
    from assms(1) s(5) install [unfolded Some] obtain envelope where
        headers': "headers' = header_insert AUTH_CONTEXT_HEADER envelope (ir_headers r)"
        and opens: "\<And>now. codec_open (ig_codec env) (ic_codec config) envelope (ir_method r)
            (ig_uri_path env (ir_uri r)) (vac_request_id (vrc_auth found)) now =
           (if unat now + 1 < unat (im_seal_now moment)
               \<or> unat (im_seal_now moment) + unat (tc_max_age_seconds (ic_codec config)) < unat now
               \<or> vac_expires_at (vrc_auth found) \<le> now
            then Inl TcExpired else Inr found)"
      by (rule installed_context_opens) blast
    moreover have "headers' AUTH_CONTEXT_HEADER = [Some envelope]" "headers' REQUEST_ID_HEADER = [Some rid]"
      "headers' LEGACY_SESSION_HEADER = []" "headers' LEGACY_ADMIN_HEADER = []"
      using headers rid by (simp_all add: headers' header_insert_def header_name_defs)
    ultimately show ?thesis using s kept same f by (simp add: context_of_session_def)
  qed
qed

definition sample_codec_for :: "trusted_context_payload \<Rightarrow> codec_env" where
  "sample_codec_for payload = sample_env\<lparr>payload_to_json := (\<lambda>p. if p = payload then Some [] else None),
     payload_of_json := (\<lambda>_. Some payload)\<rparr>"

definition sample_ingress_env :: "trusted_context_payload \<Rightarrow> ingress_env" where
  "sample_ingress_env payload = \<lparr>ig_native = sample_native_env, ig_codec = sample_codec_for payload,
     ig_http = sample_http_env, ig_policy = sample_policy_env, ig_principal_encode = (\<lambda>_. []),
     ig_uri_path = (\<lambda>uri. case uri_path_and_query uri of None \<Rightarrow> [] | Some path \<Rightarrow> path),
     ig_uri_from_parts = Some, ig_builder_ok = (\<lambda>_ _. True), ig_text_headers = (\<lambda>_. []),
     ig_json_headers = (\<lambda>_. []), ig_parse_check = (\<lambda>_. None), ig_parse_batch = (\<lambda>_. None)\<rparr>"

definition sample_ingress_config :: ingress_config where
  "sample_ingress_config = \<lparr>ic_ingress = sample_ingress, ic_authenticator = sample_authenticator,
     ic_codec = sample_codec, ic_backend = \<lparr>bo_authority = lit ''b'', bo_host = lit ''b''\<rparr>,
     ic_native_authorization_enabled = False, ic_secure_transport = False\<rparr>"

definition sample_ingress_state :: ingress_state where
  "sample_ingress_state = \<lparr>is_token_cache = [], is_cedar = \<lparr>cx_provider = sample_cedar, cx_epoch = epoch_at 1\<rparr>,
     is_tracker = \<lparr>it_tracker_id = 1, it_generation = 0, it_healthy = True\<rparr>\<rparr>"

definition sample_ingress_moment :: ingress_moment where
  "sample_ingress_moment = \<lparr>im_request_uuid = lit ''1'', im_auth = sample_moment, im_now = 2,
     im_cedar = \<lparr>cm_seen = is_cedar sample_ingress_state, cm_first_epoch = None, cm_second_epoch = None,
       cm_attempts = sample_attempts\<rparr>, im_body = None, im_seal_now = 2\<rparr>"

text \<open>A request with a good bearer token that also tries to bring its own context header.\<close>

definition sample_client_request :: ingress_request where
  "sample_client_request = \<lparr>ir_method = lit ''GET'',
     ir_uri = \<lparr>uri_scheme = None, uri_authority = None, uri_path_and_query = Some (lit ''/x'')\<rparr>,
     ir_version = HTTP_11,
     ir_headers = (\<lambda>_. [])(REQUEST_ID_HEADER := [Some (lit ''r'')], AUTHORIZATION := [Some (lit ''Bearer t'')],
       AUTH_CONTEXT_HEADER := [Some (lit ''forged'')])\<rparr>"

lemma sample_ingress_laws: "codec_laws (ig_codec (sample_ingress_env payload))" "path_preserved (sample_ingress_env payload)"
  by (auto simp: codec_laws_def sample_env_def comp_def sample_codec_for_def sample_ingress_env_def path_preserved_def
      split: if_splits)

lemma sample_seal_for:
  assumes "vac_policy_revision (vrc_auth ctx) = as_policy_revision (vrc_authorization ctx)"
    and "2 < vac_expires_at (vrc_auth ctx)"
  shows "seal (sample_codec_for (sealed_payload sample_codec ctx (lit ''GET'') (lit ''/x'') 2)) sample_codec ctx
    (lit ''GET'') (lit ''/x'') 2 = Inr sample_envelope"
  using assms sample_trusted_path validate_trusted_path_Inr_iff [of "lit ''/x''" "()"]
  by (simp add: seal_def sample_codec_for_def sample_env_def codec_signature_def codec_mac_def
      TRUSTED_CONTEXT_DOMAIN_def sample_envelope_def MAX_TRUSTED_CONTEXT_HEADER_BYTES_def utf8_char_def not_le Let_def)

lemma sample_proxied:
  obtains payload forwarded state' where
    "proxy_prepare (sample_ingress_env payload) sample_ingress_config sample_ingress_moment sample_client_request
       sample_ingress_state = (Inr forwarded, state')"
    "ir_headers forwarded AUTH_CONTEXT_HEADER = [Some sample_envelope]"
    "ir_headers forwarded REQUEST_ID_HEADER = [Some (lit ''r'')]"
proof -
  obtain session entry where
      auth: "native_authenticate sample_native_env sample_authenticator sample_moment (Bearer (lit ''t'')) []
        = (Inr session, [entry])"
      and times: "ses_issued_at session = 1" "ses_expires_at session = 8"
      and revision: "as_policy_revision (ses_authorization session) = ses_policy_revision session"
    by (rule sample_authentications)
  let ?ctx = "context_of_session session (lit ''r'')"
  let ?env = "sample_ingress_env (sealed_payload sample_codec ?ctx (lit ''GET'') (lit ''/x'') 2)"
  let ?headers = "(\<lambda>_. [])(REQUEST_ID_HEADER := [Some (lit ''r'')], AUTHORIZATION := [Some (lit ''Bearer t'')])"
  let ?request = "sample_client_request\<lparr>ir_headers := ?headers\<rparr>"
  have rid: "bounded_identifier_new (lit ''r'') = Inr (lit ''r'')" using sample_identifier by simp
  have "strip_untrusted_auth_metadata (ir_headers sample_client_request) = ?headers"
    by (auto simp: strip_untrusted_auth_metadata_eq sample_client_request_def header_name_defs fun_eq_iff)
  then have id: "ensure_request_id ?env (lit ''1'') (strip_untrusted_auth_metadata (ir_headers sample_client_request))
      = Inr ?headers"
    using rid by (simp add: ensure_request_id_def header_name_defs)
  have "authenticate_request sample_ingress
      (\<lambda>credential. fst (native_authenticate sample_native_env sample_authenticator sample_moment credential [])) 2
      (authentication_request ?request) Optional = Inr (Some ?ctx)"
    using rid auth times
    by (simp add: authenticate_request_def validate_content_length_def request_id_of_def credential_of_def
        cookie_value_def authentication_request_def sample_client_request_def header_name_defs
        authenticate_with_def from_validated_def context_of_session_def from_verified_def word_le_nat_alt)
  then have ctx: "fst (ingress_authenticate ?env sample_ingress_config sample_ingress_moment ?request []) = Inr (Some ?ctx)"
    by (simp add: ingress_authenticate_def sample_ingress_env_def sample_ingress_config_def sample_ingress_moment_def Let_def)
  then obtain cache where ctx': "ingress_authenticate ?env sample_ingress_config sample_ingress_moment ?request []
      = (Inr (Some ?ctx), cache)" by (metis prod.collapse)
  have "seal (sample_codec_for (sealed_payload sample_codec ?ctx (lit ''GET'') (lit ''/x'') 2)) sample_codec ?ctx
      (lit ''GET'') (lit ''/x'') 2 = Inr sample_envelope"
    using times revision by (intro sample_seal_for) (simp_all add: context_of_session_def)
  then have install: "install_context ?env sample_ingress_config sample_ingress_moment ?request (Some ?ctx)
      = Inr (header_insert AUTH_CONTEXT_HEADER sample_envelope ?headers)"
    by (simp add: install_context_def sample_ingress_env_def sample_ingress_config_def sample_ingress_moment_def
        sample_client_request_def sample_http_env_def del: lit_Cons lit_Nil)
  let ?sealed = "sample_client_request\<lparr>ir_headers := header_insert AUTH_CONTEXT_HEADER sample_envelope ?headers\<rparr>"
  obtain forwarded where fwd: "forward_request ?env sample_ingress_config ?sealed = Inr forwarded"
    by (simp add: forward_request_def backend_uri_def sample_ingress_env_def)
  have "ir_headers forwarded AUTH_CONTEXT_HEADER = ir_headers ?sealed AUTH_CONTEXT_HEADER"
    "ir_headers forwarded REQUEST_ID_HEADER = ir_headers ?sealed REQUEST_ID_HEADER"
    using forward_request_Inr [OF fwd] by (simp_all add: header_name_defs ingress_header_defs)
  then have header: "ir_headers forwarded AUTH_CONTEXT_HEADER = [Some sample_envelope]"
    "ir_headers forwarded REQUEST_ID_HEADER = [Some (lit ''r'')]"
    by (simp_all add: header_insert_def header_name_defs)
  have quiet: "im_request_uuid sample_ingress_moment = lit ''1''" "is_token_cache sample_ingress_state = []"
    "ig_builder_ok ?env m u" "\<not> native_authorization_path ?env sample_ingress_config r"
    "contains_key ?headers AUTHORIZATION" for m u r
    by (simp_all add: sample_ingress_moment_def sample_ingress_state_def sample_ingress_env_def contains_key_def
        native_authorization_path_def sample_ingress_config_def)
  have "\<exists>state'. proxy_prepare ?env sample_ingress_config sample_ingress_moment sample_client_request
      sample_ingress_state = (Inr forwarded, state')"
    using id ctx' install fwd quiet by (simp add: proxy_prepare_def Let_def del: lit_Cons lit_Nil)
  with header that show ?thesis by blast
qed

theorem forwarded_identity_is_verified_witness:
  "\<exists>payload forwarded state'. proxy_prepare (sample_ingress_env payload) sample_ingress_config sample_ingress_moment
      sample_client_request sample_ingress_state = (Inr forwarded, state')
    \<and> ir_headers forwarded AUTH_CONTEXT_HEADER = [Some sample_envelope]
    \<and> ir_headers forwarded LEGACY_SESSION_HEADER = []
    \<and> (\<exists>ctx. codec_open (ig_codec (sample_ingress_env payload)) sample_codec sample_envelope (ir_method forwarded)
          (ig_uri_path (sample_ingress_env payload) (ir_uri forwarded)) (lit ''r'') 2 = Inr ctx)"
proof -
  obtain payload forwarded state' where
      run: "proxy_prepare (sample_ingress_env payload) sample_ingress_config sample_ingress_moment
        sample_client_request sample_ingress_state = (Inr forwarded, state')"
      and header: "ir_headers forwarded AUTH_CONTEXT_HEADER = [Some sample_envelope]"
        "ir_headers forwarded REQUEST_ID_HEADER = [Some (lit ''r'')]"
    by (rule sample_proxied)
  have now: "im_seal_now sample_ingress_moment = 2" "im_now sample_ingress_moment = 2"
    "ic_codec sample_ingress_config = sample_codec"
    by (simp_all add: sample_ingress_moment_def sample_ingress_config_def)
  from forwarded_identity_is_verified [OF sample_ingress_laws run] header obtain session where
      "2 < ses_expires_at session" "ir_headers forwarded LEGACY_SESSION_HEADER = []"
      and "codec_open (ig_codec (sample_ingress_env payload)) sample_codec sample_envelope (ir_method forwarded)
          (ig_uri_path (sample_ingress_env payload) (ir_uri forwarded)) (lit ''r'') 2
        = (if ses_expires_at session \<le> 2 then Inl TcExpired else Inr (context_of_session session (lit ''r'')))"
    by (auto simp: now split: option.splits simp del: lit_Cons lit_Nil)
  with run header show ?thesis
    by (intro exI [of _ payload] exI [of _ forwarded] exI [of _ state']) (simp add: not_le)
qed

end
