(* ===== verification/Organization_Store.thy ===== *)
theory Organization_Store
  imports Relational_Kernel
begin

section \<open>Organizations in the database\<close>

text \<open>
  Models the statements behind \<open>postgres/organizations.rs\<close> and \<open>postgres/management.rs\<close>
  (\<open>create_organization.sql\<close>, \<open>select_organization.sql\<close>, \<open>update_organization.sql\<close>, \<open>upsert_role.sql\<close>,
  \<open>delete_role.sql\<close>, \<open>assign_membership_role.sql\<close>, \<open>remove_membership.sql\<close>, \<open>transfer_ownership.sql\<close>,
  \<open>leave_organization.sql\<close>, \<open>archive_organization.sql\<close>, \<open>set_user_disabled.sql\<close>,
  \<open>create_invitation.sql\<close>, \<open>accept_invitation.sql\<close>, \<open>revoke_invitation.sql\<close>,
  \<open>resend_invitation.sql\<close>) and the triggers on memberships and organizations of the migrations 0004
  and 0010. A statement is a function of the tables: it returns its rows and the changed tables, or
  the error that aborts it and leaves them unchanged.

  Row triggers run where PostgreSQL runs them: a \<open>BEFORE\<close> trigger with the write of its row, an \<open>AFTER\<close>
  trigger when all parts of the statement have run, a deferred constraint trigger last. An
  \<open>INSERT ... ON CONFLICT DO UPDATE\<close> fires the \<open>BEFORE INSERT\<close> triggers of the proposed row and then,
  when the row exists, the \<open>BEFORE UPDATE\<close> triggers as well. \<open>gen_random_uuid()\<close> is an argument, a
  function of the deduplication key the identifier is made for.
\<close>

type_synonym statement_result = "pg_error + pg_row list \<times> kernel_db"

subsection \<open>Triggers\<close>

definition OWNER_CONSTRAINT :: rstr where
  "OWNER_CONSTRAINT = lit ''auth_organization_requires_owner''"

definition is_active_owner :: "membership_row option \<Rightarrow> bool" where
  "is_active_owner m =
     (case m of None \<Rightarrow> False | Some m' \<Rightarrow> m_role_id m' = lit ''owner'' \<and> m_status m' = lit ''active'')"

definition put_organization :: "rstr \<Rightarrow> organization_row \<Rightarrow> kernel_db \<Rightarrow> kernel_db" where
  "put_organization organization row db = db\<lparr>db_organizations := fmupd organization row (db_organizations db)\<rparr>"

definition put_membership :: "rstr \<times> rstr \<Rightarrow> membership_row \<Rightarrow> kernel_db \<Rightarrow> kernel_db" where
  "put_membership k row db = db\<lparr>db_memberships := fmupd k row (db_memberships db)\<rparr>"

text \<open>\<open>auth_adjust_owner_count\<close>, with \<open>OLD\<close> and \<open>NEW\<close> absent for an insertion and a deletion.\<close>

definition adjust_owner_count ::
  "rstr \<Rightarrow> membership_row option \<Rightarrow> membership_row option \<Rightarrow> kernel_db \<Rightarrow> pg_error + kernel_db" where
  "adjust_owner_count organization old new db =
     (if is_active_owner old \<and> \<not> is_active_owner new then
        (case fmlookup (db_organizations db) organization of
           None \<Rightarrow> Inl (CheckViolation OWNER_CONSTRAINT)
         | Some row \<Rightarrow>
           if o_owner_count row > 1
           then Inr (put_organization organization (row\<lparr>o_owner_count := o_owner_count row - 1\<rparr>) db)
           else Inl (CheckViolation OWNER_CONSTRAINT))
      else if is_active_owner new \<and> \<not> is_active_owner old then
        (case fmlookup (db_organizations db) organization of
           None \<Rightarrow> Inl ForeignKeyViolation
         | Some row \<Rightarrow>
           if o_owner_count row + 1 > MAX_BIGINT then Inl NumericValueOutOfRange
           else Inr (put_organization organization (row\<lparr>o_owner_count := o_owner_count row + 1\<rparr>) db))
      else Inr db)"

fun nat_text :: "nat \<Rightarrow> rstr" where
  "nat_text n = (if n < 10 then [48 + n] else nat_text (n div 10) @ [48 + n mod 10])"

declare nat_text.simps [simp del]

definition bigint_text :: "int \<Rightarrow> rstr" where
  "bigint_text i = (if i < 0 then lit ''-'' @ nat_text (nat (- i)) else nat_text (nat i))"

definition relationship_key :: "rstr \<Rightarrow> rstr \<Rightarrow> int \<Rightarrow> rstr \<Rightarrow> rstr" where
  "relationship_key organization user revision operation =
     lit ''relationship:organization:'' @ organization @ lit '':member:user:'' @ user
     @ lit '':'' @ bigint_text revision @ lit '':'' @ operation"

definition relationship_intent :: "rstr \<Rightarrow> rstr \<Rightarrow> int \<Rightarrow> rstr \<Rightarrow> int \<Rightarrow> outbox_row" where
  "relationship_intent organization user revision operation at_ms =
     \<lparr>ob_kind = lit ''relationship'', ob_deduplication_key = relationship_key organization user revision operation,
      ob_key_version = None, ob_payload_ciphertext = None,
      ob_relationship = Some \<lparr>rc_operation = operation, rc_resource_type = lit ''organization'',
        rc_resource_id = organization, rc_relation = lit ''member'', rc_subject_type = lit ''user'',
        rc_subject_id = user, rc_resource_revision = revision\<rparr>,
      ob_status = lit ''pending'', ob_attempt_count = 0, ob_available_at_ms = at_ms, ob_lease_id = None,
      ob_leased_until_ms = None, ob_delivered_at_ms = None, ob_delivery_id = None,
      ob_last_error_code = None, ob_created_at_ms = at_ms, ob_updated_at_ms = at_ms\<rparr>"

definition deduplication_keys :: "kernel_db \<Rightarrow> rstr fset" where
  "deduplication_keys db = ob_deduplication_key |`| fmran (db_outbox db)"

definition insert_outbox :: "rstr \<Rightarrow> outbox_row \<Rightarrow> kernel_db \<Rightarrow> pg_error + kernel_db" where
  "insert_outbox outbox_id row db =
     (if fmlookup (db_outbox db) outbox_id \<noteq> None then Inl UniqueViolation
      else Inr (db\<lparr>db_outbox := fmupd outbox_id row (db_outbox db)\<rparr>))"

text \<open>\<open>auth_track_membership_authorization\<close>, the \<open>AFTER\<close> trigger of migration 0010.\<close>

definition is_active :: "membership_row option \<Rightarrow> bool" where
  "is_active m = (case m of None \<Rightarrow> False | Some m' \<Rightarrow> m_status m' = lit ''active'')"

definition track_membership_authorization ::
  "(rstr \<Rightarrow> rstr) \<Rightarrow> rstr \<Rightarrow> rstr \<Rightarrow> membership_row option \<Rightarrow> membership_row option \<Rightarrow> kernel_db \<Rightarrow> pg_error + kernel_db" where
  "track_membership_authorization gen organization user old new db =
     (if (case (old, new) of
            (Some o', Some n) \<Rightarrow> m_role_id o' = m_role_id n \<and> m_status o' = m_status n
          | _ \<Rightarrow> False) then Inr db
      else
        let at_ms = (case new of Some n \<Rightarrow> m_updated_at_ms n | None \<Rightarrow> (case old of Some o' \<Rightarrow> m_updated_at_ms o' | None \<Rightarrow> 0)) in
        case fmlookup (db_organizations db) organization of
          None \<Rightarrow> Inl ForeignKeyViolation
        | Some row \<Rightarrow>
          if o_authorization_revision row + 1 > MAX_BIGINT then Inl NumericValueOutOfRange
          else
            let revision = o_authorization_revision row + 1;
                db1 = put_organization organization
                  (row\<lparr>o_authorization_revision := revision, o_updated_at_ms := max (o_updated_at_ms row) at_ms\<rparr>) db;
                operation = (if is_active new then lit ''grant'' else lit ''revoke'') in
            if is_active old = is_active new then Inr db1
            else if relationship_key organization user revision operation |\<in>| deduplication_keys db1 then Inr db1
            else insert_outbox (gen (relationship_key organization user revision operation))
                   (relationship_intent organization user revision operation at_ms) db1)"

text \<open>\<open>auth_validate_owner_count\<close>, deferred to the end of the transaction.\<close>

definition validate_owner_count :: "rstr \<Rightarrow> kernel_db \<Rightarrow> pg_error + kernel_db" where
  "validate_owner_count organization db =
     (case fmlookup (db_organizations db) organization of
        None \<Rightarrow> Inr db
      | Some row \<Rightarrow>
        if o_status row = lit ''active'' \<and> o_owner_count row < 1 then Inl (CheckViolation OWNER_CONSTRAINT)
        else Inr db)"

text \<open>The foreign key of a membership to its role, and one row written with its \<open>BEFORE\<close> trigger.\<close>

definition update_membership ::
  "rstr \<Rightarrow> rstr \<Rightarrow> membership_row \<Rightarrow> membership_row \<Rightarrow> kernel_db \<Rightarrow> pg_error + kernel_db" where
  "update_membership organization user old new db =
     rbind (adjust_owner_count organization (Some old) (Some new) db) (\<lambda>db1.
       if m_role_id new \<noteq> m_role_id old \<and> fmlookup (db_roles db1) (organization, m_role_id new) = None
       then Inl ForeignKeyViolation
       else Inr (put_membership (organization, user) new db1))"

text \<open>
  \<open>INSERT INTO auth_memberships ... ON CONFLICT (organization_id, user_id) DO UPDATE\<close> of
  \<open>accept_invitation.sql\<close>: the insert triggers see the proposed row before the conflict is found.
\<close>

definition upsert_membership ::
  "rstr \<Rightarrow> rstr \<Rightarrow> membership_row \<Rightarrow> kernel_db \<Rightarrow> pg_error + (membership_row option \<times> membership_row \<times> kernel_db)" where
  "upsert_membership organization user proposed db =
     rbind (adjust_owner_count organization None (Some proposed) db) (\<lambda>db1.
       case fmlookup (db_memberships db1) (organization, user) of
         None \<Rightarrow>
           if fmlookup (db_roles db1) (organization, m_role_id proposed) = None then Inl ForeignKeyViolation
           else Inr (None, proposed, put_membership (organization, user) proposed db1)
       | Some old \<Rightarrow>
           let new = old\<lparr>m_role_id := m_role_id proposed, m_status := lit ''active'',
                         m_updated_at_ms := m_updated_at_ms proposed\<rparr> in
           rbind (update_membership organization user old new db1) (\<lambda>db2. Inr (Some old, new, db2)))"

subsection \<open>Parts the statements share\<close>

record actor_parameters =
  ap_session :: rstr
  ap_organization :: rstr
  ap_now_ms :: int
  ap_audit_id :: rstr
  ap_request_id :: rstr
  ap_gen :: "rstr \<Rightarrow> rstr"

definition elevated :: "session_row \<Rightarrow> bool" where
  "elevated s \<longleftrightarrow> s_assurance s = lit ''aal2'' \<or> s_assurance s = lit ''aal3''"

definition role_has :: "kernel_db \<Rightarrow> rstr \<Rightarrow> rstr \<Rightarrow> rstr \<Rightarrow> bool" where
  "role_has db organization role permission \<longleftrightarrow> (organization, role, permission) |\<in>| db_role_permissions db"

text \<open>
  The table expression \<open>actor\<close>: the session, its user and the active membership in the organization,
  with the permission and the assurance the statement asks for.
\<close>

definition member_actor ::
  "kernel_db \<Rightarrow> int \<Rightarrow> rstr \<Rightarrow> rstr \<Rightarrow> rstr option \<Rightarrow> bool \<Rightarrow> (session_row \<times> membership_row) option" where
  "member_actor db now sid organization permission needs_elevation =
     Option.bind (session_usable db now sid) (\<lambda>(s, u).
     Option.bind (fmlookup (db_memberships db) (organization, s_user_id s)) (\<lambda>m.
       if m_status m = lit ''active''
          \<and> (case permission of None \<Rightarrow> True | Some p \<Rightarrow> role_has db organization (m_role_id m) p)
          \<and> (needs_elevation \<longrightarrow> elevated s)
       then Some (s, m) else None))"

definition active_organization :: "kernel_db \<Rightarrow> rstr \<Rightarrow> organization_row option" where
  "active_organization db organization =
     Option.bind (fmlookup (db_organizations db) organization) (\<lambda>row.
       if o_status row = lit ''active'' then Some row else None)"

definition active_membership :: "kernel_db \<Rightarrow> rstr \<Rightarrow> rstr \<Rightarrow> membership_row option" where
  "active_membership db organization user =
     Option.bind (fmlookup (db_memberships db) (organization, user)) (\<lambda>m.
       if m_status m = lit ''active'' then Some m else None)"

text \<open>The users counted by \<open>SELECT count(*) ... role_id = 'owner' AND status = 'active'\<close>.\<close>

definition active_owners :: "kernel_db \<Rightarrow> rstr \<Rightarrow> rstr fset" where
  "active_owners db organization =
     snd |`| ffilter (\<lambda>k. fst k = organization \<and> is_active_owner (fmlookup (db_memberships db) k))
       (fmdom (db_memberships db))"

definition can_transfer_ownership :: "kernel_db \<Rightarrow> rstr \<Rightarrow> membership_row \<Rightarrow> bool" where
  "can_transfer_ownership db organization m = role_has db organization (m_role_id m) (lit ''ownership.transfer'')"

definition record_audit ::
  "actor_parameters \<Rightarrow> rstr option \<Rightarrow> rstr \<Rightarrow> rstr \<Rightarrow> rstr \<Rightarrow> rstr \<Rightarrow> rstr \<Rightarrow> kernel_db \<Rightarrow> pg_error + kernel_db" where
  "record_audit p organization user sid action resource_type resource_id db =
     (if fmlookup (db_audit_log db) (ap_audit_id p) \<noteq> None then Inl UniqueViolation
      else Inr (db\<lparr>db_audit_log := fmupd (ap_audit_id p)
        (audit_entry organization (Some user) (Some sid) action resource_type resource_id (lit ''succeeded'')
          (ap_request_id p) (ap_now_ms p)) (db_audit_log db)\<rparr>))"

text \<open>
  \<open>UPDATE auth_sessions SET ..., session_revision = session_revision + 1, updated_at_ms = now\<close> over the
  rows a condition selects.
\<close>

definition update_sessions ::
  "(rstr \<Rightarrow> session_row \<Rightarrow> bool) \<Rightarrow> (session_row \<Rightarrow> session_row) \<Rightarrow> int \<Rightarrow> kernel_db \<Rightarrow> pg_error + kernel_db" where
  "update_sessions selects change now db =
     (if fBex (fmdom (db_sessions db)) (\<lambda>sid. case fmlookup (db_sessions db) sid of
           None \<Rightarrow> False | Some s \<Rightarrow> selects sid s \<and> s_session_revision s + 1 > MAX_BIGINT)
      then Inl NumericValueOutOfRange
      else Inr (db\<lparr>db_sessions := fmmap_keys (\<lambda>sid s.
        if selects sid s
        then (change s)\<lparr>s_session_revision := s_session_revision s + 1, s_updated_at_ms := now\<rparr> else s)
        (db_sessions db)\<rparr>))"

definition clear_selection :: "session_row \<Rightarrow> session_row" where
  "clear_selection s = s\<lparr>s_selected_organization_id := None\<rparr>"

text \<open>\<open>authorization_revision + 1, updated_at_ms = now\<close> of the statements that revise an organization.\<close>

definition revise_organization :: "rstr \<Rightarrow> int \<Rightarrow> kernel_db \<Rightarrow> pg_error + kernel_db" where
  "revise_organization organization now db =
     (case fmlookup (db_organizations db) organization of
        None \<Rightarrow> Inr db
      | Some row \<Rightarrow>
        if o_authorization_revision row + 1 > MAX_BIGINT then Inl NumericValueOutOfRange
        else Inr (put_organization organization
          (row\<lparr>o_authorization_revision := o_authorization_revision row + 1, o_updated_at_ms := now\<rparr>) db))"

definition consume_tokens :: "(bytes \<Rightarrow> bool) \<Rightarrow> int \<Rightarrow> kernel_db \<Rightarrow> kernel_db" where
  "consume_tokens selects now db = db\<lparr>db_one_time_tokens := fmmap_keys (\<lambda>h t.
     if selects h \<and> ot_purpose t = lit ''invitation'' \<and> ot_consumed_at_ms t = None
     then t\<lparr>ot_consumed_at_ms := Some now\<rparr> else t) (db_one_time_tokens db)\<rparr>"

definition permissions_json :: "kernel_db \<Rightarrow> rstr \<Rightarrow> rstr \<Rightarrow> json_value" where
  "permissions_json db organization role =
     JvArray (map JvString (sorted_list_of_fset ((\<lambda>(_, _, permission). permission) |`|
       ffilter (\<lambda>(o', r, _). o' = organization \<and> r = role) (db_role_permissions db))))"

definition organization_output :: "rstr \<Rightarrow> organization_row \<Rightarrow> rstr \<Rightarrow> json_value \<Rightarrow> (rstr \<times> pg_value) list" where
  "organization_output organization row role granted =
     [(lit ''organization_id'', PgText organization), (lit ''name'', PgText (o_name row)),
      (lit ''slug'', pg_text_option (o_slug row)), (lit ''status'', PgText (o_status row)),
      (lit ''created_at_ms'', PgI64 (o_created_at_ms row)), (lit ''role_id'', PgText role),
      (lit ''permissions'', PgJson granted)]"

definition membership_output :: "kernel_db \<Rightarrow> rstr \<Rightarrow> rstr \<Rightarrow> membership_row \<Rightarrow> pg_row list" where
  "membership_output db organization user m =
     (case fmlookup (db_users db) user of
        None \<Rightarrow> []
      | Some u \<Rightarrow> [row_new
          [(lit ''organization_id'', PgText organization), (lit ''user_id'', PgText user),
           (lit ''primary_email'', PgText (u_primary_email u)), (lit ''role_id'', PgText (m_role_id m)),
           (lit ''status'', PgText (m_status m)), (lit ''joined_at_ms'', PgI64 (m_joined_at_ms m))]])"

definition invitation_output :: "rstr \<Rightarrow> invitation_row \<Rightarrow> (rstr \<times> pg_value) list" where
  "invitation_output invitation_id i =
     [(lit ''invitation_id'', PgText invitation_id), (lit ''organization_id'', PgText (i_organization_id i)),
      (lit ''normalized_email'', PgText (i_normalized_email i)), (lit ''role_id'', PgText (i_role_id i)),
      (lit ''status'', PgText (i_status i)), (lit ''expires_at_ms'', PgI64 (i_expires_at_ms i))]"

definition outcome_only :: "string \<Rightarrow> pg_row list" where
  "outcome_only outcome = [row_new [(lit ''outcome'', PgText (lit outcome))]]"

text \<open>The conversion \<open>$1::text::uuid\<close> of the session, the one identifier not validated before.\<close>

definition with_session ::
  "(rstr \<Rightarrow> rstr option) \<Rightarrow> actor_parameters \<Rightarrow> (rstr \<Rightarrow> statement_result) \<Rightarrow> statement_result" where
  "with_session pg_uuid p body =
     (case pg_uuid (ap_session p) of None \<Rightarrow> Inl InvalidTextRepresentation | Some sid \<Rightarrow> body sid)"

subsection \<open>Memberships\<close>

text \<open>
  The end of a change of one membership row: its \<open>AFTER\<close> trigger, and the deferred check of the organization
  when the \<open>BEFORE\<close> trigger has written \<open>owner_count\<close>, which the constraint trigger is declared for.
\<close>

definition writes_owner_count :: "membership_row option \<Rightarrow> membership_row \<Rightarrow> bool" where
  "writes_owner_count old new \<longleftrightarrow> is_active_owner old \<noteq> is_active_owner (Some new)"

definition finish_membership ::
  "actor_parameters \<Rightarrow> rstr \<Rightarrow> bool \<Rightarrow> membership_row option \<Rightarrow> membership_row \<Rightarrow> kernel_db \<Rightarrow> pg_error + kernel_db" where
  "finish_membership p user written old new db =
     rbind (track_membership_authorization (ap_gen p) (ap_organization p) user old (Some new) db) (\<lambda>db'.
       if written then validate_owner_count (ap_organization p) db' else Inr db')"

definition assign_membership_role_sql ::
  "(rstr \<Rightarrow> rstr option) \<Rightarrow> actor_parameters \<Rightarrow> rstr \<Rightarrow> rstr \<Rightarrow> kernel_db \<Rightarrow> statement_result" where
  "assign_membership_role_sql pg_uuid p target next_role db = with_session pg_uuid p (\<lambda>sid.
     let organization = ap_organization p in
     case (member_actor db (ap_now_ms p) sid organization (Some (lit ''member.manage'')) True,
           active_organization db organization, active_membership db organization target) of
       (Some (s, actor), Some _, Some t) \<Rightarrow>
         if fmlookup (db_roles db) (organization, next_role) = None then Inr ([], db)
         else if (m_role_id t \<noteq> lit ''owner'' \<and> next_role \<noteq> lit ''owner'')
           \<or> can_transfer_ownership db organization actor
             \<and> (next_role = lit ''owner'' \<or> m_role_id t \<noteq> lit ''owner'' \<or> fcard (active_owners db organization) > 1)
         then
           let t' = t\<lparr>m_role_id := next_role, m_updated_at_ms := ap_now_ms p\<rparr> in
           rbind (update_membership organization target t t' db) (\<lambda>db1.
           rbind (record_audit p (Some organization) (s_user_id s) sid (lit ''member.role.assign'')
             (lit ''membership'') target db1) (\<lambda>db2.
           rbind (finish_membership p target (writes_owner_count (Some t) t') (Some t) t' db2) (\<lambda>db3.
             Inr (membership_output db organization target t', db3))))
         else Inr ([], db)
     | _ \<Rightarrow> Inr ([], db))"

text \<open>\<open>removed\<close>, \<open>cleared_sessions\<close> and \<open>new_audit\<close>, which removing and leaving share.\<close>

definition end_membership ::
  "actor_parameters \<Rightarrow> rstr \<Rightarrow> rstr \<Rightarrow> rstr \<Rightarrow> membership_row \<Rightarrow> rstr \<Rightarrow> kernel_db \<Rightarrow> pg_error + kernel_db" where
  "end_membership p user sid target t action db =
     (let organization = ap_organization p;
          t' = t\<lparr>m_status := lit ''removed'', m_updated_at_ms := ap_now_ms p\<rparr> in
      rbind (update_membership organization target t t' db) (\<lambda>db1.
      rbind (update_sessions (\<lambda>_ s. s_user_id s = target \<and> s_selected_organization_id s = Some organization)
        clear_selection (ap_now_ms p) db1) (\<lambda>db2.
      rbind (record_audit p (Some organization) user sid action (lit ''membership'') target db2) (\<lambda>db3.
        finish_membership p target (writes_owner_count (Some t) t') (Some t) t' db3))))"

definition remove_membership_sql ::
  "(rstr \<Rightarrow> rstr option) \<Rightarrow> actor_parameters \<Rightarrow> rstr \<Rightarrow> kernel_db \<Rightarrow> statement_result" where
  "remove_membership_sql pg_uuid p target db = with_session pg_uuid p (\<lambda>sid.
     let organization = ap_organization p in
     case (member_actor db (ap_now_ms p) sid organization (Some (lit ''member.manage'')) True,
           active_organization db organization, active_membership db organization target) of
       (Some (s, actor), Some _, Some t) \<Rightarrow>
         if m_role_id t \<noteq> lit ''owner''
            \<or> can_transfer_ownership db organization actor \<and> fcard (active_owners db organization) > 1
         then rbind (end_membership p (s_user_id s) sid target t (lit ''member.remove'') db) (\<lambda>db'.
           Inr (outcome_only ''removed'', db'))
         else Inr ([], db)
     | _ \<Rightarrow> Inr ([], db))"

definition leave_organization_sql ::
  "(rstr \<Rightarrow> rstr option) \<Rightarrow> actor_parameters \<Rightarrow> kernel_db \<Rightarrow> statement_result" where
  "leave_organization_sql pg_uuid p db = with_session pg_uuid p (\<lambda>sid.
     let organization = ap_organization p in
     case (member_actor db (ap_now_ms p) sid organization None False, active_organization db organization) of
       (Some (s, actor), Some _) \<Rightarrow>
         if m_role_id actor \<noteq> lit ''owner'' \<or> fcard (active_owners db organization) > 1
         then rbind (end_membership p (s_user_id s) sid (s_user_id s) actor (lit ''member.leave'') db) (\<lambda>db'.
           Inr (outcome_only ''left'', db'))
         else Inr ([], db)
     | _ \<Rightarrow> Inr ([], db))"

text \<open>The target is promoted before the actor is demoted; both rows fire their triggers.\<close>

definition transfer_ownership_sql ::
  "(rstr \<Rightarrow> rstr option) \<Rightarrow> actor_parameters \<Rightarrow> rstr \<Rightarrow> kernel_db \<Rightarrow> statement_result" where
  "transfer_ownership_sql pg_uuid p target db = with_session pg_uuid p (\<lambda>sid.
     let organization = ap_organization p in
     case (member_actor db (ap_now_ms p) sid organization (Some (lit ''ownership.transfer'')) True,
           active_organization db organization, active_membership db organization target) of
       (Some (s, actor), Some _, Some t) \<Rightarrow>
         if s_user_id s = target then Inr ([], db)
         else
           let t' = t\<lparr>m_role_id := lit ''owner'', m_updated_at_ms := ap_now_ms p\<rparr>;
               demotes = (m_role_id actor = lit ''owner'');
               actor' = (if demotes then actor\<lparr>m_role_id := lit ''admin'', m_updated_at_ms := ap_now_ms p\<rparr> else actor) in
           rbind (update_membership organization target t t' db) (\<lambda>db1.
           rbind (if demotes then update_membership organization (s_user_id s) actor actor' db1 else Inr db1) (\<lambda>db2.
           rbind (record_audit p (Some organization) (s_user_id s) sid (lit ''ownership.transfer'')
             (lit ''organization'') organization db2) (\<lambda>db3.
           rbind (finish_membership p target (writes_owner_count (Some t) t') (Some t) t' db3) (\<lambda>db4.
           rbind (if demotes then finish_membership p (s_user_id s) (writes_owner_count (Some actor) actor') (Some actor) actor' db4 else Inr db4) (\<lambda>db5.
             Inr (membership_output db organization target t', db5))))))
     | _ \<Rightarrow> Inr ([], db))"

subsection \<open>Organizations\<close>

definition select_organization_sql ::
  "(rstr \<Rightarrow> rstr option) \<Rightarrow> actor_parameters \<Rightarrow> kernel_db \<Rightarrow> statement_result" where
  "select_organization_sql pg_uuid p db = with_session pg_uuid p (\<lambda>sid.
     let organization = ap_organization p in
     case (member_actor db (ap_now_ms p) sid organization None False, active_organization db organization) of
       (Some (s, _), Some _) \<Rightarrow>
         rbind (update_sessions (\<lambda>sid' _. sid' = sid)
           (\<lambda>s. s\<lparr>s_selected_organization_id := Some organization\<rparr>) (ap_now_ms p) db) (\<lambda>db1.
         rbind (record_audit p (Some organization) (s_user_id s) sid (lit ''organization.select'')
           (lit ''session'') sid db1) (\<lambda>db2.
           Inr (outcome_only ''selected'', db2)))
     | _ \<Rightarrow> Inr ([], db))"

definition update_organization_sql ::
  "(rstr \<Rightarrow> rstr option) \<Rightarrow> actor_parameters \<Rightarrow> rstr \<Rightarrow> kernel_db \<Rightarrow> statement_result" where
  "update_organization_sql pg_uuid p name db = with_session pg_uuid p (\<lambda>sid.
     let organization = ap_organization p in
     case (member_actor db (ap_now_ms p) sid organization (Some (lit ''organization.update'')) True,
           active_organization db organization) of
       (Some (s, actor), Some row) \<Rightarrow>
         let row' = row\<lparr>o_name := name, o_updated_at_ms := ap_now_ms p\<rparr> in
         rbind (record_audit p (Some organization) (s_user_id s) sid (lit ''organization.update'')
           (lit ''organization'') organization (put_organization organization row' db)) (\<lambda>db1.
           Inr ([row_new (organization_output organization row' (m_role_id actor)
             (permissions_json db organization (m_role_id actor)))], db1))
     | _ \<Rightarrow> Inr ([], db))"

definition pending_in :: "rstr \<Rightarrow> invitation_row \<Rightarrow> bool" where
  "pending_in organization i \<longleftrightarrow> i_organization_id i = organization \<and> i_status i = lit ''pending''"

definition revoke_invitations :: "(invitation_row \<Rightarrow> bool) \<Rightarrow> int \<Rightarrow> kernel_db \<Rightarrow> kernel_db" where
  "revoke_invitations selects now db = db\<lparr>db_invitations := fmmap (\<lambda>i.
     if selects i then i\<lparr>i_status := lit ''revoked'', i_updated_at_ms := now\<rparr> else i) (db_invitations db)\<rparr>"

definition invitation_hashes :: "(invitation_row \<Rightarrow> bool) \<Rightarrow> kernel_db \<Rightarrow> bytes fset" where
  "invitation_hashes selects db = i_token_hash |`| ffilter selects (fmran (db_invitations db))"

definition archive_organization_sql ::
  "(rstr \<Rightarrow> rstr option) \<Rightarrow> actor_parameters \<Rightarrow> kernel_db \<Rightarrow> statement_result" where
  "archive_organization_sql pg_uuid p db = with_session pg_uuid p (\<lambda>sid.
     let organization = ap_organization p in
     case (member_actor db (ap_now_ms p) sid organization (Some (lit ''ownership.transfer'')) True,
           active_organization db organization) of
       (Some (s, actor), Some row) \<Rightarrow>
         if o_authorization_revision row + 1 > MAX_BIGINT then Inl NumericValueOutOfRange
         else
           let row' = row\<lparr>o_status := lit ''archived'', o_authorization_revision := o_authorization_revision row + 1,
                          o_updated_at_ms := ap_now_ms p\<rparr>;
               db1 = consume_tokens (\<lambda>h. h |\<in>| invitation_hashes (pending_in organization) db) (ap_now_ms p)
                 (revoke_invitations (pending_in organization) (ap_now_ms p) (put_organization organization row' db)) in
           rbind (update_sessions (\<lambda>_ s. s_selected_organization_id s = Some organization) clear_selection
             (ap_now_ms p) db1) (\<lambda>db2.
           rbind (record_audit p (Some organization) (s_user_id s) sid (lit ''organization.archive'')
             (lit ''organization'') organization db2) (\<lambda>db3.
           rbind (validate_owner_count organization db3) (\<lambda>db4.
             Inr ([row_new (organization_output organization row' (m_role_id actor)
               (permissions_json db organization (m_role_id actor)))], db4))))
     | _ \<Rightarrow> Inr ([], db))"

subsection \<open>Roles\<close>

definition upsert_role_sql ::
  "(rstr \<Rightarrow> rstr option) \<Rightarrow> actor_parameters \<Rightarrow> rstr \<Rightarrow> rstr \<Rightarrow> rstr list \<Rightarrow> kernel_db \<Rightarrow> statement_result" where
  "upsert_role_sql pg_uuid p role name granted db = with_session pg_uuid p (\<lambda>sid.
     let organization = ap_organization p in
     case (member_actor db (ap_now_ms p) sid organization (Some (lit ''role.manage'')) True,
           active_organization db organization) of
       (Some (s, _), Some _) \<Rightarrow>
         let previous = fmlookup (db_roles db) (organization, role) in
         if (case previous of None \<Rightarrow> False | Some r \<Rightarrow> r_built_in r) then Inr ([], db)
         else if fBex (fmdom (db_roles db)) (\<lambda>k. fst k = organization \<and> snd k \<noteq> role
             \<and> (case fmlookup (db_roles db) k of None \<Rightarrow> False | Some r \<Rightarrow> r_name r = name))
           \<or> \<not> distinct granted then Inl UniqueViolation
         else
           let saved = (case previous of
                 None \<Rightarrow> \<lparr>r_name = name, r_built_in = False, r_created_at_ms = ap_now_ms p, r_updated_at_ms = ap_now_ms p\<rparr>
               | Some r \<Rightarrow> r\<lparr>r_name := name, r_updated_at_ms := ap_now_ms p\<rparr>);
               db1 = db\<lparr>db_roles := fmupd (organization, role) saved (db_roles db),
                        db_role_permissions :=
                          ffilter (\<lambda>(o', r, _). \<not> (o' = organization \<and> r = role)) (db_role_permissions db)
                          |\<union>| (\<lambda>permission. (organization, role, permission)) |`| fset_of_list granted\<rparr> in
           rbind (revise_organization organization (ap_now_ms p) db1) (\<lambda>db2.
           rbind (record_audit p (Some organization) (s_user_id s) sid (lit ''role.manage'') (lit ''role'') role db2) (\<lambda>db3.
             Inr ([row_new
               [(lit ''organization_id'', PgText organization), (lit ''role_id'', PgText role),
                (lit ''name'', PgText name), (lit ''built_in'', PgBool (r_built_in saved)),
                (lit ''permissions'', PgJson (JvArray (map JvString granted)))]], db3)))
     | _ \<Rightarrow> Inr ([], db))"

definition members_with :: "kernel_db \<Rightarrow> rstr \<Rightarrow> rstr \<Rightarrow> nat" where
  "members_with db organization role = fcard (ffilter (\<lambda>k. fst k = organization
     \<and> (case fmlookup (db_memberships db) k of None \<Rightarrow> False | Some m \<Rightarrow> m_role_id m = role \<and> m_status m = lit ''active''))
     (fmdom (db_memberships db)))"

definition invitations_with :: "kernel_db \<Rightarrow> rstr \<Rightarrow> rstr \<Rightarrow> nat" where
  "invitations_with db organization role = fcard (ffilter (\<lambda>k.
     case fmlookup (db_invitations db) k of None \<Rightarrow> False | Some i \<Rightarrow> pending_in organization i \<and> i_role_id i = role)
     (fmdom (db_invitations db)))"

text \<open>
  The memberships and invitations still pointing at a deleted role are inactive ones; they move to
  the role \<open>member\<close>, which the foreign key requires to exist when there is one to move.
\<close>

definition retarget_memberships :: "rstr \<Rightarrow> rstr \<Rightarrow> int \<Rightarrow> kernel_db \<Rightarrow> kernel_db" where
  "retarget_memberships organization role now db = db\<lparr>db_memberships := fmmap_keys (\<lambda>k m.
     if fst k = organization \<and> m_role_id m = role \<and> m_status m \<noteq> lit ''active''
     then m\<lparr>m_role_id := lit ''member'', m_updated_at_ms := now\<rparr> else m) (db_memberships db)\<rparr>"

definition retarget_invitations :: "rstr \<Rightarrow> rstr \<Rightarrow> int \<Rightarrow> kernel_db \<Rightarrow> kernel_db" where
  "retarget_invitations organization role now db = db\<lparr>db_invitations := fmmap (\<lambda>i.
     if i_organization_id i = organization \<and> i_role_id i = role \<and> i_status i \<noteq> lit ''pending''
     then i\<lparr>i_role_id := lit ''member'', i_updated_at_ms := now\<rparr> else i) (db_invitations db)\<rparr>"

definition retargeted_users :: "kernel_db \<Rightarrow> rstr \<Rightarrow> rstr \<Rightarrow> rstr list" where
  "retargeted_users db organization role = sorted_list_of_fset (snd |`| (ffilter (\<lambda>k. fst k = organization
     \<and> (case fmlookup (db_memberships db) k of None \<Rightarrow> False | Some m \<Rightarrow> m_role_id m = role \<and> m_status m \<noteq> lit ''active''))
     (fmdom (db_memberships db))))"

text \<open>The \<open>AFTER\<close> trigger over several rows of one organization or of one user.\<close>

fun track_memberships ::
  "(rstr \<Rightarrow> rstr) \<Rightarrow> kernel_db \<Rightarrow> (rstr \<times> rstr) list \<Rightarrow> kernel_db \<Rightarrow> pg_error + kernel_db" where
  "track_memberships gen before [] db = Inr db"
| "track_memberships gen before (k # ks) db =
     rbind (track_membership_authorization gen (fst k) (snd k)
       (fmlookup (db_memberships before) k) (fmlookup (db_memberships db) k) db) (track_memberships gen before ks)"

definition delete_role_sql ::
  "(rstr \<Rightarrow> rstr option) \<Rightarrow> actor_parameters \<Rightarrow> rstr \<Rightarrow> kernel_db \<Rightarrow> statement_result" where
  "delete_role_sql pg_uuid p role db = with_session pg_uuid p (\<lambda>sid.
     let organization = ap_organization p in
     case (member_actor db (ap_now_ms p) sid organization (Some (lit ''role.manage'')) True,
           active_organization db organization, fmlookup (db_roles db) (organization, role)) of
       (Some (s, _), Some _, Some r) \<Rightarrow>
         let member_count = members_with db organization role;
             invitation_count = invitations_with db organization role;
             output_row = (\<lambda>outcome. row_new
               [(lit ''outcome'', PgText (lit outcome)), (lit ''role_id'', PgText role), (lit ''name'', PgText (r_name r)),
                (lit ''member_count'', PgI64 (int member_count)), (lit ''invitation_count'', PgI64 (int invitation_count))]) in
         if r_built_in r then Inr ([], db)
         else if member_count > 0 \<or> invitation_count > 0 then Inr ([output_row ''in_use''], db)
         else
           let moved = retargeted_users db organization role;
               db1 = retarget_invitations organization role (ap_now_ms p)
                 (retarget_memberships organization role (ap_now_ms p) db);
               db2 = db1\<lparr>db_roles := fmdrop (organization, role) (db_roles db1),
                         db_role_permissions :=
                           ffilter (\<lambda>(o', r, _). \<not> (o' = organization \<and> r = role)) (db_role_permissions db1)\<rparr> in
           if (moved \<noteq> [] \<or> db_invitations db1 \<noteq> db_invitations db)
              \<and> fmlookup (db_roles db2) (organization, lit ''member'') = None then Inl ForeignKeyViolation
           else
             rbind (revise_organization organization (ap_now_ms p) db2) (\<lambda>db3.
             rbind (record_audit p (Some organization) (s_user_id s) sid (lit ''role.manage'') (lit ''role'') role db3) (\<lambda>db4.
             rbind (track_memberships (ap_gen p) db (map (Pair organization) moved) db4) (\<lambda>db5.
               Inr ([output_row ''deleted''], db5))))
     | _ \<Rightarrow> Inr ([], db))"

subsection \<open>Accounts\<close>

definition affected_memberships :: "kernel_db \<Rightarrow> rstr \<Rightarrow> (rstr \<times> rstr) list" where
  "affected_memberships db user = map (\<lambda>organization. (organization, user))
     (sorted_list_of_fset (fst |`| ffilter (\<lambda>k. snd k = user
       \<and> (case fmlookup (db_memberships db) k of None \<Rightarrow> False
          | Some m \<Rightarrow> m_status m = lit ''active'' \<or> m_status m = lit ''blocked''))
       (fmdom (db_memberships db))))"

definition may_disable :: "kernel_db \<Rightarrow> rstr \<Rightarrow> bool" where
  "may_disable db user = list_all (\<lambda>k. case fmlookup (db_memberships db) k of
       None \<Rightarrow> True
     | Some m \<Rightarrow> m_role_id m \<noteq> lit ''owner'' \<or> m_status m \<noteq> lit ''active'' \<or> fcard (active_owners db (fst k)) > 1)
     (affected_memberships db user)"

definition toggled :: "bool \<Rightarrow> int \<Rightarrow> membership_row \<Rightarrow> membership_row" where
  "toggled disabled now m = m\<lparr>m_status :=
     (if disabled \<and> m_status m = lit ''active'' then lit ''blocked''
      else if \<not> disabled \<and> m_status m = lit ''blocked'' then lit ''active'' else m_status m), m_updated_at_ms := now\<rparr>"

fun toggle_memberships :: "bool \<Rightarrow> int \<Rightarrow> (rstr \<times> rstr) list \<Rightarrow> kernel_db \<Rightarrow> pg_error + kernel_db" where
  "toggle_memberships disabled now [] db = Inr db"
| "toggle_memberships disabled now (k # ks) db =
     (case fmlookup (db_memberships db) k of
        None \<Rightarrow> toggle_memberships disabled now ks db
      | Some m \<Rightarrow>
        rbind (update_membership (fst k) (snd k) m (toggled disabled now m) db) (toggle_memberships disabled now ks))"

text \<open>The organizations whose \<open>owner_count\<close> the change of a membership has written.\<close>

definition owner_count_moved :: "kernel_db \<Rightarrow> kernel_db \<Rightarrow> rstr \<times> rstr \<Rightarrow> bool" where
  "owner_count_moved before db k \<longleftrightarrow>
     is_active_owner (fmlookup (db_memberships before) k) \<noteq> is_active_owner (fmlookup (db_memberships db) k)"

fun validate_organizations :: "rstr list \<Rightarrow> kernel_db \<Rightarrow> pg_error + kernel_db" where
  "validate_organizations [] db = Inr db"
| "validate_organizations (organization # organizations) db =
     rbind (validate_owner_count organization db) (validate_organizations organizations)"

definition set_user_disabled_sql ::
  "(rstr \<Rightarrow> rstr option) \<Rightarrow> actor_parameters \<Rightarrow> rstr \<Rightarrow> bool \<Rightarrow> kernel_db \<Rightarrow> statement_result" where
  "set_user_disabled_sql pg_uuid p user disabled db = with_session pg_uuid p (\<lambda>sid.
     case (session_usable db (ap_now_ms p) sid, fmlookup (db_users db) user) of
       (Some (s, _), Some u) \<Rightarrow>
         if \<not> is_system_administrator db (s_user_id s) \<or> \<not> elevated s
            \<or> u_status u = lit ''anonymized'' \<or> disabled \<and> \<not> may_disable db user then Inr ([], db)
         else if u_security_revision u + 1 > MAX_BIGINT then Inl NumericValueOutOfRange
         else
           let u' = u\<lparr>u_status := (if disabled then lit ''disabled'' else lit ''active''),
                      u_security_revision := u_security_revision u + 1, u_updated_at_ms := ap_now_ms p\<rparr>;
               ks = affected_memberships db user in
           rbind (toggle_memberships disabled (ap_now_ms p) ks (db\<lparr>db_users := fmupd user u' (db_users db)\<rparr>)) (\<lambda>db1.
           rbind (update_sessions (\<lambda>_ s. s_user_id s = user \<and> (disabled \<or> s_revoked_at_ms s = None))
             (\<lambda>s. if disabled then s\<lparr>s_revoked_at_ms := Some (ap_now_ms p)\<rparr> else s) (ap_now_ms p) db1) (\<lambda>db2.
           rbind (record_audit p None (s_user_id s) sid
             (if disabled then lit ''system.user.disable'' else lit ''system.user.enable'') (lit ''user'') user db2) (\<lambda>db3.
           rbind (track_memberships (ap_gen p) db ks db3) (\<lambda>db4.
           rbind (validate_organizations (map fst (filter (owner_count_moved db db4) ks)) db4) (\<lambda>db5.
             Inr ([row_new
               [(lit ''user_id'', PgText user), (lit ''primary_email'', PgText (u_primary_email u')),
                (lit ''status'', PgText (u_status u')), (lit ''created_at_ms'', PgI64 (u_created_at_ms u'))]], db5))))))
     | _ \<Rightarrow> Inr ([], db))"

subsection \<open>Invitations\<close>

record invitation_parameters =
  ip_invitation_id :: rstr
  ip_email :: rstr
  ip_role :: rstr
  ip_token_hash :: bytes
  ip_expires_at_ms :: int
  ip_outbox_id :: rstr
  ip_deduplication_key :: rstr
  ip_key_version :: rstr
  ip_ciphertext :: bytes

definition mail_intent :: "rstr \<Rightarrow> rstr \<Rightarrow> bytes \<Rightarrow> int \<Rightarrow> outbox_row" where
  "mail_intent key version ciphertext now =
     \<lparr>ob_kind = lit ''mail'', ob_deduplication_key = key, ob_key_version = Some version,
      ob_payload_ciphertext = Some ciphertext, ob_relationship = None, ob_status = lit ''pending'',
      ob_attempt_count = 0, ob_available_at_ms = now, ob_lease_id = None, ob_leased_until_ms = None,
      ob_delivered_at_ms = None, ob_delivery_id = None, ob_last_error_code = None,
      ob_created_at_ms = now, ob_updated_at_ms = now\<rparr>"

definition insert_mail :: "rstr \<Rightarrow> outbox_row \<Rightarrow> kernel_db \<Rightarrow> pg_error + kernel_db" where
  "insert_mail outbox_id row db =
     (if ob_deduplication_key row |\<in>| deduplication_keys db then Inl UniqueViolation else insert_outbox outbox_id row db)"

definition invitation_token :: "rstr \<Rightarrow> rstr \<Rightarrow> int \<Rightarrow> int \<Rightarrow> one_time_token_row" where
  "invitation_token email invitation_id expires now =
     \<lparr>ot_purpose = lit ''invitation'', ot_user_id = None, ot_subject_hint = Some email,
      ot_redirect_uri = Some (lit ''/organizations''),
      ot_payload = JvObject [(lit ''invitation_id'', JvString invitation_id)],
      ot_expires_at_ms = expires, ot_consumed_at_ms = None, ot_created_at_ms = now\<rparr>"

definition insert_token :: "bytes \<Rightarrow> one_time_token_row \<Rightarrow> kernel_db \<Rightarrow> pg_error + kernel_db" where
  "insert_token token_hash row db =
     (if fmlookup (db_one_time_tokens db) token_hash \<noteq> None then Inl UniqueViolation
      else Inr (db\<lparr>db_one_time_tokens := fmupd token_hash row (db_one_time_tokens db)\<rparr>))"

definition hash_taken :: "kernel_db \<Rightarrow> bytes \<Rightarrow> bool" where
  "hash_taken db token_hash \<longleftrightarrow> token_hash |\<in>| i_token_hash |`| fmran (db_invitations db)"

definition create_invitation_sql ::
  "(rstr \<Rightarrow> rstr option) \<Rightarrow> actor_parameters \<Rightarrow> invitation_parameters \<Rightarrow> kernel_db \<Rightarrow> statement_result" where
  "create_invitation_sql pg_uuid p q db = with_session pg_uuid p (\<lambda>sid.
     let organization = ap_organization p; now = ap_now_ms p in
     case member_actor db now sid organization (Some (lit ''member.invite'')) True of
       Some (s, actor) \<Rightarrow>
         if fmlookup (db_roles db) (organization, ip_role q) = None
            \<or> ip_role q = lit ''owner'' \<and> \<not> can_transfer_ownership db organization actor then Inr ([], db)
         else if fmlookup (db_invitations db) (ip_invitation_id q) \<noteq> None \<or> hash_taken db (ip_token_hash q)
         then Inl UniqueViolation
         else
           let invitation = \<lparr>i_organization_id = organization, i_normalized_email = ip_email q, i_role_id = ip_role q,
                 i_token_hash = ip_token_hash q, i_status = lit ''pending'', i_expires_at_ms = ip_expires_at_ms q,
                 i_accepted_at_ms = None, i_accepted_by = None, i_created_by = s_user_id s,
                 i_created_at_ms = now, i_updated_at_ms = now\<rparr>;
               db1 = revoke_invitations (\<lambda>i. pending_in organization i \<and> i_normalized_email i = ip_email q) now db;
               db2 = db1\<lparr>db_invitations := fmupd (ip_invitation_id q) invitation (db_invitations db1)\<rparr> in
           rbind (insert_token (ip_token_hash q)
             (invitation_token (ip_email q) (ip_invitation_id q) (ip_expires_at_ms q) now) db2) (\<lambda>db3.
           rbind (insert_mail (ip_outbox_id q)
             (mail_intent (ip_deduplication_key q) (ip_key_version q) (ip_ciphertext q) now) db3) (\<lambda>db4.
           rbind (record_audit p (Some organization) (s_user_id s) sid (lit ''member.invite'') (lit ''invitation'')
             (ip_invitation_id q) db4) (\<lambda>db5.
             Inr ([row_new (invitation_output (ip_invitation_id q) invitation)], db5))))
     | None \<Rightarrow> Inr ([], db))"

text \<open>The unique index on \<open>token_hash\<close> leaves at most one invitation for a hash.\<close>

definition invitation_by_hash :: "kernel_db \<Rightarrow> bytes \<Rightarrow> (rstr \<times> invitation_row) option" where
  "invitation_by_hash db token_hash =
     Option.bind (List.find (\<lambda>k. map_option i_token_hash (fmlookup (db_invitations db) k) = Some token_hash)
       (sorted_list_of_fset (fmdom (db_invitations db))))
       (\<lambda>k. map_option (Pair k) (fmlookup (db_invitations db) k))"

definition acceptable :: "int \<Rightarrow> session_row \<Rightarrow> user_row \<Rightarrow> invitation_row \<Rightarrow> bool" where
  "acceptable now s u i \<longleftrightarrow>
     u_normalized_email u = i_normalized_email i \<and> i_status i = lit ''pending'' \<and> i_expires_at_ms i > now
     \<and> (i_role_id i \<noteq> lit ''owner'' \<and> i_role_id i \<noteq> lit ''admin'' \<or> elevated s)"

definition token_open :: "kernel_db \<Rightarrow> bytes \<Rightarrow> bool" where
  "token_open db token_hash \<longleftrightarrow>
     (case fmlookup (db_one_time_tokens db) token_hash of
        None \<Rightarrow> False | Some t \<Rightarrow> ot_purpose t = lit ''invitation'' \<and> ot_consumed_at_ms t = None)"

text \<open>
  When no unconsumed token belongs to the hash, the invitation is marked accepted all the same, but no
  membership is written and no row is returned.
\<close>

definition accept_invitation_sql ::
  "(rstr \<Rightarrow> rstr option) \<Rightarrow> actor_parameters \<Rightarrow> bytes \<Rightarrow> kernel_db \<Rightarrow> statement_result" where
  "accept_invitation_sql pg_uuid p token_hash db = with_session pg_uuid p (\<lambda>sid.
     let now = ap_now_ms p in
     case (session_usable db now sid, invitation_by_hash db token_hash) of
       (Some (s, u), Some (invitation_id, i)) \<Rightarrow>
         (case active_organization db (i_organization_id i) of
            None \<Rightarrow> Inr ([], db)
          | Some row \<Rightarrow>
            if \<not> acceptable now s u i then Inr ([], db)
            else
              let organization = i_organization_id i; user = s_user_id s;
                  accepted = i\<lparr>i_status := lit ''accepted'', i_accepted_at_ms := Some now,
                    i_accepted_by := Some user, i_updated_at_ms := now\<rparr>;
                  db1 = db\<lparr>db_invitations := fmupd invitation_id accepted (db_invitations db)\<rparr> in
              if \<not> token_open db token_hash then Inr ([], db1)
              else
                rbind (upsert_membership organization user
                  \<lparr>m_role_id = i_role_id i, m_status = lit ''active'', m_joined_at_ms = now, m_updated_at_ms = now\<rparr>
                  (consume_tokens (\<lambda>h. h = token_hash) now db1)) (\<lambda>(old, new, db2).
                rbind (update_sessions (\<lambda>sid' s'. sid' = sid \<and> s_user_id s' = user)
                  (\<lambda>s. s\<lparr>s_selected_organization_id := Some organization\<rparr>) now db2) (\<lambda>db3.
                rbind (record_audit p (Some organization) user sid (lit ''invitation.accept'') (lit ''invitation'')
                  invitation_id db3) (\<lambda>db4.
                rbind (finish_membership (p\<lparr>ap_organization := organization\<rparr>) user
                  (is_active_owner (Some new) \<or> is_active_owner old) old new db4) (\<lambda>db5.
                  Inr ([row_new (organization_output organization row (i_role_id i)
                    (permissions_json db organization (i_role_id i)))], db5))))))
     | _ \<Rightarrow> Inr ([], db))"

text \<open>\<open>locked_invitation\<close> of the two statements on a pending invitation.\<close>

definition pending_invitation :: "kernel_db \<Rightarrow> rstr \<Rightarrow> rstr \<Rightarrow> invitation_row option" where
  "pending_invitation db organization invitation_id =
     Option.bind (fmlookup (db_invitations db) invitation_id) (\<lambda>i.
       if pending_in organization i then Some i else None)"

definition revoke_invitation_sql ::
  "(rstr \<Rightarrow> rstr option) \<Rightarrow> actor_parameters \<Rightarrow> rstr \<Rightarrow> kernel_db \<Rightarrow> statement_result" where
  "revoke_invitation_sql pg_uuid p invitation_id db = with_session pg_uuid p (\<lambda>sid.
     let organization = ap_organization p; now = ap_now_ms p in
     case (member_actor db now sid organization (Some (lit ''member.invite'')) True,
           pending_invitation db organization invitation_id) of
       (Some (s, _), Some i) \<Rightarrow>
         let revoked = i\<lparr>i_status := lit ''revoked'', i_updated_at_ms := now\<rparr>;
             db1 = consume_tokens (\<lambda>h. h = i_token_hash i) now
               (db\<lparr>db_invitations := fmupd invitation_id revoked (db_invitations db)\<rparr>) in
         rbind (record_audit p (Some organization) (s_user_id s) sid (lit ''member.invite.revoke'')
           (lit ''invitation'') invitation_id db1) (\<lambda>db2.
           Inr ([row_new (invitation_output invitation_id revoked)], db2))
     | _ \<Rightarrow> Inr ([], db))"

definition resend_invitation_sql ::
  "(rstr \<Rightarrow> rstr option) \<Rightarrow> actor_parameters \<Rightarrow> invitation_parameters \<Rightarrow> kernel_db \<Rightarrow> statement_result" where
  "resend_invitation_sql pg_uuid p q db = with_session pg_uuid p (\<lambda>sid.
     let organization = ap_organization p; now = ap_now_ms p in
     case (member_actor db now sid organization (Some (lit ''member.invite'')) True,
           pending_invitation db organization (ip_invitation_id q)) of
       (Some (s, _), Some i) \<Rightarrow>
         if ip_token_hash q \<noteq> i_token_hash i \<and> hash_taken db (ip_token_hash q) then Inl UniqueViolation
         else
           let rotated = i\<lparr>i_token_hash := ip_token_hash q, i_expires_at_ms := ip_expires_at_ms q,
                 i_updated_at_ms := now\<rparr>;
               db1 = consume_tokens (\<lambda>h. h = i_token_hash i) now db;
               db2 = db1\<lparr>db_invitations := fmupd (ip_invitation_id q) rotated (db_invitations db1)\<rparr> in
           rbind (insert_token (ip_token_hash q)
             (invitation_token (i_normalized_email i) (ip_invitation_id q) (ip_expires_at_ms q) now) db2) (\<lambda>db3.
           rbind (insert_mail (ip_outbox_id q)
             (mail_intent (ip_deduplication_key q) (ip_key_version q) (ip_ciphertext q) now) db3) (\<lambda>db4.
           rbind (record_audit p (Some organization) (s_user_id s) sid (lit ''member.invite.resend'')
             (lit ''invitation'') (ip_invitation_id q) db4) (\<lambda>db5.
             Inr ([row_new (invitation_output (ip_invitation_id q) rotated)], db5))))
     | _ \<Rightarrow> Inr ([], db))"

subsection \<open>Creating an organization\<close>

record create_parameters =
  cp_idempotency_key :: rstr
  cp_session :: rstr
  cp_request_hash :: bytes
  cp_organization_id :: rstr
  cp_name :: rstr
  cp_audit_id :: rstr
  cp_request_id :: rstr
  cp_now_ms :: int
  cp_expires_at_ms :: int
  cp_slug :: rstr
  cp_gen :: "rstr \<Rightarrow> rstr"

definition BUILT_IN_ROLES :: "(rstr \<times> rstr) list" where
  "BUILT_IN_ROLES =
     [(lit ''owner'', lit ''Owner''), (lit ''admin'', lit ''Administrator''), (lit ''member'', lit ''Member''),
      (lit ''viewer'', lit ''Viewer'')]"

definition BUILT_IN_PERMISSIONS :: "(rstr \<times> rstr) list" where
  "BUILT_IN_PERMISSIONS =
     map (Pair (lit ''owner'')) [lit ''organization.view'', lit ''organization.update'',
       lit ''member.view'', lit ''member.invite'', lit ''member.manage'', lit ''role.view'',
       lit ''role.manage'', lit ''audit.view'', lit ''counter.view'', lit ''counter.change'',
       lit ''counter.reset'', lit ''dashboard.view'', lit ''dashboard.manage'', lit ''resource.view'',
       lit ''resource.manage'', lit ''query.view'', lit ''query.manage'', lit ''query.execute'',
       lit ''query.execute_mutation'', lit ''ownership.transfer'', lit ''vault.view'',
       lit ''vault.manage'', lit ''vault.reveal'']
     @ map (Pair (lit ''admin'')) [lit ''organization.view'', lit ''organization.update'',
       lit ''member.view'', lit ''member.invite'', lit ''member.manage'', lit ''role.view'',
       lit ''role.manage'', lit ''audit.view'', lit ''counter.view'', lit ''counter.change'',
       lit ''counter.reset'', lit ''dashboard.view'', lit ''dashboard.manage'', lit ''resource.view'',
       lit ''resource.manage'', lit ''query.view'', lit ''query.manage'', lit ''query.execute'',
       lit ''query.execute_mutation'', lit ''vault.view'', lit ''vault.manage'', lit ''vault.reveal'']
     @ map (Pair (lit ''member'')) [lit ''organization.view'', lit ''member.view'', lit ''role.view'',
       lit ''counter.view'', lit ''counter.change'', lit ''dashboard.view'', lit ''query.view'',
       lit ''query.execute'']
     @ map (Pair (lit ''viewer'')) [lit ''organization.view'', lit ''member.view'', lit ''role.view'',
       lit ''counter.view'', lit ''dashboard.view'']"

text \<open>The constraint \<open>auth_organizations_slug_format\<close> of migration 0011.\<close>

definition slug_character :: "uchar \<Rightarrow> bool" where
  "slug_character c \<longleftrightarrow> 97 \<le> c \<and> c \<le> 122 \<or> 48 \<le> c \<and> c \<le> 57"

definition slug_format :: "rstr \<Rightarrow> bool" where
  "slug_format slug \<longleftrightarrow> 2 \<le> length slug \<and> length slug \<le> 48 \<and> 97 \<le> hd slug \<and> hd slug \<le> 122
     \<and> list_all (\<lambda>segment. segment \<noteq> [] \<and> list_all slug_character segment) (split_char 45 slug)"

definition slug_taken :: "kernel_db \<Rightarrow> rstr \<Rightarrow> bool" where
  "slug_taken db slug \<longleftrightarrow> Some slug |\<in>| o_slug |`| fmran (db_organizations db)"

definition json_text_field :: "json_value \<Rightarrow> rstr \<Rightarrow> rstr option" where
  "json_text_field v field =
     (case v of
        JvObject members \<Rightarrow> (case map_of members field of Some (JvString t) \<Rightarrow> Some t | _ \<Rightarrow> None)
      | _ \<Rightarrow> None)"

text \<open>
  The rows of a new organization: the foreign keys leave no role, permission or membership of an
  organization that does not exist, so only its own identifier can collide.
\<close>

definition new_organization_tables :: "create_parameters \<Rightarrow> rstr \<Rightarrow> kernel_db \<Rightarrow> kernel_db" where
  "new_organization_tables p user db =
     (let organization = cp_organization_id p; now = cp_now_ms p in
      db\<lparr>db_organizations := fmupd organization
           \<lparr>o_name = cp_name p, o_slug = Some (cp_slug p), o_status = lit ''active'', o_authorization_revision = 1,
            o_owner_count = 0, o_created_by = user, o_created_at_ms = now, o_updated_at_ms = now\<rparr> (db_organizations db),
         db_roles := fold (\<lambda>(role, name). fmupd (organization, role)
           \<lparr>r_name = name, r_built_in = True, r_created_at_ms = now, r_updated_at_ms = now\<rparr>) BUILT_IN_ROLES (db_roles db),
         db_role_permissions := db_role_permissions db
           |\<union>| (\<lambda>(role, permission). (organization, role, permission)) |`| fset_of_list BUILT_IN_PERMISSIONS\<rparr>)"

definition create_actor :: "create_parameters \<Rightarrow> actor_parameters" where
  "create_actor p = \<lparr>ap_session = cp_session p, ap_organization = cp_organization_id p, ap_now_ms = cp_now_ms p,
     ap_audit_id = cp_audit_id p, ap_request_id = cp_request_id p, ap_gen = cp_gen p\<rparr>"

definition organization_created ::
  "create_parameters \<Rightarrow> rstr \<Rightarrow> session_row \<Rightarrow> kernel_db \<Rightarrow> statement_result" where
  "organization_created p sid s db =
     (let organization = cp_organization_id p; now = cp_now_ms p; user = s_user_id s;
          founder = \<lparr>m_role_id = lit ''owner'', m_status = lit ''active'', m_joined_at_ms = now, m_updated_at_ms = now\<rparr>;
          db1 = new_organization_tables p user db in
      if fmlookup (db_organizations db) organization \<noteq> None then Inl UniqueViolation
      else if \<not> slug_format (cp_slug p) then Inl (CheckViolation (lit ''auth_organizations_slug_format''))
      else
        rbind (adjust_owner_count organization None (Some founder) db1) (\<lambda>db2.
        rbind (update_sessions (\<lambda>sid' s'. sid' = sid \<and> s_user_id s' = user)
          (\<lambda>s. s\<lparr>s_selected_organization_id := Some organization\<rparr>) now
          (put_membership (organization, user) founder db2)) (\<lambda>db3.
        rbind (record_audit (create_actor p) (Some organization) user sid (lit ''organization.create'')
          (lit ''organization'') organization db3) (\<lambda>db4.
        rbind (finish_membership (create_actor p) user True None founder
          (db4\<lparr>db_idempotency := fmupd (cp_idempotency_key p)
             \<lparr>ik_actor_key = cp_session p, ik_operation = lit ''create_organization'',
              ik_request_hash = cp_request_hash p,
              ik_response_public = JvObject [(lit ''organization_id'', JvString organization)],
              ik_expires_at_ms = cp_expires_at_ms p, ik_committed_at_ms = now\<rparr> (db_idempotency db4)\<rparr>)) (\<lambda>db5.
          case fmlookup (db_organizations db1) organization of
            None \<Rightarrow> Inr ([], db5)
          | Some row \<Rightarrow> Inr ([row_new ((lit ''outcome'', PgText (lit ''created''))
              # organization_output organization row (lit ''owner'') (permissions_json db1 organization (lit ''owner'')))], db5))))))"

definition organization_replayed ::
  "(rstr \<Rightarrow> rstr option) \<Rightarrow> rstr \<Rightarrow> idempotency_row \<Rightarrow> kernel_db \<Rightarrow> pg_row list" where
  "organization_replayed pg_uuid sid existing db =
     (case Option.bind (json_text_field (ik_response_public existing) (lit ''organization_id'')) pg_uuid of
        None \<Rightarrow> []
      | Some organization \<Rightarrow>
        (case (fmlookup (db_organizations db) organization, fmlookup (db_sessions db) sid) of
           (Some row, Some s) \<Rightarrow>
             if active_membership db organization (s_user_id s) = None then []
             else [row_new ((lit ''outcome'', PgText (lit ''replayed''))
               # organization_output organization row (lit ''owner'') (permissions_json db organization (lit ''owner'')))]
         | _ \<Rightarrow> []))"

definition create_refused :: "string \<Rightarrow> pg_row list" where
  "create_refused outcome = [row_new ((lit ''outcome'', PgText (lit outcome))
     # map (\<lambda>column. (lit column, PgNull)) [''organization_id'', ''name'', ''slug'', ''status'', ''created_at_ms'', ''role_id'']
     @ [(lit ''permissions'', PgJson (JvArray []))])]"

definition create_organization_sql ::
  "(rstr \<Rightarrow> rstr option) \<Rightarrow> create_parameters \<Rightarrow> kernel_db \<Rightarrow> statement_result" where
  "create_organization_sql pg_uuid p db = with_session pg_uuid (create_actor p) (\<lambda>sid.
     case fmlookup (db_idempotency db) (cp_idempotency_key p) of
       Some existing \<Rightarrow>
         if ik_operation existing \<noteq> lit ''create_organization'' \<or> ik_actor_key existing \<noteq> cp_session p
            \<or> ik_request_hash existing \<noteq> cp_request_hash p then Inr (create_refused ''idempotency_conflict'', db)
         else if organization_replayed pg_uuid sid existing db = [] then Inr (create_refused ''unauthorized'', db)
         else Inr (organization_replayed pg_uuid sid existing db, db)
     | None \<Rightarrow>
         if slug_taken db (cp_slug p) then Inr (create_refused ''slug_conflict'', db)
         else
           (case session_usable db (cp_now_ms p) sid of
              None \<Rightarrow> Inr (create_refused ''unauthorized'', db)
            | Some (s, _) \<Rightarrow> organization_created p sid s db))"

end
