(* ===== verification/Access_Model.thy ===== *)
theory Access_Model
  imports Rust_Prelude
begin

section \<open>The organization access model\<close>

text \<open>
  Models \<open>src/crates/wasi-auth/src/postgres/access_model.rs\<close>: the permission catalogue of the product,
  the expansion of a permission set with its dependencies by a work list, and the checks a custom role
  goes through. The expansion is proved to compute exactly the reflexive transitive closure of the
  dependency relation, and to fail only where an identifier is missing from the catalogue.
\<close>

subsection \<open>Definitions\<close>

datatype permission_risk = RiskLow | RiskMedium | RiskHigh

datatype permission_catalog = CoreTenancy | ApplicationCatalog

record permission_definition =
  pd_id :: rstr
  pd_label :: rstr
  pd_description :: rstr
  pd_group :: rstr
  pd_dependencies :: "rstr list"
  pd_risk :: permission_risk
  pd_custom_role_eligible :: bool
  pd_catalog :: permission_catalog

datatype access_model_error = UnknownPermission | RestrictedPermission | IncompleteDependencies

record organization_access_model =
  am_definitions :: "permission_definition list"

definition definition_of :: "organization_access_model \<Rightarrow> rstr \<Rightarrow> permission_definition option" where
  "definition_of self permission = List.find (\<lambda>item. pd_id item = permission) (am_definitions self)"

definition is_allowed_for_custom_role :: "organization_access_model \<Rightarrow> rstr \<Rightarrow> bool" where
  "is_allowed_for_custom_role self permission =
     (case definition_of self permission of None \<Rightarrow> False | Some item \<Rightarrow> pd_custom_role_eligible item)"

text \<open>The hash map \<open>index()\<close> keeps the last definition of an identifier.\<close>

definition model_index :: "organization_access_model \<Rightarrow> rstr \<Rightarrow> permission_definition option" where
  "model_index self = map_of (rev (map (\<lambda>definition'. (pd_id definition', definition')) (am_definitions self)))"

text \<open>The first loop of \<open>expand_with_dependencies\<close>: the requested permissions enter set and queue.\<close>

fun enqueue_permissions ::
  "organization_access_model \<Rightarrow> rstr list \<Rightarrow> rstr fset \<Rightarrow> rstr list \<Rightarrow> access_model_error + rstr fset \<times> rstr list" where
  "enqueue_permissions self [] expanded queue = Inr (expanded, queue)"
| "enqueue_permissions self (permission # permissions) expanded queue =
     (if model_index self permission = None then Inl UnknownPermission
      else if permission |\<in>| expanded then enqueue_permissions self permissions expanded queue
      else enqueue_permissions self permissions (finsert permission expanded) (queue @ [permission]))"

text \<open>The loop over the dependencies of one definition.\<close>

fun enqueue_dependencies ::
  "organization_access_model \<Rightarrow> rstr list \<Rightarrow> rstr fset \<Rightarrow> rstr list \<Rightarrow> access_model_error + rstr fset \<times> rstr list" where
  "enqueue_dependencies self [] expanded queue = Inr (expanded, queue)"
| "enqueue_dependencies self (dependency # dependencies) expanded queue =
     (if model_index self dependency = None then Inl IncompleteDependencies
      else if dependency |\<in>| expanded then enqueue_dependencies self dependencies expanded queue
      else enqueue_dependencies self dependencies (finsert dependency expanded) (queue @ [dependency]))"

definition known_ids :: "organization_access_model \<Rightarrow> rstr set" where
  "known_ids self = pd_id ` set (am_definitions self)"

lemma model_index_None_iff: "model_index self permission = None \<longleftrightarrow> permission \<notin> known_ids self"
  by (auto simp: model_index_def known_ids_def map_of_eq_None_iff image_image)

lemma finite_known_ids [simp]: "finite (known_ids self)"
  by (simp add: known_ids_def)

text \<open>What the queue may still receive plus what it holds: it never grows, and each turn removes one.\<close>

definition expansion_measure :: "organization_access_model \<Rightarrow> rstr fset \<Rightarrow> rstr list \<Rightarrow> nat" where
  "expansion_measure self expanded queue = card (known_ids self - fset expanded) + length queue"

lemma enqueue_dependencies_measure:
  "enqueue_dependencies self dependencies expanded queue = Inr (expanded', queue') \<Longrightarrow>
   expansion_measure self expanded' queue' = expansion_measure self expanded queue"
proof (induction self dependencies expanded queue rule: enqueue_dependencies.induct)
  case (2 self dependency dependencies expanded queue)
  show ?case
  proof (cases "dependency |\<in>| expanded")
    case False
    with 2 have known: "dependency \<in> known_ids self - fset expanded"
      by (auto simp: model_index_None_iff split: if_splits)
    then have "Suc (card (known_ids self - fset (finsert dependency expanded))) = card (known_ids self - fset expanded)"
      by (metis Diff_insert card_Suc_Diff1 finite_Diff finite_known_ids finsert.rep_eq)
    with 2 False show ?thesis by (auto simp: expansion_measure_def split: if_splits)
  qed (use 2 in \<open>auto split: if_splits\<close>)
qed simp

function expand_loop ::
  "organization_access_model \<Rightarrow> rstr fset \<Rightarrow> rstr list \<Rightarrow> access_model_error + rstr fset" where
  "expand_loop self expanded [] = Inr expanded"
| "expand_loop self expanded (current # queue) =
     (case model_index self current of
        None \<Rightarrow> Inl IncompleteDependencies
      | Some definition' \<Rightarrow>
        (case enqueue_dependencies self (pd_dependencies definition') expanded queue of
           Inl e \<Rightarrow> Inl e
         | Inr (expanded', queue') \<Rightarrow> expand_loop self expanded' queue'))"
  by pat_completeness auto
termination
proof (relation "measure (\<lambda>(self, expanded, queue). expansion_measure self expanded queue)")
  fix self expanded current queue definition' x expanded' queue'
  assume "enqueue_dependencies self (pd_dependencies definition') expanded queue = Inr x" "(expanded', queue') = x"
  then have "expansion_measure self expanded' queue' = expansion_measure self expanded queue"
    by (auto dest: enqueue_dependencies_measure)
  then show "((self, expanded', queue'), self, expanded, current # queue)
      \<in> measure (\<lambda>(self, expanded, queue). expansion_measure self expanded queue)"
    by (simp add: expansion_measure_def)
qed simp

definition expand_with_dependencies ::
  "organization_access_model \<Rightarrow> rstr list \<Rightarrow> access_model_error + rstr list" where
  "expand_with_dependencies self permissions =
     rbind (enqueue_permissions self permissions {||} []) (\<lambda>(expanded, queue).
     rbind (expand_loop self expanded queue) (\<lambda>expanded.
       Inr (sorted_list_of_fset expanded)))"

fun validate_custom_role_permissions ::
  "organization_access_model \<Rightarrow> rstr list \<Rightarrow> access_model_error + unit" where
  "validate_custom_role_permissions self [] = Inr ()"
| "validate_custom_role_permissions self (permission # permissions) =
     (case definition_of self permission of
        None \<Rightarrow> Inl UnknownPermission
      | Some definition' \<Rightarrow>
        if \<not> pd_custom_role_eligible definition' then Inl RestrictedPermission
        else validate_custom_role_permissions self permissions)"

fun dependencies_within :: "rstr list \<Rightarrow> rstr set \<Rightarrow> access_model_error + unit" where
  "dependencies_within [] present = Inr ()"
| "dependencies_within (dependency # dependencies) present =
     (if dependency \<notin> present then Inl IncompleteDependencies else dependencies_within dependencies present)"

fun ensure_dependencies_loop ::
  "organization_access_model \<Rightarrow> rstr set \<Rightarrow> rstr list \<Rightarrow> access_model_error + unit" where
  "ensure_dependencies_loop self present [] = Inr ()"
| "ensure_dependencies_loop self present (permission # permissions) =
     rbind (ok_or UnknownPermission (definition_of self permission)) (\<lambda>definition'.
     rbind (dependencies_within (pd_dependencies definition') present) (\<lambda>_.
       ensure_dependencies_loop self present permissions))"

definition ensure_dependencies_present ::
  "organization_access_model \<Rightarrow> rstr list \<Rightarrow> access_model_error + unit" where
  "ensure_dependencies_present self permissions = ensure_dependencies_loop self (set permissions) permissions"

subsection \<open>The product catalogue\<close>

definition PRODUCT_DEFINITIONS :: "permission_definition list" where
  "PRODUCT_DEFINITIONS = [
     permission_definition.make (lit ''audit.view'') (lit ''View audit log'')
       (lit ''Read organization audit events'') (lit ''Core'') [] RiskLow True CoreTenancy,
     permission_definition.make (lit ''counter.change'') (lit ''Change counter'')
       (lit ''Increment or adjust the demo counter'') (lit ''Counter'') [lit ''counter.view''] RiskMedium True ApplicationCatalog,
     permission_definition.make (lit ''counter.reset'') (lit ''Reset counter'')
       (lit ''Reset the demo counter to zero'') (lit ''Counter'') [lit ''counter.view''] RiskMedium True ApplicationCatalog,
     permission_definition.make (lit ''counter.view'') (lit ''View counter'')
       (lit ''Read the demo counter value'') (lit ''Counter'') [] RiskLow True ApplicationCatalog,
     permission_definition.make (lit ''dashboard.manage'') (lit ''Manage dashboard'')
       (lit ''Configure dashboard layout and widgets'') (lit ''Dashboard'') [lit ''dashboard.view''] RiskMedium True ApplicationCatalog,
     permission_definition.make (lit ''dashboard.view'') (lit ''View dashboard'')
       (lit ''Open the product dashboard'') (lit ''Dashboard'') [] RiskLow True ApplicationCatalog,
     permission_definition.make (lit ''member.invite'') (lit ''Invite members'')
       (lit ''Create invitations for new members'') (lit ''Members'') [lit ''member.view''] RiskMedium True CoreTenancy,
     permission_definition.make (lit ''member.manage'') (lit ''Manage members'')
       (lit ''Change member roles and remove members'') (lit ''Members'') [lit ''member.view''] RiskHigh True CoreTenancy,
     permission_definition.make (lit ''member.view'') (lit ''View members'')
       (lit ''List organization memberships'') (lit ''Members'') [] RiskLow True CoreTenancy,
     permission_definition.make (lit ''organization.update'') (lit ''Update organization'')
       (lit ''Change organization display name and settings'') (lit ''Core'') [lit ''organization.view''] RiskMedium True CoreTenancy,
     permission_definition.make (lit ''organization.view'') (lit ''View organization'')
       (lit ''Read organization profile and metadata'') (lit ''Core'') [] RiskLow True CoreTenancy,
     permission_definition.make (lit ''ownership.transfer'') (lit ''Transfer ownership'')
       (lit ''Transfer organization ownership to another member'') (lit ''Core'') [] RiskHigh False CoreTenancy,
     permission_definition.make (lit ''query.execute'') (lit ''Execute queries'')
       (lit ''Run read queries against application data'') (lit ''Query'') [lit ''query.view''] RiskMedium True ApplicationCatalog,
     permission_definition.make (lit ''query.execute_mutation'') (lit ''Execute mutations'')
       (lit ''Run mutating queries against application data'') (lit ''Query'') [lit ''query.execute''] RiskHigh True ApplicationCatalog,
     permission_definition.make (lit ''query.manage'') (lit ''Manage queries'')
       (lit ''Create and configure saved queries'') (lit ''Query'') [lit ''query.view''] RiskMedium True ApplicationCatalog,
     permission_definition.make (lit ''query.view'') (lit ''View queries'')
       (lit ''List and inspect saved queries'') (lit ''Query'') [] RiskLow True ApplicationCatalog,
     permission_definition.make (lit ''resource.manage'') (lit ''Manage resources'')
       (lit ''Create, update, and delete resources'') (lit ''Resources'') [lit ''resource.view''] RiskMedium True ApplicationCatalog,
     permission_definition.make (lit ''resource.view'') (lit ''View resources'')
       (lit ''List and inspect resources'') (lit ''Resources'') [] RiskLow True ApplicationCatalog,
     permission_definition.make (lit ''role.manage'') (lit ''Manage roles'')
       (lit ''Create and update custom roles'') (lit ''Roles'') [lit ''role.view''] RiskHigh True CoreTenancy,
     permission_definition.make (lit ''role.view'') (lit ''View roles'')
       (lit ''List roles and their permissions'') (lit ''Roles'') [] RiskLow True CoreTenancy,
     permission_definition.make (lit ''vault.manage'') (lit ''Manage vault'')
       (lit ''Create and update vault secrets metadata'') (lit ''Vault'') [lit ''vault.view''] RiskHigh True ApplicationCatalog,
     permission_definition.make (lit ''vault.reveal'') (lit ''Reveal vault secrets'')
       (lit ''Reveal secret values from the vault'') (lit ''Vault'') [lit ''vault.view''] RiskHigh True ApplicationCatalog,
     permission_definition.make (lit ''vault.view'') (lit ''View vault'')
       (lit ''List vault entries without revealing values'') (lit ''Vault'') [] RiskLow True ApplicationCatalog]"

definition ORGANIZATION_PERMISSION_CATALOG :: "rstr list" where
  "ORGANIZATION_PERMISSION_CATALOG =
     [lit ''audit.view'', lit ''counter.change'', lit ''counter.reset'', lit ''counter.view'',
      lit ''dashboard.manage'', lit ''dashboard.view'', lit ''member.invite'', lit ''member.manage'',
      lit ''member.view'', lit ''organization.update'', lit ''organization.view'',
      lit ''ownership.transfer'', lit ''query.execute'', lit ''query.execute_mutation'',
      lit ''query.manage'', lit ''query.view'', lit ''resource.manage'', lit ''resource.view'',
      lit ''role.manage'', lit ''role.view'', lit ''vault.manage'', lit ''vault.reveal'',
      lit ''vault.view'']"

definition product_default :: organization_access_model where
  "product_default = \<lparr>am_definitions = PRODUCT_DEFINITIONS\<rparr>"

subsection \<open>The expansion computes the closure of the dependencies\<close>

definition depends_on :: "organization_access_model \<Rightarrow> (rstr \<times> rstr) set" where
  "depends_on self = {(p, q). \<exists>definition'. model_index self p = Some definition' \<and> q \<in> set (pd_dependencies definition')}"

definition permission_closure :: "organization_access_model \<Rightarrow> rstr set \<Rightarrow> rstr set" where
  "permission_closure self permissions = (depends_on self)\<^sup>* `` permissions"

lemma permission_closure_absorb:
  assumes "D \<subseteq> permission_closure self A"
  shows "permission_closure self (A \<union> D) = permission_closure self A"
proof -
  have "(depends_on self)\<^sup>* `` D \<subseteq> (depends_on self)\<^sup>* `` ((depends_on self)\<^sup>* `` A)"
    using assms by (intro Image_mono) (auto simp: permission_closure_def)
  also have "\<dots> = (depends_on self)\<^sup>* `` A"
    by (metis relcomp_Image rtrancl_idemp_self_comp)
  finally show ?thesis by (auto simp: permission_closure_def Image_Un)
qed

lemma enqueue_permissions_Inr:
  "enqueue_permissions self permissions expanded queue = Inr (expanded', queue') \<Longrightarrow>
   set queue \<subseteq> fset expanded \<Longrightarrow> fset expanded \<subseteq> set queue \<Longrightarrow>
   fset expanded' = fset expanded \<union> set permissions \<and> set queue' = fset expanded'
   \<and> set permissions \<subseteq> known_ids self"
proof (induction self permissions expanded queue rule: enqueue_permissions.induct)
  case (2 self permission permissions expanded queue)
  have known: "permission \<in> known_ids self"
    using 2(3) by (auto simp: model_index_None_iff split: if_splits)
  show ?case
  proof (cases "permission |\<in>| expanded")
    case True
    with 2 known show ?thesis by (auto simp: model_index_None_iff)
  next
    case False
    with 2(2) [OF _ False] 2(3-5) known show ?thesis by (auto simp: model_index_None_iff)
  qed
qed auto

lemma enqueue_permissions_Inl:
  "enqueue_permissions self permissions expanded queue = Inl e \<Longrightarrow>
   e = UnknownPermission \<and> \<not> set permissions \<subseteq> known_ids self"
  by (induction self permissions expanded queue rule: enqueue_permissions.induct)
     (auto simp: model_index_None_iff split: if_splits)

lemma enqueue_dependencies_Inr:
  "enqueue_dependencies self dependencies expanded queue = Inr (expanded', queue') \<Longrightarrow>
   fset expanded' = fset expanded \<union> set dependencies \<and> set dependencies \<subseteq> known_ids self
   \<and> set queue \<subseteq> set queue' \<and> set queue' \<subseteq> set queue \<union> set dependencies
   \<and> set dependencies - fset expanded \<subseteq> set queue'"
proof (induction self dependencies expanded queue rule: enqueue_dependencies.induct)
  case (2 self dependency dependencies expanded queue)
  have known: "dependency \<in> known_ids self"
    using 2(3) by (auto simp: model_index_None_iff split: if_splits)
  show ?case
  proof (cases "dependency |\<in>| expanded")
    case True
    with 2(1) [OF _ True] 2(3) known show ?thesis by (auto simp: model_index_None_iff)
  next
    case False
    with 2(3) known have rest:
      "enqueue_dependencies self dependencies (finsert dependency expanded) (queue @ [dependency]) = Inr (expanded', queue')"
      by (simp add: model_index_None_iff)
    with 2(2) [OF _ False] known show ?thesis by (auto simp: model_index_None_iff)
  qed
qed auto

lemma enqueue_dependencies_Inl:
  "enqueue_dependencies self dependencies expanded queue = Inl e \<Longrightarrow>
   e = IncompleteDependencies \<and> \<not> set dependencies \<subseteq> known_ids self"
  by (induction self dependencies expanded queue rule: enqueue_dependencies.induct)
     (auto simp: model_index_None_iff split: if_splits)

text \<open>
  Between two turns of the loop: the queue holds expanded permissions, and every expanded permission
  that is not queued has all its dependencies expanded.
\<close>

definition expansion_inv :: "organization_access_model \<Rightarrow> rstr fset \<Rightarrow> rstr list \<Rightarrow> bool" where
  "expansion_inv self expanded queue \<longleftrightarrow>
     set queue \<subseteq> fset expanded \<and> fset expanded \<subseteq> known_ids self
     \<and> (\<forall>p \<in> fset expanded - set queue. depends_on self `` {p} \<subseteq> fset expanded)"

lemma expansion_inv_turn:
  assumes "expansion_inv self expanded (current # queue)" and "model_index self current = Some definition'"
    and "enqueue_dependencies self (pd_dependencies definition') expanded queue = Inr (expanded', queue')"
  shows "expansion_inv self expanded' queue'"
    and "permission_closure self (fset expanded') = permission_closure self (fset expanded)"
proof -
  note step = enqueue_dependencies_Inr [OF assms(3)]
  have deps: "depends_on self `` {current} = set (pd_dependencies definition')"
    using assms(2) by (auto simp: depends_on_def)
  show "expansion_inv self expanded' queue'"
    unfolding expansion_inv_def
  proof (intro conjI ballI)
    fix p
    assume p: "p \<in> fset expanded' - set queue'"
    with step have "p \<in> fset expanded" "p \<notin> set queue" by blast+
    with assms(1) have "p = current \<or> depends_on self `` {p} \<subseteq> fset expanded"
      unfolding expansion_inv_def by auto
    with deps step show "depends_on self `` {p} \<subseteq> fset expanded'" by blast
  qed (use assms(1) step in \<open>auto simp: expansion_inv_def\<close>)
  have "current \<in> fset expanded" using assms(1) by (simp add: expansion_inv_def)
  then have "set (pd_dependencies definition') \<subseteq> permission_closure self (fset expanded)"
    using deps unfolding permission_closure_def by blast
  then show "permission_closure self (fset expanded') = permission_closure self (fset expanded)"
    using step by (simp add: permission_closure_absorb)
qed

lemma expansion_done: "expansion_inv self expanded [] \<Longrightarrow> permission_closure self (fset expanded) = fset expanded"
  unfolding expansion_inv_def permission_closure_def
  by (rule Image_closed_trancl) auto

lemma expand_loop_Inr:
  "expand_loop self expanded queue = Inr result \<Longrightarrow> expansion_inv self expanded queue \<Longrightarrow>
   fset result = permission_closure self (fset expanded) \<and> expansion_inv self result []"
proof (induction self expanded queue rule: expand_loop.induct)
  case (1 self expanded)
  then show ?case using expansion_done by simp
next
  case (2 self expanded current queue)
  from 2(2) obtain definition' expanded' queue' where turn: "model_index self current = Some definition'"
      "enqueue_dependencies self (pd_dependencies definition') expanded queue = Inr (expanded', queue')"
      "expand_loop self expanded' queue' = Inr result"
    by (auto split: option.splits sum.splits)
  show ?case
    using 2(1) [OF turn(1,2) refl turn(3)] expansion_inv_turn [OF 2(3) turn(1,2)] by simp
qed

lemma expand_loop_Inl:
  "expand_loop self expanded queue = Inl e \<Longrightarrow> expansion_inv self expanded queue \<Longrightarrow>
   e = IncompleteDependencies \<and> \<not> permission_closure self (fset expanded) \<subseteq> known_ids self"
proof (induction self expanded queue rule: expand_loop.induct)
  case (2 self expanded current queue)
  have current: "current \<in> fset expanded" "current \<in> known_ids self"
    using 2(3) by (auto simp: expansion_inv_def)
  then obtain definition' where found: "model_index self current = Some definition'"
    using model_index_None_iff by (cases "model_index self current") auto
  show ?case
  proof (cases "enqueue_dependencies self (pd_dependencies definition') expanded queue")
    case (Inl d)
    have "depends_on self `` {current} = set (pd_dependencies definition')"
      using found by (auto simp: depends_on_def)
    then have "set (pd_dependencies definition') \<subseteq> permission_closure self (fset expanded)"
      using current(1) unfolding permission_closure_def by blast
    with Inl found 2(2) enqueue_dependencies_Inl [OF Inl] show ?thesis by auto
  next
    case (Inr x)
    obtain expanded' queue' where x: "x = (expanded', queue')" by force
    have "expand_loop self expanded' queue' = Inl e" using 2(2) found Inr x by simp
    then show ?thesis
      using 2(1) [OF found Inr x [symmetric]] expansion_inv_turn [OF 2(3) found, of expanded' queue'] Inr x by simp
  qed
qed simp

lemma expand_with_dependencies_Inr_iff:
  "expand_with_dependencies self permissions = Inr result \<longleftrightarrow>
     permission_closure self (set permissions) \<subseteq> known_ids self
     \<and> set result = permission_closure self (set permissions) \<and> sorted result \<and> distinct result"
proof (cases "enqueue_permissions self permissions {||} []")
  case (Inl e)
  have "set permissions \<subseteq> permission_closure self (set permissions)" by (auto simp: permission_closure_def)
  with Inl enqueue_permissions_Inl [OF Inl] show ?thesis by (auto simp: expand_with_dependencies_def)
next
  case (Inr x)
  obtain expanded queue where x: "x = (expanded, queue)" by force
  have start: "fset expanded = set permissions" "expansion_inv self expanded queue"
    using enqueue_permissions_Inr [of self permissions "{||}" "[]" expanded queue] Inr x
    by (auto simp: expansion_inv_def)
  show ?thesis
  proof (cases "expand_loop self expanded queue")
    case loop: (Inl e)
    from expand_loop_Inl [OF loop start(2)] loop Inr x start(1) show ?thesis
      by (auto simp: expand_with_dependencies_def)
  next
    case loop: (Inr S)
    from expand_loop_Inr [OF loop start(2)] start(1)
    have S: "fset S = permission_closure self (set permissions)" "fset S \<subseteq> known_ids self"
      by (auto simp: expansion_inv_def)
    have "result = sorted_list_of_fset S \<longleftrightarrow> set result = fset S \<and> sorted result \<and> distinct result"
      by (metis sorted_list_of_fset.rep_eq sorted_list_of_fset_simps(1) distinct_sorted_list_of_fset
          sorted_sorted_list_of_fset sorted_list_of_set.idem_if_sorted_distinct)
    with loop Inr x S show ?thesis by (auto simp: expand_with_dependencies_def)
  qed
qed

lemma expand_with_dependencies_Inl:
  assumes "expand_with_dependencies self permissions = Inl e"
  shows "if set permissions \<subseteq> known_ids self
         then e = IncompleteDependencies \<and> \<not> permission_closure self (set permissions) \<subseteq> known_ids self
         else e = UnknownPermission"
proof (cases "enqueue_permissions self permissions {||} []")
  case (Inl d)
  with assms enqueue_permissions_Inl [OF Inl] show ?thesis by (auto simp: expand_with_dependencies_def)
next
  case (Inr x)
  obtain expanded queue where x: "x = (expanded, queue)" by force
  have start: "fset expanded = set permissions" "expansion_inv self expanded queue" "set permissions \<subseteq> known_ids self"
    using enqueue_permissions_Inr [of self permissions "{||}" "[]" expanded queue] Inr x
    by (auto simp: expansion_inv_def)
  have "expand_loop self expanded queue = Inl e"
    using assms Inr x by (auto simp: expand_with_dependencies_def rbind_Inl_iff)
  from expand_loop_Inl [OF this start(2)] start show ?thesis by auto
qed

subsection \<open>The product model\<close>

lemma product_catalog: "map pd_id PRODUCT_DEFINITIONS = ORGANIZATION_PERMISSION_CATALOG"
  by (simp add: PRODUCT_DEFINITIONS_def ORGANIZATION_PERMISSION_CATALOG_def permission_definition.defs
      del: lit_Cons lit_Nil)

lemma product_ids_distinct: "distinct (map pd_id (am_definitions product_default))"
  by (simp add: product_default_def product_catalog ORGANIZATION_PERMISSION_CATALOG_def del: lit_Cons lit_Nil)

lemma known_ids_product: "known_ids product_default = set ORGANIZATION_PERMISSION_CATALOG"
  by (simp add: known_ids_def product_default_def flip: product_catalog)

lemma product_dependencies_catalogued:
  "list_all (\<lambda>d. list_all (\<lambda>q. q \<in> set ORGANIZATION_PERMISSION_CATALOG) (pd_dependencies d)) PRODUCT_DEFINITIONS"
  by (simp add: PRODUCT_DEFINITIONS_def ORGANIZATION_PERMISSION_CATALOG_def permission_definition.defs
      del: lit_Cons lit_Nil)

lemma product_dependencies_known:
  "d \<in> set (am_definitions product_default) \<Longrightarrow> set (pd_dependencies d) \<subseteq> known_ids product_default"
  using product_dependencies_catalogued unfolding known_ids_product by (auto simp: product_default_def list_all_iff)

lemma map_of_distinct_find:
  "distinct (map f xs) \<Longrightarrow> map_of (map (\<lambda>x. (f x, x)) xs) k = List.find (\<lambda>x. f x = k) xs"
  by (induction xs) auto

lemma model_index_definition_of:
  assumes "distinct (map pd_id (am_definitions self))"
  shows "model_index self = definition_of self"
proof
  fix k
  have "map_of (rev (map (\<lambda>d. (pd_id d, d)) (am_definitions self))) = map_of (map (\<lambda>d. (pd_id d, d)) (am_definitions self))"
    using assms by (subst map_of_inject_set) (simp_all add: comp_def rev_map [symmetric])
  then show "model_index self k = definition_of self k"
    by (simp add: model_index_def definition_of_def map_of_distinct_find [OF assms])
qed

lemma definition_of_Some: "definition_of self p = Some d \<Longrightarrow> d \<in> set (am_definitions self) \<and> pd_id d = p"
  by (auto simp: definition_of_def find_Some_iff)

lemma product_closure_known: "set permissions \<subseteq> known_ids product_default \<Longrightarrow>
  permission_closure product_default (set permissions) \<subseteq> known_ids product_default"
proof
  fix q assume known: "set permissions \<subseteq> known_ids product_default"
    and "q \<in> permission_closure product_default (set permissions)"
  then obtain p where "p \<in> known_ids product_default" "(p, q) \<in> (depends_on product_default)\<^sup>*"
    by (auto simp: permission_closure_def)
  from this(2,1) show "q \<in> known_ids product_default"
  proof (induction rule: rtrancl_induct)
    case (step y z)
    then obtain d where "model_index product_default y = Some d" "z \<in> set (pd_dependencies d)"
      by (auto simp: depends_on_def)
    then have "d \<in> set (am_definitions product_default)"
      by (metis definition_of_Some model_index_definition_of product_ids_distinct)
    with \<open>z \<in> set (pd_dependencies d)\<close> show ?case using product_dependencies_known by blast
  qed
qed

lemma validate_custom_role_permissions_Inr_iff:
  "validate_custom_role_permissions self permissions = Inr () \<longleftrightarrow>
     (\<forall>permission \<in> set permissions. is_allowed_for_custom_role self permission)"
  by (induction self permissions rule: validate_custom_role_permissions.induct)
     (auto simp: is_allowed_for_custom_role_def split: option.splits if_splits)

lemma dependencies_within_Inr_iff: "dependencies_within dependencies present = Inr () \<longleftrightarrow> set dependencies \<subseteq> present"
  by (induction dependencies present rule: dependencies_within.induct) auto

lemma ensure_dependencies_present_Inr_iff:
  "ensure_dependencies_present self permissions = Inr () \<longleftrightarrow>
     (\<forall>p \<in> set permissions. \<exists>d. definition_of self p = Some d \<and> set (pd_dependencies d) \<subseteq> set permissions)"
proof -
  have "ensure_dependencies_loop self present permissions = Inr () \<longleftrightarrow>
      (\<forall>p \<in> set permissions. \<exists>d. definition_of self p = Some d \<and> set (pd_dependencies d) \<subseteq> present)" for present
    by (induction self present permissions rule: ensure_dependencies_loop.induct)
       (auto simp: result_simps dependencies_within_Inr_iff)
  then show ?thesis by (simp add: ensure_dependencies_present_def)
qed

lemma ownership_transfer_restricted: "\<not> is_allowed_for_custom_role product_default (lit ''ownership.transfer'')"
  by (simp add: is_allowed_for_custom_role_def definition_of_def product_default_def PRODUCT_DEFINITIONS_def
      permission_definition.defs del: lit_Cons lit_Nil)

text \<open>
  C37: \<open>OrganizationAccessModel::expand_with_dependencies\<close> on any catalogue: a success is exactly the sorted,
  duplicate-free list of the permissions reachable from the requested ones along dependency edges; it
  reports \<open>UnknownPermission\<close> exactly when a requested identifier is not in the catalogue, and
  \<open>IncompleteDependencies\<close> exactly when all requested ones are but a reachable one is not. It never
  reports \<open>RestrictedPermission\<close>.
\<close>

theorem permission_expansion_exact:
  "case expand_with_dependencies self permissions of
     Inr result \<Rightarrow> permission_closure self (set permissions) \<subseteq> known_ids self
        \<and> set result = permission_closure self (set permissions) \<and> sorted result \<and> distinct result
   | Inl UnknownPermission \<Rightarrow> \<not> set permissions \<subseteq> known_ids self
   | Inl IncompleteDependencies \<Rightarrow> set permissions \<subseteq> known_ids self
        \<and> \<not> permission_closure self (set permissions) \<subseteq> known_ids self
   | Inl RestrictedPermission \<Rightarrow> False"
proof (cases "expand_with_dependencies self permissions")
  case (Inl e)
  from expand_with_dependencies_Inl [OF Inl] Inl show ?thesis by (auto split: if_splits)
next
  case (Inr result)
  then show ?thesis using iffD1 [OF expand_with_dependencies_Inr_iff Inr] by simp
qed

end
