(* ===== verification/Service_Support.thy ===== *)
theory Service_Support
  imports Relational_Kernel
begin

section \<open>What the services share\<close>

text \<open>
  The third-party functions the PostgreSQL services call are the fields of \<open>service_env\<close>: the
  conversion of text to a UUID in PostgreSQL and in the crate \<open>uuid\<close>, SHA-256, Base64, AES-256-GCM and
  the JSON reader and writer. One call of a service sees one \<open>call_moment\<close>: the clock, the outcome of
  each \<open>fill_bytes\<close> call in order, and the identifiers \<open>gen_random_uuid()\<close> makes.
  Models \<open>OutboxSealingKey\<close> of \<open>postgres/workflows.rs\<close> and \<open>SealedPayload\<close> of \<open>postgres.rs\<close>.
\<close>

record service_env =
  se_pg_uuid :: "rstr \<Rightarrow> rstr option"
  se_parse_uuid :: "rstr \<Rightarrow> rstr option"
  se_uuid_text :: "bytes \<Rightarrow> rstr"
  se_sha256 :: "bytes \<Rightarrow> bytes"
  se_base64url :: "bytes \<Rightarrow> rstr"
  se_encrypt :: "bytes \<Rightarrow> bytes \<Rightarrow> bytes \<Rightarrow> bytes \<Rightarrow> bytes option"
  se_decrypt :: "bytes \<Rightarrow> bytes \<Rightarrow> bytes \<Rightarrow> bytes \<Rightarrow> bytes option"
  se_to_json :: "json_value \<Rightarrow> bytes option"
  se_from_json :: "bytes \<Rightarrow> json_value option"

record call_moment =
  cm_now_unix_seconds :: u64
  cm_draw :: "nat \<Rightarrow> bytes option"
  cm_gen :: "rstr \<Rightarrow> rstr"

definition moment_ms :: "call_moment \<Rightarrow> u64" where
  "moment_ms moment = saturating_mul (cm_now_unix_seconds moment) 1000"

definition draw_uuid :: "service_env \<Rightarrow> call_moment \<Rightarrow> nat \<Rightarrow> rstr option" where
  "draw_uuid env moment n =
     map_option (\<lambda>random. se_uuid_text env (uuid_v7 (moment_ms moment) random)) (cm_draw moment n)"

subsection \<open>Sealed payloads\<close>

record sealed_outbox_payload =
  sp_key_version :: rstr
  sp_ciphertext :: bytes

definition sealed_payload_new :: "rstr \<Rightarrow> bytes \<Rightarrow> kernel_validation_error + sealed_outbox_payload" where
  "sealed_payload_new key_version ciphertext =
     (if key_version = [] \<or> str_len key_version > 128 \<or> ciphertext = [] then Inl InvalidValue
      else Inr \<lparr>sp_key_version = key_version, sp_ciphertext = ciphertext\<rparr>)"

record outbox_sealing_key =
  osk_key_version :: rstr
  osk_key :: bytes

definition OUTBOX_NONCE_BYTES :: nat where "OUTBOX_NONCE_BYTES = 12"

definition outbox_sealing_key_new :: "rstr \<Rightarrow> bytes \<Rightarrow> outbox_sealing_key option" where
  "outbox_sealing_key_new key_version key =
     (if key_version = [] \<or> str_len key_version > 128 \<or> list_ex is_control key_version then None
      else Some \<lparr>osk_key_version = key_version, osk_key = key\<rparr>)"

definition seal_with_aad ::
  "service_env \<Rightarrow> outbox_sealing_key \<Rightarrow> bytes \<Rightarrow> bytes \<Rightarrow> bytes \<Rightarrow> sealed_outbox_payload option" where
  "seal_with_aad env self nonce plaintext aad =
     Option.bind (se_encrypt env (osk_key self) nonce aad plaintext) (\<lambda>ciphertext.
       case sealed_payload_new (osk_key_version self) (nonce @ ciphertext) of Inl _ \<Rightarrow> None | Inr sealed \<Rightarrow> Some sealed)"

definition open_with_aad ::
  "service_env \<Rightarrow> outbox_sealing_key \<Rightarrow> rstr \<Rightarrow> bytes \<Rightarrow> bytes \<Rightarrow> bytes option" where
  "open_with_aad env self key_version sealed aad =
     (if key_version \<noteq> osk_key_version self \<or> length sealed \<le> OUTBOX_NONCE_BYTES then None
      else se_decrypt env (osk_key self) (take OUTBOX_NONCE_BYTES sealed) aad (drop OUTBOX_NONCE_BYTES sealed))"

definition MAIL_OUTBOX_AAD_V1 :: bytes where
  "MAIL_OUTBOX_AAD_V1 = str_bytes (lit ''wasi-auth:email-verification:v1'')"

definition outbox_seal :: "service_env \<Rightarrow> outbox_sealing_key \<Rightarrow> bytes \<Rightarrow> bytes \<Rightarrow> sealed_outbox_payload option" where
  "outbox_seal env self nonce plaintext = seal_with_aad env self nonce plaintext MAIL_OUTBOX_AAD_V1"

definition outbox_open :: "service_env \<Rightarrow> outbox_sealing_key \<Rightarrow> rstr \<Rightarrow> bytes \<Rightarrow> bytes option" where
  "outbox_open env self key_version sealed = open_with_aad env self key_version sealed MAIL_OUTBOX_AAD_V1"

text \<open>
  What is relied on of the libraries: decryption undoes encryption under the same key, nonce and
  associated data and a ciphertext carries a tag, and reading a JSON document gives what was written.
\<close>

definition sealing_laws :: "service_env \<Rightarrow> bool" where
  "sealing_laws env \<longleftrightarrow> (\<forall>key nonce aad plaintext ciphertext.
     se_encrypt env key nonce aad plaintext = Some ciphertext \<longrightarrow>
       ciphertext \<noteq> [] \<and> se_decrypt env key nonce aad ciphertext = Some plaintext)"

definition json_laws :: "service_env \<Rightarrow> bool" where
  "json_laws env \<longleftrightarrow> (\<forall>v document. se_to_json env v = Some document \<longrightarrow> se_from_json env document = Some v)"

lemma outbox_open_sealed:
  assumes "sealing_laws env" and "length nonce = OUTBOX_NONCE_BYTES"
    and "outbox_seal env self nonce plaintext = Some sealed"
  shows "outbox_open env self (sp_key_version sealed) (sp_ciphertext sealed) = Some plaintext"
  using assms
  by (auto simp: outbox_seal_def outbox_open_def seal_with_aad_def open_with_aad_def sealed_payload_new_def
      sealing_laws_def bind_eq_Some_conv split: if_splits sum.splits)

end
