(* ===== verification/Mail.thy ===== *)
theory Mail
  imports Service_Support
begin

section \<open>Transactional mail\<close>

text \<open>
  Models the provider-neutral part of \<open>src/crates/wasi-auth/src/mail.rs\<close>: recipients, action URLs, the
  mail configuration, the rendered subject and bodies, messages and the payload that is queued in the
  outbox. The providers (SMTP, webhook, Resend) only move a finished message to a remote service and are
  not modelled. A JSON document is built as a \<open>json_value\<close>; its text is the parameter \<open>se_to_json\<close>.
\<close>

datatype email_kind = EkVerification | EkPasswordReset | EkInvitation | EkSecurityNotification

datatype mail_message_error = InvalidRecipient | InvalidSubject | InvalidBody

datatype transactional_mail_config_error = InvalidProductName | InvalidActionUrl | InvalidActionToken

subsection \<open>Recipients, product names and action URLs\<close>

definition mailbox_shape :: "rstr \<Rightarrow> bool" where
  "mailbox_shape v =
     (case split_once 64 v of
        None \<Rightarrow> False
      | Some (local_part, domain) \<Rightarrow> local_part \<noteq> [] \<and> domain \<noteq> [] \<and> 46 \<in> set domain)"

definition recipient_new :: "rstr \<Rightarrow> mail_message_error + rstr" where
  "recipient_new v =
     (if trim v \<noteq> v \<or> str_len v > 320 \<or> list_ex is_control v \<or> \<not> mailbox_shape v
      then Inl InvalidRecipient else Inr v)"

definition mail_product_name_new :: "rstr \<Rightarrow> transactional_mail_config_error + rstr" where
  "mail_product_name_new v =
     (if v = [] \<or> str_len v > 80 \<or> trim v \<noteq> v \<or> list_ex is_control v then Inl InvalidProductName else Inr v)"

definition url_authority :: "rstr \<Rightarrow> rstr" where
  "url_authority remainder = takeWhile (\<lambda>c. c \<noteq> 47 \<and> c \<noteq> 63) remainder"

text \<open>The host of an authority: the bracketed address, or the text up to the first colon.\<close>

definition authority_host :: "rstr \<Rightarrow> rstr" where
  "authority_host authority =
     (case Option.bind (strip_prefix [91] authority) (split_once 93) of
        Some (host, _) \<Rightarrow> host
      | None \<Rightarrow> takeWhile (\<lambda>c. c \<noteq> 58) authority)"

definition loopback_host :: "rstr \<Rightarrow> bool" where
  "loopback_host host \<longleftrightarrow> host = lit ''localhost'' \<or> host = lit ''127.0.0.1'' \<or> host = lit ''::1''"

text \<open>The remainder after the scheme, with whether the scheme is secure.\<close>

definition url_scheme :: "rstr \<Rightarrow> (bool \<times> rstr) option" where
  "url_scheme v =
     (case strip_prefix (lit ''https://'') v of
        Some remainder \<Rightarrow> Some (True, remainder)
      | None \<Rightarrow> map_option (Pair False) (strip_prefix (lit ''http://'') v))"

definition mail_action_url_new :: "rstr \<Rightarrow> transactional_mail_config_error + rstr" where
  "mail_action_url_new v =
     (if v = [] \<or> str_len v > 2048 \<or> list_ex is_whitespace v \<or> 35 \<in> set v then Inl InvalidActionUrl
      else
        case url_scheme v of
          None \<Rightarrow> Inl InvalidActionUrl
        | Some (secure, remainder) \<Rightarrow>
          let authority = url_authority remainder in
          if authority = [] \<or> 64 \<in> set authority then Inl InvalidActionUrl
          else if \<not> secure \<and> \<not> loopback_host (authority_host authority) then Inl InvalidActionUrl
          else Inr v)"

subsection \<open>Configuration and rendering\<close>

record transactional_mail_config =
  tm_product_name :: rstr
  tm_public_base_url :: rstr

definition trim_end_slashes :: "rstr \<Rightarrow> rstr" where
  "trim_end_slashes v = rev (dropWhile (\<lambda>c. c = 47) (rev v))"

text \<open>The text behind the first \<open>://\<close>.\<close>

fun after_scheme :: "rstr \<Rightarrow> rstr option" where
  "after_scheme [] = None"
| "after_scheme (c # v) = (case strip_prefix (lit ''://'') (c # v) of Some rest \<Rightarrow> Some rest | None \<Rightarrow> after_scheme v)"

definition transactional_mail_config_new ::
  "rstr \<Rightarrow> rstr \<Rightarrow> transactional_mail_config_error + transactional_mail_config" where
  "transactional_mail_config_new product_name public_base_url =
     (let trimmed = trim_end_slashes public_base_url in
      rbind (mail_action_url_new (trimmed @ lit ''/'')) (\<lambda>_.
      rbind (ok_or InvalidActionUrl (after_scheme trimmed)) (\<lambda>rest.
        if 47 \<in> set rest \<or> 63 \<in> set rest \<or> 35 \<in> set rest then Inl InvalidActionUrl
        else Inr \<lparr>tm_product_name = product_name, tm_public_base_url = trimmed\<rparr>)))"

fun html_escape_char :: "uchar \<Rightarrow> rstr" where
  "html_escape_char c =
     (if c = 38 then lit ''&amp;'' else if c = 60 then lit ''&lt;'' else if c = 62 then lit ''&gt;''
      else if c = 34 then lit ''&quot;'' else if c = 39 then lit ''&#39;'' else [c])"

definition html_escape :: "rstr \<Rightarrow> rstr" where
  "html_escape v = concat (map html_escape_char v)"

record rendered_transactional_mail =
  rm_subject :: rstr
  rm_text_body :: rstr
  rm_html_body :: rstr

text \<open>Subject, heading, introduction, button and closing remark of each kind of message.\<close>

definition mail_copy :: "email_kind \<Rightarrow> rstr \<Rightarrow> rstr \<times> rstr \<times> rstr \<times> rstr \<times> rstr" where
  "mail_copy kind product = (case kind of
     EkVerification \<Rightarrow>
       (lit ''Verify your email for '' @ product,
        lit ''Verify your email'',
        lit ''Thanks for signing up for '' @ product @ lit ''. Confirm this email address so we can finish creating your account and keep it secure.'',
        lit ''Verify email address'',
        lit ''If you did not create an account, you can ignore this message. No account will be activated without verification.'')
   | EkPasswordReset \<Rightarrow>
       (lit ''Reset your '' @ product @ lit '' password'',
        lit ''Reset your password'',
        lit ''We received a request to reset the password for your '' @ product @ lit '' account. Use the button below within the next hour to choose a new password.'',
        lit ''Reset password'',
        lit ''If you did not request a password reset, you can ignore this message. Your password will stay the same.'')
   | EkInvitation \<Rightarrow>
       (lit ''You are invited to join a '' @ product @ lit '' organization'',
        lit ''Organization invitation'',
        lit ''You have been invited to join an organization on '' @ product @ lit ''. Open the link below, sign in with this email address, then accept the invitation.'',
        lit ''Accept invitation'',
        lit ''If you were not expecting this invitation, you can ignore this message.'')
   | EkSecurityNotification \<Rightarrow>
       (lit ''Security notice from '' @ product,
        lit ''Security notice'',
        lit ''A security-sensitive change was made on your '' @ product @ lit '' account. Review your account if this was not you.'',
        lit ''Review account'',
        lit ''If you do not recognize this activity, change your password and review active sessions immediately.''))"

definition mail_text_body :: "rstr \<Rightarrow> rstr \<Rightarrow> rstr \<Rightarrow> rstr \<Rightarrow> rstr \<Rightarrow> rstr" where
  "mail_text_body intro cta action_url ignore product =
     lit ''Hi,'' @ [10, 10] @ intro @ [10, 10] @ cta @ lit '':'' @ [10] @ action_url @ [10, 10] @
     lit ''If the button or link above does not work, copy and paste the full URL into your browser.'' @
     [10, 10] @ ignore @ [10, 10, 8212, 10] @ product @ [10] @
     lit ''This is an automated message; replies are not monitored.'' @ [10]"

definition mail_html_body :: "rstr \<Rightarrow> rstr \<Rightarrow> rstr \<Rightarrow> rstr \<Rightarrow> rstr \<Rightarrow> rstr \<Rightarrow> rstr \<Rightarrow> rstr" where
  "mail_html_body safe_subject safe_intro safe_product safe_heading safe_url safe_cta safe_ignore =
     lit ''<!DOCTYPE html>'' @ [10] @ lit ''<html lang='' @ [34] @ lit ''en'' @ [34] @ lit ''>'' @ [10] @
     lit ''<head>'' @ [10] @ lit ''  <meta charset='' @ [34] @ lit ''utf-8'' @ [34] @ lit ''>'' @ [10] @
     lit ''  <meta name='' @ [34] @ lit ''viewport'' @ [34] @ lit '' content='' @ [34] @
     lit ''width=device-width, initial-scale=1'' @ [34] @ lit ''>'' @ [10] @ lit ''  <meta name='' @ [34] @
     lit ''color-scheme'' @ [34] @ lit '' content='' @ [34] @ lit ''light'' @ [34] @ lit ''>'' @ [10] @
     lit ''  <meta name='' @ [34] @ lit ''supported-color-schemes'' @ [34] @ lit '' content='' @ [34] @
     lit ''light'' @ [34] @ lit ''>'' @ [10] @ lit ''  <title>'' @ safe_subject @ lit ''</title>'' @ [10] @
     lit ''</head>'' @ [10] @ lit ''<body style='' @ [34] @
     lit ''margin:0;padding:0;background:#f4f4f5;font-family:-apple-system,BlinkMacSystemFont,'' @ [39] @
     lit ''Segoe UI'' @ [39] @
     lit '',Helvetica,Arial,sans-serif;color:#18181b;-webkit-font-smoothing:antialiased;'' @ [34] @ lit ''>'' @
     [10] @ lit ''  <div style='' @ [34] @
     lit ''display:none;max-height:0;overflow:hidden;opacity:0;color:transparent;'' @ [34] @ lit ''>'' @ [10] @
     lit ''    '' @ safe_intro @ [10] @ lit ''  </div>'' @ [10] @ lit ''  <table role='' @ [34] @
     lit ''presentation'' @ [34] @ lit '' width='' @ [34] @ lit ''100%'' @ [34] @ lit '' cellspacing='' @
     [34] @ lit ''0'' @ [34] @ lit '' cellpadding='' @ [34] @ lit ''0'' @ [34] @ lit '' border='' @ [34] @
     lit ''0'' @ [34] @ lit '' style='' @ [34] @ lit ''background:#f4f4f5;padding:32px 16px;'' @ [34] @
     lit ''>'' @ [10] @ lit ''    <tr><td align='' @ [34] @ lit ''center'' @ [34] @ lit ''>'' @ [10] @
     lit ''      <table role='' @ [34] @ lit ''presentation'' @ [34] @ lit '' width='' @ [34] @ lit ''100%'' @
     [34] @ lit '' cellspacing='' @ [34] @ lit ''0'' @ [34] @ lit '' cellpadding='' @ [34] @ lit ''0'' @ [34] @
     lit '' border='' @ [34] @ lit ''0'' @ [34] @ lit '' style='' @ [34] @
     lit ''max-width:560px;background:#ffffff;border:1px solid #e4e4e7;border-radius:12px;'' @ [34] @
     lit ''>'' @ [10] @ lit ''        <tr><td style='' @ [34] @
     lit ''padding:28px 28px 8px;font-size:12px;font-weight:600;letter-spacing:0.08em;text-transform:uppercase;color:#71717a;'' @
     [34] @ lit ''>'' @ safe_product @ lit ''</td></tr>'' @ [10] @ lit ''        <tr><td style='' @ [34] @
     lit ''padding:8px 28px 0;font-size:22px;font-weight:600;letter-spacing:-0.02em;line-height:1.25;color:#18181b;'' @
     [34] @ lit ''>'' @ safe_heading @ lit ''</td></tr>'' @ [10] @ lit ''        <tr><td style='' @ [34] @
     lit ''padding:14px 28px 0;font-size:15px;line-height:1.65;color:#52525b;'' @ [34] @ lit ''>'' @
     safe_intro @ lit ''</td></tr>'' @ [10] @ lit ''        <tr><td style='' @ [34] @
     lit ''padding:28px 28px 0;'' @ [34] @ lit '' align='' @ [34] @ lit ''left'' @ [34] @ lit ''>'' @ [10] @
     lit ''          <a href='' @ [34] @ safe_url @ [34] @ lit '' style='' @ [34] @
     lit ''display:inline-block;background:#18181b;color:#ffffff;text-decoration:none;font-size:14px;font-weight:600;line-height:1;padding:14px 20px;border-radius:8px;'' @
     [34] @ lit ''>'' @ safe_cta @ lit ''</a>'' @ [10] @ lit ''        </td></tr>'' @ [10] @
     lit ''        <tr><td style='' @ [34] @
     lit ''padding:24px 28px 0;font-size:13px;line-height:1.55;color:#71717a;'' @ [34] @
     lit ''>Button not working? Copy and paste this link into your browser:</td></tr>'' @ [10] @
     lit ''        <tr><td style='' @ [34] @
     lit ''padding:8px 28px 0;font-size:13px;line-height:1.5;word-break:break-all;'' @ [34] @
     lit ''><a href='' @ [34] @ safe_url @ [34] @ lit '' style='' @ [34] @
     lit ''color:#18181b;text-decoration:underline;'' @ [34] @ lit ''>'' @ safe_url @ lit ''</a></td></tr>'' @
     [10] @ lit ''        <tr><td style='' @ [34] @
     lit ''padding:28px;border-top:1px solid #e4e4e7;font-size:12px;line-height:1.55;color:#a1a1aa;'' @ [34] @
     lit ''>'' @ safe_ignore @ lit ''<br><br>This is an automated message from '' @ safe_product @
     lit ''.</td></tr>'' @ [10] @ lit ''      </table>'' @ [10] @ lit ''    </td></tr>'' @ [10] @
     lit ''  </table>'' @ [10] @ lit ''</body>'' @ [10] @ lit ''</html>''"

definition render_transactional_mail :: "email_kind \<Rightarrow> rstr \<Rightarrow> rstr \<Rightarrow> rendered_transactional_mail" where
  "render_transactional_mail kind action_url product_name =
     (let product = (if trim product_name = [] then lit ''Goldcoders'' else trim product_name) in
      case mail_copy kind product of (subject, heading, intro, cta, ignore) \<Rightarrow>
        \<lparr>rm_subject = subject,
         rm_text_body = mail_text_body intro cta action_url ignore product,
         rm_html_body = mail_html_body (html_escape subject) (html_escape intro) (html_escape product)
           (html_escape heading) (html_escape action_url) (html_escape cta) (html_escape ignore)\<rparr>)"

definition mail_path :: "email_kind \<Rightarrow> rstr" where
  "mail_path kind = (case kind of
     EkVerification \<Rightarrow> lit ''/verify-email''
   | EkPasswordReset \<Rightarrow> lit ''/reset-password''
   | EkInvitation \<Rightarrow> lit ''/invitations/accept''
   | EkSecurityNotification \<Rightarrow> lit ''/account/security'')"

definition mail_render ::
  "transactional_mail_config \<Rightarrow> email_kind \<Rightarrow> rstr \<Rightarrow>
   transactional_mail_config_error + rstr \<times> rendered_transactional_mail" where
  "mail_render self kind token =
     (if token = [] \<or> str_len token > 1024 \<or> list_ex is_control token \<or> 38 \<in> set token \<or> 35 \<in> set token
      then Inl InvalidActionToken
      else
        rbind (mail_action_url_new (tm_public_base_url self @ mail_path kind @ lit ''?token='' @ token)) (\<lambda>action_url.
          Inr (action_url, render_transactional_mail kind action_url (tm_product_name self))))"

subsection \<open>Messages\<close>

record email_message =
  em_kind :: email_kind
  em_recipient :: rstr
  em_subject :: rstr
  em_text_body :: rstr
  em_html_body :: "rstr option"
  em_action_url :: "rstr option"
  em_correlation_id :: rstr

definition email_message_new ::
  "email_kind \<Rightarrow> rstr \<Rightarrow> rstr \<Rightarrow> rstr \<Rightarrow> rstr \<Rightarrow> mail_message_error + email_message" where
  "email_message_new kind recipient subject text_body correlation_id =
     (if subject = [] \<or> str_len subject > 200 \<or> list_ex is_control subject then Inl InvalidSubject
      else if text_body = [] \<or> str_len text_body > 131072 then Inl InvalidBody
      else Inr \<lparr>em_kind = kind, em_recipient = recipient, em_subject = subject, em_text_body = text_body,
                em_html_body = None, em_action_url = None, em_correlation_id = correlation_id\<rparr>)"

definition with_html_body :: "email_message \<Rightarrow> rstr \<Rightarrow> mail_message_error + email_message" where
  "with_html_body self html_body =
     (if html_body = [] \<or> str_len html_body > 131072 then Inl InvalidBody
      else Inr (self\<lparr>em_html_body := Some html_body\<rparr>))"

definition with_action_url :: "email_message \<Rightarrow> rstr \<Rightarrow> email_message" where
  "with_action_url self action_url = self\<lparr>em_action_url := Some action_url\<rparr>"

subsection \<open>The durable payload\<close>

definition mail_kind_name :: "email_kind \<Rightarrow> rstr" where
  "mail_kind_name kind = (case kind of
     EkVerification \<Rightarrow> lit ''email_verification''
   | EkPasswordReset \<Rightarrow> lit ''password_reset''
   | EkInvitation \<Rightarrow> lit ''invitation''
   | EkSecurityNotification \<Rightarrow> lit ''security_notification'')"

definition durable_transactional_mail_payload ::
  "service_env \<Rightarrow> transactional_mail_config \<Rightarrow> email_kind \<Rightarrow> rstr \<Rightarrow> rstr \<Rightarrow> bytes option" where
  "durable_transactional_mail_payload env config kind recipient token =
     (case mail_render config kind token of
        Inl _ \<Rightarrow> None
      | Inr (action_url, rendered) \<Rightarrow> se_to_json env (JvObject
          [(lit ''version'', JvNumber 2), (lit ''kind'', JvString (mail_kind_name kind)),
           (lit ''recipient'', JvString recipient), (lit ''subject'', JvString (rm_subject rendered)),
           (lit ''text_body'', JvString (rm_text_body rendered)),
           (lit ''html_body'', JvString (rm_html_body rendered)),
           (lit ''action_url'', JvString action_url)]))"

text \<open>The version 1 payload the services write without a mail configuration.\<close>

definition mail_payload_v1 :: "service_env \<Rightarrow> rstr \<Rightarrow> rstr \<Rightarrow> rstr \<Rightarrow> rstr \<Rightarrow> bytes option" where
  "mail_payload_v1 env kind recipient token redirect_uri = se_to_json env (JvObject
     [(lit ''version'', JvNumber 1), (lit ''kind'', JvString kind), (lit ''recipient'', JvString recipient),
      (lit ''token'', JvString token), (lit ''redirect_uri'', JvString redirect_uri)])"

end
