(* ===== verification/Organization_Service.thy ===== *)
theory Organization_Service
  imports Organization_Store Access_Model Mail
begin

section \<open>Organization services\<close>

text \<open>
  Models \<open>postgres/management.rs\<close> (\<open>OrganizationManagementService\<close>, \<open>InvitationService\<close>) and
  \<open>postgres/organizations.rs\<close> (\<open>OrganizationService\<close>): validation of the input, the statement, and the
  decoding of its rows. An operation takes the tables and returns its result with the tables after it.
  Every operation that changes the tables is here; of the read-only listings only the one of invitations
  is, because resending reads it.
\<close>

subsection \<open>Errors and validation\<close>

datatype management_error =
  MgInvalidRequest | MgNotAuthorized | MgProtectedInvariant | MgRoleInUse u64 u64 | MgRestrictedPermission
| MgInvalidToken | MgRandomnessUnavailable | MgCrypto | MgTransport pg_error | MgRow row_decode_error | MgInvalidRow

definition map_transport_error :: "pg_error \<Rightarrow> management_error" where
  "map_transport_error e = (if e = CheckViolation OWNER_CONSTRAINT then MgProtectedInvariant else MgTransport e)"

fun map_access_model_error :: "access_model_error \<Rightarrow> management_error" where
  "map_access_model_error UnknownPermission = MgRestrictedPermission"
| "map_access_model_error RestrictedPermission = MgRestrictedPermission"
| "map_access_model_error IncompleteDependencies = MgInvalidRequest"

definition management_uuid :: "service_env \<Rightarrow> rstr \<Rightarrow> management_error + rstr" where
  "management_uuid env v = ok_or MgInvalidRequest (se_parse_uuid env v)"

definition bounded_name :: "rstr \<Rightarrow> nat \<Rightarrow> management_error + rstr" where
  "bounded_name v maximum =
     (let v = trim v in
      if v = [] \<or> str_len v > maximum \<or> list_ex is_control v then Inl MgInvalidRequest else Inr v)"

definition built_in_role_id :: "rstr \<Rightarrow> bool" where
  "built_in_role_id v \<longleftrightarrow> v = lit ''owner'' \<or> v = lit ''admin'' \<or> v = lit ''member'' \<or> v = lit ''viewer''"

definition validate_role_id :: "rstr \<Rightarrow> bool \<Rightarrow> management_error + unit" where
  "validate_role_id v allow_built_in =
     (if v = [] \<or> str_len v > 128 \<or> \<not> allow_built_in \<and> built_in_role_id v
         \<or> \<not> list_all (\<lambda>b. is_ascii_alphanumeric b \<or> b = 46 \<or> b = 95 \<or> b = 45) (str_bytes v)
      then Inl MgInvalidRequest else Inr ())"

definition normalize_email :: "rstr \<Rightarrow> management_error + rstr" where
  "normalize_email v =
     (let v = map ascii_lower (trim v) in
      if str_len v > 320 \<or> \<not> mailbox_shape v then Inl MgInvalidRequest else Inr v)"

definition to_u64 :: "int \<Rightarrow> management_error + u64" where
  "to_u64 v = (if v < 0 then Inl MgInvalidRow else Inr (word_of_int v))"

subsection \<open>Decoding\<close>

record organization_record =
  or_organization_id :: rstr
  or_name :: rstr
  or_slug :: rstr
  or_status :: rstr
  or_role_id :: rstr
  or_permissions :: "rstr list"
  or_created_at_ms :: u64

record membership_record =
  mr_organization_id :: rstr
  mr_user_id :: rstr
  mr_primary_email :: rstr
  mr_role_id :: rstr
  mr_status :: rstr
  mr_joined_at_ms :: u64

record role_record =
  rr_organization_id :: rstr
  rr_role_id :: rstr
  rr_name :: rstr
  rr_built_in :: bool
  rr_permissions :: "rstr list"

record invitation_record =
  ir_invitation_id :: rstr
  ir_organization_id :: rstr
  ir_email :: rstr
  ir_role_id :: rstr
  ir_status :: rstr
  ir_expires_at_ms :: u64

record admin_user_record =
  au_user_id :: rstr
  au_primary_email :: rstr
  au_status :: rstr
  au_created_at_ms :: u64

definition management_text :: "pg_row \<Rightarrow> string \<Rightarrow> management_error + rstr" where
  "management_text row column = map_err MgRow (required_text row (lit column))"

definition management_time :: "pg_row \<Rightarrow> string \<Rightarrow> management_error + u64" where
  "management_time row column = rbind (map_err MgRow (required_i64 row (lit column))) to_u64"

fun json_strings :: "json_value list \<Rightarrow> rstr list option" where
  "json_strings [] = Some []"
| "json_strings (JvString t # vs) = map_option (Cons t) (json_strings vs)"
| "json_strings (_ # vs) = None"

definition decode_permissions :: "pg_row \<Rightarrow> management_error + rstr list" where
  "decode_permissions row =
     rbind (map_err MgRow (row_json row (lit ''permissions''))) (\<lambda>v.
       case v of Some (JvArray vs) \<Rightarrow> ok_or MgInvalidRow (json_strings vs) | _ \<Rightarrow> Inl MgInvalidRow)"

definition decode_organization :: "pg_row \<Rightarrow> management_error + organization_record" where
  "decode_organization row =
     rbind (management_text row ''organization_id'') (\<lambda>organization_id.
     rbind (management_text row ''name'') (\<lambda>name.
     rbind (map_err MgRow (row_text row (lit ''slug''))) (\<lambda>slug.
     rbind (management_text row ''status'') (\<lambda>status.
     rbind (management_text row ''role_id'') (\<lambda>role_id.
     rbind (decode_permissions row) (\<lambda>granted.
     rbind (management_time row ''created_at_ms'') (\<lambda>created_at_ms.
       Inr \<lparr>or_organization_id = organization_id, or_name = name,
            or_slug = (case slug of None \<Rightarrow> [] | Some v \<Rightarrow> v), or_status = status, or_role_id = role_id,
            or_permissions = granted, or_created_at_ms = created_at_ms\<rparr>)))))))"

definition decode_membership :: "pg_row \<Rightarrow> management_error + membership_record" where
  "decode_membership row =
     rbind (management_text row ''organization_id'') (\<lambda>organization_id.
     rbind (management_text row ''user_id'') (\<lambda>user_id.
     rbind (management_text row ''primary_email'') (\<lambda>primary_email.
     rbind (management_text row ''role_id'') (\<lambda>role_id.
     rbind (management_text row ''status'') (\<lambda>status.
     rbind (management_time row ''joined_at_ms'') (\<lambda>joined_at_ms.
       Inr \<lparr>mr_organization_id = organization_id, mr_user_id = user_id, mr_primary_email = primary_email,
            mr_role_id = role_id, mr_status = status, mr_joined_at_ms = joined_at_ms\<rparr>))))))"

definition decode_role :: "pg_row \<Rightarrow> management_error + role_record" where
  "decode_role row =
     rbind (management_text row ''organization_id'') (\<lambda>organization_id.
     rbind (management_text row ''role_id'') (\<lambda>role_id.
     rbind (management_text row ''name'') (\<lambda>name.
     rbind (map_err MgRow (row_bool row (lit ''built_in''))) (\<lambda>built_in.
     rbind (ok_or MgInvalidRow built_in) (\<lambda>built_in.
     rbind (decode_permissions row) (\<lambda>granted.
       Inr \<lparr>rr_organization_id = organization_id, rr_role_id = role_id, rr_name = name,
            rr_built_in = built_in, rr_permissions = granted\<rparr>))))))"

definition decode_invitation :: "pg_row \<Rightarrow> management_error + invitation_record" where
  "decode_invitation row =
     rbind (management_text row ''invitation_id'') (\<lambda>invitation_id.
     rbind (management_text row ''organization_id'') (\<lambda>organization_id.
     rbind (management_text row ''normalized_email'') (\<lambda>email.
     rbind (management_text row ''role_id'') (\<lambda>role_id.
     rbind (management_text row ''status'') (\<lambda>status.
     rbind (management_time row ''expires_at_ms'') (\<lambda>expires_at_ms.
       Inr \<lparr>ir_invitation_id = invitation_id, ir_organization_id = organization_id, ir_email = email,
            ir_role_id = role_id, ir_status = status, ir_expires_at_ms = expires_at_ms\<rparr>))))))"

definition decode_admin_user :: "pg_row \<Rightarrow> management_error + admin_user_record" where
  "decode_admin_user row =
     rbind (management_text row ''user_id'') (\<lambda>user_id.
     rbind (management_text row ''primary_email'') (\<lambda>primary_email.
     rbind (management_text row ''status'') (\<lambda>status.
     rbind (management_time row ''created_at_ms'') (\<lambda>created_at_ms.
       Inr \<lparr>au_user_id = user_id, au_primary_email = primary_email, au_status = status,
            au_created_at_ms = created_at_ms\<rparr>))))"

text \<open>\<open>rows.first().map(decode).transpose()?.ok_or(error)\<close>.\<close>

definition first_row :: "(pg_row \<Rightarrow> management_error + 'a) \<Rightarrow> management_error \<Rightarrow> pg_row list \<Rightarrow> management_error + 'a" where
  "first_row decode missing rows = (case rows of [] \<Rightarrow> Inl missing | row # _ \<Rightarrow> decode row)"

definition has_outcome :: "string \<Rightarrow> pg_row list \<Rightarrow> bool" where
  "has_outcome outcome rows =
     (case rows of [] \<Rightarrow> False | row # _ \<Rightarrow> required_text row (lit ''outcome'') = Inr (lit outcome))"

subsection \<open>Running a statement\<close>

type_synonym 'a management_result = "(management_error + 'a) \<times> kernel_db"

definition management_query ::
  "kernel_db \<Rightarrow> statement_result \<Rightarrow> (pg_row list \<Rightarrow> management_error + 'a) \<Rightarrow> 'a management_result" where
  "management_query db statement decode =
     (case statement of
        Inl e \<Rightarrow> (Inl (map_transport_error e), db)
      | Inr (rows, db') \<Rightarrow> (decode rows, db'))"

definition prepared_query ::
  "kernel_db \<Rightarrow> management_error + 'p \<Rightarrow> ('p \<Rightarrow> statement_result) \<Rightarrow> (pg_row list \<Rightarrow> management_error + 'a)
   \<Rightarrow> 'a management_result" where
  "prepared_query db prepared statement decode =
     (case prepared of Inl e \<Rightarrow> (Inl e, db) | Inr p \<Rightarrow> management_query db (statement p) decode)"

definition management_draw :: "service_env \<Rightarrow> call_moment \<Rightarrow> nat \<Rightarrow> management_error + rstr" where
  "management_draw env moment n = ok_or MgRandomnessUnavailable (draw_uuid env moment n)"

definition actor_of :: "call_moment \<Rightarrow> session_id \<Rightarrow> rstr \<Rightarrow> rstr \<Rightarrow> request_id \<Rightarrow> actor_parameters" where
  "actor_of moment session organization audit_id request_id =
     \<lparr>ap_session = session, ap_organization = organization, ap_now_ms = u64_to_i64 (moment_ms moment),
      ap_audit_id = audit_id, ap_request_id = request_id, ap_gen = cm_gen moment\<rparr>"

subsection \<open>The management service\<close>

definition update_organization ::
  "service_env \<Rightarrow> call_moment \<Rightarrow> session_id \<Rightarrow> rstr \<Rightarrow> rstr \<Rightarrow> request_id \<Rightarrow> kernel_db \<Rightarrow> organization_record management_result" where
  "update_organization env moment session organization name request_id db =
     prepared_query db
       (rbind (management_uuid env organization) (\<lambda>organization.
        rbind (bounded_name name 120) (\<lambda>name.
        rbind (management_draw env moment 0) (\<lambda>audit_id.
          Inr (actor_of moment session organization audit_id request_id, name)))))
       (\<lambda>(p, name). update_organization_sql (se_pg_uuid env) p name db)
       (first_row decode_organization MgNotAuthorized)"

text \<open>Sorting, removing duplicates, adding dependencies and rejecting what a custom role may not hold.\<close>

definition custom_role_permissions :: "rstr list \<Rightarrow> management_error + rstr list" where
  "custom_role_permissions requested =
     rbind (map_err map_access_model_error
       (expand_with_dependencies product_default (sorted_list_of_fset (fset_of_list requested)))) (\<lambda>expanded.
     rbind (map_err map_access_model_error (validate_custom_role_permissions product_default expanded)) (\<lambda>_.
       Inr expanded))"

definition upsert_role ::
  "service_env \<Rightarrow> call_moment \<Rightarrow> session_id \<Rightarrow> rstr \<Rightarrow> rstr \<Rightarrow> rstr \<Rightarrow> rstr list \<Rightarrow> request_id \<Rightarrow> kernel_db
   \<Rightarrow> role_record management_result" where
  "upsert_role env moment session organization role name requested request_id db =
     prepared_query db
       (rbind (management_uuid env organization) (\<lambda>organization.
        rbind (validate_role_id role False) (\<lambda>_.
        rbind (bounded_name name 80) (\<lambda>name.
        rbind (ensure (length requested \<le> 100) MgInvalidRequest) (\<lambda>_.
        rbind (custom_role_permissions requested) (\<lambda>granted.
        rbind (management_draw env moment 0) (\<lambda>audit_id.
          Inr (actor_of moment session organization audit_id request_id, name, granted))))))))
       (\<lambda>(p, name, granted). upsert_role_sql (se_pg_uuid env) p role name granted db)
       (first_row decode_role MgNotAuthorized)"

definition decode_deletion :: "pg_row list \<Rightarrow> management_error + unit" where
  "decode_deletion rows =
     (case rows of
        [] \<Rightarrow> Inl MgNotAuthorized
      | row # _ \<Rightarrow>
        rbind (management_text row ''outcome'') (\<lambda>outcome.
          if outcome = lit ''deleted'' then Inr ()
          else if outcome = lit ''in_use'' then
            rbind (management_time row ''member_count'') (\<lambda>member_count.
            rbind (management_time row ''invitation_count'') (\<lambda>invitation_count.
              Inl (MgRoleInUse member_count invitation_count)))
          else Inl MgInvalidRow))"

definition delete_role ::
  "service_env \<Rightarrow> call_moment \<Rightarrow> session_id \<Rightarrow> rstr \<Rightarrow> rstr \<Rightarrow> request_id \<Rightarrow> kernel_db \<Rightarrow> unit management_result" where
  "delete_role env moment session organization role request_id db =
     prepared_query db
       (rbind (management_uuid env organization) (\<lambda>organization.
        rbind (validate_role_id role False) (\<lambda>_.
        rbind (management_draw env moment 0) (\<lambda>audit_id.
          Inr (actor_of moment session organization audit_id request_id)))))
       (\<lambda>p. delete_role_sql (se_pg_uuid env) p role db)
       decode_deletion"

definition assign_role ::
  "service_env \<Rightarrow> call_moment \<Rightarrow> session_id \<Rightarrow> rstr \<Rightarrow> rstr \<Rightarrow> rstr \<Rightarrow> request_id \<Rightarrow> kernel_db
   \<Rightarrow> membership_record management_result" where
  "assign_role env moment session organization user role request_id db =
     prepared_query db
       (rbind (management_uuid env organization) (\<lambda>organization.
        rbind (management_uuid env user) (\<lambda>user.
        rbind (validate_role_id role True) (\<lambda>_.
        rbind (management_draw env moment 0) (\<lambda>audit_id.
          Inr (actor_of moment session organization audit_id request_id, user))))))
       (\<lambda>(p, user). assign_membership_role_sql (se_pg_uuid env) p user role db)
       (first_row decode_membership MgProtectedInvariant)"

definition expect_outcome :: "string \<Rightarrow> pg_row list \<Rightarrow> management_error + unit" where
  "expect_outcome outcome rows = (if has_outcome outcome rows then Inr () else Inl MgProtectedInvariant)"

definition remove_member ::
  "service_env \<Rightarrow> call_moment \<Rightarrow> session_id \<Rightarrow> rstr \<Rightarrow> rstr \<Rightarrow> request_id \<Rightarrow> kernel_db \<Rightarrow> unit management_result" where
  "remove_member env moment session organization user request_id db =
     prepared_query db
       (rbind (management_uuid env organization) (\<lambda>organization.
        rbind (management_uuid env user) (\<lambda>user.
        rbind (management_draw env moment 0) (\<lambda>audit_id.
          Inr (actor_of moment session organization audit_id request_id, user)))))
       (\<lambda>(p, user). remove_membership_sql (se_pg_uuid env) p user db)
       (expect_outcome ''removed'')"

definition transfer_ownership ::
  "service_env \<Rightarrow> call_moment \<Rightarrow> session_id \<Rightarrow> rstr \<Rightarrow> rstr \<Rightarrow> request_id \<Rightarrow> kernel_db \<Rightarrow> membership_record management_result" where
  "transfer_ownership env moment session organization target request_id db =
     prepared_query db
       (rbind (management_uuid env organization) (\<lambda>organization.
        rbind (management_uuid env target) (\<lambda>target.
        rbind (management_draw env moment 0) (\<lambda>audit_id.
          Inr (actor_of moment session organization audit_id request_id, target)))))
       (\<lambda>(p, target). transfer_ownership_sql (se_pg_uuid env) p target db)
       (first_row decode_membership MgProtectedInvariant)"

definition leave_organization ::
  "service_env \<Rightarrow> call_moment \<Rightarrow> session_id \<Rightarrow> rstr \<Rightarrow> request_id \<Rightarrow> kernel_db \<Rightarrow> unit management_result" where
  "leave_organization env moment session organization request_id db =
     prepared_query db
       (rbind (management_uuid env organization) (\<lambda>organization.
        rbind (management_draw env moment 0) (\<lambda>audit_id.
          Inr (actor_of moment session organization audit_id request_id))))
       (\<lambda>p. leave_organization_sql (se_pg_uuid env) p db)
       (expect_outcome ''left'')"

definition archive_organization ::
  "service_env \<Rightarrow> call_moment \<Rightarrow> session_id \<Rightarrow> rstr \<Rightarrow> request_id \<Rightarrow> kernel_db \<Rightarrow> organization_record management_result" where
  "archive_organization env moment session organization request_id db =
     prepared_query db
       (rbind (management_uuid env organization) (\<lambda>organization.
        rbind (management_draw env moment 0) (\<lambda>audit_id.
          Inr (actor_of moment session organization audit_id request_id))))
       (\<lambda>p. archive_organization_sql (se_pg_uuid env) p db)
       (first_row decode_organization MgNotAuthorized)"

definition set_user_disabled ::
  "service_env \<Rightarrow> call_moment \<Rightarrow> session_id \<Rightarrow> rstr \<Rightarrow> bool \<Rightarrow> request_id \<Rightarrow> kernel_db \<Rightarrow> admin_user_record management_result" where
  "set_user_disabled env moment session user disabled request_id db =
     prepared_query db
       (rbind (management_uuid env user) (\<lambda>user.
        rbind (management_draw env moment 0) (\<lambda>audit_id.
          Inr (actor_of moment session [] audit_id request_id, user))))
       (\<lambda>(p, user). set_user_disabled_sql (se_pg_uuid env) p user disabled db)
       (first_row decode_admin_user MgProtectedInvariant)"

subsection \<open>The invitation service\<close>

record invitation_service =
  is_outbox_key :: outbox_sealing_key
  is_transactional_mail_config :: "transactional_mail_config option"

definition INVITATION_TTL_MS :: u64 where "INVITATION_TTL_MS = 604800000"

text \<open>The random token, its hash and the sealed mail that carries it.\<close>

definition invitation_mail ::
  "service_env \<Rightarrow> invitation_service \<Rightarrow> call_moment \<Rightarrow> rstr \<Rightarrow> nat \<Rightarrow> management_error + bytes \<times> sealed_outbox_payload" where
  "invitation_mail env self moment email n =
     rbind (ok_or MgRandomnessUnavailable (cm_draw moment n)) (\<lambda>raw.
     rbind (ok_or MgRandomnessUnavailable (cm_draw moment (n + 1))) (\<lambda>nonce.
       let token = se_base64url env raw in
       rbind (case is_transactional_mail_config self of
           Some config \<Rightarrow> ok_or MgInvalidRequest (durable_transactional_mail_payload env config EkInvitation email token)
         | None \<Rightarrow> ok_or MgCrypto (mail_payload_v1 env (lit ''invitation'') email token (lit ''/organizations''))) (\<lambda>payload.
       rbind (ok_or MgCrypto (outbox_seal env (is_outbox_key self) nonce payload)) (\<lambda>sealed.
         Inr (se_sha256 env (str_bytes token), sealed)))))"

definition create_invitation ::
  "service_env \<Rightarrow> invitation_service \<Rightarrow> call_moment \<Rightarrow> session_id \<Rightarrow> rstr \<Rightarrow> rstr \<Rightarrow> rstr \<Rightarrow> request_id \<Rightarrow> kernel_db
   \<Rightarrow> invitation_record management_result" where
  "create_invitation env self moment session organization email role request_id db =
     prepared_query db
       (rbind (management_uuid env organization) (\<lambda>organization.
        rbind (normalize_email email) (\<lambda>email.
        rbind (validate_role_id role True) (\<lambda>_.
        rbind (management_draw env moment 0) (\<lambda>invitation_id.
        rbind (management_draw env moment 1) (\<lambda>outbox_id.
        rbind (management_draw env moment 2) (\<lambda>audit_id.
        rbind (invitation_mail env self moment email 3) (\<lambda>(token_hash, sealed).
          Inr (actor_of moment session organization audit_id request_id,
            \<lparr>ip_invitation_id = invitation_id, ip_email = email, ip_role = role, ip_token_hash = token_hash,
             ip_expires_at_ms = u64_to_i64 (saturating_add (moment_ms moment) INVITATION_TTL_MS),
             ip_outbox_id = outbox_id, ip_deduplication_key = lit ''invitation:'' @ invitation_id,
             ip_key_version = sp_key_version sealed, ip_ciphertext = sp_ciphertext sealed\<rparr>)))))))))
       (\<lambda>(p, q). create_invitation_sql (se_pg_uuid env) p q db)
       (first_row decode_invitation MgNotAuthorized)"

definition accept_invitation ::
  "service_env \<Rightarrow> call_moment \<Rightarrow> session_id \<Rightarrow> rstr \<Rightarrow> request_id \<Rightarrow> kernel_db \<Rightarrow> organization_record management_result" where
  "accept_invitation env moment session token request_id db =
     prepared_query db
       (if str_len token < 32 \<or> str_len token > 512 \<or> list_ex is_control token then Inl MgInvalidRequest
        else rbind (management_draw env moment 0) (\<lambda>audit_id.
          Inr (actor_of moment session [] audit_id request_id)))
       (\<lambda>p. accept_invitation_sql (se_pg_uuid env) p (se_sha256 env (str_bytes token)) db)
       (first_row decode_organization MgInvalidToken)"

definition revoke_invitation ::
  "service_env \<Rightarrow> call_moment \<Rightarrow> session_id \<Rightarrow> rstr \<Rightarrow> rstr \<Rightarrow> request_id \<Rightarrow> kernel_db \<Rightarrow> invitation_record management_result" where
  "revoke_invitation env moment session organization invitation_id request_id db =
     prepared_query db
       (rbind (management_uuid env organization) (\<lambda>organization.
        rbind (management_uuid env invitation_id) (\<lambda>invitation_id.
        rbind (management_draw env moment 0) (\<lambda>audit_id.
          Inr (actor_of moment session organization audit_id request_id, invitation_id)))))
       (\<lambda>(p, invitation_id). revoke_invitation_sql (se_pg_uuid env) p invitation_id db)
       (first_row decode_invitation MgNotAuthorized)"

text \<open>
  \<open>list_invitations.sql\<close>: one row per invitation of the organization, newest first, or a single row
  without invitation columns; no row at all for an actor who may not see the members.
\<close>

definition invitations_newest_first :: "kernel_db \<Rightarrow> rstr \<Rightarrow> rstr list" where
  "invitations_newest_first db organization =
     sort_key (\<lambda>k. - (case fmlookup (db_invitations db) k of None \<Rightarrow> 0 | Some i \<Rightarrow> i_created_at_ms i))
       (sorted_list_of_fset (ffilter (\<lambda>k. map_option i_organization_id (fmlookup (db_invitations db) k) = Some organization)
         (fmdom (db_invitations db))))"

definition list_invitations_sql ::
  "(rstr \<Rightarrow> rstr option) \<Rightarrow> session_id \<Rightarrow> rstr \<Rightarrow> int \<Rightarrow> kernel_db \<Rightarrow> pg_error + pg_row list" where
  "list_invitations_sql pg_uuid session organization now db =
     (case pg_uuid session of
        None \<Rightarrow> Inl InvalidTextRepresentation
      | Some sid \<Rightarrow>
        (case member_actor db now sid organization (Some (lit ''member.view'')) False of
           None \<Rightarrow> Inr []
         | Some _ \<Rightarrow>
           (case invitations_newest_first db organization of
              [] \<Rightarrow> Inr [row_new [(lit ''authorized'', PgBool True)]]
            | ks \<Rightarrow> Inr (map (\<lambda>k. row_new ((lit ''authorized'', PgBool True)
                # (case fmlookup (db_invitations db) k of None \<Rightarrow> [] | Some i \<Rightarrow> invitation_output k i))) ks))))"

fun successes :: "('a \<Rightarrow> 'e + 'b) \<Rightarrow> 'a list \<Rightarrow> 'b list" where
  "successes f [] = []"
| "successes f (x # xs) = (case f x of Inl _ \<Rightarrow> successes f xs | Inr y \<Rightarrow> y # successes f xs)"

definition pending_invitation_email ::
  "service_env \<Rightarrow> call_moment \<Rightarrow> session_id \<Rightarrow> rstr \<Rightarrow> rstr \<Rightarrow> kernel_db \<Rightarrow> management_error + rstr" where
  "pending_invitation_email env moment session organization invitation_id db =
     rbind (map_err map_transport_error
       (list_invitations_sql (se_pg_uuid env) session organization (u64_to_i64 (moment_ms moment)) db)) (\<lambda>rows.
       if (case rows of [] \<Rightarrow> True | row # _ \<Rightarrow> row_bool row (lit ''authorized'') \<noteq> Inr (Some True))
       then Inl MgNotAuthorized
       else ok_or MgNotAuthorized (map_option ir_email (List.find (\<lambda>r. ir_invitation_id r = invitation_id
         \<and> ir_organization_id r = organization \<and> ir_status r = lit ''pending'') (successes decode_invitation rows))))"

definition resend_invitation ::
  "service_env \<Rightarrow> invitation_service \<Rightarrow> call_moment \<Rightarrow> session_id \<Rightarrow> rstr \<Rightarrow> rstr \<Rightarrow> request_id \<Rightarrow> kernel_db
   \<Rightarrow> invitation_record management_result" where
  "resend_invitation env self moment session organization invitation_id request_id db =
     prepared_query db
       (rbind (management_uuid env organization) (\<lambda>organization.
        rbind (management_uuid env invitation_id) (\<lambda>invitation_id.
        rbind (pending_invitation_email env moment session organization invitation_id db) (\<lambda>email.
        rbind (management_draw env moment 0) (\<lambda>outbox_id.
        rbind (management_draw env moment 1) (\<lambda>audit_id.
        rbind (invitation_mail env self moment email 2) (\<lambda>(token_hash, sealed).
          Inr (actor_of moment session organization audit_id request_id,
            \<lparr>ip_invitation_id = invitation_id, ip_email = email, ip_role = [], ip_token_hash = token_hash,
             ip_expires_at_ms = u64_to_i64 (saturating_add (moment_ms moment) INVITATION_TTL_MS),
             ip_outbox_id = outbox_id, ip_deduplication_key = lit ''invitation-resend:'' @ outbox_id,
             ip_key_version = sp_key_version sealed, ip_ciphertext = sp_ciphertext sealed\<rparr>))))))))
       (\<lambda>(p, q). resend_invitation_sql (se_pg_uuid env) p q db)
       (first_row decode_invitation MgNotAuthorized)"

subsection \<open>Creating and selecting organizations\<close>

datatype organization_error =
  OgInvalidRequest | OgUnauthenticated | OgIdempotencyConflict | OgSlugConflict | OgRandomnessUnavailable
| OgTransport pg_error | OgRow row_decode_error | OgInvalidRow | OgUnexpectedOutcome

definition ascii_lowercase :: "uchar \<Rightarrow> bool" where
  "ascii_lowercase c \<longleftrightarrow> 97 \<le> c \<and> c \<le> 122"

fun has_double_hyphen :: "rstr \<Rightarrow> bool" where
  "has_double_hyphen (a # b # v) = (a = 45 \<and> b = 45 \<or> has_double_hyphen (b # v))"
| "has_double_hyphen _ = False"

definition valid_slug :: "rstr \<Rightarrow> bool" where
  "valid_slug slug \<longleftrightarrow>
     2 \<le> str_len slug \<and> str_len slug \<le> 48
     \<and> (case slug of [] \<Rightarrow> False | c # _ \<Rightarrow> ascii_lowercase c)
     \<and> list_all (\<lambda>c. ascii_lowercase c \<or> 48 \<le> c \<and> c \<le> 57 \<or> c = 45) slug
     \<and> hd slug \<noteq> 45 \<and> last slug \<noteq> 45 \<and> \<not> has_double_hyphen slug"

definition valid_create_request :: "rstr \<Rightarrow> rstr \<Rightarrow> rstr \<Rightarrow> bool" where
  "valid_create_request name slug idempotency_key \<longleftrightarrow>
     name \<noteq> [] \<and> str_len name \<le> 120 \<and> \<not> list_ex is_control name \<and> valid_slug slug
     \<and> idempotency_key \<noteq> [] \<and> str_len idempotency_key \<le> 256"

definition be_bytes_u64 :: "u64 \<Rightarrow> bytes" where
  "be_bytes_u64 v = map (\<lambda>i. ucast (drop_bit (8 * (7 - i)) v)) [0..<8]"

definition length_prefixed :: "bytes \<Rightarrow> bytes" where
  "length_prefixed v = be_bytes_u64 (of_nat (length v)) @ v"

definition create_request_hash :: "service_env \<Rightarrow> rstr \<Rightarrow> rstr \<Rightarrow> rstr \<Rightarrow> bytes" where
  "create_request_hash env session name slug = se_sha256 env
     (str_bytes (lit ''wasi-auth:create-organization:v2'') @ [0] @ length_prefixed (str_bytes session)
      @ length_prefixed (str_bytes name) @ length_prefixed (str_bytes slug))"

definition IDEMPOTENCY_TTL_MS :: u64 where "IDEMPOTENCY_TTL_MS = 86400000"

fun organization_error_of :: "management_error \<Rightarrow> organization_error" where
  "organization_error_of (MgRow e) = OgRow e"
| "organization_error_of _ = OgInvalidRow"

text \<open>The decoder of \<open>organizations.rs\<close> differs from the management one in the slug, which it requires.\<close>

definition decode_created :: "pg_row \<Rightarrow> organization_error + organization_record" where
  "decode_created row =
     rbind (map_err OgRow (required_text row (lit ''outcome''))) (\<lambda>outcome.
       if outcome = lit ''created'' \<or> outcome = lit ''replayed'' then
         rbind (map_err organization_error_of (decode_permissions row)) (\<lambda>_.
         rbind (map_err OgRow (required_text row (lit ''organization_id''))) (\<lambda>_.
         rbind (map_err OgRow (required_text row (lit ''name''))) (\<lambda>_.
         rbind (map_err OgRow (required_text row (lit ''slug''))) (\<lambda>_.
           map_err organization_error_of (decode_organization row)))))
       else if outcome = lit ''idempotency_conflict'' then Inl OgIdempotencyConflict
       else if outcome = lit ''slug_conflict'' then Inl OgSlugConflict
       else if outcome = lit ''unauthorized'' then Inl OgUnauthenticated
       else Inl OgUnexpectedOutcome)"

definition create_organization ::
  "service_env \<Rightarrow> call_moment \<Rightarrow> rstr \<Rightarrow> session_id \<Rightarrow> rstr \<Rightarrow> rstr \<Rightarrow> request_id \<Rightarrow> kernel_db
   \<Rightarrow> (organization_error + organization_record) \<times> kernel_db" where
  "create_organization env moment idempotency_key session name slug request_id db =
     (let name = trim name; slug = map ascii_lower (trim slug); now_ms = moment_ms moment in
      if \<not> valid_create_request name slug idempotency_key then (Inl OgInvalidRequest, db)
      else
        case (draw_uuid env moment 0, draw_uuid env moment 1) of
          (Some organization_id, Some audit_id) \<Rightarrow>
            (case create_organization_sql (se_pg_uuid env)
               \<lparr>cp_idempotency_key = idempotency_key, cp_session = session,
                cp_request_hash = create_request_hash env session name slug, cp_organization_id = organization_id,
                cp_name = name, cp_audit_id = audit_id, cp_request_id = request_id,
                cp_now_ms = u64_to_i64 now_ms,
                cp_expires_at_ms = u64_to_i64 (saturating_add now_ms IDEMPOTENCY_TTL_MS), cp_slug = slug,
                cp_gen = cm_gen moment\<rparr> db of
               Inl e \<Rightarrow> (Inl (OgTransport e), db)
             | Inr (rows, db') \<Rightarrow>
               ((case rows of [] \<Rightarrow> Inl OgUnexpectedOutcome | row # _ \<Rightarrow> decode_created row), db'))
        | _ \<Rightarrow> (Inl OgRandomnessUnavailable, db))"

definition select_organization ::
  "service_env \<Rightarrow> call_moment \<Rightarrow> session_id \<Rightarrow> rstr \<Rightarrow> request_id \<Rightarrow> kernel_db \<Rightarrow> (organization_error + unit) \<times> kernel_db" where
  "select_organization env moment session organization request_id db =
     (case se_parse_uuid env organization of
        None \<Rightarrow> (Inl OgInvalidRequest, db)
      | Some organization \<Rightarrow>
        (case draw_uuid env moment 0 of
           None \<Rightarrow> (Inl OgRandomnessUnavailable, db)
         | Some audit_id \<Rightarrow>
           (case select_organization_sql (se_pg_uuid env) (actor_of moment session organization audit_id request_id) db of
              Inl e \<Rightarrow> (Inl (OgTransport e), db)
            | Inr (rows, db') \<Rightarrow> ((if has_outcome ''selected'' rows then Inr () else Inl OgUnauthenticated), db'))))"

end
