(* ===== verification/Tenancy.thy ===== *)
theory Tenancy
  imports Organization_Service
begin

section \<open>Owners and members\<close>

text \<open>
  What the statements of \<open>Organization_Store\<close> do to memberships and to the counter of owners, as a
  relation \<open>tenancy_step\<close> of single changes; the invariant of the counter is proved on those, and each
  statement is reduced to a sequence of them.
\<close>

named_theorems tenancy_intros \<open>what the parts of a statement leave alone\<close>

subsection \<open>What does not concern memberships\<close>

definition keeps_tenancy :: "kernel_db \<Rightarrow> kernel_db \<Rightarrow> bool" where
  "keeps_tenancy db db' \<longleftrightarrow>
     db_memberships db' = db_memberships db
     \<and> (\<forall>organization. map_option (\<lambda>row. (o_owner_count row, o_status row)) (fmlookup (db_organizations db') organization)
          = map_option (\<lambda>row. (o_owner_count row, o_status row)) (fmlookup (db_organizations db) organization))"

lemma keeps_tenancy_refl [simp]: "keeps_tenancy db db"
  by (simp add: keeps_tenancy_def)

lemma keeps_tenancy_trans [trans]: "keeps_tenancy a b \<Longrightarrow> keeps_tenancy b c \<Longrightarrow> keeps_tenancy a c"
  by (simp add: keeps_tenancy_def)

lemma update_sessions_keeps [tenancy_intros]: "update_sessions selects change now db = Inr db' \<Longrightarrow> keeps_tenancy db db'"
  by (auto simp: update_sessions_def keeps_tenancy_def split: if_splits)

lemma record_audit_keeps [tenancy_intros]: "record_audit p organization user sid action rt rid db = Inr db' \<Longrightarrow> keeps_tenancy db db'"
  by (auto simp: record_audit_def keeps_tenancy_def split: if_splits)

lemma insert_outbox_keeps [tenancy_intros]: "insert_outbox outbox_id row db = Inr db' \<Longrightarrow> keeps_tenancy db db'"
  by (auto simp: insert_outbox_def keeps_tenancy_def split: if_splits)

lemma insert_mail_keeps [tenancy_intros]: "insert_mail outbox_id row db = Inr db' \<Longrightarrow> keeps_tenancy db db'"
  by (auto simp: insert_mail_def insert_outbox_def keeps_tenancy_def split: if_splits)

lemma insert_token_keeps [tenancy_intros]: "insert_token h row db = Inr db' \<Longrightarrow> keeps_tenancy db db'"
  by (auto simp: insert_token_def keeps_tenancy_def split: if_splits)

lemma keeps_put_organization:
  "fmlookup (db_organizations db) organization = Some row \<Longrightarrow> o_owner_count row' = o_owner_count row \<Longrightarrow>
   o_status row' = o_status row \<Longrightarrow> keeps_tenancy db (put_organization organization row' db)"
  by (simp add: keeps_tenancy_def put_organization_def)

lemma revise_organization_keeps [tenancy_intros]: "revise_organization organization now db = Inr db' \<Longrightarrow> keeps_tenancy db db'"
  by (auto simp: revise_organization_def keeps_put_organization split: option.splits if_splits)

lemma validate_owner_count_Inr [simp]: "validate_owner_count organization db = Inr db' \<Longrightarrow> db' = db"
  by (auto simp: validate_owner_count_def split: option.splits if_splits)

lemma track_keeps [tenancy_intros]:
  assumes "track_membership_authorization gen organization user old new db = Inr db'"
  shows "keeps_tenancy db db'"
proof (cases "fmlookup (db_organizations db) organization")
  case None
  with assms show ?thesis by (auto simp: track_membership_authorization_def split: if_splits)
next
  case (Some row)
  define at_ms where "at_ms = (case new of Some n \<Rightarrow> m_updated_at_ms n
    | None \<Rightarrow> (case old of Some o' \<Rightarrow> m_updated_at_ms o' | None \<Rightarrow> 0))"
  define db1 where "db1 = put_organization organization (row\<lparr>o_authorization_revision := o_authorization_revision row + 1,
    o_updated_at_ms := max (o_updated_at_ms row) at_ms\<rparr>) db"
  have "keeps_tenancy db db1" using Some by (simp add: db1_def keeps_put_organization)
  moreover have "db' = db \<or> db' = db1 \<or> (\<exists>k row. insert_outbox k row db1 = Inr db')"
    using assms Some unfolding track_membership_authorization_def Let_def at_ms_def [symmetric]
    by (auto simp flip: db1_def split: if_splits)
  ultimately show ?thesis by (metis insert_outbox_keeps keeps_tenancy_refl keeps_tenancy_trans)
qed

lemma finish_membership_keeps [tenancy_intros]: "finish_membership p user written old new db = Inr db' \<Longrightarrow> keeps_tenancy db db'"
  by (auto simp: finish_membership_def result_simps dest: track_keeps validate_owner_count_Inr split: if_splits)

lemma track_memberships_keeps [tenancy_intros]: "track_memberships gen before ks db = Inr db' \<Longrightarrow> keeps_tenancy db db'"
  by (induction gen before ks db rule: track_memberships.induct)
     (auto simp: result_simps dest!: track_keeps intro: keeps_tenancy_trans)

lemma validate_organizations_Inr: "validate_organizations organizations db = Inr db' \<Longrightarrow> db' = db"
  by (induction organizations db rule: validate_organizations.induct)
     (auto simp: result_simps dest: validate_owner_count_Inr)

lemma consume_tokens_keeps [simp]: "keeps_tenancy db (consume_tokens selects now db)"
  by (simp add: consume_tokens_def keeps_tenancy_def)

lemma revoke_invitations_keeps [simp]: "keeps_tenancy db (revoke_invitations selects now db)"
  by (simp add: revoke_invitations_def keeps_tenancy_def)

subsection \<open>The counter of owners\<close>

lemma active_owners_iff: "user |\<in>| active_owners db organization \<longleftrightarrow>
  is_active_owner (fmlookup (db_memberships db) (organization, user))"
proof
  assume "user |\<in>| active_owners db organization"
  then obtain k where "fst k = organization" "snd k = user" "is_active_owner (fmlookup (db_memberships db) k)"
    by (auto simp: active_owners_def)
  then show "is_active_owner (fmlookup (db_memberships db) (organization, user))" by (cases k) simp
next
  assume owner: "is_active_owner (fmlookup (db_memberships db) (organization, user))"
  then have "(organization, user) |\<in>| fmdom (db_memberships db)"
    by (auto simp: is_active_owner_def split: option.splits intro: fmdomI)
  with owner have "(organization, user) |\<in>| ffilter (\<lambda>k. fst k = organization
      \<and> is_active_owner (fmlookup (db_memberships db) k)) (fmdom (db_memberships db))" by simp
  from fimageI [OF this, of snd] show "user |\<in>| active_owners db organization"
    unfolding active_owners_def snd_conv .
qed

lemma active_owners_cong: "db_memberships db' = db_memberships db \<Longrightarrow> active_owners db' = active_owners db"
  by (simp add: active_owners_def fun_eq_iff)

lemma active_owners_put:
  "active_owners (put_membership (organization, user) new db) organization' =
     (if organization' \<noteq> organization then active_owners db organization'
      else if is_active_owner (Some new) then finsert user (active_owners db organization)
      else active_owners db organization |-| {|user|})"
  by (rule fset_eqI) (auto simp: active_owners_iff put_membership_def)

definition counts_exact :: "kernel_db \<Rightarrow> bool" where
  "counts_exact db \<longleftrightarrow> (\<forall>organization row. fmlookup (db_organizations db) organization = Some row \<longrightarrow>
     o_owner_count row = int (fcard (active_owners db organization)))"

definition owned :: "kernel_db \<Rightarrow> bool" where
  "owned db \<longleftrightarrow> (\<forall>organization row. active_organization db organization = Some row \<longrightarrow>
     active_owners db organization \<noteq> {||})"

lemma keeps_lookup:
  assumes "keeps_tenancy db db'" and "fmlookup (db_organizations db') organization = Some row'"
  shows "\<exists>row. fmlookup (db_organizations db) organization = Some row
    \<and> o_owner_count row = o_owner_count row' \<and> o_status row = o_status row'"
proof -
  have "map_option (\<lambda>row. (o_owner_count row, o_status row)) (fmlookup (db_organizations db') organization)
      = map_option (\<lambda>row. (o_owner_count row, o_status row)) (fmlookup (db_organizations db) organization)"
    using assms(1) by (simp add: keeps_tenancy_def)
  with assms(2) show ?thesis by (cases "fmlookup (db_organizations db) organization") auto
qed

lemma keeps_active_owners: "keeps_tenancy db db' \<Longrightarrow> active_owners db' = active_owners db"
  by (rule active_owners_cong) (simp add: keeps_tenancy_def)

lemma keeps_counts_exact: "keeps_tenancy db db' \<Longrightarrow> counts_exact db \<Longrightarrow> counts_exact db'"
  unfolding counts_exact_def by (auto simp: keeps_active_owners dest!: keeps_lookup)

lemma active_organization_Some_iff:
  "active_organization db organization = Some row \<longleftrightarrow>
     fmlookup (db_organizations db) organization = Some row \<and> o_status row = lit ''active''"
  by (auto simp: active_organization_def bind_eq_Some_conv)

lemma keeps_owned: "keeps_tenancy db db' \<Longrightarrow> owned db \<Longrightarrow> owned db'"
  unfolding owned_def active_organization_Some_iff by (auto simp: keeps_active_owners dest!: keeps_lookup)

lemma adjust_owner_count_Inr:
  assumes "adjust_owner_count organization old new db = Inr db'"
  shows "db_memberships db' = db_memberships db" and "db_roles db' = db_roles db"
    and "fmlookup (db_organizations db') organization' =
      (if organization' = organization
       then map_option (\<lambda>row. row\<lparr>o_owner_count := o_owner_count row
              + (if is_active_owner new then 1 else 0) - (if is_active_owner old then 1 else 0)\<rparr>)
            (fmlookup (db_organizations db) organization)
       else fmlookup (db_organizations db) organization')"
  using assms
  by (auto simp: adjust_owner_count_def put_organization_def option.map_id0 option.map_ident
      split: if_splits option.splits)

lemma update_membership_Inr:
  assumes "update_membership organization user old new db = Inr db'"
  shows "db_memberships db' = fmupd (organization, user) new (db_memberships db)"
    and "fmlookup (db_organizations db') organization' =
      (if organization' = organization
       then map_option (\<lambda>row. row\<lparr>o_owner_count := o_owner_count row
              + (if is_active_owner (Some new) then 1 else 0) - (if is_active_owner (Some old) then 1 else 0)\<rparr>)
            (fmlookup (db_organizations db) organization)
       else fmlookup (db_organizations db) organization')"
proof -
  obtain db1 where db1: "adjust_owner_count organization (Some old) (Some new) db = Inr db1"
      "db' = put_membership (organization, user) new db1"
    using assms by (auto simp: update_membership_def result_simps split: if_splits)
  show "db_memberships db' = fmupd (organization, user) new (db_memberships db)"
    using adjust_owner_count_Inr(1) [OF db1(1)] by (simp add: db1(2) put_membership_def)
  show "fmlookup (db_organizations db') organization' =
      (if organization' = organization
       then map_option (\<lambda>row. row\<lparr>o_owner_count := o_owner_count row
              + (if is_active_owner (Some new) then 1 else 0) - (if is_active_owner (Some old) then 1 else 0)\<rparr>)
            (fmlookup (db_organizations db) organization)
       else fmlookup (db_organizations db) organization')"
    using adjust_owner_count_Inr(3) [OF db1(1), of organization'] by (simp add: db1(2) put_membership_def)
qed

subsection \<open>Changes of memberships\<close>

inductive tenancy_step :: "kernel_db \<Rightarrow> kernel_db \<Rightarrow> bool" where
  quiet: "keeps_tenancy db db' \<Longrightarrow> tenancy_step db db'"
| archived: "fmlookup (db_organizations db) organization = Some row \<Longrightarrow> o_owner_count row' = o_owner_count row \<Longrightarrow>
    o_status row' = lit ''archived'' \<Longrightarrow> tenancy_step db (put_organization organization row' db)"
| changed: "fmlookup (db_memberships db) (organization, user) = Some old \<Longrightarrow>
    update_membership organization user old new db = Inr db' \<Longrightarrow> tenancy_step db db'"
| joined: "fmlookup (db_memberships db) (organization, user) = None \<Longrightarrow>
    fmlookup (db_organizations db) organization = Some row \<Longrightarrow>
    adjust_owner_count organization None (Some new) db = Inr db1 \<Longrightarrow>
    tenancy_step db (put_membership (organization, user) new db1)"
| founded: "fmlookup (db_organizations db) (cp_organization_id p) = None \<Longrightarrow>
    is_active_owner (Some founder) \<Longrightarrow>
    adjust_owner_count (cp_organization_id p) None (Some founder) (new_organization_tables p user db) = Inr db1 \<Longrightarrow>
    tenancy_step db (put_membership (cp_organization_id p, user) founder db1)"
| reassigned: "db_organizations db' = db_organizations db \<Longrightarrow> fmdom (db_memberships db') = fmdom (db_memberships db) \<Longrightarrow>
    (\<And>k. is_active_owner (fmlookup (db_memberships db') k) = is_active_owner (fmlookup (db_memberships db) k)) \<Longrightarrow>
    tenancy_step db db'"

definition members_belong :: "kernel_db \<Rightarrow> bool" where
  "members_belong db \<longleftrightarrow> (\<forall>organization user. fmlookup (db_memberships db) (organization, user) \<noteq> None \<longrightarrow>
     fmlookup (db_organizations db) organization \<noteq> None)"

definition tenancy_inv :: "kernel_db \<Rightarrow> bool" where
  "tenancy_inv db \<longleftrightarrow> counts_exact db \<and> owned db \<and> members_belong db"

lemma tenancy_invI:
  assumes "\<And>organization row. fmlookup (db_organizations db) organization = Some row \<Longrightarrow>
      o_owner_count row = int (fcard (active_owners db organization))
      \<and> (o_status row = lit ''active'' \<longrightarrow> o_owner_count row \<ge> 1)"
    and "members_belong db"
  shows "tenancy_inv db"
  using assms unfolding tenancy_inv_def counts_exact_def owned_def active_organization_Some_iff by fastforce

lemma tenancy_inv_lookup:
  assumes "tenancy_inv db" and "fmlookup (db_organizations db) organization = Some row"
  shows "o_owner_count row = int (fcard (active_owners db organization))"
    and "o_status row = lit ''active'' \<Longrightarrow> o_owner_count row \<ge> 1"
proof -
  show count: "o_owner_count row = int (fcard (active_owners db organization))"
    using assms by (simp add: tenancy_inv_def counts_exact_def)
  assume "o_status row = lit ''active''"
  then have "active_owners db organization \<noteq> {||}"
    using assms by (auto simp: tenancy_inv_def owned_def active_organization_Some_iff)
  then have "fcard (active_owners db organization) \<noteq> 0" by (metis fcard_0_eq)
  then show "o_owner_count row \<ge> 1" using count by linarith
qed

lemma members_belong_lookup:
  "tenancy_inv db \<Longrightarrow> fmlookup (db_memberships db) (organization, user) = Some m \<Longrightarrow>
   \<exists>row. fmlookup (db_organizations db) organization = Some row"
  by (auto simp: tenancy_inv_def members_belong_def)

text \<open>A row is written together with its trigger: the counter follows the owners.\<close>

lemma fcard_owner_change:
  "int (fcard (if new then finsert user A else A |-| {|user|})) =
     int (fcard A) + (if new then 1 else 0) - (if user |\<in>| A then 1 else 0)"
proof (cases "user |\<in>| A")
  case True
  then obtain B where B: "A = finsert user B" "user |\<notin>| B" by (metis mk_disjoint_finsert)
  then have "finsert user A = A" "A |-| {|user|} = B" by auto
  then show ?thesis using B True by (simp add: fcard_finsert_disjoint)
next
  case False
  then have "A |-| {|user|} = A" by auto
  then show ?thesis using False by (simp add: fcard_finsert_disjoint)
qed

lemma adjusted_count:
  assumes "adjust_owner_count organization old (Some new) db = Inr db1"
    and "fmlookup (db_organizations db) organization = Some row"
    and "o_owner_count row = int (fcard (active_owners db organization))"
    and "is_active_owner old \<longleftrightarrow> user |\<in>| active_owners db organization"
  obtains row' where "fmlookup (db_organizations db1) organization = Some row'" and "o_status row' = o_status row"
    and "o_owner_count row' = int (fcard (active_owners (put_membership (organization, user) new db1) organization))"
    and "o_owner_count row \<ge> 1 \<or> is_active_owner (Some new) \<longrightarrow> o_owner_count row' \<ge> 1"
proof -
  let ?count = "o_owner_count row + (if is_active_owner (Some new) then 1 else 0) - (if is_active_owner old then 1 else 0)"
  have found: "fmlookup (db_organizations db1) organization = Some (row\<lparr>o_owner_count := ?count\<rparr>)"
    using adjust_owner_count_Inr(3) [OF assms(1), of organization] assms(2) by simp
  have guard: "is_active_owner old \<Longrightarrow> \<not> is_active_owner (Some new) \<Longrightarrow> o_owner_count row > 1"
    using assms(1,2) by (simp add: adjust_owner_count_def split: if_splits)
  have "active_owners db1 = active_owners db"
    by (rule active_owners_cong) (rule adjust_owner_count_Inr(1) [OF assms(1)])
  then have "active_owners (put_membership (organization, user) new db1) organization =
      (if is_active_owner (Some new) then finsert user (active_owners db organization)
       else active_owners db organization |-| {|user|})"
    by (simp add: active_owners_put)
  then have count: "int (fcard (active_owners (put_membership (organization, user) new db1) organization)) = ?count"
    by (simp only: fcard_owner_change assms(3,4))
  have present: "is_active_owner old \<Longrightarrow> o_owner_count row \<ge> 1"
    using assms(3,4) by (cases "fcard (active_owners db organization)") (auto simp: fcard_0_eq)
  show ?thesis
  proof (rule that [OF found])
    show "o_owner_count row \<ge> 1 \<or> is_active_owner (Some new) \<longrightarrow> 1 \<le> o_owner_count (row\<lparr>o_owner_count := ?count\<rparr>)"
      using guard present by (cases "is_active_owner old"; cases "is_active_owner (Some new)") (auto simp: assms(3))
  qed (simp_all add: count)
qed

lemma other_organizations:
  assumes "adjust_owner_count organization old (Some new) db = Inr db1" and "organization' \<noteq> organization"
  shows "fmlookup (db_organizations db1) organization' = fmlookup (db_organizations db) organization'"
    and "active_owners (put_membership (organization, user) new db1) organization' = active_owners db organization'"
proof -
  show "fmlookup (db_organizations db1) organization' = fmlookup (db_organizations db) organization'"
    using adjust_owner_count_Inr(3) [OF assms(1), of organization'] assms(2) by simp
  have "active_owners db1 = active_owners db"
    by (rule active_owners_cong) (rule adjust_owner_count_Inr(1) [OF assms(1)])
  then show "active_owners (put_membership (organization, user) new db1) organization' = active_owners db organization'"
    using assms(2) by (simp add: active_owners_put)
qed

text \<open>
  The invariant after a write, also where the organization of the row has no owner yet, as between the
  insertion of an organization and of its founder.
\<close>

lemma tenancy_inv_write:
  assumes exact: "counts_exact db" and belong: "members_belong db"
    and others: "\<And>organization' r. organization' \<noteq> organization \<Longrightarrow>
      active_organization db organization' = Some r \<Longrightarrow> o_owner_count r \<ge> 1"
    and adjust: "adjust_owner_count organization (fmlookup (db_memberships db) (organization, user)) (Some new) db = Inr db1"
    and row: "fmlookup (db_organizations db) organization = Some row"
    and own: "o_status row = lit ''active'' \<longrightarrow> o_owner_count row \<ge> 1 \<or> is_active_owner (Some new)"
  shows "tenancy_inv (put_membership (organization, user) new db1)"
proof (rule tenancy_invI)
  have orgs: "db_organizations (put_membership (organization, user) new db1) = db_organizations db1"
    by (simp add: put_membership_def)
  have count: "o_owner_count row = int (fcard (active_owners db organization))"
    using exact row by (simp add: counts_exact_def)
  obtain row' where row': "fmlookup (db_organizations db1) organization = Some row'" "o_status row' = o_status row"
      "o_owner_count row' = int (fcard (active_owners (put_membership (organization, user) new db1) organization))"
      "o_owner_count row \<ge> 1 \<or> is_active_owner (Some new) \<longrightarrow> o_owner_count row' \<ge> 1"
    by (rule adjusted_count [OF adjust row count active_owners_iff [symmetric]])
  fix organization' r
  assume found: "fmlookup (db_organizations (put_membership (organization, user) new db1)) organization' = Some r"
  show "o_owner_count r = int (fcard (active_owners (put_membership (organization, user) new db1) organization'))
      \<and> (o_status r = lit ''active'' \<longrightarrow> o_owner_count r \<ge> 1)"
  proof (cases "organization' = organization")
    case True
    with found row'(1) orgs have "r = row'" by simp
    with True row' own show ?thesis by auto
  next
    case False
    note other = other_organizations [OF adjust False]
    from found orgs other(1) have r: "fmlookup (db_organizations db) organization' = Some r" by simp
    with others [OF False] exact other(2) show ?thesis
      unfolding active_organization_Some_iff counts_exact_def by simp
  qed
next
  show "members_belong (put_membership (organization, user) new db1)"
    unfolding members_belong_def
  proof (intro allI impI)
    fix organization' user'
    assume member: "fmlookup (db_memberships (put_membership (organization, user) new db1)) (organization', user') \<noteq> None"
    have "fmlookup (db_organizations db) organization' \<noteq> None"
    proof (cases "organization' = organization")
      case False
      with member adjust_owner_count_Inr(1) [OF adjust] have "fmlookup (db_memberships db) (organization', user') \<noteq> None"
        by (auto simp: put_membership_def)
      then show ?thesis using belong unfolding members_belong_def by blast
    qed (use row in simp)
    then show "fmlookup (db_organizations (put_membership (organization, user) new db1)) organization' \<noteq> None"
      using adjust_owner_count_Inr(3) [OF adjust, of organization'] by (auto simp: put_membership_def)
  qed
qed

lemma tenancy_inv_change:
  assumes inv: "tenancy_inv db"
    and adjust: "adjust_owner_count organization (fmlookup (db_memberships db) (organization, user)) (Some new) db = Inr db1"
    and row: "fmlookup (db_organizations db) organization = Some row"
  shows "tenancy_inv (put_membership (organization, user) new db1)"
proof (rule tenancy_inv_write [OF _ _ _ adjust row])
  show "counts_exact db" "members_belong db" using inv by (simp_all add: tenancy_inv_def)
  show "o_status row = lit ''active'' \<longrightarrow> o_owner_count row \<ge> 1 \<or> is_active_owner (Some new)"
    using tenancy_inv_lookup(2) [OF inv row] by blast
  show "o_owner_count r \<ge> 1" if "active_organization db organization' = Some r" for organization' r
    using that tenancy_inv_lookup(2) [OF inv] by (auto simp: active_organization_Some_iff)
qed

lemma keeps_found:
  assumes "keeps_tenancy db db'"
  shows "(fmlookup (db_organizations db') organization = None) = (fmlookup (db_organizations db) organization = None)"
proof -
  have "map_option (\<lambda>row. (o_owner_count row, o_status row)) (fmlookup (db_organizations db') organization) =
      map_option (\<lambda>row. (o_owner_count row, o_status row)) (fmlookup (db_organizations db) organization)"
    using assms unfolding keeps_tenancy_def by (elim conjE) (rule spec)
  from arg_cong [OF this, of "\<lambda>x. x = None"] show ?thesis by (simp only: option.map_disc_iff)
qed

lemma tenancy_inv_keeps: "keeps_tenancy db db' \<Longrightarrow> tenancy_inv db \<Longrightarrow> tenancy_inv db'"
proof -
  assume keeps: "keeps_tenancy db db'" and inv: "tenancy_inv db"
  have members: "db_memberships db' = db_memberships db"
    using keeps unfolding keeps_tenancy_def by (rule conjunct1)
  have "members_belong db"
    using inv by (simp add: tenancy_inv_def)
  then have "members_belong db'"
    unfolding members_belong_def members keeps_found [OF keeps] .
  with keeps inv show ?thesis by (simp add: tenancy_inv_def keeps_counts_exact keeps_owned)
qed

lemma tenancy_inv_founded:
  assumes inv: "tenancy_inv db" and fresh: "fmlookup (db_organizations db) (cp_organization_id p) = None"
    and founder: "is_active_owner (Some founder)"
    and adjust: "adjust_owner_count (cp_organization_id p) None (Some founder) (new_organization_tables p user db) = Inr db1"
  shows "tenancy_inv (put_membership (cp_organization_id p, user) founder db1)"
proof -
  let ?db = "new_organization_tables p user db"
  have members: "db_memberships ?db = db_memberships db" by (simp add: new_organization_tables_def Let_def)
  have none: "fmlookup (db_memberships db) (cp_organization_id p, v) = None" for v
    using members_belong_lookup [OF inv, of "cp_organization_id p" v] fresh
    by (cases "fmlookup (db_memberships db) (cp_organization_id p, v)") auto
  have owners: "active_owners ?db = active_owners db" by (rule active_owners_cong [OF members])
  have empty: "active_owners db (cp_organization_id p) = {||}"
    using none by (auto simp: active_owners_iff is_active_owner_def)
  obtain row where row: "fmlookup (db_organizations ?db) (cp_organization_id p) = Some row" "o_owner_count row = 0"
    by (simp add: new_organization_tables_def Let_def)
  have other: "fmlookup (db_organizations ?db) organization' = fmlookup (db_organizations db) organization'"
    if "organization' \<noteq> cp_organization_id p" for organization'
    using that by (simp add: new_organization_tables_def Let_def)
  show ?thesis
  proof (rule tenancy_inv_write [OF _ _ _ _ row(1)])
    show "counts_exact ?db"
      unfolding counts_exact_def owners
    proof (intro allI impI)
      fix organization' r assume found: "fmlookup (db_organizations ?db) organization' = Some r"
      show "o_owner_count r = int (fcard (active_owners db organization'))"
      proof (cases "organization' = cp_organization_id p")
        case True
        with found row empty show ?thesis by simp
      next
        case False
        with found other tenancy_inv_lookup(1) [OF inv] show ?thesis by simp
      qed
    qed
    show "members_belong ?db"
      unfolding members_belong_def members
    proof (intro allI impI)
      fix organization' v assume member: "fmlookup (db_memberships db) (organization', v) \<noteq> None"
      with none have "organization' \<noteq> cp_organization_id p" by auto
      with other members_belong_lookup [OF inv, of organization' v] member
      show "fmlookup (db_organizations ?db) organization' \<noteq> None" by auto
    qed
    show "o_owner_count r \<ge> 1" if "organization' \<noteq> cp_organization_id p" "active_organization ?db organization' = Some r" for organization' r
      using that(2) tenancy_inv_lookup(2) [OF inv, of organization' r] unfolding active_organization_Some_iff other [OF that(1)] by blast
    show "adjust_owner_count (cp_organization_id p) (fmlookup (db_memberships ?db) (cp_organization_id p, user)) (Some founder) ?db = Inr db1"
      using adjust none members by simp
    show "o_status row = lit ''active'' \<longrightarrow> o_owner_count row \<ge> 1 \<or> is_active_owner (Some founder)" using founder by simp
  qed
qed

lemma tenancy_step_inv: "tenancy_step db db' \<Longrightarrow> tenancy_inv db \<Longrightarrow> tenancy_inv db'"
proof (induction rule: tenancy_step.induct)
  case (quiet db db')
  then show ?case by (rule tenancy_inv_keeps)
next
  case (archived db organization row row')
  have owners: "active_owners (put_organization organization row' db) = active_owners db"
    by (rule active_owners_cong) (simp add: put_organization_def)
  show ?case
  proof (rule tenancy_invI)
    fix organization' r
    assume "fmlookup (db_organizations (put_organization organization row' db)) organization' = Some r"
    then have "organization' = organization \<and> r = row' \<or> fmlookup (db_organizations db) organization' = Some r"
      by (auto simp: put_organization_def split: if_splits)
    then show "o_owner_count r = int (fcard (active_owners (put_organization organization row' db) organization'))
        \<and> (o_status r = lit ''active'' \<longrightarrow> o_owner_count r \<ge> 1)"
      using tenancy_inv_lookup [OF archived(4)] archived(1-3) unfolding owners
      by (auto simp del: lit_Cons lit_Nil)
  next
    show "members_belong (put_organization organization row' db)"
      using archived(1,4) by (auto simp: tenancy_inv_def members_belong_def put_organization_def)
  qed
next
  case (changed db organization user old new db')
  obtain db1 where db1: "adjust_owner_count organization (Some old) (Some new) db = Inr db1"
      "db' = put_membership (organization, user) new db1"
    using changed(2) by (auto simp: update_membership_def result_simps split: if_splits)
  obtain row where "fmlookup (db_organizations db) organization = Some row"
    using members_belong_lookup [OF changed(3,1)] by blast
  with tenancy_inv_change [OF changed(3), of organization user new db1] db1 changed(1) show ?case by simp
next
  case (joined db organization user row new db1)
  then show ?case using tenancy_inv_change [OF joined(4), of organization user new db1] by simp
next
  case (founded db p founder user db1)
  then show ?case using tenancy_inv_founded by blast
next
  case (reassigned db' db)
  have "active_owners db' = active_owners db"
    by (rule ext, rule fset_eqI) (simp add: active_owners_iff reassigned(3))
  moreover have "members_belong db'"
    unfolding members_belong_def
  proof (intro allI impI)
    fix organization user assume "fmlookup (db_memberships db') (organization, user) \<noteq> None"
    then have "(organization, user) |\<in>| fmdom (db_memberships db)"
      unfolding reassigned(2) [symmetric] by (simp add: fmlookup_dom_iff)
    then show "fmlookup (db_organizations db') organization \<noteq> None"
      using members_belong_lookup [OF reassigned(4), of organization user] by (auto simp: reassigned(1) fmlookup_dom_iff)
  qed
  ultimately show ?case
    using reassigned(1,4) by (auto simp: tenancy_inv_def counts_exact_def owned_def active_organization_Some_iff)
qed

interpretation tenancy: step_invariant tenancy_step tenancy_inv
  by unfold_locales (rule tenancy_step_inv)

end
