(* ===== verification/Organization_Properties.thy ===== *)
theory Organization_Properties
  imports Tenancy
begin

section \<open>The statements on organizations\<close>

text \<open>
  What each statement of \<open>Organization_Store\<close> writes to the memberships when it succeeds, with the guard it
  checked; from it, the invariant of the owners along any history of the services, and who may become
  an owner.
\<close>

subsection \<open>Reading the guards\<close>

lemma with_session_Inr_iff [result_simps]:
  "with_session pg_uuid p body = Inr x \<longleftrightarrow> (\<exists>sid. pg_uuid (ap_session p) = Some sid \<and> body sid = Inr x)"
  by (simp add: with_session_def split: option.splits)

lemma active_membership_Some_iff:
  "active_membership db organization user = Some m \<longleftrightarrow>
     fmlookup (db_memberships db) (organization, user) = Some m \<and> m_status m = lit ''active''"
  by (auto simp: active_membership_def bind_eq_Some_conv simp del: lit_Cons lit_Nil)

lemma member_actor_Some:
  assumes "member_actor db now sid organization permission needs = Some (s, m)"
  shows "fmlookup (db_memberships db) (organization, s_user_id s) = Some m" and "m_status m = lit ''active''"
    and "permission = Some q \<Longrightarrow> role_has db organization (m_role_id m) q" and "needs \<Longrightarrow> elevated s"
    and "\<exists>u. session_usable db now sid = Some (s, u)"
  using assms by (auto simp: member_actor_def bind_eq_Some_conv simp del: lit_Cons lit_Nil split: if_splits)

text \<open>The shape the statements share: nothing is written unless every guard gives a value.\<close>

lemma case_option_Inr_iff:
  "(case a of None \<Rightarrow> Inr y | Some x \<Rightarrow> f x) = Inr z \<longleftrightarrow> a = None \<and> z = y \<or> (\<exists>x. a = Some x \<and> f x = Inr z)"
  by (cases a) auto

lemma case_prod_Inr_iff: "(case q of (x, y) \<Rightarrow> f x y) = Inr z \<longleftrightarrow> (\<exists>x y. q = (x, y) \<and> f x y = Inr z)"
  by (cases q) simp

lemma if_Inr_iff: "(if b then x else y) = Inr z \<longleftrightarrow> b \<and> x = Inr z \<or> \<not> b \<and> y = Inr z"
  by simp

lemma Inr_swap_iff: "(Inr x = Inr y) = (y = x)"
  by auto

lemmas statement_inversions = with_session_Inr_iff Let_def prod.case case_option_Inr_iff case_prod_Inr_iff if_Inr_iff
  rbind_Inr_iff Inr_swap_iff prod.inject sum.distinct simp_thms ex_simps

lemmas keeps_audited =
  keeps_tenancy_trans [OF record_audit_keeps finish_membership_keeps]
lemmas keeps_cleared =
  keeps_tenancy_trans [OF update_sessions_keeps keeps_audited]

subsection \<open>What each statement writes\<close>

lemma assign_effect:
  assumes "assign_membership_role_sql pg_uuid p target next_role db = Inr (rows, db')"
  shows "db' = db \<and> rows = [] \<or> (\<exists>sid s actor t db1. pg_uuid (ap_session p) = Some sid
      \<and> member_actor db (ap_now_ms p) sid (ap_organization p) (Some (lit ''member.manage'')) True = Some (s, actor)
      \<and> active_membership db (ap_organization p) target = Some t
      \<and> (m_role_id t \<noteq> lit ''owner'' \<and> next_role \<noteq> lit ''owner'' \<or> can_transfer_ownership db (ap_organization p) actor)
      \<and> update_membership (ap_organization p) target t (t\<lparr>m_role_id := next_role, m_updated_at_ms := ap_now_ms p\<rparr>) db = Inr db1
      \<and> keeps_tenancy db1 db')"
  using assms unfolding assign_membership_role_sql_def
  by (simp only: statement_inversions) (blast intro: keeps_audited)

lemma end_membership_effect:
  assumes "end_membership p user sid target t action db = Inr db'"
  shows "\<exists>db1. update_membership (ap_organization p) target t
      (t\<lparr>m_status := lit ''removed'', m_updated_at_ms := ap_now_ms p\<rparr>) db = Inr db1 \<and> keeps_tenancy db1 db'"
  using assms unfolding end_membership_def
  by (simp only: statement_inversions) (blast intro: keeps_cleared)

lemma leave_effect:
  assumes "leave_organization_sql pg_uuid p db = Inr (rows, db')"
  shows "db' = db \<and> rows = [] \<or> (\<exists>sid s actor. pg_uuid (ap_session p) = Some sid \<and> rows = outcome_only ''left''
      \<and> member_actor db (ap_now_ms p) sid (ap_organization p) None False = Some (s, actor)
      \<and> end_membership p (s_user_id s) sid (s_user_id s) actor (lit ''member.leave'') db = Inr db')"
  using assms unfolding leave_organization_sql_def
  by (simp only: statement_inversions) blast

lemma remove_effect:
  assumes "remove_membership_sql pg_uuid p target db = Inr (rows, db')"
  shows "db' = db \<and> rows = [] \<or> (\<exists>sid s actor t. pg_uuid (ap_session p) = Some sid \<and> rows = outcome_only ''removed''
      \<and> member_actor db (ap_now_ms p) sid (ap_organization p) (Some (lit ''member.manage'')) True = Some (s, actor)
      \<and> active_membership db (ap_organization p) target = Some t
      \<and> end_membership p (s_user_id s) sid target t (lit ''member.remove'') db = Inr db')"
  using assms unfolding remove_membership_sql_def
  by (simp only: statement_inversions) blast

lemma transfer_effect:
  assumes "transfer_ownership_sql pg_uuid p target db = Inr (rows, db')"
  shows "db' = db \<and> rows = [] \<or> (\<exists>sid s actor t db1 db2. pg_uuid (ap_session p) = Some sid
      \<and> member_actor db (ap_now_ms p) sid (ap_organization p) (Some (lit ''ownership.transfer'')) True = Some (s, actor)
      \<and> active_membership db (ap_organization p) target = Some t \<and> s_user_id s \<noteq> target
      \<and> update_membership (ap_organization p) target t (t\<lparr>m_role_id := lit ''owner'', m_updated_at_ms := ap_now_ms p\<rparr>) db = Inr db1
      \<and> (db2 = db1 \<or> update_membership (ap_organization p) (s_user_id s) actor
            (actor\<lparr>m_role_id := lit ''admin'', m_updated_at_ms := ap_now_ms p\<rparr>) db1 = Inr db2)
      \<and> keeps_tenancy db2 db')"
proof (cases "db' = db \<and> rows = []")
  case False
  from assms obtain sid s actor t w w' db1 db2 db3 db4 db5 where *: "pg_uuid (ap_session p) = Some sid"
    "member_actor db (ap_now_ms p) sid (ap_organization p) (Some (lit ''ownership.transfer'')) True = Some (s, actor)"
    "active_membership db (ap_organization p) target = Some t" "s_user_id s \<noteq> target"
    "update_membership (ap_organization p) target t (t\<lparr>m_role_id := lit ''owner'', m_updated_at_ms := ap_now_ms p\<rparr>) db = Inr db1"
    and demoted: "(if m_role_id actor = lit ''owner'' then update_membership (ap_organization p) (s_user_id s) actor
        (if m_role_id actor = lit ''owner'' then actor\<lparr>m_role_id := lit ''admin'', m_updated_at_ms := ap_now_ms p\<rparr> else actor) db1
      else Inr db1) = Inr db2"
    and audit: "record_audit p (Some (ap_organization p)) (s_user_id s) sid (lit ''ownership.transfer'')
             (lit ''organization'') (ap_organization p) db2 = Inr db3"
    and finish: "finish_membership p target w (Some t) (t\<lparr>m_role_id := lit ''owner'', m_updated_at_ms := ap_now_ms p\<rparr>) db3 = Inr db4"
    and finish2: "(if m_role_id actor = lit ''owner'' then finish_membership p (s_user_id s) w' (Some actor)
        (if m_role_id actor = lit ''owner'' then actor\<lparr>m_role_id := lit ''admin'', m_updated_at_ms := ap_now_ms p\<rparr> else actor) db4
      else Inr db4) = Inr db5"
    and last: "db' = db5"
    using False unfolding transfer_ownership_sql_def
    by (simp only: with_session_Inr_iff Let_def prod.case case_option_Inr_iff case_prod_Inr_iff rbind_Inr_iff
        if_Inr_iff [where x = "Inr ([], db)"] Inr_swap_iff prod.inject simp_thms ex_simps) blast
  have "keeps_tenancy db2 db4" by (rule keeps_audited [OF audit finish])
  moreover have "keeps_tenancy db4 db5"
    using finish2 by (simp split: if_splits del: lit_Cons lit_Nil) (rule finish_membership_keeps, assumption)
  ultimately have "keeps_tenancy db2 db'" unfolding last by (rule keeps_tenancy_trans)
  moreover have "db2 = db1 \<or> update_membership (ap_organization p) (s_user_id s) actor
            (actor\<lparr>m_role_id := lit ''admin'', m_updated_at_ms := ap_now_ms p\<rparr>) db1 = Inr db2"
    using demoted by (simp split: if_splits del: lit_Cons lit_Nil)
  ultimately show ?thesis using * by blast
qed blast

lemma select_effect:
  assumes "select_organization_sql pg_uuid p db = Inr (rows, db')"
  shows "keeps_tenancy db db'"
  using assms unfolding select_organization_sql_def
  by (simp only: statement_inversions) (blast intro: keeps_tenancy_refl keeps_tenancy_trans [OF update_sessions_keeps record_audit_keeps])

lemma update_organization_effect:
  assumes "update_organization_sql pg_uuid p name db = Inr (rows, db')"
  shows "keeps_tenancy db db'"
proof -
  have put: "keeps_tenancy db (put_organization organization (row\<lparr>o_name := name, o_updated_at_ms := now\<rparr>) db)"
    if "active_organization db organization = Some row" for organization row now
    using that by (simp add: keeps_put_organization active_organization_Some_iff)
  show ?thesis
    using assms unfolding update_organization_sql_def
    by (simp only: statement_inversions) (blast intro: keeps_tenancy_refl keeps_tenancy_trans [OF put record_audit_keeps])
qed

lemma archive_effect:
  assumes "archive_organization_sql pg_uuid p db = Inr (rows, db')"
  shows "db' = db \<or> (\<exists>row row'. active_organization db (ap_organization p) = Some row
      \<and> o_owner_count row' = o_owner_count row \<and> o_status row' = lit ''archived''
      \<and> keeps_tenancy (put_organization (ap_organization p) row' db) db')"
proof (cases "db' = db")
  case False
  from assms obtain sid and s :: session_row and row db2 db3 where row: "active_organization db (ap_organization p) = Some row"
    and steps: "update_sessions (\<lambda>_ s. s_selected_organization_id s = Some (ap_organization p)) clear_selection (ap_now_ms p)
        (consume_tokens (\<lambda>h. h |\<in>| invitation_hashes (pending_in (ap_organization p)) db) (ap_now_ms p)
          (revoke_invitations (pending_in (ap_organization p)) (ap_now_ms p) (put_organization (ap_organization p)
            (row\<lparr>o_status := lit ''archived'', o_authorization_revision := o_authorization_revision row + 1,
               o_updated_at_ms := ap_now_ms p\<rparr>) db))) = Inr db2"
      "record_audit p (Some (ap_organization p)) (s_user_id s) sid (lit ''organization.archive'')
         (lit ''organization'') (ap_organization p) db2 = Inr db3"
      "validate_owner_count (ap_organization p) db3 = Inr db'"
    using False unfolding archive_organization_sql_def by (simp only: statement_inversions) blast
  have "keeps_tenancy db2 db'"
    using record_audit_keeps [OF steps(2)] validate_owner_count_Inr [OF steps(3)] by simp
  then have "keeps_tenancy (put_organization (ap_organization p)
      (row\<lparr>o_status := lit ''archived'', o_authorization_revision := o_authorization_revision row + 1,
         o_updated_at_ms := ap_now_ms p\<rparr>) db) db'"
    by (intro keeps_tenancy_trans [OF revoke_invitations_keeps keeps_tenancy_trans [OF consume_tokens_keeps
          keeps_tenancy_trans [OF update_sessions_keeps [OF steps(1)]]]])
  moreover have "o_owner_count (row\<lparr>o_status := lit ''archived'', o_authorization_revision := o_authorization_revision row + 1,
      o_updated_at_ms := ap_now_ms p\<rparr>) = o_owner_count row"
    "o_status (row\<lparr>o_status := lit ''archived'', o_authorization_revision := o_authorization_revision row + 1,
      o_updated_at_ms := ap_now_ms p\<rparr>) = lit ''archived''" by simp_all
  ultimately show ?thesis using row by blast
qed blast

lemma upsert_role_effect:
  assumes "upsert_role_sql pg_uuid p role name granted db = Inr (rows, db')"
  shows "keeps_tenancy db db'"
proof -
  have tables: "keeps_tenancy db (db\<lparr>db_roles := roles, db_role_permissions := perms\<rparr>)" for roles perms
    by (simp add: keeps_tenancy_def)
  show ?thesis
    using assms unfolding upsert_role_sql_def
    by (simp only: statement_inversions)
       (blast intro: keeps_tenancy_refl keeps_tenancy_trans [OF tables keeps_tenancy_trans [OF revise_organization_keeps record_audit_keeps]])
qed

lemma create_invitation_effect:
  assumes "create_invitation_sql pg_uuid p q db = Inr (rows, db')"
  shows "keeps_tenancy db db'"
proof -
  have tables: "keeps_tenancy db ((revoke_invitations selects now db)\<lparr>db_invitations := table\<rparr>)" for selects now table
    by (simp add: keeps_tenancy_def revoke_invitations_def)
  show ?thesis
    using assms unfolding create_invitation_sql_def
    by (simp only: statement_inversions)
       (blast intro: keeps_tenancy_refl keeps_tenancy_trans [OF tables keeps_tenancy_trans [OF insert_token_keeps
          keeps_tenancy_trans [OF insert_mail_keeps record_audit_keeps]]])
qed

lemma revoke_invitation_effect:
  assumes "revoke_invitation_sql pg_uuid p invitation_id db = Inr (rows, db')"
  shows "keeps_tenancy db db'"
proof -
  have tables: "keeps_tenancy db (consume_tokens selects now (db\<lparr>db_invitations := table\<rparr>))" for selects now table
    by (simp add: keeps_tenancy_def consume_tokens_def)
  show ?thesis
    using assms unfolding revoke_invitation_sql_def
    by (simp only: statement_inversions) (blast intro: keeps_tenancy_refl keeps_tenancy_trans [OF tables record_audit_keeps])
qed

lemma resend_invitation_effect:
  assumes "resend_invitation_sql pg_uuid p q db = Inr (rows, db')"
  shows "keeps_tenancy db db'"
proof -
  have tables: "keeps_tenancy db ((consume_tokens selects now db)\<lparr>db_invitations := table\<rparr>)" for selects now table
    by (simp add: keeps_tenancy_def consume_tokens_def)
  show ?thesis
    using assms unfolding resend_invitation_sql_def
    by (simp only: statement_inversions)
       (blast intro: keeps_tenancy_refl keeps_tenancy_trans [OF tables keeps_tenancy_trans [OF insert_token_keeps
          keeps_tenancy_trans [OF insert_mail_keeps record_audit_keeps]]])
qed

lemma delete_role_effect:
  assumes "delete_role_sql pg_uuid p role db = Inr (rows, db')"
  shows "db' = db \<or> (\<exists>db1. db_organizations db1 = db_organizations db
      \<and> db_memberships db1 = db_memberships (retarget_memberships (ap_organization p) role (ap_now_ms p) db) \<and> keeps_tenancy db1 db')"
proof (cases "db' = db")
  case False
  let ?db1 = "retarget_invitations (ap_organization p) role (ap_now_ms p)
                 (retarget_memberships (ap_organization p) role (ap_now_ms p) db)"
  let ?db2 = "?db1\<lparr>db_roles := fmdrop (ap_organization p, role) (db_roles ?db1),
                         db_role_permissions :=
                           ffilter (\<lambda>(o', r, _). \<not> (o' = ap_organization p \<and> r = role)) (db_role_permissions ?db1)\<rparr>"
  from assms obtain sid and s :: session_row and db3 db4 moved where
      "revise_organization (ap_organization p) (ap_now_ms p) ?db2 = Inr db3"
      "record_audit p (Some (ap_organization p)) (s_user_id s) sid (lit ''role.manage'') (lit ''role'') role db3 = Inr db4"
      "track_memberships (ap_gen p) db (map (Pair (ap_organization p)) moved) db4 = Inr db'"
    using False unfolding delete_role_sql_def by (simp only: statement_inversions) blast
  then have "keeps_tenancy ?db2 db'"
    by (blast intro: keeps_tenancy_trans [OF revise_organization_keeps keeps_tenancy_trans [OF record_audit_keeps track_memberships_keeps]])
  then show ?thesis
    by (intro disjI2 exI [of _ ?db2]) (simp add: retarget_invitations_def retarget_memberships_def)
qed blast

lemma toggle_steps: "toggle_memberships disabled now ks db = Inr db' \<Longrightarrow> tenancy_step\<^sup>*\<^sup>* db db'"
proof (induction disabled now ks db rule: toggle_memberships.induct)
  case (2 disabled now k ks db)
  show ?case
  proof (cases "fmlookup (db_memberships db) k")
    case None
    with "2.prems" "2.IH"(1) [OF None] show ?thesis by simp
  next
    case (Some m)
    with "2.prems" obtain db1 where db1: "update_membership (fst k) (snd k) m (toggled disabled now m) db = Inr db1"
        "toggle_memberships disabled now ks db1 = Inr db'"
      by (auto simp: rbind_Inr_iff)
    have "tenancy_step db db1" by (rule tenancy_step.changed [OF _ db1(1)]) (simp add: Some)
    then show ?thesis using "2.IH"(2) [OF Some db1(2)] by (rule converse_rtranclp_into_rtranclp)
  qed
qed simp

lemma set_user_disabled_effect:
  assumes "set_user_disabled_sql pg_uuid p user disabled db = Inr (rows, db')"
  shows "db' = db \<or> (\<exists>sid s u v db1. pg_uuid (ap_session p) = Some sid \<and> session_usable db (ap_now_ms p) sid = Some (s, v)
      \<and> is_system_administrator db (s_user_id s) \<and> elevated s
      \<and> toggle_memberships disabled (ap_now_ms p) (affected_memberships db user) (db\<lparr>db_users := fmupd user u (db_users db)\<rparr>) = Inr db1
      \<and> keeps_tenancy db1 db')"
proof (cases "db' = db")
  case False
  from assms obtain sid s u v organizations db1 db2 db3 db4 and change :: "session_row \<Rightarrow> session_row" and selects action where
      *: "pg_uuid (ap_session p) = Some sid" "session_usable db (ap_now_ms p) sid = Some (s, v)"
      "is_system_administrator db (s_user_id s)" "elevated s"
      "toggle_memberships disabled (ap_now_ms p) (affected_memberships db user) (db\<lparr>db_users := fmupd user u (db_users db)\<rparr>) = Inr db1"
    and frame: "update_sessions selects change (ap_now_ms p) db1 = Inr db2"
      "record_audit p None (s_user_id s) sid action (lit ''user'') user db2 = Inr db3"
      "track_memberships (ap_gen p) db (affected_memberships db user) db3 = Inr db4"
      "validate_organizations organizations db4 = Inr db'"
    using False unfolding set_user_disabled_sql_def by (simp only: statement_inversions de_Morgan_disj not_not) blast
  have "db' = db4" by (rule validate_organizations_Inr [OF frame(4)])
  with frame have "keeps_tenancy db1 db'"
    by (blast intro: keeps_tenancy_trans [OF update_sessions_keeps keeps_tenancy_trans [OF record_audit_keeps track_memberships_keeps]])
  with * show ?thesis by blast
qed blast

lemma upsert_membership_Inr:
  assumes "upsert_membership organization user proposed db = Inr (old, new, db')" and "fmlookup (db_organizations db) organization = Some row"
  shows "fmlookup (db_memberships db) (organization, user) = old"
    and "db_memberships db' = fmupd (organization, user) new (db_memberships db)"
    and "m_role_id new = m_role_id proposed" and "is_active_owner (Some proposed) \<longrightarrow> old = None \<Longrightarrow> tenancy_step db db'"
proof -
  obtain db1 where adjust: "adjust_owner_count organization None (Some proposed) db = Inr db1"
    and rest: "(case fmlookup (db_memberships db1) (organization, user) of
         None \<Rightarrow>
           if fmlookup (db_roles db1) (organization, m_role_id proposed) = None then Inl ForeignKeyViolation
           else Inr (None, proposed, put_membership (organization, user) proposed db1)
       | Some old \<Rightarrow>
           rbind (update_membership organization user old (old\<lparr>m_role_id := m_role_id proposed, m_status := lit ''active'',
                         m_updated_at_ms := m_updated_at_ms proposed\<rparr>) db1) (\<lambda>db2. Inr (Some old, old\<lparr>m_role_id := m_role_id proposed, m_status := lit ''active'',
                         m_updated_at_ms := m_updated_at_ms proposed\<rparr>, db2))) = Inr (old, new, db')"
    using assms(1) unfolding upsert_membership_def rbind_Inr_iff Let_def by blast
  note members = adjust_owner_count_Inr(1) [OF adjust]
  have "fmlookup (db_memberships db) (organization, user) = old
      \<and> db_memberships db' = fmupd (organization, user) new (db_memberships db) \<and> m_role_id new = m_role_id proposed
      \<and> (is_active_owner (Some proposed) \<longrightarrow> old = None \<longrightarrow> tenancy_step db db')
      \<and> (\<not> is_active_owner (Some proposed) \<longrightarrow> tenancy_step db db')"
  proof (cases "fmlookup (db_memberships db) (organization, user)")
    case None
    then have new: "old = None" "new = proposed" "db' = put_membership (organization, user) proposed db1"
      using rest members by (auto split: if_splits)
    with tenancy_step.joined [OF None assms(2) adjust] None members show ?thesis by (simp add: put_membership_def)
  next
    case (Some o')
    then have new: "old = Some o'" "new = o'\<lparr>m_role_id := m_role_id proposed, m_status := lit ''active'', m_updated_at_ms := m_updated_at_ms proposed\<rparr>"
        "update_membership organization user o' new db1 = Inr db'"
      using rest members by (auto simp: rbind_Inr_iff)
    have "db1 = db" if "\<not> is_active_owner (Some proposed)"
      using adjust that by (auto simp: adjust_owner_count_def is_active_owner_def split: if_splits)
    with new tenancy_step.changed [OF Some] Some members update_membership_Inr(1) [OF new(3)] show ?thesis by auto
  qed
  then show "fmlookup (db_memberships db) (organization, user) = old"
    "db_memberships db' = fmupd (organization, user) new (db_memberships db)"
    "m_role_id new = m_role_id proposed" "is_active_owner (Some proposed) \<longrightarrow> old = None \<Longrightarrow> tenancy_step db db'" by blast+
qed

lemma accept_effect:
  assumes "accept_invitation_sql pg_uuid p token_hash db = Inr (rows, db')"
  shows "rows = [] \<and> keeps_tenancy db db' \<or> (\<exists>sid s u invitation_id i row db1 db2 old new. pg_uuid (ap_session p) = Some sid
      \<and> session_usable db (ap_now_ms p) sid = Some (s, u) \<and> invitation_by_hash db token_hash = Some (invitation_id, i)
      \<and> active_organization db (i_organization_id i) = Some row \<and> acceptable (ap_now_ms p) s u i \<and> token_open db token_hash
      \<and> keeps_tenancy db db1
      \<and> upsert_membership (i_organization_id i) (s_user_id s)
          \<lparr>m_role_id = i_role_id i, m_status = lit ''active'', m_joined_at_ms = ap_now_ms p, m_updated_at_ms = ap_now_ms p\<rparr> db1
          = Inr (old, new, db2)
      \<and> keeps_tenancy db2 db')"
proof -
  have tables: "keeps_tenancy db (consume_tokens selects now (db\<lparr>db_invitations := table\<rparr>))"
    "keeps_tenancy db (db\<lparr>db_invitations := table\<rparr>)" for selects now table
    by (simp_all add: keeps_tenancy_def consume_tokens_def)
  show ?thesis
    using assms unfolding accept_invitation_sql_def
    by (simp only: statement_inversions)
       (blast intro: keeps_tenancy_refl tables keeps_tenancy_trans [OF update_sessions_keeps keeps_audited])
qed

lemma create_effect:
  assumes "create_organization_sql pg_uuid p db = Inr (rows, db')"
  shows "db' = db \<or> (\<exists>sid s u founder db1. pg_uuid (cp_session p) = Some sid
      \<and> session_usable db (cp_now_ms p) sid = Some (s, u)
      \<and> fmlookup (db_organizations db) (cp_organization_id p) = None
      \<and> m_role_id founder = lit ''owner'' \<and> m_status founder = lit ''active''
      \<and> adjust_owner_count (cp_organization_id p) None (Some founder) (new_organization_tables p (s_user_id s) db) = Inr db1
      \<and> keeps_tenancy (put_membership (cp_organization_id p, s_user_id s) founder db1) db')"
proof (cases "db' = db")
  case False
  have session: "ap_session (create_actor p) = cp_session p" by (simp add: create_actor_def)
  have idem: "keeps_tenancy d (d\<lparr>db_idempotency := table\<rparr>)" for d table by (simp add: keeps_tenancy_def)
  from assms obtain sid s u where sid: "pg_uuid (cp_session p) = Some sid" "session_usable db (cp_now_ms p) sid = Some (s, u)"
    and created: "organization_created p sid s db = Inr (rows, db')"
    using False unfolding create_organization_sql_def session with_session_Inr_iff
    by (auto split: option.splits if_splits simp del: lit_Cons lit_Nil)
  let ?founder = "\<lparr>m_role_id = lit ''owner'', m_status = lit ''active'', m_joined_at_ms = cp_now_ms p, m_updated_at_ms = cp_now_ms p\<rparr>"
  from created have fresh: "fmlookup (db_organizations db) (cp_organization_id p) = None"
    unfolding organization_created_def Let_def by (auto split: if_splits)
  from created obtain db1 db3 db4 db5 selects change table where
      adjust: "adjust_owner_count (cp_organization_id p) None (Some ?founder) (new_organization_tables p (s_user_id s) db) = Inr db1"
    and frame: "update_sessions selects change (cp_now_ms p) (put_membership (cp_organization_id p, s_user_id s) ?founder db1) = Inr db3"
      "record_audit (create_actor p) (Some (cp_organization_id p)) (s_user_id s) sid (lit ''organization.create'')
          (lit ''organization'') (cp_organization_id p) db3 = Inr db4"
      "finish_membership (create_actor p) (s_user_id s) True None ?founder (db4\<lparr>db_idempotency := table\<rparr>) = Inr db5" "db' = db5"
    unfolding organization_created_def by (simp only: statement_inversions) blast
  have "keeps_tenancy (put_membership (cp_organization_id p, s_user_id s) ?founder db1) db'"
    unfolding frame(4)
    by (rule keeps_tenancy_trans [OF update_sessions_keeps [OF frame(1)] keeps_tenancy_trans [OF record_audit_keeps [OF frame(2)]
          keeps_tenancy_trans [OF idem finish_membership_keeps [OF frame(3)]]]])
  moreover have "m_role_id ?founder = lit ''owner''" "m_status ?founder = lit ''active''" by simp_all
  ultimately show ?thesis using sid fresh adjust by blast
qed blast

subsection \<open>Every statement as changes of memberships\<close>

abbreviation tenancy_steps :: "kernel_db \<Rightarrow> kernel_db \<Rightarrow> bool" where
  "tenancy_steps \<equiv> tenancy_step\<^sup>*\<^sup>*"

lemma keeps_steps: "keeps_tenancy db db' \<Longrightarrow> tenancy_steps db db'"
  by (rule r_into_rtranclp) (rule tenancy_step.quiet)

lemma step_then_keeps: "tenancy_step db db1 \<Longrightarrow> keeps_tenancy db1 db' \<Longrightarrow> tenancy_steps db db'"
  by (rule converse_rtranclp_into_rtranclp) (assumption, rule keeps_steps)

lemma assign_steps:
  assumes "assign_membership_role_sql pg_uuid p target next_role db = Inr (rows, db')"
  shows "tenancy_steps db db'"
proof (cases "db' = db")
  case False
  with assign_effect [OF assms] obtain t db1 where
      "active_membership db (ap_organization p) target = Some t"
      "update_membership (ap_organization p) target t (t\<lparr>m_role_id := next_role, m_updated_at_ms := ap_now_ms p\<rparr>) db = Inr db1"
      "keeps_tenancy db1 db'" by blast
  then show ?thesis
    by (intro step_then_keeps [of db db1] tenancy_step.changed) (simp_all add: active_membership_Some_iff)
qed simp

lemma end_membership_steps:
  assumes "end_membership p user sid target t action db = Inr db'"
    and "fmlookup (db_memberships db) (ap_organization p, target) = Some t"
  shows "tenancy_steps db db'"
  using end_membership_effect [OF assms(1)] assms(2)
  by (elim exE conjE) (rule step_then_keeps, rule tenancy_step.changed, assumption+)

lemma remove_steps:
  assumes "remove_membership_sql pg_uuid p target db = Inr (rows, db')"
  shows "tenancy_steps db db'"
  using remove_effect [OF assms] by (elim disjE exE conjE) (auto simp: active_membership_Some_iff intro: end_membership_steps)

lemma leave_steps:
  assumes "leave_organization_sql pg_uuid p db = Inr (rows, db')"
  shows "tenancy_steps db db'"
  using leave_effect [OF assms] by (elim disjE exE conjE) (auto dest: member_actor_Some(1) intro: end_membership_steps)

lemma transfer_steps:
  assumes "transfer_ownership_sql pg_uuid p target db = Inr (rows, db')"
  shows "tenancy_steps db db'"
proof (cases "db' = db \<and> rows = []")
  case False
  with transfer_effect [OF assms] obtain sid s actor t db1 db2 where
      actor: "member_actor db (ap_now_ms p) sid (ap_organization p) (Some (lit ''ownership.transfer'')) True = Some (s, actor)"
    and t: "active_membership db (ap_organization p) target = Some t" and other: "s_user_id s \<noteq> target"
    and given: "update_membership (ap_organization p) target t (t\<lparr>m_role_id := lit ''owner'', m_updated_at_ms := ap_now_ms p\<rparr>) db = Inr db1"
    and demoted: "db2 = db1 \<or> update_membership (ap_organization p) (s_user_id s) actor
            (actor\<lparr>m_role_id := lit ''admin'', m_updated_at_ms := ap_now_ms p\<rparr>) db1 = Inr db2"
    and keeps: "keeps_tenancy db2 db'" by blast
  have first: "tenancy_step db db1"
    using t by (intro tenancy_step.changed [OF _ given]) (simp add: active_membership_Some_iff)
  have "fmlookup (db_memberships db1) (ap_organization p, s_user_id s) = Some actor"
    using member_actor_Some(1) [OF actor] other by (simp add: update_membership_Inr(1) [OF given])
  then have "tenancy_steps db1 db2" using demoted by (auto intro: tenancy_step.changed)
  with first keeps show ?thesis
    by (meson converse_rtranclp_into_rtranclp keeps_steps rtranclp_trans)
qed simp

lemma archive_steps:
  assumes "archive_organization_sql pg_uuid p db = Inr (rows, db')"
  shows "tenancy_steps db db'"
  using archive_effect [OF assms]
  by (elim disjE exE conjE)
     (simp, rule step_then_keeps, rule tenancy_step.archived, auto simp: active_organization_Some_iff simp del: lit_Cons lit_Nil)

lemma is_active_owner_retarget:
  "is_active_owner (fmlookup (db_memberships (retarget_memberships organization role now db)) k)
     = is_active_owner (fmlookup (db_memberships db) k)"
  by (cases "fmlookup (db_memberships db) k") (auto simp: retarget_memberships_def is_active_owner_def)

lemma delete_role_steps:
  assumes "delete_role_sql pg_uuid p role db = Inr (rows, db')"
  shows "tenancy_steps db db'"
  using delete_role_effect [OF assms]
proof (elim disjE exE conjE)
  fix db1 assume db1: "db_organizations db1 = db_organizations db"
    "db_memberships db1 = db_memberships (retarget_memberships (ap_organization p) role (ap_now_ms p) db)" "keeps_tenancy db1 db'"
  show ?thesis
  proof (rule step_then_keeps [OF tenancy_step.reassigned [OF db1(1)] db1(3)])
    show "fmdom (db_memberships db1) = fmdom (db_memberships db)" by (simp add: db1(2) retarget_memberships_def)
    show "is_active_owner (fmlookup (db_memberships db1) k) = is_active_owner (fmlookup (db_memberships db) k)" for k
      unfolding db1(2) by (rule is_active_owner_retarget)
  qed
qed simp

lemma set_user_disabled_steps:
  assumes "set_user_disabled_sql pg_uuid p user disabled db = Inr (rows, db')"
  shows "tenancy_steps db db'"
  using set_user_disabled_effect [OF assms]
proof (elim disjE exE conjE)
  fix u db1 assume "toggle_memberships disabled (ap_now_ms p) (affected_memberships db user) (db\<lparr>db_users := fmupd user u (db_users db)\<rparr>) = Inr db1"
    and keeps: "keeps_tenancy db1 db'"
  then have "tenancy_steps (db\<lparr>db_users := fmupd user u (db_users db)\<rparr>) db1" by (blast intro: toggle_steps)
  moreover have "tenancy_steps db (db\<lparr>db_users := fmupd user u (db_users db)\<rparr>)" by (rule keeps_steps) (simp add: keeps_tenancy_def)
  ultimately show ?thesis using keeps_steps [OF keeps] by (meson rtranclp_trans)
qed simp

lemma create_steps:
  assumes "create_organization_sql pg_uuid p db = Inr (rows, db')"
  shows "tenancy_steps db db'"
  using create_effect [OF assms]
  by (elim disjE exE conjE)
     (simp, rule step_then_keeps, rule tenancy_step.founded, auto simp: is_active_owner_def)

text \<open>
  Accepting is different: the insert trigger of the upsert counts an owner that the update trigger counts
  again, so the reduction needs that an owner invitation meets no membership row.
\<close>

lemma accept_steps:
  assumes "accept_invitation_sql pg_uuid p token_hash db = Inr (rows, db')"
    and fresh: "\<And>sid s u invitation_id i. pg_uuid (ap_session p) = Some sid \<Longrightarrow> session_usable db (ap_now_ms p) sid = Some (s, u) \<Longrightarrow>
      invitation_by_hash db token_hash = Some (invitation_id, i) \<Longrightarrow> i_role_id i = lit ''owner'' \<Longrightarrow>
      fmlookup (db_memberships db) (i_organization_id i, s_user_id s) = None"
  shows "tenancy_steps db db'"
  using accept_effect [OF assms(1)]
proof (elim disjE exE conjE)
  assume "keeps_tenancy db db'"
  then show ?thesis by (rule keeps_steps)
next
  fix sid s u invitation_id row db1 db2 old new and i :: invitation_row
  let ?proposed = "\<lparr>m_role_id = i_role_id i, m_status = lit ''active'', m_joined_at_ms = ap_now_ms p, m_updated_at_ms = ap_now_ms p\<rparr>"
  assume *: "pg_uuid (ap_session p) = Some sid" "session_usable db (ap_now_ms p) sid = Some (s, u)"
      "invitation_by_hash db token_hash = Some (invitation_id, i)"
    and row: "active_organization db (i_organization_id i) = Some row" and keeps: "keeps_tenancy db db1"
    and upsert: "upsert_membership (i_organization_id i) (s_user_id s) ?proposed db1 = Inr (old, new, db2)"
    and keeps': "keeps_tenancy db2 db'"
  have members: "db_memberships db1 = db_memberships db" using keeps by (simp add: keeps_tenancy_def)
  obtain row1 where row1: "fmlookup (db_organizations db1) (i_organization_id i) = Some row1"
    using keeps_found [OF keeps, of "i_organization_id i"] row by (auto simp: active_organization_Some_iff)
  have "is_active_owner (Some ?proposed) \<longrightarrow> old = None"
    using fresh [OF *] upsert_membership_Inr(1) [OF upsert row1] members by (auto simp: is_active_owner_def)
  then have "tenancy_step db1 db2" by (rule upsert_membership_Inr(4) [OF upsert row1])
  from step_then_keeps [OF this keeps'] keeps_steps [OF keeps] show ?thesis by (meson rtranclp_trans)
qed

lemmas statement_steps =
  assign_steps remove_steps leave_steps transfer_steps archive_steps delete_role_steps set_user_disabled_steps create_steps
  keeps_steps [OF select_effect] keeps_steps [OF update_organization_effect] keeps_steps [OF upsert_role_effect]
  keeps_steps [OF create_invitation_effect] keeps_steps [OF revoke_invitation_effect] keeps_steps [OF resend_invitation_effect]

end
