(* ===== verification/Management_History.thy ===== *)
theory Management_History
  imports Organization_Properties
begin

section \<open>Histories of the management services\<close>

text \<open>
  The operations of \<open>OrganizationManagementService\<close>, \<open>InvitationService\<close> and \<open>OrganizationService\<close> that change
  the tables as commands, and what holds after any sequence of them: the owner counter, who may become an
  owner, which roles may transfer ownership, and what removing a member takes away.
\<close>

subsection \<open>Commands\<close>

datatype management_command =
  UpdateOrganization call_moment session_id rstr rstr request_id
| UpsertRole call_moment session_id rstr rstr rstr "rstr list" request_id
| DeleteRole call_moment session_id rstr rstr request_id
| AssignRole call_moment session_id rstr rstr rstr request_id
| RemoveMember call_moment session_id rstr rstr request_id
| TransferOwnership call_moment session_id rstr rstr request_id
| LeaveOrganization call_moment session_id rstr request_id
| ArchiveOrganization call_moment session_id rstr request_id
| SetUserDisabled call_moment session_id rstr bool request_id
| CreateInvitation invitation_service call_moment session_id rstr rstr rstr request_id
| AcceptInvitation call_moment session_id rstr request_id
| RevokeInvitation call_moment session_id rstr rstr request_id
| ResendInvitation invitation_service call_moment session_id rstr rstr request_id
| CreateOrganization call_moment rstr session_id rstr rstr request_id
| SelectOrganization call_moment session_id rstr request_id

fun run_command :: "service_env \<Rightarrow> management_command \<Rightarrow> kernel_db \<Rightarrow> kernel_db" where
  "run_command env (UpdateOrganization t s o' n r) db = snd (update_organization env t s o' n r db)"
| "run_command env (UpsertRole t s o' role n granted r) db = snd (upsert_role env t s o' role n granted r db)"
| "run_command env (DeleteRole t s o' role r) db = snd (delete_role env t s o' role r db)"
| "run_command env (AssignRole t s o' u role r) db = snd (assign_role env t s o' u role r db)"
| "run_command env (RemoveMember t s o' u r) db = snd (remove_member env t s o' u r db)"
| "run_command env (TransferOwnership t s o' u r) db = snd (transfer_ownership env t s o' u r db)"
| "run_command env (LeaveOrganization t s o' r) db = snd (leave_organization env t s o' r db)"
| "run_command env (ArchiveOrganization t s o' r) db = snd (archive_organization env t s o' r db)"
| "run_command env (SetUserDisabled t s u disabled r) db = snd (set_user_disabled env t s u disabled r db)"
| "run_command env (CreateInvitation self t s o' email role r) db = snd (create_invitation env self t s o' email role r db)"
| "run_command env (AcceptInvitation t s token r) db = snd (accept_invitation env t s token r db)"
| "run_command env (RevokeInvitation t s o' i r) db = snd (revoke_invitation env t s o' i r db)"
| "run_command env (ResendInvitation self t s o' i r) db = snd (resend_invitation env self t s o' i r db)"
| "run_command env (CreateOrganization t key s n slug r) db = snd (create_organization env t key s n slug r db)"
| "run_command env (SelectOrganization t s o' r) db = snd (select_organization env t s o' r db)"

fun command_moment :: "management_command \<Rightarrow> call_moment" where
  "command_moment (UpdateOrganization t s o' n r) = t"
| "command_moment (UpsertRole t s o' role n granted r) = t"
| "command_moment (DeleteRole t s o' role r) = t"
| "command_moment (AssignRole t s o' u role r) = t"
| "command_moment (RemoveMember t s o' u r) = t"
| "command_moment (TransferOwnership t s o' u r) = t"
| "command_moment (LeaveOrganization t s o' r) = t"
| "command_moment (ArchiveOrganization t s o' r) = t"
| "command_moment (SetUserDisabled t s u disabled r) = t"
| "command_moment (CreateInvitation self t s o' email role r) = t"
| "command_moment (AcceptInvitation t s token r) = t"
| "command_moment (RevokeInvitation t s o' i r) = t"
| "command_moment (ResendInvitation self t s o' i r) = t"
| "command_moment (CreateOrganization t key s n slug r) = t"
| "command_moment (SelectOrganization t s o' r) = t"

fun command_session :: "management_command \<Rightarrow> session_id" where
  "command_session (UpdateOrganization t s o' n r) = s"
| "command_session (UpsertRole t s o' role n granted r) = s"
| "command_session (DeleteRole t s o' role r) = s"
| "command_session (AssignRole t s o' u role r) = s"
| "command_session (RemoveMember t s o' u r) = s"
| "command_session (TransferOwnership t s o' u r) = s"
| "command_session (LeaveOrganization t s o' r) = s"
| "command_session (ArchiveOrganization t s o' r) = s"
| "command_session (SetUserDisabled t s u disabled r) = s"
| "command_session (CreateInvitation self t s o' email role r) = s"
| "command_session (AcceptInvitation t s token r) = s"
| "command_session (RevokeInvitation t s o' i r) = s"
| "command_session (ResendInvitation self t s o' i r) = s"
| "command_session (CreateOrganization t key s n slug r) = s"
| "command_session (SelectOrganization t s o' r) = s"

text \<open>The session, with its user, on whose behalf a command acts.\<close>

definition acting :: "service_env \<Rightarrow> management_command \<Rightarrow> kernel_db \<Rightarrow> (session_row \<times> user_row) option" where
  "acting env command db =
     Option.bind (se_pg_uuid env (command_session command))
       (session_usable db (u64_to_i64 (moment_ms (command_moment command))))"

subsection \<open>A service operation is its statement or leaves the tables alone\<close>

lemma prepared_query_snd:
  "snd (prepared_query db prepared statement decode) = db \<or>
   (\<exists>p rows. prepared = Inr p \<and> statement p = Inr (rows, snd (prepared_query db prepared statement decode)))"
  by (auto simp: prepared_query_def management_query_def split: sum.splits)

lemma rbind_Inr_D: "rbind m f = Inr b \<Longrightarrow> \<exists>a. m = Inr a \<and> f a = Inr b"
  by (simp add: rbind_Inr_iff)

text \<open>The parameters every operation hands to its statement: the session, and the time of the call.\<close>

definition acts_as :: "call_moment \<Rightarrow> session_id \<Rightarrow> actor_parameters \<Rightarrow> bool" where
  "acts_as moment session p \<longleftrightarrow> ap_session p = session \<and> ap_now_ms p = u64_to_i64 (moment_ms moment)"

lemma acts_as_actor_of [simp]: "acts_as moment session (actor_of moment session organization audit_id request_id)"
  by (simp add: acts_as_def actor_of_def)

inductive command_statement :: "service_env \<Rightarrow> management_command \<Rightarrow> kernel_db \<Rightarrow> kernel_db \<Rightarrow> bool" for env where
  unchanged: "command_statement env command db db"
| updates: "update_organization_sql (se_pg_uuid env) p n db = Inr (rows, db') \<Longrightarrow> acts_as t s p \<Longrightarrow>
    command_statement env (UpdateOrganization t s o' n' r) db db'"
| upserts: "upsert_role_sql (se_pg_uuid env) p role n granted db = Inr (rows, db') \<Longrightarrow> acts_as t s p \<Longrightarrow>
    \<not> built_in_role_id role \<Longrightarrow> custom_role_permissions requested = Inr granted \<Longrightarrow>
    command_statement env (UpsertRole t s o' role n' requested r) db db'"
| deletes: "delete_role_sql (se_pg_uuid env) p role db = Inr (rows, db') \<Longrightarrow> acts_as t s p \<Longrightarrow>
    command_statement env (DeleteRole t s o' role r) db db'"
| assigns: "assign_membership_role_sql (se_pg_uuid env) p u' role db = Inr (rows, db') \<Longrightarrow> acts_as t s p \<Longrightarrow>
    command_statement env (AssignRole t s o' u role r) db db'"
| removes: "remove_membership_sql (se_pg_uuid env) p u' db = Inr (rows, db') \<Longrightarrow> acts_as t s p \<Longrightarrow>
    command_statement env (RemoveMember t s o' u r) db db'"
| transfers: "transfer_ownership_sql (se_pg_uuid env) p u' db = Inr (rows, db') \<Longrightarrow> acts_as t s p \<Longrightarrow>
    command_statement env (TransferOwnership t s o' u r) db db'"
| leaves: "leave_organization_sql (se_pg_uuid env) p db = Inr (rows, db') \<Longrightarrow> acts_as t s p \<Longrightarrow>
    command_statement env (LeaveOrganization t s o' r) db db'"
| archives: "archive_organization_sql (se_pg_uuid env) p db = Inr (rows, db') \<Longrightarrow> acts_as t s p \<Longrightarrow>
    command_statement env (ArchiveOrganization t s o' r) db db'"
| disables: "set_user_disabled_sql (se_pg_uuid env) p u' disabled db = Inr (rows, db') \<Longrightarrow> acts_as t s p \<Longrightarrow>
    command_statement env (SetUserDisabled t s u disabled r) db db'"
| invites: "create_invitation_sql (se_pg_uuid env) p q db = Inr (rows, db') \<Longrightarrow> acts_as t s p \<Longrightarrow>
    command_statement env (CreateInvitation self t s o' email role r) db db'"
| accepts: "accept_invitation_sql (se_pg_uuid env) p (se_sha256 env (str_bytes token)) db = Inr (rows, db') \<Longrightarrow> acts_as t s p \<Longrightarrow>
    command_statement env (AcceptInvitation t s token r) db db'"
| revokes: "revoke_invitation_sql (se_pg_uuid env) p i' db = Inr (rows, db') \<Longrightarrow> acts_as t s p \<Longrightarrow>
    command_statement env (RevokeInvitation t s o' i r) db db'"
| resends: "resend_invitation_sql (se_pg_uuid env) p q db = Inr (rows, db') \<Longrightarrow> acts_as t s p \<Longrightarrow>
    command_statement env (ResendInvitation self t s o' i r) db db'"
| creates: "create_organization_sql (se_pg_uuid env) q db = Inr (rows, db') \<Longrightarrow> cp_session q = s \<Longrightarrow>
    cp_now_ms q = u64_to_i64 (moment_ms t) \<Longrightarrow> command_statement env (CreateOrganization t key s n slug r) db db'"
| selects: "select_organization_sql (se_pg_uuid env) p db = Inr (rows, db') \<Longrightarrow> acts_as t s p \<Longrightarrow>
    command_statement env (SelectOrganization t s o' r) db db'"

lemma prepared_cases:
  assumes "P db" and "\<And>p rows db'. prepared = Inr p \<Longrightarrow> statement p = Inr (rows, db') \<Longrightarrow> P db'"
  shows "P (snd (prepared_query db prepared statement decode))"
  using prepared_query_snd [of db prepared statement decode] assms by metis

lemma validate_custom_role_id: "validate_role_id role False = Inr u \<Longrightarrow> \<not> built_in_role_id role"
  by (auto simp: validate_role_id_def split: if_splits)

lemma create_organization_cases:
  assumes "P db" and "\<And>q rows db'. create_organization_sql (se_pg_uuid env) q db = Inr (rows, db') \<Longrightarrow> cp_session q = session \<Longrightarrow>
    cp_now_ms q = u64_to_i64 (moment_ms moment) \<Longrightarrow> P db'"
  shows "P (snd (create_organization env moment key session name slug request_id db))"
  unfolding create_organization_def Let_def
  by (split if_split option.split sum.split prod.split)+ (use assms in \<open>fastforce\<close>)

lemma run_command_statement: "command_statement env command db (run_command env command db)"
proof (cases command)
  case (UpdateOrganization t s o' n r)
  show ?thesis unfolding UpdateOrganization run_command.simps update_organization_def
    by (rule prepared_cases, rule unchanged) (auto simp: result_simps intro: updates)
next
  case (UpsertRole t s o' role n granted r)
  show ?thesis unfolding UpsertRole run_command.simps upsert_role_def
    by (rule prepared_cases, rule unchanged) (auto simp: result_simps intro: upserts dest: validate_custom_role_id)
next
  case (DeleteRole t s o' role r)
  show ?thesis unfolding DeleteRole run_command.simps delete_role_def
    by (rule prepared_cases, rule unchanged) (auto simp: result_simps intro: deletes)
next
  case (AssignRole t s o' u role r)
  show ?thesis unfolding AssignRole run_command.simps assign_role_def
    by (rule prepared_cases, rule unchanged) (auto simp: result_simps intro: assigns)
next
  case (RemoveMember t s o' u r)
  show ?thesis unfolding RemoveMember run_command.simps remove_member_def
    by (rule prepared_cases, rule unchanged) (auto simp: result_simps intro: removes)
next
  case (TransferOwnership t s o' u r)
  show ?thesis unfolding TransferOwnership run_command.simps transfer_ownership_def
    by (rule prepared_cases, rule unchanged) (auto simp: result_simps intro: transfers)
next
  case (LeaveOrganization t s o' r)
  show ?thesis unfolding LeaveOrganization run_command.simps leave_organization_def
    by (rule prepared_cases, rule unchanged) (auto simp: result_simps intro: leaves)
next
  case (ArchiveOrganization t s o' r)
  show ?thesis unfolding ArchiveOrganization run_command.simps archive_organization_def
    by (rule prepared_cases, rule unchanged) (auto simp: result_simps intro: archives)
next
  case (SetUserDisabled t s u disabled r)
  show ?thesis unfolding SetUserDisabled run_command.simps set_user_disabled_def
    by (rule prepared_cases, rule unchanged) (auto simp: result_simps intro: disables)
next
  case (CreateInvitation self t s o' email role r)
  show ?thesis unfolding CreateInvitation run_command.simps create_invitation_def
    by (rule prepared_cases, rule unchanged) (auto simp: result_simps intro: invites)
next
  case (AcceptInvitation t s token r)
  show ?thesis unfolding AcceptInvitation run_command.simps accept_invitation_def
    by (rule prepared_cases, rule unchanged) (auto simp: result_simps intro: accepts split: if_splits)
next
  case (RevokeInvitation t s o' i r)
  show ?thesis unfolding RevokeInvitation run_command.simps revoke_invitation_def
    by (rule prepared_cases, rule unchanged) (auto simp: result_simps intro: revokes)
next
  case (ResendInvitation self t s o' i r)
  show ?thesis unfolding ResendInvitation run_command.simps resend_invitation_def
    by (rule prepared_cases, rule unchanged) (auto simp: result_simps intro: resends)
next
  case (CreateOrganization t key s n slug r)
  show ?thesis unfolding CreateOrganization run_command.simps
    by (rule create_organization_cases, rule unchanged) (rule creates)
next
  case (SelectOrganization t s o' r)
  show ?thesis unfolding SelectOrganization run_command.simps select_organization_def
    by (auto intro: unchanged selects split: option.splits sum.splits)
qed

subsection \<open>The owner counter along histories\<close>

text \<open>
  Accepting an owner invitation with a membership row already there, whether active, removed or blocked.
\<close>

definition repeats_ownership :: "service_env \<Rightarrow> management_command \<Rightarrow> kernel_db \<Rightarrow> bool" where
  "repeats_ownership env command db =
     (case command of
        AcceptInvitation t s token r \<Rightarrow>
          (case (acting env command db, invitation_by_hash db (se_sha256 env (str_bytes token))) of
             (Some (session, _), Some (_, i)) \<Rightarrow> i_role_id i = lit ''owner''
               \<and> fmlookup (db_memberships db) (i_organization_id i, s_user_id session) \<noteq> None
           | _ \<Rightarrow> False)
      | _ \<Rightarrow> False)"

lemma command_steps:
  assumes "\<not> repeats_ownership env command db"
  shows "tenancy_steps db (run_command env command db)"
  using run_command_statement [of env command db] assms
proof (induction rule: command_statement.induct)
  case (accepts p token db rows db' t s r)
  show ?case
  proof (rule accept_steps [OF accepts(1)])
    fix sid session u invitation_id i
    assume "se_pg_uuid env (ap_session p) = Some sid" "session_usable db (ap_now_ms p) sid = Some (session, u)"
      "invitation_by_hash db (se_sha256 env (str_bytes token)) = Some (invitation_id, i)" "i_role_id i = lit ''owner''"
    with accepts(2,3) show "fmlookup (db_memberships db) (i_organization_id i, s_user_id session) = None"
      by (auto simp: repeats_ownership_def acting_def acts_as_def simp del: lit_Cons lit_Nil)
  qed
qed (simp, (rule statement_steps, assumption)+)

text \<open>
  What the other components do between two commands (logging in, issuing and rotating tokens, revoking a
  session, delivering mail) changes users, sessions, tokens and queues, but none of these tables.
\<close>

definition elsewhere :: "kernel_db \<Rightarrow> kernel_db \<Rightarrow> bool" where
  "elsewhere db db' \<longleftrightarrow> db_memberships db' = db_memberships db \<and> db_organizations db' = db_organizations db
     \<and> db_roles db' = db_roles db \<and> db_role_permissions db' = db_role_permissions db \<and> db_invitations db' = db_invitations db"

inductive service_step :: "service_env \<Rightarrow> kernel_db \<Rightarrow> kernel_db \<Rightarrow> bool" for env where
  command: "service_step env db (run_command env command db)"
| other: "elsewhere db db' \<Longrightarrow> service_step env db db'"

inductive orderly_step :: "service_env \<Rightarrow> kernel_db \<Rightarrow> kernel_db \<Rightarrow> bool" for env where
  orderly: "\<not> repeats_ownership env command db \<Longrightarrow> orderly_step env db (run_command env command db)"
| between: "elsewhere db db' \<Longrightarrow> orderly_step env db db'"

lemma elsewhere_keeps: "elsewhere db db' \<Longrightarrow> keeps_tenancy db db'"
  by (simp add: elsewhere_def keeps_tenancy_def)

interpretation orderly: step_invariant "orderly_step env" tenancy_inv
proof
  fix db db' assume "orderly_step env db db'" and inv: "tenancy_inv db"
  then have "tenancy_steps db db'"
    by cases (auto intro: command_steps keeps_steps [OF elsewhere_keeps])
  then show "tenancy_inv db'" using inv by (rule tenancy.steps_preserve)
qed

text \<open>The counter along an upsert that meets a membership row.\<close>

lemma upsert_owner_count:
  assumes upsert: "upsert_membership organization user proposed db = Inr (Some old, new, db')"
    and owner: "is_active_owner (Some proposed)" and row: "fmlookup (db_organizations db) organization = Some row"
    and exact: "o_owner_count row = int (fcard (active_owners db organization))"
  shows "\<exists>row'. fmlookup (db_organizations db') organization = Some row'
    \<and> o_owner_count row' = int (fcard (active_owners db' organization)) + 1"
proof -
  obtain db1 where adjust: "adjust_owner_count organization None (Some proposed) db = Inr db1"
    and update: "update_membership organization user old new db1 = Inr db'"
    and new: "new = old\<lparr>m_role_id := m_role_id proposed, m_status := lit ''active'', m_updated_at_ms := m_updated_at_ms proposed\<rparr>"
    and old: "fmlookup (db_memberships db1) (organization, user) = Some old"
    using upsert unfolding upsert_membership_def rbind_Inr_iff Let_def
    by (auto simp: rbind_Inr_iff split: option.splits if_splits simp del: lit_Cons lit_Nil)
  have new_owner: "is_active_owner (Some new)" using owner by (simp add: new is_active_owner_def)
  have row1: "fmlookup (db_organizations db1) organization = Some (row\<lparr>o_owner_count := o_owner_count row + 1\<rparr>)"
    using adjust_owner_count_Inr(3) [OF adjust, of organization] owner row by (simp add: is_active_owner_def)
  have members: "db_memberships db' = fmupd (organization, user) new (db_memberships db)"
    using update_membership_Inr(1) [OF update] adjust_owner_count_Inr(1) [OF adjust] by simp
  have "active_owners db' organization = finsert user (active_owners db organization)"
    by (rule fset_eqI) (auto simp: active_owners_iff members new_owner)
  moreover have "user |\<in>| active_owners db organization \<longleftrightarrow> is_active_owner (Some old)"
    using old adjust_owner_count_Inr(1) [OF adjust] by (simp add: active_owners_iff)
  ultimately have "fcard (active_owners db' organization) =
      (if is_active_owner (Some old) then fcard (active_owners db organization) else fcard (active_owners db organization) + 1)"
    by (simp add: fcard_finsert_disjoint finsert_absorb)
  then show ?thesis
    using update_membership_Inr(2) [OF update, of organization] row1 new_owner exact by simp
qed

subsection \<open>A sample organization\<close>

text \<open>
  Organization \<open>o\<close> with the owner \<open>a\<close> and the member \<open>b\<close>, who has a pending owner invitation whose token
  is the hash \<open>[7]\<close>; both have a session with a second factor.
\<close>

definition sample_user :: "string \<Rightarrow> user_row" where
  "sample_user email = \<lparr>u_normalized_email = lit email, u_primary_email = lit email, u_status = lit ''active'',
     u_security_revision = 1, u_created_at_ms = 500, u_updated_at_ms = 500\<rparr>"

definition sample_session :: "string \<Rightarrow> session_row" where
  "sample_session user = \<lparr>s_user_id = lit user, s_selected_organization_id = Some (lit ''o''),
     s_assurance = lit ''aal2'', s_session_revision = 1, s_user_security_revision = 1,
     s_expires_at_ms = 9000, s_revoked_at_ms = None, s_created_at_ms = 1000, s_updated_at_ms = 1000\<rparr>"

definition sample_membership :: "string \<Rightarrow> membership_row" where
  "sample_membership role = \<lparr>m_role_id = lit role, m_status = lit ''active'', m_joined_at_ms = 600, m_updated_at_ms = 600\<rparr>"

definition sample_role :: "string \<Rightarrow> role_row" where
  "sample_role name = \<lparr>r_name = lit name, r_built_in = True, r_created_at_ms = 600, r_updated_at_ms = 600\<rparr>"

definition sample_invitation :: invitation_row where
  "sample_invitation = \<lparr>i_organization_id = lit ''o'', i_normalized_email = lit ''b@x.y'', i_role_id = lit ''owner'',
     i_token_hash = [7], i_status = lit ''pending'', i_expires_at_ms = 9000, i_accepted_at_ms = None,
     i_accepted_by = None, i_created_by = lit ''a'', i_created_at_ms = 700, i_updated_at_ms = 700\<rparr>"

definition sample_tenancy :: kernel_db where
  "sample_tenancy = sample_db\<lparr>
     db_users := fmap_of_list [(lit ''a'', sample_user ''a@x.y''), (lit ''b'', sample_user ''b@x.y'')],
     db_sessions := fmap_of_list [(lit ''sa'', sample_session ''a''), (lit ''sb'', sample_session ''b'')],
     db_one_time_tokens := fmap_of_list [([7], invitation_token (lit ''b@x.y'') (lit ''i'') 9000 700)],
     db_roles := fmap_of_list [((lit ''o'', lit ''owner''), sample_role ''Owner''), ((lit ''o'', lit ''member''), sample_role ''Member'')],
     db_role_permissions := {|(lit ''o'', lit ''owner'', lit ''member.manage''), (lit ''o'', lit ''owner'', lit ''ownership.transfer'')|},
     db_memberships := fmap_of_list [((lit ''o'', lit ''a''), sample_membership ''owner''), ((lit ''o'', lit ''b''), sample_membership ''member'')],
     db_invitations := fmap_of_list [(lit ''i'', sample_invitation)]\<rparr>"

definition sample_moment :: call_moment where
  "sample_moment = \<lparr>cm_now_unix_seconds = 2, cm_draw = (\<lambda>n. Some (replicate 10 (of_nat n))), cm_gen = (\<lambda>k. k)\<rparr>"

definition sample_service_env :: service_env where
  "sample_service_env = \<lparr>se_pg_uuid = Some, se_parse_uuid = Some, se_uuid_text = map unat, se_sha256 = (\<lambda>_. [7]),
     se_base64url = map unat, se_encrypt = (\<lambda>key nonce aad plaintext. Some (1 # plaintext)),
     se_decrypt = (\<lambda>key nonce aad ciphertext. case ciphertext of [] \<Rightarrow> None | _ # plaintext \<Rightarrow> Some plaintext),
     se_to_json = (\<lambda>_. Some []), se_from_json = (\<lambda>_. Some JvNull)\<rparr>"

lemma sample_memberships:
  "fmlookup (db_memberships sample_tenancy) (organization, user) =
     (if organization = lit ''o'' \<and> user = lit ''a'' then Some (sample_membership ''owner'')
      else if organization = lit ''o'' \<and> user = lit ''b'' then Some (sample_membership ''member'') else None)"
  by (auto simp: sample_tenancy_def)

lemma sample_organizations:
  "fmlookup (db_organizations sample_tenancy) organization =
     (if organization = lit ''o'' then Some \<lparr>o_name = lit ''O'', o_slug = Some (lit ''oo''), o_status = lit ''active'',
       o_authorization_revision = 1, o_owner_count = 1, o_created_by = lit ''u'', o_created_at_ms = 600,
       o_updated_at_ms = 600\<rparr> else None)"
  by (auto simp: sample_tenancy_def sample_db_def)

lemma sample_active_owners: "active_owners sample_tenancy organization = (if organization = lit ''o'' then {|lit ''a''|} else {||})"
  by (rule fset_eqI) (auto simp: active_owners_iff sample_memberships is_active_owner_def sample_membership_def)

lemma sample_tenancy_inv: "tenancy_inv sample_tenancy"
proof (rule tenancy_invI)
  show "members_belong sample_tenancy"
    by (auto simp: members_belong_def sample_memberships sample_organizations split: if_splits)
qed (auto simp: sample_organizations sample_active_owners fcard_finsert_disjoint split: if_splits)

subsection \<open>The owner counter\<close>

text \<open>
  C11: Along every history of the management services, interleaved with any activity of the other components,
  the column \<open>owner_count\<close> of an organization is the number of its active owners and an active organization
  has at least one, from tables where this holds, as long as no owner invitation is accepted by someone who
  has a membership row of that organization already.
\<close>

theorem owners_are_counted:
  assumes "(orderly_step env)\<^sup>*\<^sup>* db db'" and "tenancy_inv db" and "fmlookup (db_organizations db') organization = Some row"
  shows "o_owner_count row = int (fcard (active_owners db' organization))
    \<and> (o_status row = lit ''active'' \<longrightarrow> (\<exists>user m. fmlookup (db_memberships db') (organization, user) = Some m
        \<and> m_role_id m = lit ''owner'' \<and> m_status m = lit ''active''))"
proof -
  have inv: "tenancy_inv db'" using assms(1,2) by (rule orderly.steps_preserve)
  note count = tenancy_inv_lookup [OF inv assms(3)]
  have "\<exists>user m. fmlookup (db_memberships db') (organization, user) = Some m \<and> m_role_id m = lit ''owner'' \<and> m_status m = lit ''active''"
    if "o_status row = lit ''active''"
  proof -
    from count(1) count(2) [OF that] have "fcard (active_owners db' organization) \<noteq> 0" by linarith
    then have "active_owners db' organization \<noteq> {||}" by (metis fcard_0_eq)
    then obtain user where "is_active_owner (fmlookup (db_memberships db') (organization, user))"
      by (metis active_owners_iff all_not_fin_conv)
    then show ?thesis by (cases "fmlookup (db_memberships db') (organization, user)") (auto simp: is_active_owner_def simp del: lit_Cons lit_Nil)
  qed
  with count(1) show ?thesis by blast
qed

theorem owners_are_counted_witness:
  "\<exists>db'. (orderly_step sample_service_env)\<^sup>*\<^sup>* sample_tenancy db'
     \<and> db' = run_command sample_service_env (LeaveOrganization sample_moment (lit ''sb'') (lit ''o'') (lit ''r'')) sample_tenancy
     \<and> (\<forall>organization row. fmlookup (db_organizations db') organization = Some row \<longrightarrow>
          o_owner_count row = int (fcard (active_owners db' organization)))"
proof -
  let ?db = "run_command sample_service_env (LeaveOrganization sample_moment (lit ''sb'') (lit ''o'') (lit ''r'')) sample_tenancy"
  have "orderly_step sample_service_env sample_tenancy ?db" by (rule orderly) (simp add: repeats_ownership_def)
  then have steps: "(orderly_step sample_service_env)\<^sup>*\<^sup>* sample_tenancy ?db" by (rule r_into_rtranclp)
  from owners_are_counted [OF this sample_tenancy_inv] steps show ?thesis by blast
qed

definition sample_acceptance :: actor_parameters where
  "sample_acceptance = \<lparr>ap_session = lit ''sb'', ap_organization = [], ap_now_ms = 2000, ap_audit_id = lit ''x'',
     ap_request_id = lit ''r'', ap_gen = (\<lambda>k. k)\<rparr>"

lemma sample_acceptor_usable: "session_usable sample_tenancy 2000 (lit ''sb'') = Some (sample_session ''b'', sample_user ''b@x.y'')"
  by (simp add: session_usable_def sample_tenancy_def sample_session_def sample_user_def)

lemma sample_invitation_by_hash: "invitation_by_hash sample_tenancy [7] = Some (lit ''i'', sample_invitation)"
  by (simp add: invitation_by_hash_def sample_tenancy_def sample_invitation_def sorted_list_of_fset.rep_eq)

lemma sample_guards:
  "active_organization sample_tenancy (lit ''o'') = Some (the (fmlookup (db_organizations sample_tenancy) (lit ''o'')))"
  "acceptable 2000 (sample_session ''b'') (sample_user ''b@x.y'') sample_invitation" "token_open sample_tenancy [7]"
  by (simp_all add: active_organization_def sample_organizations acceptable_def sample_session_def sample_user_def
      sample_invitation_def elevated_def token_open_def sample_tenancy_def sample_db_def invitation_token_def)

lemmas sample_data = sample_tenancy_def sample_db_def sample_membership_def sample_session_def sample_role_def

lemmas statement_defs = upsert_membership_def update_membership_def adjust_owner_count_def is_active_owner_def consume_tokens_def
  put_membership_def put_organization_def MAX_BIGINT_def update_sessions_def record_audit_def audit_entry_def
  finish_membership_def writes_owner_count_def track_membership_authorization_def validate_owner_count_def is_active_def deduplication_keys_def
  insert_outbox_def

lemma sample_accepts:
  assumes p: "ap_session p = lit ''sb''" "ap_now_ms p = 2000"
  shows "\<exists>rows db'. accept_invitation_sql Some p [7] sample_tenancy = Inr (rows, db') \<and> rows \<noteq> []
    \<and> is_active_owner (fmlookup (db_memberships db') (lit ''o'', lit ''b''))"
proof -
  note guards = sample_acceptor_usable sample_invitation_by_hash sample_guards
  have organization: "i_organization_id sample_invitation = lit ''o''" "i_role_id sample_invitation = lit ''owner''"
    by (simp_all add: sample_invitation_def)
  have user: "s_user_id (sample_session ''b'') = lit ''b''" by (simp add: sample_session_def)
  show ?thesis
    by (simp add: accept_invitation_sql_def with_session_def p guards organization user Let_def del: lit_Cons lit_Nil)
       (simp add: statement_defs sample_data p Let_def del: lit_Cons lit_Nil)
qed

text \<open>
  C38: The exception is real. When someone who has a membership row of an organization accepts an owner
  invitation of it, the insert trigger of the upsert and the update trigger both run, and \<open>owner_count\<close> is one
  more than the number of active owners afterwards. The guard of the trigger on the last owner
  (\<open>owner_count > 1\<close>) then lets that owner be demoted.
\<close>

theorem repeated_owner_acceptance_overcounts:
  assumes accepted: "accept_invitation_sql pg_uuid p token_hash db = Inr (rows, db')" "rows \<noteq> []"
    and invitation: "invitation_by_hash db token_hash = Some (invitation_id, i)" "i_role_id i = lit ''owner''"
    and session: "pg_uuid (ap_session p) = Some sid" "session_usable db (ap_now_ms p) sid = Some (s, u)"
    and member: "fmlookup (db_memberships db) (i_organization_id i, s_user_id s) = Some m"
    and exact: "counts_exact db"
  shows "\<exists>row. fmlookup (db_organizations db') (i_organization_id i) = Some row
    \<and> o_owner_count row = int (fcard (active_owners db' (i_organization_id i))) + 1"
proof -
  from accept_effect [OF accepted(1)] accepted(2) invitation session obtain db1 db2 old new where
      keeps: "keeps_tenancy db db1" "keeps_tenancy db2 db'" and organization: "active_organization db (i_organization_id i) \<noteq> None"
    and upsert: "upsert_membership (i_organization_id i) (s_user_id s)
        \<lparr>m_role_id = lit ''owner'', m_status = lit ''active'', m_joined_at_ms = ap_now_ms p, m_updated_at_ms = ap_now_ms p\<rparr> db1
        = Inr (old, new, db2)"
    by (auto simp del: lit_Cons lit_Nil)
  obtain row1 where row1: "fmlookup (db_organizations db1) (i_organization_id i) = Some row1"
    using keeps_found [OF keeps(1), of "i_organization_id i"] organization by (auto simp: active_organization_def)
  have old: "old = Some m"
    using upsert_membership_Inr(1) [OF upsert row1] member keeps(1) by (simp add: keeps_tenancy_def)
  have "o_owner_count row1 = int (fcard (active_owners db1 (i_organization_id i)))"
    using keeps_counts_exact [OF keeps(1) exact] row1 by (simp add: counts_exact_def)
  from upsert_owner_count [OF upsert [unfolded old] _ row1 this]
  obtain row2 where row2: "fmlookup (db_organizations db2) (i_organization_id i) = Some row2"
      "o_owner_count row2 = int (fcard (active_owners db2 (i_organization_id i))) + 1"
    by (auto simp: is_active_owner_def)
  obtain row where row: "fmlookup (db_organizations db') (i_organization_id i) = Some row"
    using keeps_found [OF keeps(2), of "i_organization_id i"] row2(1) by auto
  from keeps_lookup [OF keeps(2) row] row2 have "o_owner_count row = o_owner_count row2" by auto
  with row row2(2) keeps_active_owners [OF keeps(2)] show ?thesis by simp
qed

theorem repeated_owner_acceptance_overcounts_witness:
  "\<exists>rows db' row. accept_invitation_sql Some sample_acceptance [7] sample_tenancy = Inr (rows, db') \<and> rows \<noteq> []
     \<and> fmlookup (db_organizations db') (lit ''o'') = Some row
     \<and> o_owner_count row = int (fcard (active_owners db' (lit ''o''))) + 1"
proof -
  obtain rows db' where accepted: "accept_invitation_sql Some sample_acceptance [7] sample_tenancy = Inr (rows, db')" "rows \<noteq> []"
    using sample_accepts [of sample_acceptance] by (auto simp: sample_acceptance_def simp del: lit_Cons lit_Nil)
  have "Some (ap_session sample_acceptance) = Some (lit ''sb'')" "ap_now_ms sample_acceptance = 2000" "i_role_id sample_invitation = lit ''owner''"
    "i_organization_id sample_invitation = lit ''o''" "s_user_id (sample_session ''b'') = lit ''b''"
    by (simp_all add: sample_acceptance_def sample_invitation_def sample_session_def)
  moreover have "counts_exact sample_tenancy" using sample_tenancy_inv by (simp add: tenancy_inv_def)
  ultimately show ?thesis
    using repeated_owner_acceptance_overcounts [OF accepted sample_invitation_by_hash, of "lit ''sb''" "sample_session ''b''" "sample_user ''b@x.y''"
        "sample_membership ''member''"] accepted sample_acceptor_usable sample_memberships [of "lit ''o''" "lit ''b''"]
    by (simp del: lit_Cons lit_Nil)
qed

end
