(* ===== verification/Statement_Frames.thy ===== *)
theory Statement_Frames
  imports Management_History
begin

section \<open>Frames of the statements\<close>

text \<open>
  Many facts about the organization statements have the same shape: a relation between the tables before
  and after, reflexive and transitive, that every write of a statement respects. The locale
  \<open>statement_frame\<close> is that contract. It proves once, from the single writes, that every statement that
  does not touch the permissions of roles respects the relation, and what is left to show for the two
  that do and for the creation of an organization.
\<close>

locale statement_frame =
  fixes keeps :: "kernel_db \<Rightarrow> kernel_db \<Rightarrow> bool"
  assumes refl: "keeps db db"
    and trans: "keeps a b \<Longrightarrow> keeps b c \<Longrightarrow> keeps a c"
    and sessions: "update_sessions selects change now db = Inr db' \<Longrightarrow> keeps db db'"
    and audit: "record_audit p tenant user sid action rt rid db = Inr db' \<Longrightarrow> keeps db db'"
    and mail: "insert_mail outbox_id (mail_intent key version ciphertext now) db = Inr db' \<Longrightarrow> keeps db db'"
    and token: "insert_token h secret db = Inr db' \<Longrightarrow> keeps db db'"
    and revise: "revise_organization organization now db = Inr db' \<Longrightarrow> keeps db db'"
    and track: "track_membership_authorization gen organization user old new db = Inr db' \<Longrightarrow> keeps db db'"
    and adjust: "adjust_owner_count organization old new db = Inr db' \<Longrightarrow> keeps db db'"
    and membership: "keeps db (put_membership k m db)"
    and memberships: "keeps db (retarget_memberships organization role now db)"
    and tokens: "keeps db (consume_tokens consumed now db)"
    and revocations: "keeps db (revoke_invitations revoked now db)"
    and invitations: "keeps db (db\<lparr>db_invitations := table\<rparr>)"
    and users: "keeps db (db\<lparr>db_users := accounts\<rparr>)"
    and idempotency: "keeps db (db\<lparr>db_idempotency := keys\<rparr>)"
    and organization: "active_organization db organization = Some row \<Longrightarrow>
      o_authorization_revision row \<le> o_authorization_revision row' \<Longrightarrow> keeps db (put_organization organization row' db)"
begin

lemma finish: "finish_membership p user written old new db = Inr db' \<Longrightarrow> keeps db db'"
  by (auto simp: finish_membership_def result_simps dest: track validate_owner_count_Inr split: if_splits)

lemma track_all: "track_memberships gen before ks db = Inr db' \<Longrightarrow> keeps db db'"
  by (induction gen before ks db rule: track_memberships.induct) (auto simp: result_simps refl dest!: track intro: trans)

lemma update: "update_membership organization user old new db = Inr db' \<Longrightarrow> keeps db db'"
  by (auto simp: update_membership_def result_simps split: if_splits intro: trans [OF adjust membership])

lemma upsert: "upsert_membership organization user proposed db = Inr (old, new, db') \<Longrightarrow> keeps db db'"
  by (auto simp: upsert_membership_def result_simps Let_def split: if_splits option.splits
      intro: trans [OF adjust membership] trans [OF adjust update])

lemma toggle: "toggle_memberships disabled now ks db = Inr db' \<Longrightarrow> keeps db db'"
  by (induction disabled now ks db rule: toggle_memberships.induct)
     (auto simp: result_simps refl split: option.splits dest!: update intro: trans)

lemmas audited = trans [OF audit finish]

lemma assign_keeps: "assign_membership_role_sql pg_uuid p target next_role db = Inr (rows, db') \<Longrightarrow> keeps db db'"
  unfolding assign_membership_role_sql_def
  by (simp only: statement_inversions) (blast intro: refl trans [OF update audited])

lemma end_membership_keeps: "end_membership p user sid target t action db = Inr db' \<Longrightarrow> keeps db db'"
  unfolding end_membership_def
  by (simp only: statement_inversions) (blast intro: trans [OF update trans [OF sessions audited]])

lemma remove_keeps: "remove_membership_sql pg_uuid p target db = Inr (rows, db') \<Longrightarrow> keeps db db'"
  by (drule remove_effect) (auto intro: refl end_membership_keeps)

lemma leave_keeps: "leave_organization_sql pg_uuid p db = Inr (rows, db') \<Longrightarrow> keeps db db'"
  by (drule leave_effect) (auto intro: refl end_membership_keeps)

lemma select_keeps: "select_organization_sql pg_uuid p db = Inr (rows, db') \<Longrightarrow> keeps db db'"
  unfolding select_organization_sql_def
  by (simp only: statement_inversions) (blast intro: refl trans [OF sessions audit])

lemma transfer_keeps: "transfer_ownership_sql pg_uuid p target db = Inr (rows, db') \<Longrightarrow> keeps db db'"
  unfolding transfer_ownership_sql_def
  by (simp only: statement_inversions)
     (blast intro: refl trans [OF update audited] trans [OF update trans [OF update trans [OF audited finish]]])

lemma create_invitation_keeps: "create_invitation_sql pg_uuid p q db = Inr (rows, db') \<Longrightarrow> keeps db db'"
  unfolding create_invitation_sql_def
  by (simp only: statement_inversions)
     (blast intro: refl trans [OF trans [OF revocations invitations] trans [OF token trans [OF mail audit]]])

lemma revoke_invitation_keeps: "revoke_invitation_sql pg_uuid p invitation_id db = Inr (rows, db') \<Longrightarrow> keeps db db'"
  unfolding revoke_invitation_sql_def
  by (simp only: statement_inversions) (blast intro: refl trans [OF trans [OF invitations tokens] audit])

lemma resend_invitation_keeps: "resend_invitation_sql pg_uuid p q db = Inr (rows, db') \<Longrightarrow> keeps db db'"
  unfolding resend_invitation_sql_def
  by (simp only: statement_inversions)
     (blast intro: refl trans [OF trans [OF tokens invitations] trans [OF token trans [OF mail audit]]])

lemma accept_keeps: "accept_invitation_sql pg_uuid p token_hash db = Inr (rows, db') \<Longrightarrow> keeps db db'"
  unfolding accept_invitation_sql_def
  by (simp only: statement_inversions)
     (blast intro: refl invitations trans [OF trans [OF invitations tokens] trans [OF upsert trans [OF sessions audited]]])

lemma set_user_disabled_keeps: "set_user_disabled_sql pg_uuid p user disabled db = Inr (rows, db') \<Longrightarrow> keeps db db'"
  unfolding set_user_disabled_sql_def
  by (simp only: statement_inversions)
     (blast dest: validate_organizations_Inr intro: refl trans [OF users trans [OF toggle trans [OF sessions trans [OF audit track_all]]]])

lemma update_organization_keeps: 
  assumes "update_organization_sql pg_uuid p name db = Inr (rows, db')"
  shows "keeps db db'"
proof -
  have put: "keeps db (put_organization organization (row\<lparr>o_name := name, o_updated_at_ms := now\<rparr>) db)"
    if "active_organization db organization = Some row" for organization row now
    using that by (rule organization) simp
  show ?thesis
    using assms unfolding update_organization_sql_def
    by (simp only: statement_inversions) (blast intro: refl trans [OF put audit])
qed

lemma archive_keeps:
  assumes "archive_organization_sql pg_uuid p db = Inr (rows, db')"
  shows "keeps db db'"
proof -
  have put: "keeps db (put_organization organization (row\<lparr>o_status := status,
      o_authorization_revision := o_authorization_revision row + 1, o_updated_at_ms := now\<rparr>) db)"
    if "active_organization db organization = Some row" for organization row status now
    using that by (rule organization) simp
  show ?thesis
    using assms unfolding archive_organization_sql_def
    by (simp only: statement_inversions)
       (blast dest: validate_owner_count_Inr
         intro: refl trans [OF put trans [OF revocations trans [OF tokens trans [OF sessions audit]]]])
qed

text \<open>The statements on roles: the change of the tables and the new revision, then writes that respect the relation.\<close>

lemma upsert_role_keeps:
  assumes "upsert_role_sql pg_uuid p role name granted db = Inr (rows, db')"
  shows "db' = db \<or> (\<exists>roles db1. revise_organization (ap_organization p) (ap_now_ms p)
      (db\<lparr>db_roles := roles, db_role_permissions :=
        ffilter (\<lambda>(o', r, _). \<not> (o' = ap_organization p \<and> r = role)) (db_role_permissions db)
        |\<union>| (\<lambda>permission. (ap_organization p, role, permission)) |`| fset_of_list granted\<rparr>) = Inr db1 \<and> keeps db1 db')"
  using assms unfolding upsert_role_sql_def by (simp only: statement_inversions) (blast intro: audit)

lemma delete_role_keeps:
  assumes "delete_role_sql pg_uuid p role db = Inr (rows, db')"
  shows "db' = db \<or> (\<exists>before roles db1. keeps db before \<and> db_role_permissions before = db_role_permissions db
      \<and> db_organizations before = db_organizations db
      \<and> revise_organization (ap_organization p) (ap_now_ms p) (before\<lparr>db_roles := roles, db_role_permissions :=
          ffilter (\<lambda>(o', r, _). \<not> (o' = ap_organization p \<and> r = role)) (db_role_permissions before)\<rparr>) = Inr db1
      \<and> keeps db1 db')"
proof -
  let ?before = "retarget_invitations (ap_organization p) role (ap_now_ms p)
    (retarget_memberships (ap_organization p) role (ap_now_ms p) db)"
  have "keeps db ?before" unfolding retarget_invitations_def by (rule trans [OF memberships invitations])
  moreover have "db_role_permissions ?before = db_role_permissions db" "db_organizations ?before = db_organizations db"
    by (simp_all add: retarget_invitations_def retarget_memberships_def)
  moreover have "db' = db \<or> (\<exists>roles db1. revise_organization (ap_organization p) (ap_now_ms p)
      (?before\<lparr>db_roles := roles, db_role_permissions :=
          ffilter (\<lambda>(o', r, _). \<not> (o' = ap_organization p \<and> r = role)) (db_role_permissions ?before)\<rparr>) = Inr db1
      \<and> keeps db1 db')"
    using assms unfolding delete_role_sql_def
    by (simp only: statement_inversions) (blast intro: trans [OF audit track_all])
  ultimately show ?thesis by blast
qed

lemma create_keeps:
  assumes "create_organization_sql pg_uuid p db = Inr (rows, db')" and "db' \<noteq> db"
  obtains user where "fmlookup (db_organizations db) (cp_organization_id p) = None"
    and "keeps (new_organization_tables p user db) db'"
proof -
  obtain sid s where created: "organization_created p sid s db = Inr (rows, db')"
    using assms unfolding create_organization_sql_def with_session_Inr_iff
    by (auto split: option.splits if_splits simp del: lit_Cons lit_Nil)
  then have "keeps (new_organization_tables p (s_user_id s) db) db'"
    unfolding organization_created_def
    by (simp only: statement_inversions)
       (blast intro: trans [OF adjust trans [OF membership trans [OF sessions trans [OF audit trans [OF idempotency finish]]]]])
  moreover have "fmlookup (db_organizations db) (cp_organization_id p) = None"
    using created unfolding organization_created_def Let_def by (auto split: if_splits)
  ultimately show ?thesis using that by blast
qed

text \<open>A command of the services keeps what the three remaining statements keep.\<close>

lemma command_keeps:
  assumes role: "\<And>p role name granted rows db'. upsert_role_sql (se_pg_uuid env) p role name granted db = Inr (rows, db') \<Longrightarrow> keeps db db'"
    and drop: "\<And>p role rows db'. delete_role_sql (se_pg_uuid env) p role db = Inr (rows, db') \<Longrightarrow> keeps db db'"
    and create: "\<And>p rows db'. create_organization_sql (se_pg_uuid env) p db = Inr (rows, db') \<Longrightarrow> keeps db db'"
  shows "keeps db (run_command env command db)"
  using run_command_statement [of env command db] assms
  by (induction rule: command_statement.induct)
     (blast intro: refl assign_keeps remove_keeps leave_keeps select_keeps transfer_keeps create_invitation_keeps
       revoke_invitation_keeps resend_invitation_keeps accept_keeps set_user_disabled_keeps update_organization_keeps
       archive_keeps)+

end

end
