(* ===== verification/Ownership.thy ===== *)
theory Ownership
  imports Statement_Frames
begin

section \<open>Who may become an owner\<close>

text \<open>
  The roles that may transfer ownership along any history of the services, the authority behind every new
  owner, and what removing a member takes away.
\<close>

subsection \<open>What the statements leave of the permissions of roles\<close>

definition keeps_grants :: "kernel_db \<Rightarrow> kernel_db \<Rightarrow> bool" where
  "keeps_grants db db' \<longleftrightarrow> db_role_permissions db' |\<subseteq>| db_role_permissions db"

interpretation grants: statement_frame keeps_grants
  by unfold_locales
     (auto simp: keeps_grants_def update_sessions_def record_audit_def insert_mail_def insert_outbox_def insert_token_def
       revise_organization_def track_membership_authorization_def adjust_owner_count_def put_membership_def put_organization_def
       retarget_memberships_def consume_tokens_def revoke_invitations_def Let_def split: option.splits if_splits)

subsection \<open>Only owners may transfer ownership\<close>

definition guarded_roles :: "kernel_db \<Rightarrow> bool" where
  "guarded_roles db \<longleftrightarrow> (\<forall>organization role. role_has db organization role (lit ''ownership.transfer'') \<longrightarrow> role = lit ''owner'')"

lemma guarded_keeps: "keeps_grants db db' \<Longrightarrow> guarded_roles db \<Longrightarrow> guarded_roles db'"
  unfolding guarded_roles_def role_has_def keeps_grants_def by blast

lemma custom_role_permissions_Inr:
  assumes "custom_role_permissions requested = Inr granted"
  shows "set granted = permission_closure product_default (set requested)"
    and "\<And>permission. permission \<in> set granted \<Longrightarrow> is_allowed_for_custom_role product_default permission"
    and "lit ''ownership.transfer'' \<notin> set granted"
proof -
  from assms have expand: "expand_with_dependencies product_default (sorted_list_of_fset (fset_of_list requested)) = Inr granted"
    and valid: "validate_custom_role_permissions product_default granted = Inr ()"
    by (auto simp: custom_role_permissions_def result_simps)
  show "set granted = permission_closure product_default (set requested)"
    using expand by (simp add: expand_with_dependencies_Inr_iff sorted_list_of_fset.rep_eq fset_of_list.rep_eq)
  show allowed: "\<And>permission. permission \<in> set granted \<Longrightarrow> is_allowed_for_custom_role product_default permission"
    using valid by (simp add: validate_custom_role_permissions_Inr_iff)
  show "lit ''ownership.transfer'' \<notin> set granted" using allowed ownership_transfer_restricted by blast
qed

lemma upsert_role_guarded:
  assumes "upsert_role_sql pg_uuid p role name granted db = Inr (rows, db')" and "lit ''ownership.transfer'' \<notin> set granted"
    and "guarded_roles db"
  shows "guarded_roles db'"
proof (cases "db' = db")
  case False
  let ?permissions = "ffilter (\<lambda>(o', r, _). \<not> (o' = ap_organization p \<and> r = role)) (db_role_permissions db)
      |\<union>| (\<lambda>permission. (ap_organization p, role, permission)) |`| fset_of_list granted"
  from grants.upsert_role_keeps [OF assms(1)] False obtain roles where
      "keeps_grants (db\<lparr>db_roles := roles, db_role_permissions := ?permissions\<rparr>) db'"
    by (blast intro: grants.trans [OF grants.revise])
  moreover have "guarded_roles (db\<lparr>db_roles := roles, db_role_permissions := ?permissions\<rparr>)"
    using assms(2,3) by (auto simp: guarded_roles_def role_has_def fset_of_list_elem simp del: lit_Cons lit_Nil)
  ultimately show ?thesis by (rule guarded_keeps)
qed (use assms(3) in simp)

lemma delete_role_grants:
  assumes "delete_role_sql pg_uuid p role db = Inr (rows, db')"
  shows "keeps_grants db db'"
proof -
  have fewer: "keeps_grants before (before\<lparr>db_roles := roles, db_role_permissions := ffilter P (db_role_permissions before)\<rparr>)"
    for before roles P by (auto simp: keeps_grants_def)
  from grants.delete_role_keeps [OF assms] show ?thesis
    by (blast intro: grants.refl grants.trans [OF _ grants.trans [OF fewer grants.trans [OF grants.revise]]])
qed

lemma built_in_transfer:
  "list_all (\<lambda>(role, permission). permission = lit ''ownership.transfer'' \<longrightarrow> role = lit ''owner'') BUILT_IN_PERMISSIONS"
  by (simp add: BUILT_IN_PERMISSIONS_def del: lit_Cons lit_Nil)

lemma create_guarded:
  assumes "create_organization_sql pg_uuid p db = Inr (rows, db')" and "guarded_roles db"
  shows "guarded_roles db'"
proof (cases "db' = db")
  case False
  with assms(1) obtain user where "keeps_grants (new_organization_tables p user db) db'" by (rule grants.create_keeps)
  moreover have "guarded_roles (new_organization_tables p user db)"
    using assms(2) built_in_transfer
    by (auto simp: guarded_roles_def role_has_def new_organization_tables_def Let_def fset_of_list_elem list_all_iff simp del: lit_Cons lit_Nil)
  ultimately show ?thesis by (rule guarded_keeps)
qed (use assms(2) in simp)

lemma command_guarded:
  assumes "guarded_roles db"
  shows "guarded_roles (run_command env command db)"
  using run_command_statement [of env command db] assms
proof (induction rule: command_statement.induct)
  case (upserts p role n granted db rows db' t s requested o' n' r)
  then show ?case by (blast intro: upsert_role_guarded dest: custom_role_permissions_Inr(3))
next
  case (creates q db rows db' s t key n slug r)
  then show ?case by (blast intro: create_guarded)
qed (blast intro: guarded_keeps dest: delete_role_grants grants.assign_keeps grants.remove_keeps grants.leave_keeps
  grants.select_keeps grants.update_organization_keeps grants.archive_keeps grants.create_invitation_keeps
  grants.revoke_invitation_keeps grants.resend_invitation_keeps grants.accept_keeps grants.transfer_keeps
  grants.set_user_disabled_keeps)+

interpretation guarded: step_invariant "service_step env" guarded_roles
proof
  fix db db' assume "service_step env db db'" and "guarded_roles db"
  then show "guarded_roles db'"
    by cases (blast intro: command_guarded, auto intro: guarded_keeps simp: keeps_grants_def elsewhere_def)
qed

subsection \<open>The authority behind a new owner\<close>

definition gains_ownership :: "kernel_db \<Rightarrow> kernel_db \<Rightarrow> rstr \<Rightarrow> rstr \<Rightarrow> bool" where
  "gains_ownership db db' organization user \<longleftrightarrow>
     is_active_owner (fmlookup (db_memberships db') (organization, user))
     \<and> \<not> is_active_owner (fmlookup (db_memberships db) (organization, user))"

definition open_owner_invitation :: "kernel_db \<Rightarrow> int \<Rightarrow> rstr \<Rightarrow> user_row \<Rightarrow> bool" where
  "open_owner_invitation db now organization u \<longleftrightarrow> (\<exists>k i. fmlookup (db_invitations db) k = Some i \<and> pending_in organization i
     \<and> i_role_id i = lit ''owner'' \<and> i_normalized_email i = u_normalized_email u \<and> i_expires_at_ms i > now)"

definition ownership_authority :: "service_env \<Rightarrow> management_command \<Rightarrow> kernel_db \<Rightarrow> rstr \<Rightarrow> rstr \<Rightarrow> bool" where
  "ownership_authority env command db organization user \<longleftrightarrow> (\<exists>s u. acting env command db = Some (s, u) \<and>
     (elevated s \<and> is_active_owner (fmlookup (db_memberships db) (organization, s_user_id s))
      \<or> elevated s \<and> s_user_id s = user
          \<and> open_owner_invitation db (u64_to_i64 (moment_ms (command_moment command))) organization u
      \<or> s_user_id s = user \<and> fmlookup (db_organizations db) organization = None
      \<or> elevated s \<and> is_system_administrator db (s_user_id s)
          \<and> (\<exists>m. fmlookup (db_memberships db) (organization, user) = Some m \<and> m_role_id m = lit ''owner'' \<and> m_status m = lit ''blocked'')))"

lemma no_gain_refl [simp]: "\<not> gains_ownership db db organization user"
  by (simp add: gains_ownership_def)

lemma no_gain_keeps: "keeps_tenancy db db' \<Longrightarrow> \<not> gains_ownership db db' organization user"
  by (simp add: gains_ownership_def keeps_tenancy_def)

lemma gains_keeps_iff: "keeps_tenancy db1 db' \<Longrightarrow> gains_ownership db db' organization user = gains_ownership db db1 organization user"
  by (simp add: gains_ownership_def keeps_tenancy_def)

lemma gains_update:
  assumes "update_membership organization' user' old new db = Inr db1" and "fmlookup (db_memberships db) (organization', user') = Some old"
  shows "gains_ownership db db1 organization user \<longleftrightarrow>
    organization = organization' \<and> user = user' \<and> is_active_owner (Some new) \<and> \<not> is_active_owner (Some old)"
  using assms(2) by (auto simp: gains_ownership_def update_membership_Inr(1) [OF assms(1)])

lemma owner_actor:
  assumes "guarded_roles db" and "member_actor db now sid organization permission needs = Some (s, actor)"
    and "can_transfer_ownership db organization actor"
  shows "is_active_owner (fmlookup (db_memberships db) (organization, s_user_id s))"
  using assms(1,3) member_actor_Some(1,2) [OF assms(2)]
  unfolding guarded_roles_def can_transfer_ownership_def is_active_owner_def by (simp del: lit_Cons lit_Nil)

lemma assign_authority:
  assumes "assign_membership_role_sql pg_uuid p target next_role db = Inr (rows, db')" "guarded_roles db"
    and gains: "gains_ownership db db' organization user"
  shows "\<exists>sid s u. pg_uuid (ap_session p) = Some sid \<and> session_usable db (ap_now_ms p) sid = Some (s, u) \<and> elevated s
    \<and> is_active_owner (fmlookup (db_memberships db) (organization, s_user_id s))"
proof -
  from assign_effect [OF assms(1)] gains obtain sid s actor t db1 where sid: "pg_uuid (ap_session p) = Some sid"
    and actor: "member_actor db (ap_now_ms p) sid (ap_organization p) (Some (lit ''member.manage'')) True = Some (s, actor)"
    and t: "fmlookup (db_memberships db) (ap_organization p, target) = Some t" "m_status t = lit ''active''"
    and may: "m_role_id t \<noteq> lit ''owner'' \<and> next_role \<noteq> lit ''owner'' \<or> can_transfer_ownership db (ap_organization p) actor"
    and update: "update_membership (ap_organization p) target t (t\<lparr>m_role_id := next_role, m_updated_at_ms := ap_now_ms p\<rparr>) db = Inr db1"
    and keeps: "keeps_tenancy db1 db'"
    using no_gain_refl unfolding active_membership_Some_iff by blast
  from gains keeps have "gains_ownership db db1 organization user" by (simp add: gains_keeps_iff)
  with gains_update [OF update t(1)] t(2) have "organization = ap_organization p" "next_role = lit ''owner''"
    by (auto simp: is_active_owner_def simp del: lit_Cons lit_Nil)
  with may owner_actor [OF assms(2) actor] member_actor_Some(4,5) [OF actor] sid show ?thesis by blast
qed

lemma end_membership_no_gain:
  assumes "end_membership p user' sid target t action db = Inr db'" and "fmlookup (db_memberships db) (ap_organization p, target) = Some t"
  shows "\<not> gains_ownership db db' organization user"
proof -
  from end_membership_effect [OF assms(1)] obtain db1 where
      "update_membership (ap_organization p) target t (t\<lparr>m_status := lit ''removed'', m_updated_at_ms := ap_now_ms p\<rparr>) db = Inr db1"
      "keeps_tenancy db1 db'" by blast
  then show ?thesis by (auto simp: gains_keeps_iff gains_update [OF _ assms(2)] is_active_owner_def)
qed

lemma transfer_authority:
  assumes "transfer_ownership_sql pg_uuid p target db = Inr (rows, db')" "guarded_roles db"
    and gains: "gains_ownership db db' organization user"
  shows "\<exists>sid s u. pg_uuid (ap_session p) = Some sid \<and> session_usable db (ap_now_ms p) sid = Some (s, u) \<and> elevated s
    \<and> is_active_owner (fmlookup (db_memberships db) (organization, s_user_id s))"
proof -
  from transfer_effect [OF assms(1)] gains obtain sid s actor t db1 db2 where sid: "pg_uuid (ap_session p) = Some sid"
    and actor: "member_actor db (ap_now_ms p) sid (ap_organization p) (Some (lit ''ownership.transfer'')) True = Some (s, actor)"
    and update: "update_membership (ap_organization p) target t (t\<lparr>m_role_id := lit ''owner'', m_updated_at_ms := ap_now_ms p\<rparr>) db = Inr db1"
    and demoted: "db2 = db1 \<or> update_membership (ap_organization p) (s_user_id s) actor
            (actor\<lparr>m_role_id := lit ''admin'', m_updated_at_ms := ap_now_ms p\<rparr>) db1 = Inr db2"
    and keeps: "keeps_tenancy db2 db'" using no_gain_refl by blast
  have "db_memberships db2 = db_memberships db1 \<or> db_memberships db2 = fmupd (ap_organization p, s_user_id s)
      (actor\<lparr>m_role_id := lit ''admin'', m_updated_at_ms := ap_now_ms p\<rparr>) (db_memberships db1)"
    using demoted update_membership_Inr(1) by blast
  moreover have "gains_ownership db db2 organization user" using gains keeps by (simp add: gains_keeps_iff)
  ultimately have "organization = ap_organization p"
    by (auto simp: gains_ownership_def update_membership_Inr(1) [OF update] split: if_splits)
  moreover have "can_transfer_ownership db (ap_organization p) actor"
    using member_actor_Some(3) [OF actor refl] by (simp only: can_transfer_ownership_def)
  ultimately show ?thesis using owner_actor [OF assms(2) actor] member_actor_Some(4,5) [OF actor] sid by blast
qed

lemma toggled_gain:
  "is_active_owner (Some (toggled disabled now m)) \<Longrightarrow> \<not> is_active_owner (Some m) \<Longrightarrow>
   m_role_id m = lit ''owner'' \<and> m_status m = lit ''blocked''"
  by (auto simp: toggled_def is_active_owner_def simp del: lit_Cons lit_Nil split: if_splits)

lemma toggled_blocked:
  "m_role_id (toggled disabled now m) = lit ''owner'' \<Longrightarrow> m_status (toggled disabled now m) = lit ''blocked'' \<Longrightarrow>
   \<not> is_active_owner (Some m) \<Longrightarrow> m_role_id m = lit ''owner'' \<and> m_status m = lit ''blocked''"
  by (auto simp: toggled_def is_active_owner_def simp del: lit_Cons lit_Nil split: if_splits)

lemma toggle_gain:
  "toggle_memberships disabled now ks db = Inr db' \<Longrightarrow> gains_ownership db db' organization user \<Longrightarrow>
   \<exists>m. fmlookup (db_memberships db) (organization, user) = Some m \<and> m_role_id m = lit ''owner'' \<and> m_status m = lit ''blocked''"
proof (induction disabled now ks db rule: toggle_memberships.induct)
  case (2 disabled now k ks db)
  show ?case
  proof (cases "fmlookup (db_memberships db) k")
    case None
    with "2.prems" "2.IH"(1) [OF None] show ?thesis by simp
  next
    case (Some m)
    with "2.prems" obtain db1 where db1: "update_membership (fst k) (snd k) m (toggled disabled now m) db = Inr db1"
        "toggle_memberships disabled now ks db1 = Inr db'"
      by (auto simp: rbind_Inr_iff)
    have lookup: "fmlookup (db_memberships db1) (organization, user) = (if k = (organization, user) then Some (toggled disabled now m)
        else fmlookup (db_memberships db) (organization, user))"
      by (cases k) (simp add: update_membership_Inr(1) [OF db1(1)])
    show ?thesis
    proof (cases "gains_ownership db1 db' organization user")
      case True
      from "2.IH"(2) [OF Some db1(2) True] Some "2.prems"(2) show ?thesis
        by (auto simp: lookup gains_ownership_def dest: toggled_blocked simp del: lit_Cons lit_Nil split: if_splits)
    next
      case False
      with "2.prems"(2) Some toggled_gain show ?thesis
        by (auto simp: lookup gains_ownership_def simp del: lit_Cons lit_Nil split: if_splits)
    qed
  qed
qed simp

lemma accept_authority:
  assumes "accept_invitation_sql pg_uuid p token_hash db = Inr (rows, db')" and gains: "gains_ownership db db' organization user"
  shows "\<exists>sid s u. pg_uuid (ap_session p) = Some sid \<and> session_usable db (ap_now_ms p) sid = Some (s, u) \<and> elevated s
    \<and> s_user_id s = user \<and> open_owner_invitation db (ap_now_ms p) organization u"
proof -
  from accept_effect [OF assms(1)] gains obtain sid s u invitation_id and i :: invitation_row and row db1 db2 old new where
      sid: "pg_uuid (ap_session p) = Some sid" "session_usable db (ap_now_ms p) sid = Some (s, u)"
    and i: "invitation_by_hash db token_hash = Some (invitation_id, i)" "acceptable (ap_now_ms p) s u i"
    and row: "active_organization db (i_organization_id i) = Some row" and keeps: "keeps_tenancy db db1" "keeps_tenancy db2 db'"
    and upsert: "upsert_membership (i_organization_id i) (s_user_id s)
          \<lparr>m_role_id = i_role_id i, m_status = lit ''active'', m_joined_at_ms = ap_now_ms p, m_updated_at_ms = ap_now_ms p\<rparr> db1
          = Inr (old, new, db2)"
    using no_gain_keeps by blast
  obtain row1 where row1: "fmlookup (db_organizations db1) (i_organization_id i) = Some row1"
    using keeps_found [OF keeps(1), of "i_organization_id i"] row by (auto simp: active_organization_Some_iff)
  have "db_memberships db2 = fmupd (i_organization_id i, s_user_id s) new (db_memberships db)"
    using upsert_membership_Inr(2) [OF upsert row1] keeps(1) by (simp add: keeps_tenancy_def)
  moreover have "gains_ownership db db2 organization user" using gains keeps(2) by (simp add: gains_keeps_iff)
  ultimately have key: "organization = i_organization_id i" "user = s_user_id s" and "is_active_owner (Some new)"
    by (auto simp: gains_ownership_def split: if_splits)
  with upsert_membership_Inr(3) [OF upsert row1] have role: "i_role_id i = lit ''owner''"
    by (simp add: is_active_owner_def del: lit_Cons lit_Nil)
  have "fmlookup (db_invitations db) invitation_id = Some i"
    using i(1) by (auto simp: invitation_by_hash_def bind_eq_Some_conv)
  with i(2) role key have "open_owner_invitation db (ap_now_ms p) organization u" "elevated s"
    unfolding open_owner_invitation_def acceptable_def pending_in_def by (auto simp del: lit_Cons lit_Nil)
  with sid key show ?thesis by blast
qed

lemma create_authority:
  assumes "create_organization_sql pg_uuid q db = Inr (rows, db')" and gains: "gains_ownership db db' organization user"
  shows "\<exists>sid s u. pg_uuid (cp_session q) = Some sid \<and> session_usable db (cp_now_ms q) sid = Some (s, u) \<and> s_user_id s = user
    \<and> fmlookup (db_organizations db) organization = None"
proof -
  from create_effect [OF assms(1)] gains obtain sid s u founder db1 where sid: "pg_uuid (cp_session q) = Some sid"
      "session_usable db (cp_now_ms q) sid = Some (s, u)" and fresh: "fmlookup (db_organizations db) (cp_organization_id q) = None"
    and adjust: "adjust_owner_count (cp_organization_id q) None (Some founder) (new_organization_tables q (s_user_id s) db) = Inr db1"
    and keeps: "keeps_tenancy (put_membership (cp_organization_id q, s_user_id s) founder db1) db'"
    using no_gain_refl by blast
  have "db_memberships db1 = db_memberships db"
    using adjust_owner_count_Inr(1) [OF adjust] by (simp add: new_organization_tables_def Let_def)
  moreover have "gains_ownership db (put_membership (cp_organization_id q, s_user_id s) founder db1) organization user"
    using gains keeps by (simp add: gains_keeps_iff)
  ultimately have "organization = cp_organization_id q" "user = s_user_id s"
    by (auto simp: gains_ownership_def put_membership_def split: if_splits)
  with sid fresh show ?thesis by blast
qed

lemma set_user_disabled_authority:
  assumes "set_user_disabled_sql pg_uuid p user' disabled db = Inr (rows, db')" and gains: "gains_ownership db db' organization user"
  shows "\<exists>sid s u. pg_uuid (ap_session p) = Some sid \<and> session_usable db (ap_now_ms p) sid = Some (s, u) \<and> elevated s
    \<and> is_system_administrator db (s_user_id s)
    \<and> (\<exists>m. fmlookup (db_memberships db) (organization, user) = Some m \<and> m_role_id m = lit ''owner'' \<and> m_status m = lit ''blocked'')"
proof -
  from set_user_disabled_effect [OF assms(1)] gains obtain sid s u v db1 where "pg_uuid (ap_session p) = Some sid"
      "session_usable db (ap_now_ms p) sid = Some (s, v)" "is_system_administrator db (s_user_id s)" "elevated s"
    and toggle: "toggle_memberships disabled (ap_now_ms p) (affected_memberships db user') (db\<lparr>db_users := fmupd user' u (db_users db)\<rparr>) = Inr db1"
    and keeps: "keeps_tenancy db1 db'" using no_gain_refl by blast
  moreover have "gains_ownership (db\<lparr>db_users := fmupd user' u (db_users db)\<rparr>) db1 organization user"
    using gains keeps by (simp add: gains_keeps_iff) (simp add: gains_ownership_def)
  from toggle_gain [OF toggle this]
  have "\<exists>m. fmlookup (db_memberships db) (organization, user) = Some m \<and> m_role_id m = lit ''owner'' \<and> m_status m = lit ''blocked''"
    by (simp del: lit_Cons lit_Nil)
  ultimately show ?thesis by blast
qed

lemma delete_role_no_gain:
  assumes "delete_role_sql pg_uuid p role db = Inr (rows, db')"
  shows "\<not> gains_ownership db db' organization user"
proof
  assume gains: "gains_ownership db db' organization user"
  with delete_role_effect [OF assms] obtain db1 where
      "db_memberships db1 = db_memberships (retarget_memberships (ap_organization p) role (ap_now_ms p) db)" "keeps_tenancy db1 db'"
    using no_gain_refl by blast
  with gains show False by (simp add: gains_keeps_iff) (simp add: gains_ownership_def is_active_owner_retarget)
qed

lemma command_authority:
  assumes "guarded_roles db" and "gains_ownership db (run_command env command db) organization user"
  shows "ownership_authority env command db organization user"
  using run_command_statement [of env command db] assms
proof (induction rule: command_statement.induct)
  case (assigns p u' role db rows db' t s o' u r)
  from assign_authority [OF assigns(1,3,4)] assigns(2) show ?case
    by (auto simp: ownership_authority_def acting_def acts_as_def)
next
  case (transfers p u' db rows db' t s o' u r)
  from transfer_authority [OF transfers(1,3,4)] transfers(2) show ?case
    by (auto simp: ownership_authority_def acting_def acts_as_def)
next
  case (accepts p token db rows db' t s r)
  from accept_authority [OF accepts(1,4)] accepts(2) show ?case
    by (auto simp: ownership_authority_def acting_def acts_as_def)
next
  case (disables p u' disabled db rows db' t s u r)
  from set_user_disabled_authority [OF disables(1,4)] disables(2) show ?case
    unfolding ownership_authority_def acting_def acts_as_def command_session.simps command_moment.simps by auto
next
  case (creates q db rows db' s t key n slug r)
  from create_authority [OF creates(1,5)] creates(2,3) show ?case
    by (auto simp: ownership_authority_def acting_def)
next
  case (removes p u' db rows db' t s o' u r)
  from remove_effect [OF removes(1)] removes(4) end_membership_no_gain show ?case
    unfolding active_membership_Some_iff using no_gain_refl by blast
next
  case (leaves p db rows db' t s o' r)
  from leave_effect [OF leaves(1)] leaves(4) show ?case
    by (auto dest!: member_actor_Some(1) dest: end_membership_no_gain)
next
  case (archives p db rows db' t s o' r)
  have "db_memberships (put_organization organization' row db) = db_memberships db" for organization' row
    by (simp add: put_organization_def)
  with archive_effect [OF archives(1)] archives(4) show ?case
    by (auto simp: gains_keeps_iff) (auto simp: gains_ownership_def)
next
  case (deletes p role db rows db' t s o' r)
  with delete_role_no_gain show ?case by blast
qed (blast dest: no_gain_keeps [OF select_effect] no_gain_keeps [OF update_organization_effect] no_gain_keeps [OF upsert_role_effect]
  no_gain_keeps [OF create_invitation_effect] no_gain_keeps [OF revoke_invitation_effect] no_gain_keeps [OF resend_invitation_effect]
  no_gain_refl [THEN notE])+

text \<open>
  C10: Nobody becomes an owner without authority. In any state that a history of the management services reaches
  from tables whose roles other than \<open>owner\<close> lack \<open>ownership.transfer\<close>, a command that makes someone an active
  owner of an organization acts for a usable session which either belongs to an active owner of that
  organization and has a second factor, or has a second factor and belongs to that person, whose e-mail
  address has an unexpired pending owner invitation, or founds the organization for that person, or belongs
  to a system administrator who unblocks an owner.
\<close>

theorem ownership_is_authorized:
  assumes "(service_step env)\<^sup>*\<^sup>* db0 db" and "guarded_roles db0"
    and "gains_ownership db (run_command env command db) organization user"
  shows "ownership_authority env command db organization user"
  using command_authority guarded.steps_preserve assms by blast

definition sample_accept_command :: management_command where
  "sample_accept_command = AcceptInvitation sample_moment (lit ''sb'') (replicate 32 65) (lit ''r'')"

lemma sample_accept_gains: "gains_ownership sample_tenancy (run_command sample_service_env sample_accept_command sample_tenancy) (lit ''o'') (lit ''b'')"
proof -
  let ?p = "actor_of sample_moment (lit ''sb'') [] (map unat (uuid_v7 (moment_ms sample_moment) (replicate 10 0))) (lit ''r'')"
  have now: "ap_session ?p = lit ''sb''" "ap_now_ms ?p = 2000"
    by (simp_all add: actor_of_def sample_moment_def moment_ms_def saturating_mul_def u64_to_i64_def)
  obtain rows db' where accepted: "accept_invitation_sql Some ?p [7] sample_tenancy = Inr (rows, db')"
      "is_active_owner (fmlookup (db_memberships db') (lit ''o'', lit ''b''))"
    using sample_accepts [OF now] by blast
  have "run_command sample_service_env sample_accept_command sample_tenancy = db'"
    using accepted(1)
    by (simp add: sample_accept_command_def accept_invitation_def prepared_query_def management_query_def sample_service_env_def
        management_draw_def draw_uuid_def sample_moment_def is_control_def list_ex_iff str_len_def str_bytes_def utf8_char_def
        del: lit_Cons lit_Nil)
  with accepted(2) show ?thesis by (simp add: gains_ownership_def sample_memberships is_active_owner_def sample_membership_def)
qed

theorem ownership_is_authorized_witness:
  "gains_ownership sample_tenancy (run_command sample_service_env sample_accept_command sample_tenancy) (lit ''o'') (lit ''b'')
   \<and> ownership_authority sample_service_env sample_accept_command sample_tenancy (lit ''o'') (lit ''b'')"
proof -
  have "guarded_roles sample_tenancy"
    by (auto simp: guarded_roles_def role_has_def sample_tenancy_def)
  from ownership_is_authorized [OF rtranclp.rtrancl_refl this sample_accept_gains] sample_accept_gains show ?thesis by blast
qed

subsection \<open>What removing a member takes away\<close>

lemma loaded_membership:
  assumes "load_verified_session_with_signing_key parse_uuid db session_text rid now key = Inr vs"
    and "vac_organization_id (vrc_auth (vs_context vs)) = Some organization"
  shows "\<exists>m. fmlookup (db_memberships db) (organization, pr_user_id (vac_principal (vrc_auth (vs_context vs)))) = Some m
    \<and> m_status m = lit ''active''"
proof -
  from assms(1) obtain sid s u row m where "session_join db sid = Some (s, u, row, m)"
      "session_where (u64_to_i64 (saturating_mul now 1000)) (s, u, row, m)"
      and vs: "verified_session_of (request_context_row db sid (s, u, row, m)) rid = Inr vs"
    by (rule load_verified_session_Inr)
  with assms(2) show ?thesis
    by (auto simp: verified_session_of_Inr(3) [OF vs] from_verified_def session_join_Some session_where_def bind_eq_Some_conv
        split: if_splits simp del: lit_Cons lit_Nil)
qed

lemma end_membership_status:
  assumes "end_membership p user sid target t action db = Inr db'"
  shows "\<exists>m. fmlookup (db_memberships db') (ap_organization p, target) = Some m \<and> m_status m = lit ''removed''"
proof -
  from end_membership_effect [OF assms] obtain db1 where
      update: "update_membership (ap_organization p) target t (t\<lparr>m_status := lit ''removed'', m_updated_at_ms := ap_now_ms p\<rparr>) db = Inr db1"
    and "keeps_tenancy db1 db'" by blast
  then have "db_memberships db' = fmupd (ap_organization p, target)
      (t\<lparr>m_status := lit ''removed'', m_updated_at_ms := ap_now_ms p\<rparr>) (db_memberships db)"
    by (simp add: keeps_tenancy_def update_membership_Inr(1) [OF update])
  then show ?thesis by simp
qed

lemma remove_member_Inr:
  assumes "remove_member env moment session organization user request_id db = (Inr (), db')"
    and "se_parse_uuid env organization = Some organization'" and "se_parse_uuid env user = Some user'"
  shows "\<exists>m. fmlookup (db_memberships db') (organization', user') = Some m \<and> m_status m = lit ''removed''"
proof -
  from assms obtain audit_id rows where
      stmt: "remove_membership_sql (se_pg_uuid env) (actor_of moment session organization' audit_id request_id) user' db = Inr (rows, db')"
    and outcome: "expect_outcome ''removed'' rows = Inr ()"
    by (auto simp: remove_member_def prepared_query_def management_query_def management_uuid_def result_simps
        split: sum.splits prod.splits)
  from outcome have "rows \<noteq> []" by (auto simp: expect_outcome_def has_outcome_def split: if_splits)
  with remove_effect [OF stmt] obtain s sid t where
      "end_membership (actor_of moment session organization' audit_id request_id) (s_user_id (s :: session_row)) sid user' t (lit ''member.remove'') db = Inr db'"
    by blast
  from end_membership_status [OF this] show ?thesis by (simp add: actor_of_def del: lit_Cons lit_Nil)
qed

text \<open>
  C12: Removing a member takes the organization away at once. After a successful \<open>remove_member\<close>, and after
  anything the other components then do to sessions, users and tokens, no session of that user loads with
  that organization selected, so no permission of it is granted to them.
\<close>

theorem removed_member_loses_organization:
  assumes "remove_member env moment session organization user request_id db = (Inr (), db')"
    and "se_parse_uuid env organization = Some organization'" and "se_parse_uuid env user = Some user'"
    and "elsewhere db' db''"
    and "load_verified_session_with_signing_key parse_uuid db'' session_text rid now key = Inr vs"
    and "pr_user_id (vac_principal (vrc_auth (vs_context vs))) = user'"
  shows "vac_organization_id (vrc_auth (vs_context vs)) \<noteq> Some organization'"
proof
  assume "vac_organization_id (vrc_auth (vs_context vs)) = Some organization'"
  from loaded_membership [OF assms(5) this] remove_member_Inr [OF assms(1-3)] assms(4,6) show False
    by (auto simp: elsewhere_def simp del: lit_Cons lit_Nil)
qed

lemma sample_removes:
  assumes p: "ap_session p = lit ''sa''" "ap_now_ms p = 2000" "ap_organization p = lit ''o''"
  shows "\<exists>db'. remove_membership_sql Some p (lit ''b'') sample_tenancy = Inr (outcome_only ''removed'', db')
    \<and> db_users db' = db_users sample_tenancy \<and> db_policy_bundles db' = fmempty
    \<and> fmlookup (db_sessions db') (lit ''sb'') = Some ((sample_session ''b'')\<lparr>s_selected_organization_id := None,
        s_session_revision := 2, s_updated_at_ms := 2000\<rparr>)"
proof -
  have usable: "session_usable sample_tenancy 2000 (lit ''sa'') = Some (sample_session ''a'', sample_user ''a@x.y'')"
    by (simp add: session_usable_def sample_tenancy_def sample_session_def sample_user_def)
  have granted: "role_has sample_tenancy (lit ''o'') (lit ''owner'') (lit ''member.manage'')"
    by (simp add: role_has_def sample_tenancy_def)
  have actor: "member_actor sample_tenancy 2000 (lit ''sa'') (lit ''o'') (Some (lit ''member.manage'')) True
      = Some (sample_session ''a'', sample_membership ''owner'')"
    by (simp add: member_actor_def usable granted sample_memberships elevated_def del: lit_Cons lit_Nil)
       (simp add: sample_session_def sample_membership_def granted del: lit_Cons lit_Nil)
  have target: "active_membership sample_tenancy (lit ''o'') (lit ''b'') = Some (sample_membership ''member'')"
    by (simp add: active_membership_Some_iff sample_memberships sample_membership_def)
  have role: "m_role_id (sample_membership ''member'') = lit ''member''" "s_user_id (sample_session ''a'') = lit ''a''"
    by (simp_all add: sample_membership_def sample_session_def)
  show ?thesis
    by (simp add: remove_membership_sql_def with_session_def p actor target sample_guards role Let_def del: lit_Cons lit_Nil)
       (simp add: end_membership_def statement_defs sample_data clear_selection_def p Let_def del: lit_Cons lit_Nil)
qed

lemma sample_removal:
  "\<exists>db'. remove_member sample_service_env sample_moment (lit ''sa'') (lit ''o'') (lit ''b'') (lit ''r'') sample_tenancy = (Inr (), db')
     \<and> (\<exists>vs. load_verified_session_with_signing_key Some db' (lit ''sb'') (lit ''r'') 2 [] = Inr vs
          \<and> pr_user_id (vac_principal (vrc_auth (vs_context vs))) = lit ''b'')"
proof -
  let ?p = "actor_of sample_moment (lit ''sa'') (lit ''o'') (map unat (uuid_v7 (moment_ms sample_moment) (replicate 10 0))) (lit ''r'')"
  let ?s = "(sample_session ''b'')\<lparr>s_selected_organization_id := None, s_session_revision := 2, s_updated_at_ms := 2000\<rparr>"
  have "ap_session ?p = lit ''sa''" "ap_now_ms ?p = 2000" "ap_organization ?p = lit ''o''"
    by (simp_all add: actor_of_def sample_moment_def moment_ms_def saturating_mul_def u64_to_i64_def)
  from sample_removes [OF this] obtain db' where
      stmt: "remove_membership_sql Some ?p (lit ''b'') sample_tenancy = Inr (outcome_only ''removed'', db')"
    and db': "db_users db' = db_users sample_tenancy" "db_policy_bundles db' = fmempty" "fmlookup (db_sessions db') (lit ''sb'') = Some ?s"
    by blast
  have "remove_member sample_service_env sample_moment (lit ''sa'') (lit ''o'') (lit ''b'') (lit ''r'') sample_tenancy = (Inr (), db')"
    using stmt by (simp add: remove_member_def prepared_query_def management_query_def management_uuid_def management_draw_def draw_uuid_def
        sample_service_env_def sample_moment_def expect_outcome_def has_outcome_def outcome_only_def row_new_lookup required_text_lookup
        del: lit_Cons lit_Nil)
  moreover have join: "session_join db' (lit ''sb'') = Some (?s, sample_user ''b@x.y'', None, None)"
    using db' by (simp add: session_join_Some sample_tenancy_def sample_session_def)
  moreover have "session_where 2000 (?s, sample_user ''b@x.y'', None, None)"
    by (simp add: session_where_def sample_session_def sample_user_def)
  moreover have "\<exists>vs. verified_session_of (request_context_row db' (lit ''sb'') (?s, sample_user ''b@x.y'', None, None)) (lit ''r'') = Inr vs"
    by (rule verified_session_of_succeeds)
       (simp_all add: sample_session_def sample_user_def valid_identifier_def is_control_def is_whitespace_def db'(2)
        active_policy_revision_def role_permissions_def sorted_list_of_fset.rep_eq str_len_def utf8_char_def)
  ultimately show ?thesis
    by (auto simp: load_verified_session_with_signing_key_def load_request_context_sql_def saturating_mul_def u64_to_i64_def
        verified_session_of_Inr(3) from_verified_def sample_session_def simp del: lit_Cons lit_Nil)
qed

theorem removed_member_loses_organization_witness:
  "\<exists>db' vs. remove_member sample_service_env sample_moment (lit ''sa'') (lit ''o'') (lit ''b'') (lit ''r'') sample_tenancy = (Inr (), db')
     \<and> load_verified_session_with_signing_key Some db' (lit ''sb'') (lit ''r'') 2 [] = Inr vs
     \<and> vac_organization_id (vrc_auth (vs_context vs)) \<noteq> Some (lit ''o'')"
proof -
  from sample_removal obtain db' vs where
      run: "remove_member sample_service_env sample_moment (lit ''sa'') (lit ''o'') (lit ''b'') (lit ''r'') sample_tenancy = (Inr (), db')"
    and load: "load_verified_session_with_signing_key Some db' (lit ''sb'') (lit ''r'') 2 [] = Inr vs"
      "pr_user_id (vac_principal (vrc_auth (vs_context vs))) = lit ''b''" by blast
  have uuid: "se_parse_uuid sample_service_env x = Some x" for x by (simp add: sample_service_env_def)
  have "elsewhere db' db'" by (simp add: elsewhere_def)
  from removed_member_loses_organization [OF run uuid uuid this load] run load(1) show ?thesis by blast
qed

end
