(* ===== verification/Token_Currency.thy ===== *)
theory Token_Currency
  imports Ownership Access_Tokens
begin

section \<open>Cached verification over histories of the services\<close>

text \<open>
  The fingerprint that lets a verified token be reused does not carry the permissions of the role, only the
  authorization revision of the organization. It is enough because no command of the services changes the
  permissions of a role without a new revision; this theory shows that along any history, and with it that
  \<open>verify_cached\<close> never serves what the tables no longer say.
\<close>

subsection \<open>Permissions change only with the revision\<close>

definition organization_permissions :: "kernel_db \<Rightarrow> rstr \<Rightarrow> (rstr \<times> rstr \<times> rstr) fset" where
  "organization_permissions db organization = ffilter (\<lambda>(o', _). o' = organization) (db_role_permissions db)"

definition revises :: "kernel_db \<Rightarrow> kernel_db \<Rightarrow> bool" where
  "revises db db' \<longleftrightarrow> (\<forall>organization row. fmlookup (db_organizations db) organization = Some row \<longrightarrow>
     (\<exists>row'. fmlookup (db_organizations db') organization = Some row'
        \<and> o_authorization_revision row \<le> o_authorization_revision row'
        \<and> (o_authorization_revision row = o_authorization_revision row' \<longrightarrow>
             organization_permissions db organization = organization_permissions db' organization)))"

lemmas revises_defs = revises_def organization_permissions_def

lemma revises_same:
  "db_organizations db' = db_organizations db \<Longrightarrow> db_role_permissions db' = db_role_permissions db \<Longrightarrow> revises db db'"
  by (simp add: revises_def organization_permissions_def)

lemma revises_trans:
  assumes "revises a b" and "revises b c"
  shows "revises a c"
  unfolding revises_def
proof (intro allI impI)
  fix organization row assume "fmlookup (db_organizations a) organization = Some row"
  with assms(1) obtain row' where 1: "fmlookup (db_organizations b) organization = Some row'"
      "o_authorization_revision row \<le> o_authorization_revision row'"
      "o_authorization_revision row = o_authorization_revision row' \<longrightarrow>
         organization_permissions a organization = organization_permissions b organization"
    unfolding revises_def by blast
  from assms(2) 1(1) obtain row'' where "fmlookup (db_organizations c) organization = Some row''"
      "o_authorization_revision row' \<le> o_authorization_revision row''"
      "o_authorization_revision row' = o_authorization_revision row'' \<longrightarrow>
         organization_permissions b organization = organization_permissions c organization"
    unfolding revises_def by blast
  with 1 show "\<exists>row'. fmlookup (db_organizations c) organization = Some row'
      \<and> o_authorization_revision row \<le> o_authorization_revision row'
      \<and> (o_authorization_revision row = o_authorization_revision row' \<longrightarrow>
           organization_permissions a organization = organization_permissions c organization)"
    by auto
qed

interpretation revision: statement_frame revises
proof
  show "revises db db" for db by (simp add: revises_same)
  show "revises a c" if "revises a b" "revises b c" for a b c using that by (rule revises_trans)
  show "revises db db'" if "revise_organization organization now db = Inr db'" for organization now db db'
    using that by (auto simp: revise_organization_def put_organization_def revises_defs split: option.splits if_splits)
  show "revises db db'" if "track_membership_authorization gen organization user old new db = Inr db'"
    for gen organization user old new db db'
    using that
    by (auto simp: track_membership_authorization_def Let_def put_organization_def insert_outbox_def revises_defs
        split: option.splits if_splits)
  show "revises db db'" if "adjust_owner_count organization old new db = Inr db'" for organization old new db db'
    using that by (auto simp: adjust_owner_count_def put_organization_def revises_defs split: option.splits if_splits)
  show "revises db (put_organization organization row' db)" if "active_organization db organization = Some row"
    "o_authorization_revision row \<le> o_authorization_revision row'" for db organization row row'
    using that by (auto simp: active_organization_Some_iff put_organization_def revises_defs)
qed (auto simp: update_sessions_def record_audit_def insert_mail_def insert_outbox_def insert_token_def put_membership_def
  retarget_memberships_def consume_tokens_def revoke_invitations_def split: if_splits intro: revises_same)

text \<open>A change of the permissions of one organization that is followed by its revision.\<close>

lemma revised_permissions:
  assumes "revise_organization organization now (db\<lparr>db_roles := roles, db_role_permissions := granted\<rparr>) = Inr db'"
    and "\<And>o' role permission. o' \<noteq> organization \<Longrightarrow>
      (o', role, permission) |\<in>| granted \<longleftrightarrow> (o', role, permission) |\<in>| db_role_permissions db"
  shows "revises db db'"
proof -
  have "db_role_permissions db' = granted" using assms(1)
    by (auto simp: revise_organization_def put_organization_def split: option.splits if_splits)
  then have outside: "organization_permissions db o' = organization_permissions db' o'" if "o' \<noteq> organization" for o'
    using assms(2) [OF that] by (auto simp: organization_permissions_def fset_eq_iff)
  show ?thesis
    unfolding revises_def
  proof (intro allI impI)
    fix o' row assume "fmlookup (db_organizations db) o' = Some row"
    with assms(1) outside [of o'] show "\<exists>row'. fmlookup (db_organizations db') o' = Some row'
        \<and> o_authorization_revision row \<le> o_authorization_revision row'
        \<and> (o_authorization_revision row = o_authorization_revision row' \<longrightarrow>
             organization_permissions db o' = organization_permissions db' o')"
      by (cases "o' = organization")
         (auto simp: revise_organization_def put_organization_def split: option.splits if_splits)
  qed
qed

lemma upsert_role_revises:
  assumes "upsert_role_sql pg_uuid p role name granted db = Inr (rows, db')"
  shows "revises db db'"
  using revision.upsert_role_keeps [OF assms]
  by (elim disjE exE conjE) (simp add: revision.refl, erule revision.trans [rotated], erule revised_permissions, auto)

lemma delete_role_revises:
  assumes "delete_role_sql pg_uuid p role db = Inr (rows, db')"
  shows "revises db db'"
  using revision.delete_role_keeps [OF assms]
  by (elim disjE exE conjE)
     (simp add: revision.refl, erule revision.trans, erule revision.trans [rotated], erule revised_permissions, auto)

lemma create_revises:
  assumes "create_organization_sql pg_uuid p db = Inr (rows, db')"
  shows "revises db db'"
proof (cases "db' = db")
  case False
  with assms obtain user where new: "fmlookup (db_organizations db) (cp_organization_id p) = None"
      and rest: "revises (new_organization_tables p user db) db'" by (rule revision.create_keeps)
  have "revises db (new_organization_tables p user db)"
    using new by (auto simp: revises_def new_organization_tables_def organization_permissions_def Let_def fset_eq_iff)
  then show ?thesis using rest by (rule revision.trans)
qed (simp add: revision.refl)

interpretation revised: step_invariant "service_step env" "revises db0" for env db0
proof
  fix db db' assume "service_step env db db'" and "revises db0 db"
  moreover from this(1) have "revises db db'"
    by cases (auto intro: revision.command_keeps upsert_role_revises delete_role_revises create_revises revises_same
        simp: elsewhere_def)
  ultimately show "revises db0 db'" by (blast intro: revision.trans)
qed

lemma history_agrees:
  assumes "(service_step env)\<^sup>*\<^sup>* db0 db"
  shows "same_revision_same_permissions db0 db"
proof -
  have "revises db0 db" using assms revision.refl by (rule revised.steps_preserve)
  then show ?thesis
    unfolding same_revision_same_permissions_def revises_def organization_permissions_def
    by (fastforce simp: fset_eq_iff)
qed

subsection \<open>Reuse of a verified token\<close>

text \<open>
  C14: reusing a verified token is as good as verifying it again. Take the result of an earlier verification,
  from any token, and any history of the management services since, with any activity of the other
  components in between. Whatever \<open>verify_cached\<close> answers for a token presented now, its key is usable and
  its session is live in the tables of one of the two queries of the call, and every part of the answer is
  what those tables say (\<open>reflects_database\<close>), whether the earlier result was reused or not. Conversely, a
  token the full verification accepts is accepted, with the same answer.
\<close>

theorem cached_verification_is_current:
  assumes "verifier_verify jwt parse_uuid self (db0, now0) token0 rid0 = Inr cached"
    and "(service_step env)\<^sup>*\<^sup>* db0 db"
  shows "(\<forall>answer. verify_cached jwt parse_uuid self (db, now) (db', now') token rid (Some cached) = Inr answer \<longrightarrow>
      (\<exists>decoded. decode_verified_access_token jwt token (tv_keys self) (tv_issuer self) (tv_audience self) = Inr decoded
         \<and> (reflects_database parse_uuid db now decoded answer \<or> reflects_database parse_uuid db' now' decoded answer)))
    \<and> (\<forall>answer. verifier_verify jwt parse_uuid self (db, now) token rid = Inr answer \<longrightarrow>
      verify_cached jwt parse_uuid self (db, now) (db, now) token rid (Some cached) = Inr answer)"
proof -
  note agree = history_agrees [OF assms(2)]
  from assms(1) obtain decoded0 where cached: "load_decoded parse_uuid (db0, now0) decoded0 rid0 = Inr cached"
    by (auto simp: verifier_verify_def verify_access_token_def result_simps)
  have "\<exists>decoded. decode_verified_access_token jwt token (tv_keys self) (tv_issuer self) (tv_audience self) = Inr decoded
      \<and> (reflects_database parse_uuid db now decoded answer \<or> reflects_database parse_uuid db' now' decoded answer)"
    if "verify_cached jwt parse_uuid self (db, now) (db', now') token rid (Some cached) = Inr answer" for answer
    using that reused_reflects_database [OF agree cached] loaded_reflects_database [of parse_uuid db' now']
    by (auto simp: verify_cached_def result_simps split: if_splits)
  moreover have "verify_cached jwt parse_uuid self (db, now) (db, now) token rid (Some cached) = Inr answer"
    if accepted: "verifier_verify jwt parse_uuid self (db, now) token rid = Inr answer" for answer
  proof -
    from accepted obtain decoded where
        decoded: "decode_verified_access_token jwt token (tv_keys self) (tv_issuer self) (tv_audience self) = Inr decoded"
      and fresh: "load_decoded parse_uuid (db, now) decoded rid = Inr answer"
      by (auto simp: verifier_verify_def verify_access_token_def result_simps)
    with loaded_fingerprint [OF fresh] same_fingerprint_same_token [OF agree cached fresh] show ?thesis
      by (auto simp: verify_cached_def matches_claims_def)
  qed
  ultimately show ?thesis by blast
qed

text \<open>A session that is revoked after a verification is refused, however fresh the earlier result is.\<close>

definition sample_revoked_db :: kernel_db where
  "sample_revoked_db = sample_db\<lparr>db_sessions := fmmap (\<lambda>s. s\<lparr>s_revoked_at_ms := Some 1500\<rparr>) (db_sessions sample_db)\<rparr>"

theorem cached_verification_is_current_witness:
  "\<exists>cached. verifier_verify sample_jwt_env Some sample_verifier (sample_db, 2) (lit ''t'') (lit ''r'') = Inr cached
     \<and> verify_cached sample_jwt_env Some sample_verifier (sample_db, 2) (sample_db, 2) (lit ''t'') (lit ''r'') (Some cached)
         = Inr cached
     \<and> (\<forall>answer. verify_cached sample_jwt_env Some sample_verifier (sample_revoked_db, 2) (sample_revoked_db, 2) (lit ''t'')
         (lit ''r'') (Some cached) \<noteq> Inr answer)"
proof -
  obtain cached where verified: "verifier_verify sample_jwt_env Some sample_verifier (sample_db, 2) (lit ''t'') (lit ''r'')
      = Inr cached" using sample_token_verifies by blast
  have step: "(service_step env)\<^sup>*\<^sup>* sample_db sample_revoked_db" for env
    by (rule r_into_rtranclp, rule other) (simp add: elsewhere_def sample_revoked_db_def)
  have "\<not> reflects_database Some sample_revoked_db 2 decoded answer" for decoded answer
    by (auto simp: reflects_database_def sample_revoked_db_def)
  with cached_verification_is_current [OF verified step] cached_verification_is_current [OF verified rtranclp.rtrancl_refl] verified
  show ?thesis by blast
qed

end
