(* ===== verification/Spec2Isabelle.thy ===== *)
theory Spec2Isabelle
  imports Accounts Mfa Rebac_Properties Refresh_Families Trusted_Ingress Token_Currency
begin

text \<open>
  \<^bold>\<open>A verification library for wasi-auth.\<close>

  \<^bold>\<open>The program.\<close> \<open>wasi-auth\<close> is an authentication and authorization stack in Rust. A native process, the
  trusted ingress (\<open>src/services/trusted-ingress/src/main.rs\<close>), receives HTTP requests, verifies the access
  token or session cookie against PostgreSQL, decides policy with Cedar, and forwards the request to a
  WebAssembly guest with a signed envelope that carries the verified identity. The guest opens the envelope
  with the library crate (\<open>src/crates/wasi-auth/src\<close>). The same crate issues and rotates tokens, keeps the
  account aggregates, runs the services that manage organizations, roles, memberships and invitations over
  SQL statements, renders the mail those services queue, and has a linear relationship evaluator
  (\<open>testkit/evaluator\<close>) for relationship-based authorization.

  \<^bold>\<open>The theories.\<close>
  \<^item> \<open>Rust_Prelude\<close>: how strings, integers, maps, sets and results of the sources are represented; the
    collections \<open>rust_simps\<close> and \<open>result_simps\<close>; the locale \<open>step_invariant\<close>.
  \<^item> \<open>Auth_Context\<close>: \<open>context.rs\<close>, identifiers, principals and the verified request context.
  \<^item> \<open>Authorization\<close>: \<open>authorization.rs\<close>, requests, decisions and the locale \<open>decision_provider\<close>.
  \<^item> \<open>Cedar_Provider\<close>: \<open>cedar.rs\<close> and its default policy over a parameter engine.
  \<^item> \<open>Accounts\<close>, \<open>Mfa\<close>: \<open>authentication.rs\<close> and \<open>authentication/mfa.rs\<close>, the aggregates with their
    invariants, TOTP, recovery codes and Base32.
  \<^item> \<open>Trusted_Context\<close>, \<open>Http_Boundary\<close>, \<open>Http_Properties\<close>: \<open>http.rs\<close>, the signed envelope, CORS, CSRF,
    credentials, route policies and headers.
  \<^item> \<open>Relational_Kernel\<close>: the tables of the migrations, rows and their decoding (\<open>postgres.rs\<close>) and the
    queries that load a session.
  \<^item> \<open>Jwt_Keys\<close>, \<open>Access_Tokens\<close>, \<open>Refresh_Families\<close>: \<open>authentication/jwt.rs\<close>, \<open>postgres/tokens.rs\<close>,
    \<open>postgres/sessions.rs\<close> and their SQL: the key ring, verification with and without a cache, issuing and
    rotation with detection of reuse.
  \<^item> \<open>Token_Cache\<close>, \<open>Native_Authorization\<close>, \<open>Trusted_Ingress\<close>: the ingress process.
  \<^item> \<open>Rebac_Model\<close>, \<open>Rebac_Engine\<close>, \<open>Rebac_Semantics\<close>, \<open>Rebac_Expansion\<close>, \<open>Rebac_Properties\<close>: the
    relationship evaluator, an inductive semantics without state and limits, and the refinement between them.
  \<^item> \<open>Access_Model\<close>: \<open>postgres/access_model.rs\<close>, the catalogue of permissions and its dependency closure.
  \<^item> \<open>Service_Support\<close>, \<open>Mail\<close>: what one call of a service observes, the sealing of queued payloads
    (\<open>postgres/workflows.rs\<close>), and messages (\<open>mail.rs\<close>).
  \<^item> \<open>Organization_Store\<close>, \<open>Organization_Service\<close>: the SQL statements behind \<open>postgres/management.rs\<close> and
    \<open>postgres/organizations.rs\<close> with the triggers of the migrations, and the services that run them.
  \<^item> \<open>Tenancy\<close>, \<open>Organization_Properties\<close>: the changes those statements make to memberships, and the
    invariant of the owner counter along them.
  \<^item> \<open>Management_History\<close>: the commands of the management services as one type, histories of them as a step
    relation (\<open>service_step\<close>, \<open>orderly_step\<close>) that also admits steps of the other components, and the owner
    counter over such histories.
  \<^item> \<open>Statement_Frames\<close>: the locale \<open>statement_frame\<close>, what a relation that every write respects gives for
    every statement and command.
  \<^item> \<open>Ownership\<close>: who can make someone an owner, and what the removal of a member takes away.
  \<^item> \<open>Token_Currency\<close>: permissions of roles change only with the authorization revision, and with it the
    cached verification of access tokens along histories of the services.

  \<^bold>\<open>Correspondence.\<close> A struct is a record, an enum a datatype, a method a function that returns the new
  state. \<open>Result\<close> is a sum with \<open>Inl\<close> for the error. A table is a finite map from its key, a \<open>BIGINT\<close> an
  \<open>int\<close> with the overflow check of PostgreSQL written out, a statement a function from the tables to an
  error or to its rows and the new tables; the common table expressions of one statement read the tables as
  they were before it, \<open>BEFORE\<close> triggers run with the row they belong to, \<open>AFTER\<close> triggers after the
  statement, the deferred constraint last, and \<open>INSERT ... ON CONFLICT DO UPDATE\<close> runs the insert triggers
  for the proposed row before the update triggers. A clock reading, an outcome of the random source or the
  answer of the database at the time of a query is an argument of the operation that observes it.

  \<^bold>\<open>Parameters.\<close> Third-party crates are records of functions: \<open>codec_env\<close> and \<open>http_env\<close> (Base64, HMAC, JSON,
  header syntax), \<open>cedar_engine\<close> and \<open>policy_env\<close> (Cedar), \<open>jwt_env\<close> (jsonwebtoken), \<open>token_env\<close>,
  \<open>native_env\<close>, \<open>ingress_env\<close>, \<open>service_env\<close> (hashing, authenticated encryption, UUID text). What a theorem
  needs of them is a named predicate (\<open>codec_laws\<close>, \<open>sealing_laws\<close>, \<open>json_laws\<close> and the like), and
  its witness instantiates the record with concrete functions.

  \<^bold>\<open>What is shown.\<close> The evaluator agrees with its semantics, terminates within its limits and never crosses
  tenants; an envelope opens exactly for the request it was sealed for; the identity that reaches the guest
  is the one the database confirms for the client's credential, also when it comes from a cache, and a verified
  token carries exactly the stored facts; a refresh-token family has at most one
  usable token and reuse of a rotated one ends it; session loads fail closed; the policy cache is consistent;
  account aggregates keep an owner and never restore revoked state; TOTP accepts exactly its window; the
  permission expansion is the dependency closure. Over histories of the management services, ownership is
  gained only on the authority of an owner, of an open invitation, by founding, or by a system administrator
  who unblocks an owner; a removed member loses the organization at once; and the owner counter is exact, except
  after an owner invitation accepted over an existing membership row, which \<open>repeated_owner_acceptance_overcounts\<close>
  shows to leave it one too high.

  \<^bold>\<open>Bounds and fuel.\<close> The evaluator's recursion is bounded by its own limits \<open>max_depth\<close> and \<open>max_nodes\<close>, and
  \<open>check_answers\<close> shows that limits large enough for the model give an answer. The other loops are
  structural or have a measure: the work list of the permission expansion decreases the permissions not yet
  seen, the retry loop of the policy load its remaining attempts.

  \<^bold>\<open>Not modelled.\<close> Sockets, listener loops and log records; the gRPC client of SpiceDB; applying
  migrations; the remote mail providers; web-framework glue (\<open>leptos.rs\<close>); password, passkey and OAuth
  workflows beyond the parts named above; the read-only listings of the management service; the metadata
  column of audit records; the legacy middleware and the standalone authorization components. The decoder of access
  tokens is a parameter without a clock, although the crate behind it also compares the expiry with the system
  time: the model accepts at least what the code accepts. Concurrent
  transactions are serialized: a statement is one atomic step, as its row locks make it.
\<close>

end
